(* ===== verification/Nfs_Prelude.thy ===== *)
theory Nfs_Prelude
  imports Main "HOL-Library.Word"
begin

text \<open>
  Shared vocabulary of the development: the machine integer types of the C code, strings split at
  slashes, and the singly linked lists that the server keeps for its inode cache, its READDIR
  sessions, its record marking contexts and its threads.

  Every such list of the C code is searched from the head, extended at the head, and shortened by
  unlinking the first entry that matches a key.  The three operations are \<open>List.find\<close>, \<open>Cons\<close> and
  \<open>remove_first\<close>; the locale \<open>keyed_list\<close> states what a client of such a list may rely on, and each
  component interprets it on its own list operations.
\<close>

unbundle bit_operations_syntax

named_theorems wp_rules \<open>weakest precondition equations of the control monad and of the operations\<close>
named_theorems frame_intros \<open>which operations keep a frame relation\<close>

section \<open>Machine integers\<close>

type_synonym byte = "8 word"
type_synonym u16 = "16 word"
type_synonym u32 = "32 word"
type_synonym u64 = "64 word"
type_synonym bytes = "byte list"

section \<open>Splitting a string at a separator\<close>

fun split_on :: "'a \<Rightarrow> 'a list \<Rightarrow> 'a list list" where
  "split_on c [] = [[]]"
| "split_on c (x # xs) =
     (if x = c then [] # split_on c xs
      else (case split_on c xs of [] \<Rightarrow> [[x]] | y # ys \<Rightarrow> (x # y) # ys))"

lemma split_on_not_Nil [simp]: "split_on c xs \<noteq> []"
  by (induction xs) (auto split: list.splits)

lemma split_on_append: "split_on c (xs @ c # ys) = split_on c xs @ split_on c ys"
  by (induction xs) (auto split: list.splits)

lemma split_on_no_sep [simp]: "c \<notin> set xs \<Longrightarrow> split_on c xs = [xs]"
  by (induction xs) auto

section \<open>The first matching entry of a linked list\<close>

fun remove_first :: "('e \<Rightarrow> bool) \<Rightarrow> 'e list \<Rightarrow> 'e list" where
  "remove_first P [] = []"
| "remove_first P (x # xs) = (if P x then xs else x # remove_first P xs)"

fun update_first :: "('e \<Rightarrow> bool) \<Rightarrow> ('e \<Rightarrow> 'e) \<Rightarrow> 'e list \<Rightarrow> 'e list" where
  "update_first P f [] = []"
| "update_first P f (x # xs) = (if P x then f x # xs else x # update_first P f xs)"

lemma find_None_conv: "List.find P xs = None \<longleftrightarrow> (\<forall>x \<in> set xs. \<not> P x)"
  by (auto simp: find_None_iff)

lemma find_SomeD: "List.find P xs = Some x \<Longrightarrow> x \<in> set xs \<and> P x"
  by (induction xs) (auto split: if_splits)

lemma remove_first_none [simp]: "\<forall>x \<in> set xs. \<not> P x \<Longrightarrow> remove_first P xs = xs"
  by (induction xs) auto

lemma set_remove_first: "set (remove_first P xs) \<subseteq> set xs"
  by (induction xs) auto

lemma remove_first_keeps: "x \<in> set xs \<Longrightarrow> \<not> P x \<Longrightarrow> x \<in> set (remove_first P xs)"
  by (induction xs) auto

lemma length_remove_first:
  "\<exists>x \<in> set xs. P x \<Longrightarrow> Suc (length (remove_first P xs)) = length xs"
  by (induction xs) auto

lemma find_remove_first_other:
  "(\<And>x. P x \<Longrightarrow> Q x \<Longrightarrow> False) \<Longrightarrow> List.find Q (remove_first P xs) = List.find Q xs"
  by (induction xs) auto

lemma map_remove_first_distinct:
  "distinct (map f xs) \<Longrightarrow> distinct (map f (remove_first P xs))"
  by (induction xs) (auto dest: set_remove_first [THEN subsetD])

lemma remove_first_filter:
  "distinct (map f xs) \<Longrightarrow> remove_first (\<lambda>x. f x = k) xs = filter (\<lambda>x. f x \<noteq> k) xs"
proof (induction xs)
  case (Cons a xs)
  have "filter (\<lambda>x. f x \<noteq> f a) xs = xs"
    using Cons.prems by (auto simp: filter_id_conv image_iff)
  with Cons show ?case by auto
qed simp

lemma length_update_first [simp]: "length (update_first P f xs) = length xs"
  by (induction xs) auto

lemma update_first_none: "\<forall>x \<in> set xs. \<not> P x \<Longrightarrow> update_first P f xs = xs"
  by (induction xs) auto

lemma map_update_first:
  "(\<And>x. g (f x) = g x) \<Longrightarrow> map g (update_first P f xs) = map g xs"
  by (induction xs) auto

section \<open>The contract of a keyed linked list\<close>

text \<open>
  \<open>add\<close> prepends an entry, \<open>get\<close> returns the entry nearest to the head with a given key, \<open>del\<close>
  unlinks that entry.  A client sees the list as a stack of entries per key: deleting uncovers the
  entry that an earlier \<open>add\<close> of the same key had put there, and touches no other key.
\<close>

locale keyed_list =
  fixes key :: "'e \<Rightarrow> 'k"
    and add :: "'e \<Rightarrow> 'l \<Rightarrow> 'l"
    and get :: "'k \<Rightarrow> 'l \<Rightarrow> 'e option"
    and del :: "'k \<Rightarrow> 'l \<Rightarrow> 'l"
  assumes get_add: "get k (add e l) = (if key e = k then Some e else get k l)"
    and get_key: "get k l = Some e \<Longrightarrow> key e = k"
    and del_add: "del k (add e l) = (if key e = k then l else add e (del k l))"
    and del_absent: "get k l = None \<Longrightarrow> del k l = l"
    and get_del_other: "k \<noteq> k' \<Longrightarrow> get k' (del k l) = get k' l"
begin

lemma get_add_same [simp]: "get (key e) (add e l) = Some e"
  by (simp add: get_add)

lemma get_add_other: "key e \<noteq> k \<Longrightarrow> get k (add e l) = get k l"
  by (simp add: get_add)

lemma del_undoes_add: "del (key e) (add e l) = l"
  by (simp add: del_add)

lemma add_del_restores: "get k (del (key e) (add e l)) = get k l"
  by (simp add: del_undoes_add)

lemma shadow_uncovered: "key e = key e' \<Longrightarrow> get (key e) (del (key e) (add e (add e' l))) = Some e'"
  by (simp add: del_add get_add)

lemma present_after_del: "get k' l = Some e \<Longrightarrow> k' \<noteq> k \<Longrightarrow> get k' (del k l) = Some e"
  by (simp add: get_del_other)

end

text \<open>The list operations the components build on satisfy the contract.\<close>

lemma keyed_list_listI:
  "keyed_list key (#) (\<lambda>k. List.find (\<lambda>e. key e = k)) (\<lambda>k. remove_first (\<lambda>e. key e = k))"
proof
  show "List.find (\<lambda>e. key e = k) (e # l) = (if key e = k then Some e else List.find (\<lambda>e. key e = k) l)"
    for k e l by simp
  show "List.find (\<lambda>e. key e = k) l = Some e \<Longrightarrow> key e = k" for k e l
    by (auto dest: find_SomeD)
  show "remove_first (\<lambda>e. key e = k) (e # l) =
      (if key e = k then l else e # remove_first (\<lambda>e. key e = k) l)" for k e l by simp
  show "List.find (\<lambda>e. key e = k) l = None \<Longrightarrow> remove_first (\<lambda>e. key e = k) l = l" for k l
    by (simp add: find_None_conv)
  show "k \<noteq> k' \<Longrightarrow> List.find (\<lambda>e. key e = k') (remove_first (\<lambda>e. key e = k) l) =
      List.find (\<lambda>e. key e = k') l" for k k' l
    by (rule find_remove_first_other) auto
qed

end
