(* ===== verification/Control.thy ===== *)
theory Control
  imports Nfs_Prelude
begin

text \<open>
  The control structure of the C functions.  A step of a C function runs on the state of the
  program and ends in one of three ways: it returns from the enclosing function (\<open>Return\<close>), it goes
  on with a value (\<open>Go\<close>), or its behaviour is undefined (\<open>UB\<close>: a NULL pointer is dereferenced or an
  unspecified value is used as a pointer).  \<open>cbind\<close> is the sequencing of two statements.

  \<open>wp m Q G s\<close> says that \<open>m\<close>, started in \<open>s\<close>, has defined behaviour, that every value it returns
  satisfies \<open>Q\<close> and every value it goes on with satisfies \<open>G\<close>.  The equations of the collection
  \<open>wp_rules\<close> compute it by rewriting.  \<open>keeps R m\<close> says that \<open>m\<close> relates its start and end state by
  \<open>R\<close>; the locale \<open>frame_relation\<close> gives the rules that make this compositional.
\<close>

datatype ('r, 'a) ctl = UB | Return 'r | Go 'a

type_synonym ('s, 'r, 'a) cprog = "'s \<Rightarrow> ('r, 'a) ctl \<times> 's"

definition cgo :: "'a \<Rightarrow> ('s, 'r, 'a) cprog" where
  "cgo a = (\<lambda>s. (Go a, s))"

definition creturn :: "'r \<Rightarrow> ('s, 'r, 'a) cprog" where
  "creturn r = (\<lambda>s. (Return r, s))"

definition cub :: "('s, 'r, 'a) cprog" where
  "cub = (\<lambda>s. (UB, s))"

definition cget :: "('s \<Rightarrow> 'a) \<Rightarrow> ('s, 'r, 'a) cprog" where
  "cget f = (\<lambda>s. (Go (f s), s))"

definition cmodify :: "('s \<Rightarrow> 's) \<Rightarrow> ('s, 'r, unit) cprog" where
  "cmodify f = (\<lambda>s. (Go (), f s))"

definition cbind :: "('s, 'r, 'a) cprog \<Rightarrow> ('a \<Rightarrow> ('s, 'r, 'b) cprog) \<Rightarrow> ('s, 'r, 'b) cprog" where
  "cbind m f = (\<lambda>s. case m s of
      (UB, s') \<Rightarrow> (UB, s')
    | (Return r, s') \<Rightarrow> (Return r, s')
    | (Go a, s') \<Rightarrow> f a s')"

text \<open>A call of another C function: its return value is the value the caller goes on with.\<close>

definition ccall :: "('s, 'r, 'r) cprog \<Rightarrow> ('s, 'q, 'r) cprog" where
  "ccall m = (\<lambda>s. case m s of
      (UB, s') \<Rightarrow> (UB, s')
    | (Return r, s') \<Rightarrow> (Go r, s')
    | (Go r, s') \<Rightarrow> (Go r, s'))"

text \<open>A call of a C function of which the caller looks at both outcomes.\<close>

definition ctry :: "('s, 'r, 'a) cprog \<Rightarrow> ('s, 'q, 'r + 'a) cprog" where
  "ctry m = (\<lambda>s. case m s of
      (UB, s') \<Rightarrow> (UB, s')
    | (Return r, s') \<Rightarrow> (Go (Inl r), s')
    | (Go a, s') \<Rightarrow> (Go (Inr a), s'))"

definition cguard :: "bool \<Rightarrow> 'r \<Rightarrow> ('s, 'r, unit) cprog" where
  "cguard b r = (if b then cgo () else creturn r)"

definition csome :: "'a option \<Rightarrow> 'r \<Rightarrow> ('s, 'r, 'a) cprog" where
  "csome x r = (case x of None \<Rightarrow> creturn r | Some a \<Rightarrow> cgo a)"

definition cderef :: "'a option \<Rightarrow> ('s, 'r, 'a) cprog" where
  "cderef p = (case p of None \<Rightarrow> cub | Some a \<Rightarrow> cgo a)"

lemmas control_defs = cgo_def creturn_def cub_def cget_def cmodify_def cbind_def ccall_def
  cguard_def csome_def cderef_def

section \<open>Laws of the monad\<close>

lemma cbind_cgo [simp]: "cbind (cgo a) f = f a"
  by (simp add: control_defs)

lemma cbind_creturn [simp]: "cbind (creturn r) f = creturn r"
  by (simp add: control_defs)

lemma cbind_cub [simp]: "cbind cub f = cub"
  by (simp add: control_defs)

lemma cbind_right_unit [simp]: "cbind m cgo = m"
  by (rule ext) (simp add: control_defs split: prod.splits ctl.splits)

lemma cbind_assoc: "cbind (cbind m f) g = cbind m (\<lambda>a. cbind (f a) g)"
  by (rule ext) (simp add: control_defs split: prod.splits ctl.splits)

section \<open>Weakest preconditions\<close>

definition wp ::
  "('s, 'r, 'a) cprog \<Rightarrow> ('r \<Rightarrow> 's \<Rightarrow> bool) \<Rightarrow> ('a \<Rightarrow> 's \<Rightarrow> bool) \<Rightarrow> 's \<Rightarrow> bool" where
  "wp m Q G s = (case m s of
      (UB, s') \<Rightarrow> False
    | (Return r, s') \<Rightarrow> Q r s'
    | (Go a, s') \<Rightarrow> G a s')"

lemma wp_cgo [wp_rules]: "wp (cgo a) Q G s = G a s"
  by (simp add: wp_def control_defs)

lemma wp_creturn [wp_rules]: "wp (creturn r) Q G s = Q r s"
  by (simp add: wp_def control_defs)

lemma wp_cub [wp_rules]: "wp cub Q G s = False"
  by (simp add: wp_def control_defs)

lemma wp_cget [wp_rules]: "wp (cget f) Q G s = G (f s) s"
  by (simp add: wp_def control_defs)

lemma wp_cmodify [wp_rules]: "wp (cmodify f) Q G s = G () (f s)"
  by (simp add: wp_def control_defs)

lemma wp_cbind [wp_rules]: "wp (cbind m f) Q G s = wp m Q (\<lambda>a s'. wp (f a) Q G s') s"
  by (simp add: wp_def control_defs split: prod.splits ctl.splits)

lemma wp_ccall [wp_rules]: "wp (ccall m) Q G s = wp m G G s"
  by (simp add: wp_def control_defs split: prod.splits ctl.splits)

lemma wp_ctry [wp_rules]:
  "wp (ctry m) Q G s = wp m (\<lambda>r. G (Inl r)) (\<lambda>a. G (Inr a)) s"
  by (simp add: wp_def ctry_def split: prod.splits ctl.splits)

lemma wp_cguard [wp_rules]: "wp (cguard b r) Q G s = (if b then G () s else Q r s)"
  by (simp add: wp_def control_defs)

lemma wp_csome [wp_rules]: "wp (csome x r) Q G s = (case x of None \<Rightarrow> Q r s | Some a \<Rightarrow> G a s)"
  by (simp add: wp_def control_defs split: option.splits)

lemma wp_cderef [wp_rules]: "wp (cderef p) Q G s = (case p of None \<Rightarrow> False | Some a \<Rightarrow> G a s)"
  by (simp add: wp_def control_defs split: option.splits)

lemma wp_if [wp_rules]: "wp (if b then m else n) Q G s = (if b then wp m Q G s else wp n Q G s)"
  by simp

lemma wp_case_option [wp_rules]:
  "wp (case x of None \<Rightarrow> m | Some a \<Rightarrow> f a) Q G s =
    (case x of None \<Rightarrow> wp m Q G s | Some a \<Rightarrow> wp (f a) Q G s)"
  by (simp split: option.splits)

lemma wp_case_sum [wp_rules]:
  "wp (case x of Inl e \<Rightarrow> m e | Inr a \<Rightarrow> f a) Q G s =
    (case x of Inl e \<Rightarrow> wp (m e) Q G s | Inr a \<Rightarrow> wp (f a) Q G s)"
  by (simp split: sum.splits)

lemma wp_case_prod [wp_rules]:
  "wp (case x of (a, b) \<Rightarrow> f a b) Q G s = (case x of (a, b) \<Rightarrow> wp (f a b) Q G s)"
  by (simp split: prod.splits)

lemma wp_mono:
  assumes "wp m Q G s"
    and "\<And>r t. Q r t \<Longrightarrow> Q' r t" and "\<And>a t. G a t \<Longrightarrow> G' a t"
  shows "wp m Q' G' s"
  using assms by (auto simp: wp_def split: prod.splits ctl.splits)

lemma wp_conj:
  "wp m Q G s \<Longrightarrow> wp m Q' G' s \<Longrightarrow> wp m (\<lambda>r t. Q r t \<and> Q' r t) (\<lambda>a t. G a t \<and> G' a t) s"
  by (auto simp: wp_def split: prod.splits ctl.splits)

lemma wp_returnD: "wp m Q G s \<Longrightarrow> m s = (Return r, t) \<Longrightarrow> Q r t"
  by (simp add: wp_def)

lemma wp_goD: "wp m Q G s \<Longrightarrow> m s = (Go a, t) \<Longrightarrow> G a t"
  by (simp add: wp_def)

lemma wp_not_UB: "wp m Q G s \<Longrightarrow> fst (m s) \<noteq> UB"
  by (auto simp: wp_def split: prod.splits ctl.splits)

lemma wp_total:
  "wp m Q (\<lambda>_ _. False) s \<Longrightarrow> \<exists>r t. m s = (Return r, t) \<and> Q r t"
  by (auto simp: wp_def split: prod.splits ctl.splits)

section \<open>Frames\<close>

definition keeps :: "('s \<Rightarrow> 's \<Rightarrow> bool) \<Rightarrow> ('s, 'r, 'a) cprog \<Rightarrow> bool" where
  "keeps R m \<longleftrightarrow> (\<forall>s. R s (snd (m s)))"

lemma keepsI: "(\<And>s. R s (snd (m s))) \<Longrightarrow> keeps R m"
  by (simp add: keeps_def)

lemma keepsD: "keeps R m \<Longrightarrow> m s = (c, t) \<Longrightarrow> R s t"
  unfolding keeps_def by (metis snd_conv)

locale frame_relation =
  fixes R :: "'s \<Rightarrow> 's \<Rightarrow> bool"
  assumes frame_refl: "R s s"
    and frame_trans: "R s t \<Longrightarrow> R t u \<Longrightarrow> R s u"
begin

lemma keeps_cgo [frame_intros]: "keeps R (cgo a)"
  by (simp add: keeps_def control_defs frame_refl)

lemma keeps_creturn [frame_intros]: "keeps R (creturn r)"
  by (simp add: keeps_def control_defs frame_refl)

lemma keeps_cub [frame_intros]: "keeps R cub"
  by (simp add: keeps_def control_defs frame_refl)

lemma keeps_cget [frame_intros]: "keeps R (cget f)"
  by (simp add: keeps_def control_defs frame_refl)

lemma keeps_cguard [frame_intros]: "keeps R (cguard b r)"
  by (simp add: keeps_def control_defs frame_refl)

lemma keeps_csome [frame_intros]: "keeps R (csome x r)"
  by (simp add: keeps_def control_defs frame_refl split: option.splits)

lemma keeps_cderef [frame_intros]: "keeps R (cderef p)"
  by (simp add: keeps_def control_defs frame_refl split: option.splits)

lemma keeps_cbind [frame_intros]:
  assumes "keeps R m" and "\<And>a. keeps R (f a)"
  shows "keeps R (cbind m f)"
proof (rule keepsI)
  fix s
  obtain c t where m: "m s = (c, t)" by fastforce
  with assms(1) have st: "R s t" by (rule keepsD)
  show "R s (snd (cbind m f s))"
  proof (cases c)
    case (Go a)
    have "R t (snd (f a t))" using assms(2) by (simp add: keeps_def)
    with st m Go show ?thesis by (auto simp: cbind_def intro: frame_trans)
  qed (use st m in \<open>simp_all add: cbind_def\<close>)
qed

lemma keeps_ccall [frame_intros]: "keeps R m \<Longrightarrow> keeps R (ccall m)"
  by (auto simp: keeps_def control_defs split: prod.splits ctl.splits) (metis snd_conv)+

lemma keeps_if [frame_intros]: "keeps R m \<Longrightarrow> keeps R n \<Longrightarrow> keeps R (if b then m else n)"
  by simp

lemma keeps_case_option [frame_intros]:
  "keeps R m \<Longrightarrow> (\<And>a. keeps R (f a)) \<Longrightarrow> keeps R (case x of None \<Rightarrow> m | Some a \<Rightarrow> f a)"
  by (cases x) simp_all

lemma keeps_case_sum [frame_intros]:
  "(\<And>e. keeps R (m e)) \<Longrightarrow> (\<And>a. keeps R (f a)) \<Longrightarrow>
    keeps R (case x of Inl e \<Rightarrow> m e | Inr a \<Rightarrow> f a)"
  by (cases x) simp_all

lemma keeps_case_prod [frame_intros]:
  "(\<And>a b. keeps R (f a b)) \<Longrightarrow> keeps R (case x of (a, b) \<Rightarrow> f a b)"
  by (cases x) simp

end

end
