(* ===== verification/Posix.thy ===== *)
theory Posix
  imports Control
begin

text \<open>
  The part of the C library and of the operating system that the server calls: an in-memory file
  system with inodes, hard links, symbolic links and directory entries (\<open>.\<close> and \<open>..\<close> included), path
  resolution as POSIX describes it, and one definition per system call.

  The server runs as root (README), so the kernel itself refuses nothing for lack of permission.
  Failures that depend on the world (a full disk, an I/O error, a read-only mount, memory) are scripted:
  \<open>os_faults\<close> holds, for each coming system call, whether it fails and with which \<open>errno\<close>.  Theorems
  quantify over the whole state, hence over every script.  Inode numbers of new files come from
  \<open>os_free\<close>; a freed number goes back to it and can be handed out again, unless a directory stream is
  still open on it (\<open>os_open\<close>).  \<open>os_cookie\<close> gives the value of \<open>telldir\<close> at each position of a stream.  Reading a file leaves its
  access time alone (a file system mounted with noatime).
\<close>

section \<open>Errors, inodes, the state of the system\<close>

datatype errno = EPERM | ENOENT | EIO | ENXIO | ENOMEM | EACCES | EBUSY | EEXIST | EXDEV | ENOTDIR
  | EISDIR | EINVAL | EFBIG | ENOSPC | EROFS | EMLINK | ENAMETOOLONG | ENOTEMPTY | ELOOP | EDQUOT
  | ENODEV | ESTALE

type_synonym ino_t = u64
type_synonym mode_t = u32

record timespec =
  tv_sec :: u64
  tv_nsec :: u64

datatype content =
    Regular bytes
  | Directory "(string \<times> ino_t) list"
  | Symlink string
  | Block_Device u64
  | Char_Device u64
  | Fifo

record inode =
  i_content :: content
  i_perm :: mode_t
  i_uid :: u32
  i_gid :: u32
  i_nlink :: nat
  i_atime :: timespec
  i_mtime :: timespec
  i_ctime :: timespec

type_synonym inodes = "ino_t \<rightharpoonup> inode"

record statvfs_t =
  f_bsize :: u64
  f_frsize :: u64
  f_blocks :: u64
  f_bfree :: u64
  f_bavail :: u64

text \<open>A fault makes the next system call fail, after it has transferred that many bytes.\<close>

datatype fault = No_Fault | Fault nat errno

record os =
  os_inodes :: inodes
  os_root :: ino_t
  os_cwd :: ino_t
  os_free :: "ino_t list"
  os_clock :: timespec
  os_faults :: "fault list"
  os_umask :: mode_t
  os_vararg :: mode_t
  os_bufsize :: nat
  os_cookie :: "nat \<Rightarrow> u64"
  os_open :: "ino_t list"
  os_dev :: u64
  os_blksize :: u64
  os_blocks :: "nat \<Rightarrow> u64"
  os_statvfs :: statvfs_t

record stat_t =
  st_dev :: u64
  st_ino :: ino_t
  st_mode :: mode_t
  st_nlink :: u64
  st_uid :: u32
  st_gid :: u32
  st_rdev :: u64
  st_size :: u64
  st_blksize :: u64
  st_blocks :: u64
  st_atim :: timespec
  st_mtim :: timespec
  st_ctim :: timespec

section \<open>Modes\<close>

abbreviation S_IFMT :: mode_t where "S_IFMT \<equiv> 0xF000"
abbreviation S_IFREG :: mode_t where "S_IFREG \<equiv> 0x8000"
abbreviation S_IFDIR :: mode_t where "S_IFDIR \<equiv> 0x4000"
abbreviation S_IFBLK :: mode_t where "S_IFBLK \<equiv> 0x6000"
abbreviation S_IFCHR :: mode_t where "S_IFCHR \<equiv> 0x2000"
abbreviation S_IFLNK :: mode_t where "S_IFLNK \<equiv> 0xA000"
abbreviation S_IFIFO :: mode_t where "S_IFIFO \<equiv> 0x1000"
abbreviation S_IRUSR :: mode_t where "S_IRUSR \<equiv> 0x100"
abbreviation S_IWUSR :: mode_t where "S_IWUSR \<equiv> 0x80"
abbreviation S_IXUSR :: mode_t where "S_IXUSR \<equiv> 0x40"
abbreviation S_IRGRP :: mode_t where "S_IRGRP \<equiv> 0x20"
abbreviation S_IWGRP :: mode_t where "S_IWGRP \<equiv> 0x10"
abbreviation S_IXGRP :: mode_t where "S_IXGRP \<equiv> 0x8"
abbreviation S_IROTH :: mode_t where "S_IROTH \<equiv> 0x4"
abbreviation S_IWOTH :: mode_t where "S_IWOTH \<equiv> 0x2"
abbreviation S_IXOTH :: mode_t where "S_IXOTH \<equiv> 0x1"
abbreviation S_ISUID :: mode_t where "S_ISUID \<equiv> 0x800"
abbreviation S_ISGID :: mode_t where "S_ISGID \<equiv> 0x400"

fun type_bits :: "content \<Rightarrow> mode_t" where
  "type_bits (Regular _) = S_IFREG"
| "type_bits (Directory _) = S_IFDIR"
| "type_bits (Symlink _) = S_IFLNK"
| "type_bits (Block_Device _) = S_IFBLK"
| "type_bits (Char_Device _) = S_IFCHR"
| "type_bits Fifo = S_IFIFO"

fun content_size :: "content \<Rightarrow> nat" where
  "content_size (Regular d) = length d"
| "content_size (Directory es) = length es"
| "content_size (Symlink t) = length t"
| "content_size _ = 0"

fun content_rdev :: "content \<Rightarrow> u64" where
  "content_rdev (Block_Device n) = n"
| "content_rdev (Char_Device n) = n"
| "content_rdev _ = 0"

definition stat_of :: "os \<Rightarrow> ino_t \<Rightarrow> inode \<Rightarrow> stat_t" where
  "stat_of os i nd =
    \<lparr>st_dev = os_dev os, st_ino = i,
     st_mode = type_bits (i_content nd) OR (i_perm nd AND 0xFFF),
     st_nlink = of_nat (i_nlink nd), st_uid = i_uid nd, st_gid = i_gid nd,
     st_rdev = content_rdev (i_content nd), st_size = of_nat (content_size (i_content nd)),
     st_blksize = os_blksize os, st_blocks = os_blocks os (content_size (i_content nd)),
     st_atim = i_atime nd, st_mtim = i_mtime nd, st_ctim = i_ctime nd\<rparr>"

section \<open>Path resolution\<close>

abbreviation NAME_MAX :: nat where "NAME_MAX \<equiv> 255"
abbreviation PATH_MAX :: nat where "PATH_MAX \<equiv> 4096"
abbreviation MAXSYMLINKS :: nat where "MAXSYMLINKS \<equiv> 40"

definition raw_components :: "string \<Rightarrow> string list" where
  "raw_components p = filter (\<lambda>c. c \<noteq> []) (split_on CHR ''/'' p)"

text \<open>A trailing slash is resolved as if a single dot were appended (POSIX, 4.16).\<close>

definition path_components :: "string \<Rightarrow> string list" where
  "path_components p =
    (let cs = raw_components p
     in if cs \<noteq> [] \<and> last p = CHR ''/'' then cs @ [''.''] else cs)"

definition is_absolute :: "string \<Rightarrow> bool" where
  "is_absolute p \<longleftrightarrow> p \<noteq> [] \<and> hd p = CHR ''/''"

text \<open>One entry of a directory.\<close>

definition dir_entries :: "inodes \<Rightarrow> ino_t \<Rightarrow> errno + (string \<times> ino_t) list" where
  "dir_entries fs d =
    (case fs d of
       None \<Rightarrow> Inl ENOENT
     | Some nd \<Rightarrow> (case i_content nd of Directory es \<Rightarrow> Inr es | _ \<Rightarrow> Inl ENOTDIR))"

definition lookup_entry :: "inodes \<Rightarrow> ino_t \<Rightarrow> string \<Rightarrow> errno + ino_t" where
  "lookup_entry fs d c =
    (case dir_entries fs d of
       Inl e \<Rightarrow> Inl e
     | Inr es \<Rightarrow>
         if NAME_MAX < length c then Inl ENAMETOOLONG
         else (case map_of es c of
                 None \<Rightarrow> Inl ENOENT
               | Some i \<Rightarrow> if fs i = None then Inl EIO else Inr i))"

definition symlink_target :: "inodes \<Rightarrow> ino_t \<Rightarrow> string option" where
  "symlink_target fs i =
    (case fs i of Some nd \<Rightarrow> (case i_content nd of Symlink t \<Rightarrow> Some t | _ \<Rightarrow> None) | None \<Rightarrow> None)"

text \<open>
  \<open>walk fs rt follow k cur cs\<close> resolves the components \<open>cs\<close> from the directory \<open>cur\<close>.  A symbolic
  link in the middle of a path is always followed, one at its end only when \<open>follow\<close>; at most \<open>k\<close>
  links are followed.
\<close>

fun walk :: "inodes \<Rightarrow> ino_t \<Rightarrow> bool \<Rightarrow> nat \<Rightarrow> ino_t \<Rightarrow> string list \<Rightarrow> errno + ino_t" where
  "walk fs rt follow k cur [] = Inr cur"
| "walk fs rt follow k cur (c # cs) =
    (case lookup_entry fs cur c of
       Inl e \<Rightarrow> Inl e
     | Inr i \<Rightarrow>
         (case symlink_target fs i of
            None \<Rightarrow> walk fs rt follow k i cs
          | Some t \<Rightarrow>
              if cs = [] \<and> \<not> follow then Inr i
              else (case k of
                      0 \<Rightarrow> Inl ELOOP
                    | Suc k' \<Rightarrow>
                        if t = [] then Inl ENOENT
                        else walk fs rt follow k' (if is_absolute t then rt else cur)
                               (path_components t @ cs))))"

definition start_dir :: "os \<Rightarrow> string \<Rightarrow> ino_t" where
  "start_dir os p = (if is_absolute p then os_root os else os_cwd os)"

definition resolve :: "os \<Rightarrow> bool \<Rightarrow> string \<Rightarrow> errno + ino_t" where
  "resolve os follow p =
    (if p = [] then Inl ENOENT
     else if PATH_MAX \<le> length p then Inl ENAMETOOLONG
     else walk (os_inodes os) (os_root os) follow MAXSYMLINKS (start_dir os p) (path_components p))"

text \<open>The directory that holds, or is to hold, the last component, and that component.\<close>

definition resolve_parent :: "os \<Rightarrow> string \<Rightarrow> errno + (ino_t \<times> string)" where
  "resolve_parent os p =
    (let cs = path_components p in
     if p = [] then Inl ENOENT
     else if PATH_MAX \<le> length p then Inl ENAMETOOLONG
     else if cs = [] then Inl EBUSY
     else (case walk (os_inodes os) (os_root os) True MAXSYMLINKS (start_dir os p) (butlast cs) of
             Inl e \<Rightarrow> Inl e
           | Inr d \<Rightarrow>
               (case dir_entries (os_inodes os) d of
                  Inl e \<Rightarrow> Inl e
                | Inr _ \<Rightarrow> if NAME_MAX < length (last cs) then Inl ENAMETOOLONG
                            else Inr (d, last cs))))"

section \<open>Faults\<close>

definition next_fault :: "os \<Rightarrow> fault \<times> os" where
  "next_fault os =
    (case os_faults os of
       [] \<Rightarrow> (No_Fault, os)
     | f # fl \<Rightarrow> (f, os\<lparr>os_faults := fl\<rparr>))"

definition with_fault :: "(os \<Rightarrow> (errno + 'a) \<times> os) \<Rightarrow> os \<Rightarrow> (errno + 'a) \<times> os" where
  "with_fault f os =
    (case next_fault os of
       (No_Fault, os') \<Rightarrow> f os'
     | (Fault _ e, os') \<Rightarrow> (Inl e, os'))"

section \<open>Changes of the inode table\<close>

definition upd_inode :: "ino_t \<Rightarrow> (inode \<Rightarrow> inode) \<Rightarrow> os \<Rightarrow> os" where
  "upd_inode i f os =
    (case os_inodes os i of
       None \<Rightarrow> os
     | Some nd \<Rightarrow> os\<lparr>os_inodes := (os_inodes os)(i \<mapsto> f nd)\<rparr>)"

fun content_add :: "string \<Rightarrow> ino_t \<Rightarrow> content \<Rightarrow> content" where
  "content_add n i (Directory es) = Directory (es @ [(n, i)])"
| "content_add n i c = c"

fun content_del :: "string \<Rightarrow> content \<Rightarrow> content" where
  "content_del n (Directory es) = Directory (filter (\<lambda>e. fst e \<noteq> n) es)"
| "content_del n c = c"

fun content_repoint :: "string \<Rightarrow> ino_t \<Rightarrow> content \<Rightarrow> content" where
  "content_repoint n i (Directory es) = Directory (map (\<lambda>e. if fst e = n then (n, i) else e) es)"
| "content_repoint n i c = c"

definition touched :: "os \<Rightarrow> inode \<Rightarrow> inode" where
  "touched os nd = nd\<lparr>i_mtime := os_clock os, i_ctime := os_clock os\<rparr>"

definition map_content :: "(content \<Rightarrow> content) \<Rightarrow> inode \<Rightarrow> inode" where
  "map_content f nd = nd\<lparr>i_content := f (i_content nd)\<rparr>"

definition dir_add :: "ino_t \<Rightarrow> string \<Rightarrow> ino_t \<Rightarrow> os \<Rightarrow> os" where
  "dir_add d n i os = upd_inode d (\<lambda>nd. touched os (map_content (content_add n i) nd)) os"

definition dir_del :: "ino_t \<Rightarrow> string \<Rightarrow> os \<Rightarrow> os" where
  "dir_del d n os = upd_inode d (\<lambda>nd. touched os (map_content (content_del n) nd)) os"

definition dir_repoint :: "ino_t \<Rightarrow> string \<Rightarrow> ino_t \<Rightarrow> os \<Rightarrow> os" where
  "dir_repoint d n i os = upd_inode d (\<lambda>nd. touched os (map_content (content_repoint n i) nd)) os"

definition add_nlink :: "ino_t \<Rightarrow> os \<Rightarrow> os" where
  "add_nlink i os = upd_inode i (\<lambda>nd. nd\<lparr>i_nlink := i_nlink nd + 1, i_ctime := os_clock os\<rparr>) os"

definition sub_nlink :: "ino_t \<Rightarrow> os \<Rightarrow> os" where
  "sub_nlink i os = upd_inode i (\<lambda>nd. nd\<lparr>i_nlink := i_nlink nd - 1, i_ctime := os_clock os\<rparr>) os"

definition free_inode :: "ino_t \<Rightarrow> os \<Rightarrow> os" where
  "free_inode i os =
    os\<lparr>os_inodes := (os_inodes os)(i := None),
       os_free := (if i \<in> set (os_open os) then os_free os else i # os_free os)\<rparr>"

text \<open>Drops one link of a file that is not a directory; the last one frees the inode.\<close>

definition drop_link :: "ino_t \<Rightarrow> os \<Rightarrow> os" where
  "drop_link i os =
    (case os_inodes os i of
       None \<Rightarrow> os
     | Some nd \<Rightarrow> if i_nlink nd \<le> 1 then free_inode i os else sub_nlink i os)"

definition new_inode :: "os \<Rightarrow> content \<Rightarrow> mode_t \<Rightarrow> nat \<Rightarrow> inode" where
  "new_inode os c perm links =
    \<lparr>i_content = c, i_perm = perm, i_uid = 0, i_gid = 0, i_nlink = links,
     i_atime = os_clock os, i_mtime = os_clock os, i_ctime = os_clock os\<rparr>"

text \<open>Makes a new file and its entry; \<open>mk d i\<close> is the inode of the file \<open>i\<close> in directory \<open>d\<close>.\<close>

definition create_entry ::
  "(ino_t \<Rightarrow> ino_t \<Rightarrow> inode) \<Rightarrow> (ino_t \<Rightarrow> os \<Rightarrow> os) \<Rightarrow> string \<Rightarrow> os \<Rightarrow> (errno + unit) \<times> os" where
  "create_entry mk post p os =
    (case resolve_parent os p of
       Inl e \<Rightarrow> (Inl e, os)
     | Inr (d, n) \<Rightarrow>
         (case lookup_entry (os_inodes os) d n of
            Inr _ \<Rightarrow> (Inl EEXIST, os)
          | Inl e \<Rightarrow>
              if e \<noteq> ENOENT then (Inl e, os)
              else (case os_free os of
                      [] \<Rightarrow> (Inl ENOSPC, os)
                    | i # fr \<Rightarrow>
                        (Inr (), post d (dir_add d n i
                           (os\<lparr>os_free := fr, os_inodes := (os_inodes os)(i \<mapsto> mk d i)\<rparr>))))))"

section \<open>System calls that read\<close>

definition os_lstat :: "string \<Rightarrow> os \<Rightarrow> (errno + stat_t) \<times> os" where
  "os_lstat p os =
    (case resolve os False p of
       Inl e \<Rightarrow> (Inl e, os)
     | Inr i \<Rightarrow>
         (case os_inodes os i of
            None \<Rightarrow> (Inl ENOENT, os)
          | Some nd \<Rightarrow> (Inr (stat_of os i nd), os)))"

definition sys_lstat :: "string \<Rightarrow> os \<Rightarrow> (errno + stat_t) \<times> os" where
  "sys_lstat p = with_fault (os_lstat p)"

definition sys_statvfs :: "string \<Rightarrow> os \<Rightarrow> (errno + statvfs_t) \<times> os" where
  "sys_statvfs p = with_fault (\<lambda>os.
     (case resolve os True p of Inl e \<Rightarrow> (Inl e, os) | Inr _ \<Rightarrow> (Inr (os_statvfs os), os)))"

definition sys_readlink :: "string \<Rightarrow> nat \<Rightarrow> os \<Rightarrow> (errno + string) \<times> os" where
  "sys_readlink p n = with_fault (\<lambda>os.
     (case resolve os False p of
        Inl e \<Rightarrow> (Inl e, os)
      | Inr i \<Rightarrow> (case symlink_target (os_inodes os) i of
                    None \<Rightarrow> (Inl EINVAL, os)
                  | Some t \<Rightarrow> (Inr (take n t), os))))"

text \<open>
  An open directory stream is the inode of the directory and a position in its list of entries; a
  stream on a directory that has been removed is at its end.  \<open>fopen\<close> gives the inode of a file.
\<close>

definition sys_opendir :: "string \<Rightarrow> os \<Rightarrow> (errno + ino_t) \<times> os" where
  "sys_opendir p = with_fault (\<lambda>os.
     (case resolve os True p of
        Inl e \<Rightarrow> (Inl e, os)
      | Inr i \<Rightarrow> (case dir_entries (os_inodes os) i of
                    Inl e \<Rightarrow> (Inl e, os)
                  | Inr _ \<Rightarrow> (Inr i, os\<lparr>os_open := i # os_open os\<rparr>))))"

definition sys_closedir :: "ino_t \<Rightarrow> os \<Rightarrow> os" where
  "sys_closedir i os = os\<lparr>os_open := remove1 i (os_open os)\<rparr>"

definition stream_entries :: "inodes \<Rightarrow> ino_t \<Rightarrow> (string \<times> ino_t) list" where
  "stream_entries fs i = (case dir_entries fs i of Inl _ \<Rightarrow> [] | Inr es \<Rightarrow> es)"

definition sys_readdir :: "ino_t \<Rightarrow> nat \<Rightarrow> os \<Rightarrow> (errno + (string \<times> ino_t) option) \<times> os" where
  "sys_readdir i pos = with_fault (\<lambda>os.
     (Inr (if pos < length (stream_entries (os_inodes os) i)
           then Some (stream_entries (os_inodes os) i ! pos) else None), os))"

text \<open>The position whose cookie is \<open>c\<close>; a cookie that no position has leads to the end.\<close>

definition sys_seekdir :: "ino_t \<Rightarrow> u64 \<Rightarrow> os \<Rightarrow> nat" where
  "sys_seekdir i c os =
    (let n = length (stream_entries (os_inodes os) i)
     in case List.find (\<lambda>k. os_cookie os k = c) [0..<n + 1] of Some k \<Rightarrow> k | None \<Rightarrow> n)"

definition sys_fopen_read :: "string \<Rightarrow> os \<Rightarrow> (errno + ino_t) \<times> os" where
  "sys_fopen_read p = with_fault (\<lambda>os. (resolve os True p, os))"

definition sys_fopen_update :: "string \<Rightarrow> os \<Rightarrow> (errno + ino_t) \<times> os" where
  "sys_fopen_update p = with_fault (\<lambda>os.
     (case resolve os True p of
        Inl e \<Rightarrow> (Inl e, os)
      | Inr i \<Rightarrow> (case dir_entries (os_inodes os) i of
                    Inr _ \<Rightarrow> (Inl EISDIR, os)
                  | Inl _ \<Rightarrow> (Inr i, os))))"

definition sys_fseek :: "os \<Rightarrow> (errno + unit) \<times> os" where
  "sys_fseek = with_fault (\<lambda>os. (Inr (), os))"

text \<open>
  \<open>sys_fread\<close> gives the bytes that were read and whether the error indicator of the stream is set.
  A device that is not attached reads as an error.
\<close>

definition file_bytes :: "inodes \<Rightarrow> ino_t \<Rightarrow> errno + bytes" where
  "file_bytes fs i =
    (case fs i of
       None \<Rightarrow> Inl ENOENT
     | Some nd \<Rightarrow> (case i_content nd of
                     Regular d \<Rightarrow> Inr d
                   | Directory _ \<Rightarrow> Inl EISDIR
                   | _ \<Rightarrow> Inl ENXIO))"

definition sys_fread :: "ino_t \<Rightarrow> nat \<Rightarrow> nat \<Rightarrow> os \<Rightarrow> (bytes \<times> bool) \<times> os" where
  "sys_fread i off n os =
    (case next_fault os of
       (f, os') \<Rightarrow>
         (case file_bytes (os_inodes os') i of
            Inl _ \<Rightarrow> (([], True), os')
          | Inr d \<Rightarrow>
              (case f of
                 No_Fault \<Rightarrow> ((take n (drop off d), False), os')
               | Fault m _ \<Rightarrow> ((take (min m n) (drop off d), True), os'))))"

section \<open>System calls that change files\<close>

definition write_at :: "nat \<Rightarrow> bytes \<Rightarrow> bytes \<Rightarrow> bytes" where
  "write_at off new d =
    (if new = [] then d
     else take off (d @ replicate (off - length d) 0) @ new @ drop (off + length new) d)"

fun content_write :: "nat \<Rightarrow> bytes \<Rightarrow> content \<Rightarrow> content" where
  "content_write off new (Regular d) = Regular (write_at off new d)"
| "content_write off new c = c"

definition file_write :: "ino_t \<Rightarrow> nat \<Rightarrow> bytes \<Rightarrow> os \<Rightarrow> os" where
  "file_write i off new os =
    (if new = [] then os
     else upd_inode i (\<lambda>nd. touched os (map_content (content_write off new) nd)) os)"

text \<open>
  \<open>fwrite\<close> on a stream with a buffer of \<open>os_bufsize\<close> bytes hands whole buffers to the kernel and keeps
  the rest for \<open>fclose\<close>; both transfers can fail after some bytes.  The result of \<open>sys_fwrite\<close> is the
  number of bytes the stream accepted and the error of a failed transfer.
\<close>

definition direct_part :: "os \<Rightarrow> nat \<Rightarrow> nat" where
  "direct_part os n = (if os_bufsize os = 0 then n else n div os_bufsize os * os_bufsize os)"

definition kernel_write :: "ino_t \<Rightarrow> nat \<Rightarrow> bytes \<Rightarrow> os \<Rightarrow> (nat \<times> errno option) \<times> os" where
  "kernel_write i off new os =
    (if new = [] then ((0, None), os)
     else (case next_fault os of
             (f, os') \<Rightarrow>
               (case file_bytes (os_inodes os') i of
                  Inl e \<Rightarrow> ((0, Some e), os')
                | Inr _ \<Rightarrow>
                    (case f of
                       No_Fault \<Rightarrow> ((length new, None), file_write i off new os')
                     | Fault m e \<Rightarrow>
                         ((min m (length new - 1), Some e),
                          file_write i off (take (min m (length new - 1)) new) os')))))"

definition sys_fwrite :: "ino_t \<Rightarrow> nat \<Rightarrow> bytes \<Rightarrow> os \<Rightarrow> (nat \<times> errno option) \<times> os" where
  "sys_fwrite i off new os =
    (case kernel_write i off (take (direct_part os (length new)) new) os of
       ((_, None), os') \<Rightarrow> ((length new, None), os')
     | ((m, Some e), os') \<Rightarrow> ((m, Some e), os'))"

text \<open>\<open>fclose\<close> after \<open>fwrite\<close> accepted all of \<open>new\<close>: flushes what is still in the buffer.\<close>

definition sys_fclose :: "ino_t \<Rightarrow> nat \<Rightarrow> bytes \<Rightarrow> os \<Rightarrow> errno option \<times> os" where
  "sys_fclose i off new os =
    (case kernel_write i (off + direct_part os (length new))
            (drop (direct_part os (length new)) new) os of
       ((_, e), os') \<Rightarrow> (e, os'))"

text \<open>\<open>truncate\<close> takes the length as a signed 64 bit number.\<close>

fun content_truncate :: "nat \<Rightarrow> content \<Rightarrow> content" where
  "content_truncate n (Regular d) = Regular (take n (d @ replicate (n - length d) 0))"
| "content_truncate n c = c"

definition on_file :: "bool \<Rightarrow> string \<Rightarrow> (inode \<Rightarrow> errno option) \<Rightarrow> (os \<Rightarrow> inode \<Rightarrow> inode) \<Rightarrow>
    os \<Rightarrow> (errno + unit) \<times> os" where
  "on_file follow p refuse f os =
    (case resolve os follow p of
       Inl e \<Rightarrow> (Inl e, os)
     | Inr i \<Rightarrow>
         (case os_inodes os i of
            None \<Rightarrow> (Inl ENOENT, os)
          | Some nd \<Rightarrow>
              (case refuse nd of
                 Some e \<Rightarrow> (Inl e, os)
               | None \<Rightarrow> (Inr (), upd_inode i (f os) os))))"

fun refuse_truncate :: "content \<Rightarrow> errno option" where
  "refuse_truncate (Regular _) = None"
| "refuse_truncate (Directory _) = Some EISDIR"
| "refuse_truncate _ = Some EINVAL"

definition sys_truncate :: "string \<Rightarrow> u64 \<Rightarrow> os \<Rightarrow> (errno + unit) \<times> os" where
  "sys_truncate p n = with_fault (\<lambda>os.
     if sint n < 0 then (Inl EINVAL, os)
     else on_file True p (\<lambda>nd. refuse_truncate (i_content nd))
            (\<lambda>os nd. touched os (map_content (content_truncate (unat n)) nd)) os)"

definition sys_chmod :: "string \<Rightarrow> mode_t \<Rightarrow> os \<Rightarrow> (errno + unit) \<times> os" where
  "sys_chmod p m = with_fault (on_file True p (\<lambda>_. None)
     (\<lambda>os nd. nd\<lparr>i_perm := m AND 0xFFF, i_ctime := os_clock os\<rparr>))"

text \<open>\<open>chown\<close> ignores an id of -1, and clears set-user-ID and set-group-ID of what is not a directory.\<close>

fun kill_suid :: "content \<Rightarrow> mode_t \<Rightarrow> mode_t" where
  "kill_suid (Directory _) m = m"
| "kill_suid _ m =
    (let m' = m AND NOT S_ISUID in if m AND S_IXGRP = 0 then m' else m' AND NOT S_ISGID)"

definition sys_chown :: "string \<Rightarrow> u32 \<Rightarrow> u32 \<Rightarrow> os \<Rightarrow> (errno + unit) \<times> os" where
  "sys_chown p u g = with_fault (on_file True p (\<lambda>_. None)
     (\<lambda>os nd. nd\<lparr>i_uid := (if u = -1 then i_uid nd else u),
                 i_gid := (if g = -1 then i_gid nd else g),
                 i_perm := kill_suid (i_content nd) (i_perm nd),
                 i_ctime := os_clock os\<rparr>))"

text \<open>\<open>utimes\<close> takes seconds and microseconds.\<close>

definition sys_utimes :: "string \<Rightarrow> u64 \<times> u64 \<Rightarrow> u64 \<times> u64 \<Rightarrow> os \<Rightarrow> (errno + unit) \<times> os" where
  "sys_utimes p at mt = with_fault (\<lambda>os.
     if snd at < 1000000 \<and> snd mt < 1000000
     then on_file True p (\<lambda>_. None)
       (\<lambda>os nd. nd\<lparr>i_atime := \<lparr>tv_sec = fst at, tv_nsec = snd at * 1000\<rparr>,
                   i_mtime := \<lparr>tv_sec = fst mt, tv_nsec = snd mt * 1000\<rparr>,
                   i_ctime := os_clock os\<rparr>) os
     else (Inl EINVAL, os))"

section \<open>System calls that change directories\<close>

text \<open>
  \<open>open\<close> with \<open>O_CREAT\<close>: a file that exists is just opened.  The mode is the optional third argument;
  when the caller leaves it out the kernel sees whatever that argument's register holds
  (\<open>os_vararg\<close>).
\<close>

definition os_open_creat :: "string \<Rightarrow> mode_t option \<Rightarrow> os \<Rightarrow> (errno + unit) \<times> os" where
  "os_open_creat p m os =
    (case resolve os True p of
       Inr i \<Rightarrow> (case dir_entries (os_inodes os) i of
                   Inr _ \<Rightarrow> (Inl EISDIR, os)
                 | Inl _ \<Rightarrow> (Inr (), os))
     | Inl e \<Rightarrow>
         if e \<noteq> ENOENT then (Inl e, os)
         else create_entry
           (\<lambda>d i. new_inode os (Regular [])
              ((case m of Some m \<Rightarrow> m | None \<Rightarrow> os_vararg os) AND NOT (os_umask os) AND 0xFFF) 1)
           (\<lambda>d os'. os') p os)"

definition sys_open_creat :: "string \<Rightarrow> mode_t option \<Rightarrow> os \<Rightarrow> (errno + unit) \<times> os" where
  "sys_open_creat p m = with_fault (os_open_creat p m)"

text \<open>\<open>mkdir\<close> accepts a trailing slash.\<close>

definition strip_slashes :: "string \<Rightarrow> string" where
  "strip_slashes p = rev (dropWhile (\<lambda>c. c = CHR ''/'') (rev p))"

definition os_mkdir :: "string \<Rightarrow> mode_t \<Rightarrow> os \<Rightarrow> (errno + unit) \<times> os" where
  "os_mkdir p m os =
    create_entry
      (\<lambda>d i. new_inode os (Directory [(''.'', i), (''..'', d)]) (m AND NOT (os_umask os) AND 0x3FF) 2)
      add_nlink (strip_slashes p) os"

definition sys_mkdir :: "string \<Rightarrow> mode_t \<Rightarrow> os \<Rightarrow> (errno + unit) \<times> os" where
  "sys_mkdir p m = with_fault (os_mkdir p m)"

definition sys_symlink :: "string \<Rightarrow> string \<Rightarrow> os \<Rightarrow> (errno + unit) \<times> os" where
  "sys_symlink target p = with_fault (\<lambda>os.
     if target = [] then (Inl ENOENT, os)
     else if PATH_MAX \<le> length target then (Inl ENAMETOOLONG, os)
     else create_entry (\<lambda>d i. new_inode os (Symlink target) 0x1FF 1) (\<lambda>d os'. os') p os)"

definition os_link :: "string \<Rightarrow> string \<Rightarrow> os \<Rightarrow> (errno + unit) \<times> os" where
  "os_link old new os =
    (case resolve os False old of
       Inl e \<Rightarrow> (Inl e, os)
     | Inr i \<Rightarrow>
         (case resolve_parent os new of
            Inl e \<Rightarrow> (Inl e, os)
          | Inr (d, n) \<Rightarrow>
              (case lookup_entry (os_inodes os) d n of
                 Inr _ \<Rightarrow> (Inl EEXIST, os)
               | Inl e \<Rightarrow>
                   if e \<noteq> ENOENT then (Inl e, os)
                   else (case dir_entries (os_inodes os) i of
                           Inr _ \<Rightarrow> (Inl EPERM, os)
                         | Inl _ \<Rightarrow> (Inr (), add_nlink i (dir_add d n i os))))))"

definition sys_link :: "string \<Rightarrow> string \<Rightarrow> os \<Rightarrow> (errno + unit) \<times> os" where
  "sys_link old new = with_fault (os_link old new)"

definition os_unlink :: "string \<Rightarrow> os \<Rightarrow> (errno + unit) \<times> os" where
  "os_unlink p os =
    (case resolve_parent os p of
       Inl e \<Rightarrow> (Inl e, os)
     | Inr (d, n) \<Rightarrow>
         (case lookup_entry (os_inodes os) d n of
            Inl e \<Rightarrow> (Inl e, os)
          | Inr i \<Rightarrow>
              (case dir_entries (os_inodes os) i of
                 Inr _ \<Rightarrow> (Inl EISDIR, os)
               | Inl _ \<Rightarrow> (Inr (), drop_link i (dir_del d n os)))))"

definition sys_unlink :: "string \<Rightarrow> os \<Rightarrow> (errno + unit) \<times> os" where
  "sys_unlink p = with_fault (os_unlink p)"

definition empty_dir :: "(string \<times> ino_t) list \<Rightarrow> bool" where
  "empty_dir es \<longleftrightarrow> (\<forall>e \<in> set es. fst e = ''.'' \<or> fst e = ''..'')"

definition os_rmdir :: "string \<Rightarrow> os \<Rightarrow> (errno + unit) \<times> os" where
  "os_rmdir p os =
    (case resolve_parent os p of
       Inl e \<Rightarrow> (Inl e, os)
     | Inr (d, n) \<Rightarrow>
         if n = ''.'' then (Inl EINVAL, os)
         else if n = ''..'' then (Inl ENOTEMPTY, os)
         else (case lookup_entry (os_inodes os) d n of
                 Inl e \<Rightarrow> (Inl e, os)
               | Inr i \<Rightarrow>
                   (case dir_entries (os_inodes os) i of
                      Inl e \<Rightarrow> (Inl e, os)
                    | Inr es \<Rightarrow>
                        if i = os_root os then (Inl EBUSY, os)
                        else if \<not> empty_dir es then (Inl ENOTEMPTY, os)
                        else (Inr (), free_inode i (sub_nlink d (dir_del d n os))))))"

definition sys_rmdir :: "string \<Rightarrow> os \<Rightarrow> (errno + unit) \<times> os" where
  "sys_rmdir p = with_fault (os_rmdir p)"

text \<open>Is the directory \<open>i\<close> the directory \<open>d\<close> or one of its ancestors?  Climbs \<open>..\<close> at most \<open>k\<close> times.\<close>

fun is_ancestor :: "inodes \<Rightarrow> nat \<Rightarrow> ino_t \<Rightarrow> ino_t \<Rightarrow> bool" where
  "is_ancestor fs 0 i d = (i = d)"
| "is_ancestor fs (Suc k) i d =
    (i = d \<or>
     (case lookup_entry fs d ''..'' of
        Inl _ \<Rightarrow> False
      | Inr p \<Rightarrow> p \<noteq> d \<and> is_ancestor fs k i p))"

definition replace_entry :: "ino_t \<Rightarrow> string \<Rightarrow> ino_t \<Rightarrow> ino_t \<Rightarrow> string \<Rightarrow> os \<Rightarrow> os" where
  "replace_entry d n i d' n' os = dir_add d' n' i (dir_del d' n' (dir_del d n os))"

definition reparent :: "ino_t \<Rightarrow> ino_t \<Rightarrow> ino_t \<Rightarrow> os \<Rightarrow> os" where
  "reparent i d d' os =
    (if d = d' then os else add_nlink d' (sub_nlink d (dir_repoint i ''..'' d' os)))"

definition rename_entry :: "ino_t \<Rightarrow> string \<Rightarrow> ino_t \<Rightarrow> ino_t \<Rightarrow> string \<Rightarrow> os \<Rightarrow> (errno + unit) \<times> os" where
  "rename_entry d n i d' n' os =
    (case (dir_entries (os_inodes os) i, lookup_entry (os_inodes os) d' n') of
       (Inl _, Inl e) \<Rightarrow>
         if e \<noteq> ENOENT then (Inl e, os) else (Inr (), replace_entry d n i d' n' os)
     | (Inl _, Inr j) \<Rightarrow>
         if j = i then (Inr (), os)
         else (case dir_entries (os_inodes os) j of
                 Inr _ \<Rightarrow> (Inl EISDIR, os)
               | Inl _ \<Rightarrow> (Inr (), drop_link j (replace_entry d n i d' n' os)))
     | (Inr _, Inl e) \<Rightarrow>
         if e \<noteq> ENOENT then (Inl e, os)
         else if is_ancestor (os_inodes os) PATH_MAX i d' then (Inl EINVAL, os)
         else (Inr (), reparent i d d' (replace_entry d n i d' n' os))
     | (Inr _, Inr j) \<Rightarrow>
         if j = i then (Inr (), os)
         else if is_ancestor (os_inodes os) PATH_MAX i d' then (Inl EINVAL, os)
         else (case dir_entries (os_inodes os) j of
                 Inl e \<Rightarrow> (Inl e, os)
               | Inr es \<Rightarrow>
                   if \<not> empty_dir es then (Inl ENOTEMPTY, os)
                   else (Inr (), free_inode j (sub_nlink d'
                          (reparent i d d' (replace_entry d n i d' n' os))))))"

definition is_dot :: "string \<Rightarrow> bool" where
  "is_dot n \<longleftrightarrow> n = ''.'' \<or> n = ''..''"

definition os_rename :: "string \<Rightarrow> string \<Rightarrow> os \<Rightarrow> (errno + unit) \<times> os" where
  "os_rename old new os =
    (case resolve_parent os old of
       Inl e \<Rightarrow> (Inl e, os)
     | Inr (d, n) \<Rightarrow>
         (case resolve_parent os new of
            Inl e \<Rightarrow> (Inl e, os)
          | Inr (d', n') \<Rightarrow>
              if is_dot n \<or> is_dot n' then (Inl EBUSY, os)
              else (case lookup_entry (os_inodes os) d n of
                      Inl e \<Rightarrow> (Inl e, os)
                    | Inr i \<Rightarrow> rename_entry d n i d' n' os)))"

definition sys_rename :: "string \<Rightarrow> string \<Rightarrow> os \<Rightarrow> (errno + unit) \<times> os" where
  "sys_rename old new = with_fault (os_rename old new)"

end
