(* ===== verification/Messages.thy ===== *)
theory Messages
  imports Control
begin

text \<open>
  The messages of \<open>nfs_fh.proto\<close>, \<open>nfs.proto\<close> and \<open>mount.proto\<close> as the C structures the handlers see.
  A field that is a pointer in C (a submessage, a string) is an \<open>option\<close>, \<^term>\<open>None\<close> being \<open>NULL\<close>; a
  \<open>oneof\<close> is a datatype over its cases.  Enumerations of proto3 are open: a value the schema does not
  name is kept by a constructor of its own.  The last sections hold the constructors of error results
  (\<open>nfs_messages.c\<close>, \<open>mount_messages.c\<close>) and the structural validation that clients apply to results
  (\<open>message_validation.c\<close>).
\<close>

section \<open>Basic data types\<close>

datatype nfs_stat = NFS_OK | NFSERR_PERM | NFSERR_NOENT | NFSERR_IO | NFSERR_NXIO | NFSERR_ACCES
  | NFSERR_EXIST | NFSERR_NODEV | NFSERR_NOTDIR | NFSERR_ISDIR | NFSERR_FBIG | NFSERR_NOSPC
  | NFSERR_ROFS | NFSERR_NAMETOOLONG | NFSERR_NOTEMPTY | NFSERR_DQUOT | NFSERR_STALE
  | NFSERR_WFLUSH | NFS_STAT_UNNAMED int

datatype ftype = NFNON | NFREG | NFDIR | NFBLK | NFCHR | NFLNK | FTYPE_UNNAMED int

datatype mnt_stat = MNT_OK | MNTERR_NOENT | MNTERR_NOTEXP | MNTERR_IO | MNTERR_ACCES | MNTERR_NOTDIR
  | MNT_STAT_UNNAMED int

record nfs_filehandle =
  inode_number :: u64
  fh_timestamp :: u64

record fhandle =
  fhandle_nfs_filehandle :: "nfs_filehandle option"

record timeval =
  seconds :: u64
  useconds :: u64

record fattr =
  fattr_nfs_ftype :: "ftype option"
  fattr_mode :: u32
  fattr_nlink :: u64
  fattr_uid :: u32
  fattr_gid :: u32
  fattr_size :: u64
  fattr_blocksize :: u64
  fattr_rdev :: u64
  fattr_blocks :: u64
  fattr_fsid :: u64
  fattr_fileid :: u64
  fattr_atime :: "timeval option"
  fattr_mtime :: "timeval option"
  fattr_ctime :: "timeval option"

record sattr =
  sattr_mode :: u32
  sattr_uid :: u32
  sattr_gid :: u32
  sattr_size :: u64
  sattr_atime :: "timeval option"
  sattr_mtime :: "timeval option"

text \<open>\<open>FileName\<close> and \<open>Path\<close> hold one string pointer; \<open>NfsCookie\<close> one number.\<close>

type_synonym file_name = "string option"
type_synonym path_msg = "string option"
type_synonym nfs_cookie = u64

text \<open>\<open>ProtobufCBinaryData\<close>: a buffer of \<open>len\<close> bytes, or a \<open>NULL\<close> pointer next to a length.\<close>

datatype binary_data = Null_Data u64 | Data bytes

section \<open>Arguments of procedures\<close>

record dir_op_args =
  dirop_dir :: "fhandle option"
  dirop_name :: "file_name option"

record sattr_args =
  sattrargs_file :: "fhandle option"
  sattrargs_attributes :: "sattr option"

record read_args =
  readargs_file :: "fhandle option"
  readargs_offset :: u32
  readargs_count :: u32

record write_args =
  writeargs_file :: "fhandle option"
  writeargs_offset :: u32
  writeargs_nfsdata :: binary_data

record create_args =
  createargs_where :: "dir_op_args option"
  createargs_attributes :: "sattr option"

record rename_args =
  renameargs_from :: "dir_op_args option"
  renameargs_to :: "dir_op_args option"

record link_args =
  linkargs_from :: "fhandle option"
  linkargs_to :: "dir_op_args option"

record symlink_args =
  symlinkargs_from :: "dir_op_args option"
  symlinkargs_to :: "path_msg option"
  symlinkargs_attributes :: "sattr option"

record readdir_args =
  readdirargs_dir :: "fhandle option"
  readdirargs_cookie :: "nfs_cookie option"
  readdirargs_count :: u32

section \<open>Results of procedures\<close>

datatype 'a result_body = Body_Not_Set | Body_Ok "'a option" | Body_Default_Case "unit option"

record 'a nfs_result =
  nfs_status :: "nfs_stat option"
  result_body :: "'a result_body"

record dir_op_ok =
  diropok_file :: "fhandle option"
  diropok_attributes :: "fattr option"

record read_res_body =
  readres_attributes :: "fattr option"
  readres_nfsdata :: binary_data

record directory_entry =
  entry_fileid :: u64
  entry_name :: "file_name option"
  entry_cookie :: "nfs_cookie option"

text \<open>The recursive message \<open>DirectoryEntriesList\<close> is the list of its entries.\<close>

record readdir_ok =
  readdirok_entries :: "directory_entry list"
  readdirok_eof :: bool

record fs_info =
  fsinfo_tsize :: u32
  fsinfo_bsize :: u64
  fsinfo_blocks :: u64
  fsinfo_bfree :: u64
  fsinfo_bavail :: u64

type_synonym attr_stat = "fattr nfs_result"
type_synonym dir_op_res = "dir_op_ok nfs_result"
type_synonym read_link_res = "path_msg nfs_result"
type_synonym read_res = "read_res_body nfs_result"
type_synonym read_dir_res = "readdir_ok nfs_result"
type_synonym stat_fs_res = "fs_info nfs_result"

record fh_status =
  mnt_status :: "mnt_stat option"
  fhstatus_body :: "fhandle result_body"

section \<open>Error results\<close>

definition create_nfs_stat :: "nfs_stat \<Rightarrow> nfs_stat option" where
  "create_nfs_stat stat = Some stat"

definition create_default_case :: "nfs_stat \<Rightarrow> 'a nfs_result option" where
  "create_default_case s =
    (if s = NFS_OK then None
     else Some \<lparr>nfs_status = create_nfs_stat s, result_body = Body_Default_Case (Some ())\<rparr>)"

definition create_default_case_attr_stat :: "nfs_stat \<Rightarrow> attr_stat option" where
  "create_default_case_attr_stat = create_default_case"

definition create_default_case_dir_op_res :: "nfs_stat \<Rightarrow> dir_op_res option" where
  "create_default_case_dir_op_res = create_default_case"

definition create_default_case_read_link_res :: "nfs_stat \<Rightarrow> read_link_res option" where
  "create_default_case_read_link_res = create_default_case"

definition create_default_case_read_res :: "nfs_stat \<Rightarrow> read_res option" where
  "create_default_case_read_res = create_default_case"

definition create_default_case_read_dir_res :: "nfs_stat \<Rightarrow> read_dir_res option" where
  "create_default_case_read_dir_res = create_default_case"

definition create_default_case_stat_fs_res :: "nfs_stat \<Rightarrow> stat_fs_res option" where
  "create_default_case_stat_fs_res = create_default_case"

definition create_default_case_fh_status :: "mnt_stat \<Rightarrow> fh_status" where
  "create_default_case_fh_status s =
    \<lparr>mnt_status = Some s, fhstatus_body = Body_Default_Case (Some ())\<rparr>"

definition ok_result :: "'a \<Rightarrow> 'a nfs_result" where
  "ok_result x = \<lparr>nfs_status = Some NFS_OK, result_body = Body_Ok (Some x)\<rparr>"

definition error_result :: "nfs_stat \<Rightarrow> 'a nfs_result" where
  "error_result s = \<lparr>nfs_status = Some s, result_body = Body_Default_Case (Some ())\<rparr>"

lemma create_default_case_error [simp]:
  "s \<noteq> NFS_OK \<Longrightarrow> create_default_case s = Some (error_result s)"
  by (simp add: create_default_case_def error_result_def create_nfs_stat_def)

lemmas default_case_defs = create_default_case_attr_stat_def create_default_case_dir_op_res_def
  create_default_case_read_link_res_def create_default_case_read_res_def
  create_default_case_read_dir_res_def create_default_case_stat_fs_res_def

section \<open>Validation of results\<close>

text \<open>
  Each function returns 0 for a well-structured message and 1 otherwise.  \<open>validate_nfs_read_dir_ok\<close>
  reads through its argument without a check, so that it has no result on \<open>NULL\<close>.
\<close>

definition validate_mount_fhandle :: "fhandle option \<Rightarrow> nat" where
  "validate_mount_fhandle fhandle =
    (case fhandle of
       None \<Rightarrow> 1
     | Some fh \<Rightarrow> if fhandle_nfs_filehandle fh = None then 1 else 0)"

definition validate_nfs_fhandle :: "fhandle option \<Rightarrow> nat" where
  "validate_nfs_fhandle fhandle =
    (case fhandle of
       None \<Rightarrow> 1
     | Some fh \<Rightarrow> if fhandle_nfs_filehandle fh = None then 1 else 0)"

definition validate_mount_fh_status :: "fh_status option \<Rightarrow> nat" where
  "validate_mount_fh_status fh_status =
    (case fh_status of
       None \<Rightarrow> 1
     | Some fs \<Rightarrow>
         (case mnt_status fs of
            None \<Rightarrow> 1
          | Some stat \<Rightarrow>
              if stat = MNT_OK then
                (case fhstatus_body fs of
                   Body_Ok directory \<Rightarrow> if validate_mount_fhandle directory > 0 then 1 else 0
                 | _ \<Rightarrow> 1)
              else
                (case fhstatus_body fs of
                   Body_Default_Case d \<Rightarrow> if d = None then 1 else 0
                 | _ \<Rightarrow> 1)))"

definition validate_nfs_nfs_stat :: "nfs_stat option \<Rightarrow> nat" where
  "validate_nfs_nfs_stat nfsstat = (if nfsstat = None then 1 else 0)"

fun validate_entries :: "directory_entry list \<Rightarrow> nat" where
  "validate_entries [] = 0"
| "validate_entries (e # es) =
    (case entry_name e of
       None \<Rightarrow> 1
     | Some None \<Rightarrow> 1
     | Some (Some filename) \<Rightarrow> if entry_cookie e = None then 1 else validate_entries es)"

definition validate_nfs_read_dir_ok :: "readdir_ok option \<Rightarrow> nat option" where
  "validate_nfs_read_dir_ok readdirok =
    map_option (\<lambda>r. validate_entries (readdirok_entries r)) readdirok"

text \<open>The shape the result validators share: a status, and the body that the status calls for.\<close>

definition validate_result :: "('a option \<Rightarrow> nat option) \<Rightarrow> 'a nfs_result option \<Rightarrow> nat option" where
  "validate_result check res =
    (case res of
       None \<Rightarrow> Some 1
     | Some r \<Rightarrow>
         (case nfs_status r of
            None \<Rightarrow> Some 1
          | Some stat \<Rightarrow>
              if stat = NFS_OK then
                (case result_body r of
                   Body_Ok x \<Rightarrow> map_option (\<lambda>c. if c > 0 then 1 else 0) (check x)
                 | _ \<Rightarrow> Some 1)
              else
                (case result_body r of
                   Body_Default_Case d \<Rightarrow> Some (if d = None then 1 else 0)
                 | _ \<Rightarrow> Some 1)))"

definition validate_nfs_read_dir_res :: "read_dir_res option \<Rightarrow> nat option" where
  "validate_nfs_read_dir_res = validate_result validate_nfs_read_dir_ok"

definition validate_nfs_fattr :: "fattr option \<Rightarrow> nat" where
  "validate_nfs_fattr fattr =
    (case fattr of
       None \<Rightarrow> 1
     | Some f \<Rightarrow>
         if fattr_nfs_ftype f = None \<or> fattr_atime f = None \<or> fattr_mtime f = None \<or> fattr_ctime f = None
         then 1 else 0)"

definition validate_nfs_attr_stat :: "attr_stat option \<Rightarrow> nat option" where
  "validate_nfs_attr_stat = validate_result (\<lambda>f. Some (validate_nfs_fattr f))"

definition validate_nfs_dir_op_ok :: "dir_op_ok option \<Rightarrow> nat" where
  "validate_nfs_dir_op_ok diropok =
    (case diropok of
       None \<Rightarrow> 1
     | Some d \<Rightarrow>
         if diropok_file d = None then 1
         else if validate_nfs_fhandle (diropok_file d) > 0 then 1
         else if validate_nfs_fattr (diropok_attributes d) > 0 then 1
         else 0)"

definition validate_nfs_dir_op_res :: "dir_op_res option \<Rightarrow> nat option" where
  "validate_nfs_dir_op_res = validate_result (\<lambda>d. Some (validate_nfs_dir_op_ok d))"

definition validate_read_res_body :: "read_res_body option \<Rightarrow> nat" where
  "validate_read_res_body body =
    (case body of
       None \<Rightarrow> 1
     | Some b \<Rightarrow>
         if validate_nfs_fattr (readres_attributes b) \<noteq> 0 then 1
         else (case readres_nfsdata b of
                 Null_Data len \<Rightarrow> if len > 0 then 1 else 0
               | Data bs \<Rightarrow> if bs = [] then 1 else 0))"

definition validate_nfs_read_res :: "read_res option \<Rightarrow> nat option" where
  "validate_nfs_read_res = validate_result (\<lambda>b. Some (validate_read_res_body b))"

definition validate_nfs_read_link_res :: "read_link_res option \<Rightarrow> nat option" where
  "validate_nfs_read_link_res =
    validate_result (\<lambda>p. Some (case p of None \<Rightarrow> 1 | Some None \<Rightarrow> 1 | Some (Some path) \<Rightarrow> 0))"

end
