(* ===== verification/Inode_Cache.thy ===== *)
theory Inode_Cache
  imports Messages
begin

text \<open>
  \<open>inode_cache.c\<close>: the linked list that maps the inode number in a file handle to the absolute path
  of the file, newest entry first.  The two removal functions read through \<open>*head\<close> before they check
  that the list has an element, so they have no result (\<^term>\<open>None\<close>) on an empty cache.

  The list is refined to what it means: for every inode number the stack of its paths.  Adding an entry
  pushes, removal by inode number pops, and a lookup reads the top.
\<close>

section \<open>Operations\<close>

record inode_cache_mapping =
  nfs_fh :: nfs_filehandle
  absolute_path :: string

type_synonym inode_cache = "inode_cache_mapping list"

definition deep_copy_nfs_filehandle :: "nfs_filehandle \<Rightarrow> nfs_filehandle" where
  "deep_copy_nfs_filehandle fh = \<lparr>inode_number = inode_number fh, fh_timestamp = fh_timestamp fh\<rparr>"

definition mapping_ino :: "inode_cache_mapping \<Rightarrow> u64" where
  "mapping_ino m = inode_number (nfs_fh m)"

definition add_inode_mapping ::
  "nfs_filehandle option \<Rightarrow> string \<Rightarrow> inode_cache \<Rightarrow> nat \<times> inode_cache" where
  "add_inode_mapping fh path head =
    (case fh of
       None \<Rightarrow> (1, head)
     | Some fh \<Rightarrow> (0, \<lparr>nfs_fh = deep_copy_nfs_filehandle fh, absolute_path = path\<rparr> # head))"

text \<open>The loop of both removal functions, after the head has been looked at.\<close>

fun remove_mapping :: "(inode_cache_mapping \<Rightarrow> bool) \<Rightarrow> inode_cache \<Rightarrow> nat \<times> inode_cache" where
  "remove_mapping P [] = (1, [])"
| "remove_mapping P (m # ms) =
    (if P m then (0, ms) else (case remove_mapping P ms of (r, ms') \<Rightarrow> (r, m # ms')))"

definition remove_inode_mapping_by_inode_number ::
  "u64 \<Rightarrow> inode_cache \<Rightarrow> (nat \<times> inode_cache) option" where
  "remove_inode_mapping_by_inode_number ino head =
    (case head of
       [] \<Rightarrow> None
     | m # ms \<Rightarrow>
         if inode_number (nfs_fh m) = ino then Some (0, ms)
         else Some (case remove_mapping (\<lambda>m. inode_number (nfs_fh m) = ino) ms of
                      (r, ms') \<Rightarrow> (r, m # ms')))"

definition remove_inode_mapping_by_absolute_path ::
  "string \<Rightarrow> inode_cache \<Rightarrow> (nat \<times> inode_cache) option" where
  "remove_inode_mapping_by_absolute_path path head =
    (case head of
       [] \<Rightarrow> None
     | m # ms \<Rightarrow>
         if absolute_path m = path then Some (0, ms)
         else Some (case remove_mapping (\<lambda>m. absolute_path m = path) ms of
                      (r, ms') \<Rightarrow> (r, m # ms')))"

fun update_inode_mapping_absolute_path_by_absolute_path ::
  "string \<Rightarrow> string \<Rightarrow> inode_cache \<Rightarrow> nat \<times> inode_cache" where
  "update_inode_mapping_absolute_path_by_absolute_path path new [] = (1, [])"
| "update_inode_mapping_absolute_path_by_absolute_path path new (m # ms) =
    (if absolute_path m = path then (0, m\<lparr>absolute_path := new\<rparr> # ms)
     else (case update_inode_mapping_absolute_path_by_absolute_path path new ms of
             (r, ms') \<Rightarrow> (r, m # ms')))"

fun get_absolute_path_from_inode_number :: "u64 \<Rightarrow> inode_cache \<Rightarrow> string option" where
  "get_absolute_path_from_inode_number ino [] = None"
| "get_absolute_path_from_inode_number ino (m # ms) =
    (if inode_number (nfs_fh m) = ino then Some (absolute_path m)
     else get_absolute_path_from_inode_number ino ms)"

fun get_nfs_filehandle_from_inode_number :: "u64 \<Rightarrow> inode_cache \<Rightarrow> nfs_filehandle option" where
  "get_nfs_filehandle_from_inode_number ino [] = None"
| "get_nfs_filehandle_from_inode_number ino (m # ms) =
    (if inode_number (nfs_fh m) = ino then Some (nfs_fh m)
     else get_nfs_filehandle_from_inode_number ino ms)"

section \<open>The loops are first-match removal and lookup\<close>

lemma deep_copy_id [simp]: "deep_copy_nfs_filehandle fh = fh"
  by (simp add: deep_copy_nfs_filehandle_def)

lemma mapping_ino_conv [simp]: "inode_number (nfs_fh m) = mapping_ino m"
  by (simp add: mapping_ino_def)

lemma mapping_ino_mapping [simp]: "mapping_ino \<lparr>nfs_fh = fh, absolute_path = p\<rparr> = inode_number fh"
  by (simp add: mapping_ino_def del: mapping_ino_conv)

lemma remove_mapping_conv:
  "remove_mapping P ms = (if \<exists>m \<in> set ms. P m then 0 else 1, remove_first P ms)"
  by (induction ms) auto

lemma remove_by_ino_conv:
  "remove_inode_mapping_by_inode_number ino head =
    (if head = [] then None
     else Some (if ino \<in> mapping_ino ` set head then 0 else 1,
                remove_first (\<lambda>m. mapping_ino m = ino) head))"
  by (auto simp: remove_inode_mapping_by_inode_number_def remove_mapping_conv split: list.splits)

lemma remove_by_path_conv:
  "remove_inode_mapping_by_absolute_path path head =
    (if head = [] then None
     else Some (if path \<in> absolute_path ` set head then 0 else 1,
                remove_first (\<lambda>m. absolute_path m = path) head))"
  by (auto simp: remove_inode_mapping_by_absolute_path_def remove_mapping_conv split: list.splits)

lemma update_mapping_conv:
  "update_inode_mapping_absolute_path_by_absolute_path path new head =
    (if path \<in> absolute_path ` set head then 0 else 1,
     update_first (\<lambda>m. absolute_path m = path) (absolute_path_update (\<lambda>_. new)) head)"
  by (induction head) auto

lemma get_path_conv:
  "get_absolute_path_from_inode_number ino head =
    map_option absolute_path (List.find (\<lambda>m. mapping_ino m = ino) head)"
  by (induction head) auto

lemma get_fh_conv:
  "get_nfs_filehandle_from_inode_number ino head =
    map_option nfs_fh (List.find (\<lambda>m. mapping_ino m = ino) head)"
  by (induction head) auto

lemma get_path_in:
  "get_absolute_path_from_inode_number ino head = Some p \<Longrightarrow>
    \<exists>m \<in> set head. mapping_ino m = ino \<and> absolute_path m = p"
  by (auto simp: get_path_conv dest: find_SomeD)

interpretation by_ino: keyed_list mapping_ino "(#)"
    "\<lambda>ino. List.find (\<lambda>m. mapping_ino m = ino)" "\<lambda>ino. remove_first (\<lambda>m. mapping_ino m = ino)"
  by (rule keyed_list_listI)

interpretation by_path: keyed_list absolute_path "(#)"
    "\<lambda>p. List.find (\<lambda>m. absolute_path m = p)" "\<lambda>p. remove_first (\<lambda>m. absolute_path m = p)"
  by (rule keyed_list_listI)

section \<open>The cache as a stack of paths per inode\<close>

definition cache_paths :: "inode_cache \<Rightarrow> u64 \<Rightarrow> string list" where
  "cache_paths head ino = map absolute_path (filter (\<lambda>m. mapping_ino m = ino) head)"

lemma cache_paths_get:
  "get_absolute_path_from_inode_number ino head =
    (case cache_paths head ino of [] \<Rightarrow> None | p # ps \<Rightarrow> Some p)"
  by (induction head) (auto simp: cache_paths_def split: list.splits)

lemma cache_paths_remove_first:
  "cache_paths (remove_first (\<lambda>m. mapping_ino m = ino) head) =
    (cache_paths head)(ino := tl (cache_paths head ino))"
proof (rule ext)
  fix i
  show "cache_paths (remove_first (\<lambda>m. mapping_ino m = ino) head) i =
    ((cache_paths head)(ino := tl (cache_paths head ino))) i"
    by (induction head) (auto simp: cache_paths_def)
qed

end
