(* ===== verification/File_Management.thy ===== *)
theory File_Management
  imports Posix Inode_Cache
begin

text \<open>
  \<open>file_management.c\<close> and \<open>path_building.c\<close>: file handles, attributes, and reading and writing of file
  data.  Functions that fail return their error code (\<^term>\<open>Inl\<close>) where the C code fills an output
  argument on success.  The codes for a failed \<open>malloc\<close> (2 and 3 of \<open>get_attributes\<close>) do not occur.
\<close>

definition get_file_absolute_path :: "string \<Rightarrow> string \<Rightarrow> string" where
  "get_file_absolute_path directory_absolute_path file_name =
    directory_absolute_path @ ''/'' @ file_name"

definition get_inode_number :: "string \<Rightarrow> os \<Rightarrow> (nat + u64) \<times> os" where
  "get_inode_number path os =
    (case sys_lstat path os of
       (Inl _, os') \<Rightarrow> (Inl 1, os')
     | (Inr st, os') \<Rightarrow> (Inr (st_ino st), os'))"

definition create_nfs_filehandle ::
  "string \<Rightarrow> inode_cache \<times> os \<Rightarrow> nfs_filehandle option \<times> inode_cache \<times> os" where
  "create_nfs_filehandle path = (\<lambda>(cache, os).
    (case get_inode_number path os of
       (Inl _, os') \<Rightarrow> (None, cache, os')
     | (Inr ino, os') \<Rightarrow>
         (let fh = \<lparr>inode_number = ino, fh_timestamp = tv_sec (os_clock os')\<rparr>
          in case add_inode_mapping (Some fh) path cache of
               (r, cache') \<Rightarrow> if r > 0 then (None, cache', os') else (Some fh, cache', os'))))"

definition decode_file_type :: "mode_t \<Rightarrow> ftype" where
  "decode_file_type m =
    (if m AND S_IFMT = S_IFREG then NFREG
     else if m AND S_IFMT = S_IFDIR then NFDIR
     else if m AND S_IFMT = S_IFBLK then NFBLK
     else if m AND S_IFMT = S_IFCHR then NFCHR
     else if m AND S_IFMT = S_IFLNK then NFLNK
     else NFNON)"

text \<open>The nanoseconds of the time stamps go to \<open>useconds\<close>.\<close>

definition fattr_of_stat :: "stat_t \<Rightarrow> fattr" where
  "fattr_of_stat st =
    \<lparr>fattr_nfs_ftype = Some (decode_file_type (st_mode st)),
     fattr_mode = st_mode st, fattr_nlink = st_nlink st, fattr_uid = st_uid st,
     fattr_gid = st_gid st, fattr_size = st_size st, fattr_blocksize = st_blksize st,
     fattr_rdev = st_rdev st, fattr_blocks = st_blocks st, fattr_fsid = st_dev st,
     fattr_fileid = st_ino st,
     fattr_atime = Some \<lparr>seconds = tv_sec (st_atim st), useconds = tv_nsec (st_atim st)\<rparr>,
     fattr_mtime = Some \<lparr>seconds = tv_sec (st_mtim st), useconds = tv_nsec (st_mtim st)\<rparr>,
     fattr_ctime = Some \<lparr>seconds = tv_sec (st_ctim st), useconds = tv_nsec (st_ctim st)\<rparr>\<rparr>"

definition get_attributes :: "string \<Rightarrow> os \<Rightarrow> (nat + fattr) \<times> os" where
  "get_attributes path os =
    (case sys_lstat path os of
       (Inl _, os') \<Rightarrow> (Inl 1, os')
     | (Inr st, os') \<Rightarrow> (Inr (fattr_of_stat st), os'))"

definition read_from_file :: "string option \<Rightarrow> nat \<Rightarrow> nat \<Rightarrow> os \<Rightarrow> (nat + bytes) \<times> os" where
  "read_from_file path offset byte_count os =
    (case path of
       None \<Rightarrow> (Inl 1, os)
     | Some path \<Rightarrow>
         (case sys_fopen_read path os of
            (Inl _, os') \<Rightarrow> (Inl 2, os')
          | (Inr file, os') \<Rightarrow>
              (case sys_fseek os' of
                 (Inl _, os'') \<Rightarrow> (Inl 3, os'')
               | (Inr _, os'') \<Rightarrow>
                   (case sys_fread file offset byte_count os'' of
                      ((data, ferror), os''') \<Rightarrow>
                        if ferror then (Inl 4, os''') else (Inr data, os''')))))"

text \<open>The result of the second \<open>fclose\<close> is ignored.\<close>

definition write_to_file :: "string option \<Rightarrow> nat \<Rightarrow> bytes \<Rightarrow> os \<Rightarrow> nat \<times> os" where
  "write_to_file path offset source_buffer os =
    (case path of
       None \<Rightarrow> (1, os)
     | Some path \<Rightarrow>
         (case sys_fopen_update path os of
            (Inl _, os') \<Rightarrow> (2, os')
          | (Inr file, os') \<Rightarrow>
              (case sys_fseek os' of
                 (Inl _, os'') \<Rightarrow> (3, os'')
               | (Inr _, os'') \<Rightarrow>
                   (case sys_fwrite file offset source_buffer os'' of
                      ((_, Some e), os''') \<Rightarrow>
                        ((case e of EFBIG \<Rightarrow> 4 | EIO \<Rightarrow> 5 | ENOSPC \<Rightarrow> 6 | ENOMEM \<Rightarrow> 6 | _ \<Rightarrow> 7), os''')
                    | ((_, None), os''') \<Rightarrow>
                        (case sys_fclose file offset source_buffer os''' of
                           (_, os4) \<Rightarrow> (0, os4))))))"

section \<open>File types\<close>

fun content_ftype :: "content \<Rightarrow> ftype" where
  "content_ftype (Regular _) = NFREG"
| "content_ftype (Directory _) = NFDIR"
| "content_ftype (Symlink _) = NFLNK"
| "content_ftype (Block_Device _) = NFBLK"
| "content_ftype (Char_Device _) = NFCHR"
| "content_ftype Fifo = NFNON"

lemma mode_type_bits: "(type_bits c OR (p AND 0xFFF)) AND S_IFMT = type_bits c"
proof -
  have "(p AND 0xFFF) AND (0xF000 :: mode_t) = p AND (0xFFF AND 0xF000)"
    by (simp only: and.assoc)
  then have "(p AND 0xFFF) AND (0xF000 :: mode_t) = 0" by simp
  then show ?thesis by (cases c) (simp_all add: bit.conj_disj_distrib2)
qed

lemma decode_file_type_content [simp]:
  "decode_file_type (type_bits c OR (p AND 0xFFF)) = content_ftype c"
  unfolding decode_file_type_def mode_type_bits by (cases c) simp_all

lemma decode_file_type_stat [simp]:
  "decode_file_type (st_mode (stat_of os i nd)) = content_ftype (i_content nd)"
  by (simp add: stat_of_def)

end
