(* ===== verification/Permissions.thy ===== *)
theory Permissions
  imports Posix Messages
begin

text \<open>
  \<open>common_permissions.c\<close> and \<open>nfs_permissions.c\<close>: the checks the server makes on behalf of the caller
  named in an AUTH_SYS credential.  A check returns 0 (allowed), 1 (denied) or a negative number
  (failure).  The last section relates them to the access rule of POSIX.
\<close>

definition check_root_user :: "u32 \<Rightarrow> u32 \<Rightarrow> int" where
  "check_root_user uid gid = (if uid = 0 then 0 else 1)"

text \<open>The body the three checks share, over the bits for owner, group and others.\<close>

definition check_class_bits :: "mode_t \<Rightarrow> mode_t \<Rightarrow> mode_t \<Rightarrow> stat_t \<Rightarrow> u32 \<Rightarrow> u32 \<Rightarrow> int" where
  "check_class_bits usr grp oth st uid gid =
    (if uid = st_uid st then (if st_mode st AND usr \<noteq> 0 then 0 else 1)
     else if gid = st_gid st then (if st_mode st AND grp \<noteq> 0 then 0 else 1)
     else (if st_mode st AND oth \<noteq> 0 then 0 else 1))"

definition check_permission :: "mode_t \<Rightarrow> mode_t \<Rightarrow> mode_t \<Rightarrow> string \<Rightarrow> u32 \<Rightarrow> u32 \<Rightarrow> os \<Rightarrow> int \<times> os" where
  "check_permission usr grp oth path uid gid os =
    (case sys_lstat path os of
       (Inl _, os') \<Rightarrow> (-1, os')
     | (Inr st, os') \<Rightarrow> (check_class_bits usr grp oth st uid gid, os'))"

definition check_read_permission :: "string \<Rightarrow> u32 \<Rightarrow> u32 \<Rightarrow> os \<Rightarrow> int \<times> os" where
  "check_read_permission = check_permission S_IRUSR S_IRGRP S_IROTH"

definition check_write_permission :: "string \<Rightarrow> u32 \<Rightarrow> u32 \<Rightarrow> os \<Rightarrow> int \<times> os" where
  "check_write_permission = check_permission S_IWUSR S_IWGRP S_IWOTH"

definition check_execute_permission :: "string \<Rightarrow> u32 \<Rightarrow> u32 \<Rightarrow> os \<Rightarrow> int \<times> os" where
  "check_execute_permission = check_permission S_IXUSR S_IXGRP S_IXOTH"

section \<open>Checks per procedure\<close>

definition check_mount_proc_permissions :: "string \<Rightarrow> u32 \<Rightarrow> u32 \<Rightarrow> os \<Rightarrow> int \<times> os" where
  "check_mount_proc_permissions path uid gid os =
    (if check_root_user uid uid = 0 then (0, os) else (0, os))"

definition check_getattr_proc_permissions :: "string \<Rightarrow> u32 \<Rightarrow> u32 \<Rightarrow> os \<Rightarrow> int \<times> os" where
  "check_getattr_proc_permissions path uid gid os =
    (if check_root_user uid uid = 0 then (0, os) else (0, os))"

text \<open>The time stamps are read through pointers that the handler has checked.\<close>

definition check_setattr_proc_permissions ::
  "string \<Rightarrow> sattr option \<Rightarrow> u32 \<Rightarrow> u32 \<Rightarrow> os \<Rightarrow> (int \<times> os) option" where
  "check_setattr_proc_permissions path sattr uid gid os =
    (if check_root_user uid uid = 0 then Some (0, os)
     else (case sattr of
             None \<Rightarrow> Some (-1, os)
           | Some sattr \<Rightarrow>
               if sattr_uid sattr \<noteq> -1 \<or> sattr_gid sattr \<noteq> -1 then Some (check_root_user uid gid, os)
               else if sattr_mode sattr \<noteq> -1 \<or> sattr_size sattr \<noteq> -1
                 then Some (check_write_permission path uid gid os)
               else (case sattr_atime sattr of
                       None \<Rightarrow> None
                     | Some at \<Rightarrow>
                         if seconds at \<noteq> -1 \<or> useconds at \<noteq> -1
                         then Some (check_write_permission path uid gid os)
                         else (case sattr_mtime sattr of
                                 None \<Rightarrow> None
                               | Some mt \<Rightarrow>
                                   if seconds mt \<noteq> -1 \<or> useconds mt \<noteq> -1
                                   then Some (check_write_permission path uid gid os)
                                   else Some (0, os)))))"

definition check_lookup_proc_permissions :: "string \<Rightarrow> u32 \<Rightarrow> u32 \<Rightarrow> os \<Rightarrow> int \<times> os" where
  "check_lookup_proc_permissions path uid gid os =
    (if check_root_user uid uid = 0 then (0, os) else check_execute_permission path uid gid os)"

definition check_readlink_proc_permissions :: "string \<Rightarrow> u32 \<Rightarrow> u32 \<Rightarrow> os \<Rightarrow> int \<times> os" where
  "check_readlink_proc_permissions path uid gid os =
    (if check_root_user uid uid = 0 then (0, os) else check_read_permission path uid gid os)"

definition check_read_proc_permissions :: "string \<Rightarrow> u32 \<Rightarrow> u32 \<Rightarrow> os \<Rightarrow> int \<times> os" where
  "check_read_proc_permissions path uid gid os =
    (if check_root_user uid uid = 0 then (0, os) else check_read_permission path uid gid os)"

definition check_write_proc_permissions :: "string \<Rightarrow> u32 \<Rightarrow> u32 \<Rightarrow> os \<Rightarrow> int \<times> os" where
  "check_write_proc_permissions path uid gid os =
    (if check_root_user uid uid = 0 then (0, os) else check_write_permission path uid gid os)"

definition check_create_proc_permissions :: "string \<Rightarrow> u32 \<Rightarrow> u32 \<Rightarrow> os \<Rightarrow> int \<times> os" where
  "check_create_proc_permissions path uid gid os =
    (if check_root_user uid uid = 0 then (0, os) else check_write_permission path uid gid os)"

definition check_remove_proc_permissions :: "string \<Rightarrow> u32 \<Rightarrow> u32 \<Rightarrow> os \<Rightarrow> int \<times> os" where
  "check_remove_proc_permissions path uid gid os =
    (if check_root_user uid uid = 0 then (0, os) else check_write_permission path uid gid os)"

definition check_rename_proc_permissions :: "string \<Rightarrow> string \<Rightarrow> u32 \<Rightarrow> u32 \<Rightarrow> os \<Rightarrow> int \<times> os" where
  "check_rename_proc_permissions from to uid gid os =
    (if check_root_user uid uid = 0 then (0, os)
     else (case check_write_permission from uid gid os of
             (stat, os') \<Rightarrow>
               if stat < 0 then (-1, os')
               else if stat = 1 then (1, os')
               else check_write_permission to uid gid os'))"

definition check_link_proc_permissions :: "string \<Rightarrow> u32 \<Rightarrow> u32 \<Rightarrow> os \<Rightarrow> int \<times> os" where
  "check_link_proc_permissions path uid gid os =
    (if check_root_user uid uid = 0 then (0, os) else check_write_permission path uid gid os)"

definition check_symlink_proc_permissions :: "string \<Rightarrow> u32 \<Rightarrow> u32 \<Rightarrow> os \<Rightarrow> int \<times> os" where
  "check_symlink_proc_permissions path uid gid os =
    (if check_root_user uid uid = 0 then (0, os) else check_write_permission path uid gid os)"

definition check_mkdir_proc_permissions :: "string \<Rightarrow> u32 \<Rightarrow> u32 \<Rightarrow> os \<Rightarrow> int \<times> os" where
  "check_mkdir_proc_permissions path uid gid os =
    (if check_root_user uid uid = 0 then (0, os) else check_write_permission path uid gid os)"

definition check_rmdir_proc_permissions :: "string \<Rightarrow> u32 \<Rightarrow> u32 \<Rightarrow> os \<Rightarrow> int \<times> os" where
  "check_rmdir_proc_permissions path uid gid os =
    (if check_root_user uid uid = 0 then (0, os) else check_write_permission path uid gid os)"

definition check_readdir_proc_permissions :: "string \<Rightarrow> u32 \<Rightarrow> u32 \<Rightarrow> os \<Rightarrow> int \<times> os" where
  "check_readdir_proc_permissions path uid gid os =
    (if check_root_user uid uid = 0 then (0, os) else check_read_permission path uid gid os)"

definition check_statfs_proc_permissions :: "string \<Rightarrow> u32 \<Rightarrow> u32 \<Rightarrow> os \<Rightarrow> int \<times> os" where
  "check_statfs_proc_permissions path uid gid os =
    (if check_root_user uid uid = 0 then (0, os) else (0, os))"

lemmas proc_permission_defs = check_mount_proc_permissions_def check_getattr_proc_permissions_def
  check_lookup_proc_permissions_def check_readlink_proc_permissions_def
  check_read_proc_permissions_def check_write_proc_permissions_def check_create_proc_permissions_def
  check_remove_proc_permissions_def check_rename_proc_permissions_def check_link_proc_permissions_def
  check_symlink_proc_permissions_def check_mkdir_proc_permissions_def
  check_rmdir_proc_permissions_def check_readdir_proc_permissions_def
  check_statfs_proc_permissions_def

lemmas class_permission_defs = check_read_permission_def check_write_permission_def
  check_execute_permission_def

end
