(* ===== verification/Rpc_Messages.thy ===== *)
theory Rpc_Messages
  imports Messages
begin

text \<open>
  The messages of \<open>rpc.proto\<close>, the constructors of replies (\<open>server_common_rpc.c\<close>), of credentials
  (\<open>authentication.c\<close>), and the checks a client makes on a reply (\<open>client_common_rpc.c\<close>).

  Serialisation is the work of protobuf-c, which is not part of the repository: \<open>codec\<close> is the record
  of its functions that the program calls, and every definition that packs or unpacks a message takes
  it as an argument.
\<close>

section \<open>Messages\<close>

abbreviation MOUNT_RPC_PROGRAM_NUMBER :: u32 where "MOUNT_RPC_PROGRAM_NUMBER \<equiv> 10005"
abbreviation NFS_RPC_PROGRAM_NUMBER :: u32 where "NFS_RPC_PROGRAM_NUMBER \<equiv> 10003"

datatype msg_type = CALL | REPLY | MSG_TYPE_UNNAMED int
datatype reply_stat = MSG_ACCEPTED | MSG_DENIED | REPLY_STAT_UNNAMED int
datatype accept_stat = SUCCESS | PROG_UNAVAIL | PROG_MISMATCH | PROC_UNAVAIL | GARBAGE_ARGS
  | SYSTEM_ERR | ACCEPT_STAT_UNNAMED int
datatype reject_stat = RPC_MISMATCH | AUTH_ERROR | REJECT_STAT_UNNAMED int
datatype auth_stat = AUTH_OK | AUTH_BADCRED | AUTH_REJECTEDCRED | AUTH_BADVERF | AUTH_REJECTEDVERF
  | AUTH_TOOWEAK | AUTH_INVALIDRESP | AUTH_FAILED | AUTH_KERB_GENERIC | AUTH_TIMEEXPIRE
  | AUTH_TKT_FILE | AUTH_DECODE | AUTH_NET_ADDR | RPCSEC_GSS_CREDPROBLEM | RPCSEC_GSS_CTXPROBLEM
  | AUTH_STAT_UNNAMED int
datatype auth_flavor = AUTH_NONE | AUTH_SYS | AUTH_SHORT | AUTH_DH | RPCSEC_GSS
  | AUTH_FLAVOR_UNNAMED int

record any_msg =
  type_url :: "string option"
  any_value :: bytes

record auth_sys_params =
  auth_timestamp :: u64
  machinename :: "string option"
  auth_uid :: u32
  auth_gid :: u32
  auth_gids :: "u32 list option"

datatype auth_body = Auth_Body_Not_Set | Auth_Body_Empty "unit option"
  | Auth_Body_Auth_Sys "auth_sys_params option"

record opaque_auth =
  flavor :: auth_flavor
  auth_body :: auth_body

record call_body =
  rpcvers :: u32
  call_prog :: u32
  call_vers :: u32
  call_proc :: u32
  call_credential :: "opaque_auth option"
  call_verifier :: "opaque_auth option"
  call_params :: "any_msg option"

record mismatch_info =
  mismatch_low :: u32
  mismatch_high :: u32

datatype reply_data = Reply_Data_Not_Set | Reply_Results "any_msg option"
  | Reply_Mismatch_Info "mismatch_info option" | Reply_Default_Case "unit option"

record accepted_reply =
  areply_verifier :: "opaque_auth option"
  areply_stat :: accept_stat
  areply_data :: reply_data

datatype rejected_data = Rejected_Data_Not_Set | Rejected_Mismatch_Info "mismatch_info option"
  | Rejected_Auth_Stat auth_stat

record rejected_reply =
  rreply_stat :: reject_stat
  rreply_data :: rejected_data

datatype reply_case = Reply_Not_Set | Reply_Areply "accepted_reply option"
  | Reply_Rreply "rejected_reply option"

record reply_body =
  rbody_stat :: reply_stat
  rbody_reply :: reply_case

datatype rpc_body = Rpc_Body_Not_Set | Rpc_Cbody "call_body option" | Rpc_Rbody "reply_body option"

record rpc_msg =
  xid :: u32
  mtype :: msg_type
  rpc_body :: rpc_body

section \<open>The serialisation library\<close>

record codec =
  unpack_fhandle :: "bytes \<Rightarrow> fhandle option"
  unpack_sattr_args :: "bytes \<Rightarrow> sattr_args option"
  unpack_dir_op_args :: "bytes \<Rightarrow> dir_op_args option"
  unpack_read_args :: "bytes \<Rightarrow> read_args option"
  unpack_write_args :: "bytes \<Rightarrow> write_args option"
  unpack_create_args :: "bytes \<Rightarrow> create_args option"
  unpack_rename_args :: "bytes \<Rightarrow> rename_args option"
  unpack_link_args :: "bytes \<Rightarrow> link_args option"
  unpack_symlink_args :: "bytes \<Rightarrow> symlink_args option"
  unpack_readdir_args :: "bytes \<Rightarrow> readdir_args option"
  unpack_dir_path :: "bytes \<Rightarrow> path_msg option"
  unpack_rpc_msg :: "bytes \<Rightarrow> rpc_msg option"
  pack_attr_stat :: "attr_stat \<Rightarrow> bytes"
  pack_dir_op_res :: "dir_op_res \<Rightarrow> bytes"
  pack_read_link_res :: "read_link_res \<Rightarrow> bytes"
  pack_read_res :: "read_res \<Rightarrow> bytes"
  pack_nfs_stat :: "nfs_stat \<Rightarrow> bytes"
  pack_read_dir_res :: "read_dir_res \<Rightarrow> bytes"
  pack_stat_fs_res :: "stat_fs_res \<Rightarrow> bytes"
  pack_fh_status :: "fh_status \<Rightarrow> bytes"
  pack_rpc_msg :: "rpc_msg \<Rightarrow> bytes"
  entry_packed_size :: "directory_entry \<Rightarrow> nat"

section \<open>Credentials\<close>

abbreviation MAX_MACHINENAME_LEN :: nat where "MAX_MACHINENAME_LEN \<equiv> 255"
abbreviation MAX_N_GIDS :: nat where "MAX_N_GIDS \<equiv> 16"

definition create_auth_none_opaque_auth :: opaque_auth where
  "create_auth_none_opaque_auth = \<lparr>flavor = AUTH_NONE, auth_body = Auth_Body_Empty (Some ())\<rparr>"

definition create_auth_sys_opaque_auth ::
  "u64 \<Rightarrow> string \<Rightarrow> u32 \<Rightarrow> u32 \<Rightarrow> u32 list \<Rightarrow> opaque_auth" where
  "create_auth_sys_opaque_auth now machine_name uid gid gids =
    \<lparr>flavor = AUTH_SYS,
     auth_body = Auth_Body_Auth_Sys (Some
       \<lparr>auth_timestamp = now,
        machinename = Some (if length machine_name \<le> MAX_MACHINENAME_LEN then machine_name
                            else take MAX_MACHINENAME_LEN machine_name),
        auth_uid = uid, auth_gid = gid,
        auth_gids = Some (take (if length gids \<le> MAX_N_GIDS then length gids else MAX_N_GIDS) gids)\<rparr>)\<rparr>"

section \<open>Replies\<close>

definition wrap_procedure_results_in_successful_accepted_reply :: "bytes \<Rightarrow> string \<Rightarrow> accepted_reply" where
  "wrap_procedure_results_in_successful_accepted_reply results_buffer results_type =
    \<lparr>areply_verifier = Some create_auth_none_opaque_auth, areply_stat = SUCCESS,
     areply_data = Reply_Results (Some \<lparr>type_url = Some results_type, any_value = results_buffer\<rparr>)\<rparr>"

text \<open>The arguments are not used: both bounds are 2.\<close>

definition create_prog_mismatch_accepted_reply :: "u32 \<Rightarrow> u32 \<Rightarrow> accepted_reply" where
  "create_prog_mismatch_accepted_reply low high =
    \<lparr>areply_verifier = Some create_auth_none_opaque_auth, areply_stat = PROG_MISMATCH,
     areply_data = Reply_Mismatch_Info (Some \<lparr>mismatch_low = 2, mismatch_high = 2\<rparr>)\<rparr>"

definition create_default_case_accepted_reply :: "accept_stat \<Rightarrow> accepted_reply option" where
  "create_default_case_accepted_reply stat =
    (if stat = SUCCESS \<or> stat = PROG_MISMATCH then None
     else Some \<lparr>areply_verifier = Some create_auth_none_opaque_auth, areply_stat = stat,
                areply_data = Reply_Default_Case (Some ())\<rparr>)"

definition create_garbage_args_accepted_reply :: "accepted_reply option" where
  "create_garbage_args_accepted_reply = create_default_case_accepted_reply GARBAGE_ARGS"

definition create_system_error_accepted_reply :: "accepted_reply option" where
  "create_system_error_accepted_reply = create_default_case_accepted_reply SYSTEM_ERR"

definition create_rpc_mismatch_rejected_reply :: "u32 \<Rightarrow> u32 \<Rightarrow> rejected_reply" where
  "create_rpc_mismatch_rejected_reply low high =
    \<lparr>rreply_stat = RPC_MISMATCH,
     rreply_data = Rejected_Mismatch_Info (Some \<lparr>mismatch_low = low, mismatch_high = high\<rparr>)\<rparr>"

definition create_auth_error_rejected_reply :: "auth_stat \<Rightarrow> rejected_reply" where
  "create_auth_error_rejected_reply stat =
    \<lparr>rreply_stat = AUTH_ERROR, rreply_data = Rejected_Auth_Stat stat\<rparr>"

definition deserialize_rpc_msg :: "codec \<Rightarrow> bytes \<Rightarrow> rpc_msg option" where
  "deserialize_rpc_msg pb buffer = unpack_rpc_msg pb buffer"

text \<open>The counter behind \<open>generate_rpc_xid\<close> is a C \<open>int\<close> that starts at 1, read as unsigned.\<close>

definition generate_rpc_xid :: "u32 \<Rightarrow> u32 \<times> u32" where
  "generate_rpc_xid counter = (counter, counter + 1)"

section \<open>What a client accepts\<close>

definition validate_rejected :: "rejected_reply \<Rightarrow> nat option" where
  "validate_rejected r =
    (case rreply_stat r of
       RPC_MISMATCH \<Rightarrow>
         (case rreply_data r of
            Rejected_Mismatch_Info None \<Rightarrow> Some 7
          | Rejected_Mismatch_Info (Some _) \<Rightarrow> Some 0
          | _ \<Rightarrow> Some 6)
     | AUTH_ERROR \<Rightarrow> (case rreply_data r of Rejected_Auth_Stat _ \<Rightarrow> Some 0 | _ \<Rightarrow> Some 8)
     | _ \<Rightarrow> None)"

definition validate_reply_verifier :: "opaque_auth option \<Rightarrow> nat" where
  "validate_reply_verifier v =
    (case v of
       None \<Rightarrow> 10
     | Some v \<Rightarrow>
         if flavor v = AUTH_NONE then
           (case auth_body v of
              Auth_Body_Empty None \<Rightarrow> 12
            | Auth_Body_Empty (Some _) \<Rightarrow> 0
            | _ \<Rightarrow> 11)
         else 13)"

definition validate_accepted :: "accepted_reply \<Rightarrow> nat" where
  "validate_accepted a =
    (if validate_reply_verifier (areply_verifier a) > 0
     then validate_reply_verifier (areply_verifier a)
     else (case areply_stat a of
             SUCCESS \<Rightarrow>
               (case areply_data a of
                  Reply_Results None \<Rightarrow> 15 | Reply_Results (Some _) \<Rightarrow> 0 | _ \<Rightarrow> 14)
           | PROG_MISMATCH \<Rightarrow>
               (case areply_data a of
                  Reply_Mismatch_Info None \<Rightarrow> 17 | Reply_Mismatch_Info (Some _) \<Rightarrow> 0 | _ \<Rightarrow> 16)
           | _ \<Rightarrow>
               (case areply_data a of
                  Reply_Default_Case None \<Rightarrow> 19 | Reply_Default_Case (Some _) \<Rightarrow> 0 | _ \<Rightarrow> 18)))"

text \<open>\<^term>\<open>None\<close> is the dereference of a \<open>NULL\<close> accepted reply.\<close>

definition validate_rpc_reply_structure :: "rpc_msg option \<Rightarrow> nat option" where
  "validate_rpc_reply_structure rpc_reply =
    (case rpc_reply of
       None \<Rightarrow> Some 1
     | Some m \<Rightarrow>
         if mtype m \<noteq> REPLY then Some 2
         else (case rpc_body m of
                 Rpc_Rbody None \<Rightarrow> Some 3
               | Rpc_Rbody (Some reply_body) \<Rightarrow>
                   (case (if rbody_stat reply_body = MSG_DENIED
                          then (case rbody_reply reply_body of
                                  Reply_Rreply None \<Rightarrow> Some 5
                                | Reply_Rreply (Some r) \<Rightarrow> validate_rejected r
                                | _ \<Rightarrow> Some 4)
                          else None) of
                      Some code \<Rightarrow> Some code
                    | None \<Rightarrow>
                        if rbody_stat reply_body \<noteq> MSG_ACCEPTED then Some 9
                        else (case rbody_reply reply_body of
                                Reply_Areply a \<Rightarrow> map_option validate_accepted a
                              | _ \<Rightarrow> Some 9))
               | _ \<Rightarrow> Some 2))"

definition validate_successful_accepted_reply :: "rpc_msg option \<Rightarrow> nat option" where
  "validate_successful_accepted_reply rpc_reply =
    (case validate_rpc_reply_structure rpc_reply of
       None \<Rightarrow> None
     | Some code \<Rightarrow>
         if code > 0 then Some 1
         else (case rpc_reply of
                 Some m \<Rightarrow>
                   (case rpc_body m of
                      Rpc_Rbody (Some reply_body) \<Rightarrow>
                        (case rbody_reply reply_body of
                           Reply_Rreply (Some r) \<Rightarrow>
                             Some (if rreply_stat r = RPC_MISMATCH then 2 else 3)
                         | Reply_Areply (Some a) \<Rightarrow>
                             Some (if areply_stat a = SUCCESS then 0
                                   else if areply_stat a = PROG_MISMATCH then 4 else 5)
                         | _ \<Rightarrow> None)
                    | _ \<Rightarrow> None)
               | None \<Rightarrow> None))"

end
