(* ===== verification/Directory_Reading.thy ===== *)
theory Directory_Reading
  imports Posix Rpc_Messages
begin

text \<open>
  \<open>directory_reading.c\<close>: READDIR sessions, one per client and directory, and the reading of directory
  entries up to a number of bytes.  No node of the session list holds a \<open>NULL\<close> session or a session
  without client, because \<open>add_new_readdir_session\<close> refuses to make one; the branches for such nodes are
  left out.  Where a machine name is \<open>NULL\<close>, \<open>strcmp\<close> and \<open>strdup\<close> have no result (\<^term>\<open>None\<close>).

  \<open>readdir_sessions_mutex\<close> is held during \<open>read_from_directory\<close> and
  \<open>clean_up_expired_readdir_sessions\<close>, so each of the two is one atomic step on the list.
\<close>

section \<open>Sessions\<close>

abbreviation READDIR_SESSION_TIMEOUT :: int where "READDIR_SESSION_TIMEOUT \<equiv> 30"

record readdir_session =
  client_authsysparams :: auth_sys_params
  directory_absolute_path :: string
  directory_inode_number :: u64
  directory_stream :: ino_t
  stream_position :: nat
  last_readdir_rpc_timestamp :: u64

type_synonym readdir_sessions = "readdir_session list"

definition deep_copy_authsysparams :: "auth_sys_params \<Rightarrow> auth_sys_params option" where
  "deep_copy_authsysparams a =
    (case machinename a of
       None \<Rightarrow> None
     | Some name \<Rightarrow>
         Some \<lparr>auth_timestamp = auth_timestamp a, machinename = Some name, auth_uid = auth_uid a,
               auth_gid = auth_gid a,
               auth_gids = Some (case auth_gids a of None \<Rightarrow> [] | Some gids \<Rightarrow> gids)\<rparr>)"

text \<open>
  The outer option is undefined behaviour, the inner one the \<open>NULL\<close> result.
\<close>

definition create_new_readdir_session ::
  "auth_sys_params option \<Rightarrow> string \<Rightarrow> u64 \<Rightarrow> os \<Rightarrow> (readdir_session option \<times> os) option" where
  "create_new_readdir_session client path ino os =
    (case client of
       None \<Rightarrow> Some (None, os)
     | Some client \<Rightarrow>
         (case deep_copy_authsysparams client of
            None \<Rightarrow> None
          | Some copy \<Rightarrow>
              (case sys_opendir path os of
                 (Inl _, os') \<Rightarrow> Some (None, os')
               | (Inr stream, os') \<Rightarrow>
                   Some (Some \<lparr>client_authsysparams = copy, directory_absolute_path = path,
                               directory_inode_number = ino, directory_stream = stream,
                               stream_position = 0,
                               last_readdir_rpc_timestamp = tv_sec (os_clock os')\<rparr>, os'))))"

definition free_readdir_session :: "readdir_session \<Rightarrow> os \<Rightarrow> os" where
  "free_readdir_session session os = sys_closedir (directory_stream session) os"

definition add_new_readdir_session ::
  "auth_sys_params option \<Rightarrow> string \<Rightarrow> u64 \<Rightarrow> readdir_sessions \<Rightarrow> os \<Rightarrow>
    (nat \<times> readdir_sessions \<times> os) option" where
  "add_new_readdir_session client path ino sessions os =
    (case create_new_readdir_session client path ino os of
       None \<Rightarrow> None
     | Some (None, os') \<Rightarrow> Some (2, sessions, os')
     | Some (Some session, os') \<Rightarrow> Some (0, session # sessions, os'))"

text \<open>The third comparison is of the second argument's gid with itself.\<close>

definition compare_authsysparams :: "auth_sys_params option \<Rightarrow> auth_sys_params option \<Rightarrow> nat option" where
  "compare_authsysparams a1 a2 =
    (case (a1, a2) of
       (None, _) \<Rightarrow> Some 1
     | (_, None) \<Rightarrow> Some 1
     | (Some a1, Some a2) \<Rightarrow>
         (case (machinename a1, machinename a2) of
            (Some n1, Some n2) \<Rightarrow>
              Some (if n1 \<noteq> n2 then 1
                    else if auth_uid a1 \<noteq> auth_uid a2 then 1
                    else if auth_gid a2 \<noteq> auth_gid a2 then 1
                    else 0)
          | _ \<Rightarrow> None))"

text \<open>Does the session belong to the directory and the client?\<close>

definition session_matches :: "auth_sys_params \<Rightarrow> u64 \<Rightarrow> readdir_session \<Rightarrow> bool option" where
  "session_matches client ino session =
    (if directory_inode_number session = ino
     then map_option (\<lambda>r. r = 0)
            (compare_authsysparams (Some client) (Some (client_authsysparams session)))
     else Some False)"

fun find_loop :: "auth_sys_params \<Rightarrow> u64 \<Rightarrow> readdir_sessions \<Rightarrow> readdir_session option option" where
  "find_loop client ino [] = Some None"
| "find_loop client ino (session # rest) =
    (case session_matches client ino session of
       None \<Rightarrow> None
     | Some True \<Rightarrow> Some (Some session)
     | Some False \<Rightarrow> find_loop client ino rest)"

definition find_readdir_session :: "auth_sys_params option \<Rightarrow> u64 \<Rightarrow> readdir_sessions \<Rightarrow> nat option" where
  "find_readdir_session client ino sessions =
    (case client of
       None \<Rightarrow> Some 1
     | Some client \<Rightarrow>
         map_option (\<lambda>s. case s of None \<Rightarrow> 1 | Some _ \<Rightarrow> 0) (find_loop client ino sessions))"

definition get_readdir_session ::
  "auth_sys_params option \<Rightarrow> u64 \<Rightarrow> readdir_sessions \<Rightarrow> readdir_session option option" where
  "get_readdir_session client ino sessions =
    (case client of
       None \<Rightarrow> Some None
     | Some client \<Rightarrow> find_loop client ino sessions)"

fun remove_loop ::
  "auth_sys_params \<Rightarrow> u64 \<Rightarrow> readdir_sessions \<Rightarrow> os \<Rightarrow> (nat \<times> readdir_sessions \<times> os) option" where
  "remove_loop client ino [] os = Some (6, [], os)"
| "remove_loop client ino (session # rest) os =
    (case session_matches client ino session of
       None \<Rightarrow> None
     | Some True \<Rightarrow> Some (0, rest, free_readdir_session session os)
     | Some False \<Rightarrow>
         map_option (\<lambda>(r, rest', os'). (r, session # rest', os')) (remove_loop client ino rest os))"

text \<open>The head is read before the list is known to have one.\<close>

definition remove_readdir_session ::
  "auth_sys_params option \<Rightarrow> u64 \<Rightarrow> readdir_sessions \<Rightarrow> os \<Rightarrow> (nat \<times> readdir_sessions \<times> os) option" where
  "remove_readdir_session client ino sessions os =
    (case client of
       None \<Rightarrow> Some (1, sessions, os)
     | Some client \<Rightarrow>
         (case sessions of
            [] \<Rightarrow> None
          | _ # _ \<Rightarrow> remove_loop client ino sessions os))"

definition session_expired :: "u64 \<Rightarrow> readdir_session \<Rightarrow> bool" where
  "session_expired current_time session \<longleftrightarrow>
    sint current_time - sint (last_readdir_rpc_timestamp session) > READDIR_SESSION_TIMEOUT"

fun expire_loop :: "u64 \<Rightarrow> readdir_sessions \<Rightarrow> os \<Rightarrow> readdir_sessions \<times> os" where
  "expire_loop current_time [] os = ([], os)"
| "expire_loop current_time (session # rest) os =
    (if session_expired current_time session
     then expire_loop current_time rest (free_readdir_session session os)
     else (case expire_loop current_time rest os of (rest', os') \<Rightarrow> (session # rest', os')))"

definition clean_up_expired_readdir_sessions :: "readdir_sessions \<Rightarrow> os \<Rightarrow> readdir_sessions \<times> os" where
  "clean_up_expired_readdir_sessions sessions os =
    expire_loop (tv_sec (os_clock os)) sessions os"

section \<open>Reading entries\<close>

definition new_directory_entry :: "string \<times> ino_t \<Rightarrow> u64 \<Rightarrow> directory_entry" where
  "new_directory_entry dirent cookie =
    \<lparr>entry_fileid = snd dirent, entry_name = Some (Some (fst dirent)), entry_cookie = Some cookie\<rparr>"

lemma sys_readdir_SomeD:
  assumes "sys_readdir d pos os = (Inr (Some e), os')"
  shows "pos < length (stream_entries (os_inodes os) d)" and "os_inodes os' = os_inodes os"
  using assms
  by (auto simp: sys_readdir_def with_fault_def next_fault_def split: prod.splits fault.splits
      list.splits if_splits)

lemma sys_readdir_measure:
  assumes "sys_readdir d pos os = (Inr (Some e), os')"
  shows "length (stream_entries (os_inodes os') d) - Suc pos <
    length (stream_entries (os_inodes os) d) - pos"
  using sys_readdir_SomeD [OF assms] by simp

text \<open>
  The loop of \<open>read_from_directory\<close>: \<open>total_size\<close> is a 32 bit counter, the sum in the comparison has
  the 64 bits of \<open>size_t\<close>.  The result is the code of an error, or the entries and whether the end of
  the stream was reached; with it come the new position in the stream and the state.
\<close>

function read_entries ::
  "codec \<Rightarrow> ino_t \<Rightarrow> nat \<Rightarrow> nat \<Rightarrow> nat \<Rightarrow> directory_entry list \<Rightarrow> os \<Rightarrow>
    (nat + directory_entry list \<times> bool) \<times> nat \<times> os" where
  "read_entries pb d byte_count pos total_size entries os =
    (case sys_readdir d pos os of
       (Inl _, os') \<Rightarrow> (Inl 5, pos, os')
     | (Inr None, os') \<Rightarrow> (Inr (entries, True), pos, os')
     | (Inr (Some dirent), os') \<Rightarrow>
         (let posix_cookie = os_cookie os' (pos + 1);
              entry = new_directory_entry dirent posix_cookie
          in if sint posix_cookie < 0 then (Inl 6, pos + 1, os')
             else if total_size + entry_packed_size pb entry > byte_count
               then (Inr (entries, False), pos + 1, os')
             else (let total_size' = (total_size + entry_packed_size pb entry) mod 2 ^ 32
                   in if total_size' < byte_count
                      then read_entries pb d byte_count (pos + 1) total_size' (entries @ [entry]) os'
                      else (Inr (entries @ [entry], False), pos + 1, os'))))"
  by pat_completeness auto
termination
proof (relation "measure (\<lambda>(pb, d, byte_count, pos, total_size, entries, os).
    length (stream_entries (os_inodes os) d) - pos)")
qed (auto intro: sys_readdir_measure [OF sym])

definition update_session ::
  "auth_sys_params \<Rightarrow> u64 \<Rightarrow> (readdir_session \<Rightarrow> readdir_session) \<Rightarrow> readdir_sessions \<Rightarrow>
    readdir_sessions" where
  "update_session client ino f =
    update_first (\<lambda>session. session_matches client ino session = Some True) f"

text \<open>
  What happens once the session is known: position the stream, read, and close the session at the end
  of the stream.
\<close>

definition read_from_session ::
  "codec \<Rightarrow> auth_sys_params \<Rightarrow> u64 \<Rightarrow> readdir_session \<Rightarrow> u64 \<Rightarrow> nat \<Rightarrow> readdir_sessions \<Rightarrow> os \<Rightarrow>
    ((nat + directory_entry list \<times> bool) \<times> readdir_sessions \<times> os) option" where
  "read_from_session pb client ino session offset_cookie byte_count sessions os =
    (let start = (if offset_cookie = 0 then 0
                  else sys_seekdir (directory_stream session) offset_cookie os)
     in case read_entries pb (directory_stream session) byte_count start 0 [] os of
          (Inl code, pos, os') \<Rightarrow>
            Some (Inl code, update_session client ino (\<lambda>s. s\<lparr>stream_position := pos\<rparr>) sessions, os')
        | (Inr (entries, end_of_stream), pos, os') \<Rightarrow>
            (let sessions' =
                   update_session client ino
                     (\<lambda>s. s\<lparr>stream_position := pos,
                            last_readdir_rpc_timestamp := tv_sec (os_clock os')\<rparr>) sessions
             in if end_of_stream
                then (case remove_readdir_session (Some client) ino sessions' os' of
                        None \<Rightarrow> None
                      | Some (code, sessions'', os'') \<Rightarrow>
                          Some (if code > 0 then Inl 7 else Inr (entries, True), sessions'', os''))
                else Some (Inr (entries, False), sessions', os')))"

definition read_from_directory ::
  "codec \<Rightarrow> auth_sys_params option \<Rightarrow> string \<Rightarrow> u64 \<Rightarrow> u64 \<Rightarrow> nat \<Rightarrow> readdir_sessions \<Rightarrow> os \<Rightarrow>
    ((nat + directory_entry list \<times> bool) \<times> readdir_sessions \<times> os) option" where
  "read_from_directory pb client path ino offset_cookie byte_count sessions os =
    (case client of
       None \<Rightarrow> Some (Inl 2, sessions, os)
     | Some client \<Rightarrow>
         (case find_readdir_session (Some client) ino sessions of
            None \<Rightarrow> None
          | Some found \<Rightarrow>
              (case (if found \<noteq> 0 then add_new_readdir_session (Some client) path ino sessions os
                     else Some (0, sessions, os)) of
                 None \<Rightarrow> None
               | Some (code, sessions', os') \<Rightarrow>
                   if code > 0 then Some (Inl 3, sessions', os')
                   else (case get_readdir_session (Some client) ino sessions' of
                           None \<Rightarrow> None
                         | Some None \<Rightarrow> Some (Inl 4, sessions', os')
                         | Some (Some session) \<Rightarrow>
                             read_from_session pb client ino session offset_cookie byte_count
                               sessions' os'))))"

declare read_entries.simps [simp del]

end
