(* ===== verification/Server_State.thy ===== *)
theory Server_State
  imports File_Management Permissions Directory_Reading
begin

text \<open>
  The state of the server process (\<open>server.c\<close>: the globals \<open>mount_list\<close>, \<open>inode_cache\<close> and
  \<open>readdir_sessions_list\<close>, with the operating system below them) and the steps that the procedure
  handlers share.  The sources repeat these steps in every handler; here each is one definition that
  takes what differs (the constructor of the error reply, the permission check) as an argument.

  A handler is a \<open>cprog\<close> that returns a pointer to an accepted reply.  It runs as one atomic step: no
  other thread of the server interleaves with it.
\<close>

section \<open>The state\<close>

record server =
  inode_cache :: inode_cache
  mount_list :: "(string \<times> string) list"
  readdir_sessions_list :: readdir_sessions
  server_os :: os

type_synonym 'a handler = "(server, accepted_reply option, 'a) cprog"

definition on_os :: "(os \<Rightarrow> 'a \<times> os) \<Rightarrow> (server, 'r, 'a) cprog" where
  "on_os f = (\<lambda>s. case f (server_os s) of (a, os') \<Rightarrow> (Go a, s\<lparr>server_os := os'\<rparr>))"

definition set_cache :: "inode_cache \<Rightarrow> (server, 'r, unit) cprog" where
  "set_cache cache = cmodify (inode_cache_update (\<lambda>_. cache))"

definition set_sessions :: "readdir_sessions \<Rightarrow> os \<Rightarrow> (server, 'r, unit) cprog" where
  "set_sessions sessions os = cmodify (\<lambda>s. s\<lparr>readdir_sessions_list := sessions, server_os := os\<rparr>)"

section \<open>Replies\<close>

definition garbage_args :: "'a handler" where
  "garbage_args = creturn create_garbage_args_accepted_reply"

definition system_error :: "'a handler" where
  "system_error = creturn create_system_error_accepted_reply"

text \<open>
  \<open>reply\<close> packs a message and wraps it; \<open>reply_ptr\<close> is what happens to a message that a constructor
  returned through a pointer, which has no result for \<open>NULL\<close>.
\<close>

definition reply :: "('m \<Rightarrow> bytes) \<Rightarrow> string \<Rightarrow> 'm \<Rightarrow> 'a handler" where
  "reply pack url m = creturn (Some (wrap_procedure_results_in_successful_accepted_reply (pack m) url))"

definition reply_ptr :: "('m \<Rightarrow> bytes) \<Rightarrow> string \<Rightarrow> 'm option \<Rightarrow> 'a handler" where
  "reply_ptr pack url m = (case m of None \<Rightarrow> cub | Some m \<Rightarrow> reply pack url m)"

definition fail_attr_stat :: "codec \<Rightarrow> nfs_stat \<Rightarrow> 'a handler" where
  "fail_attr_stat pb s = reply_ptr (pack_attr_stat pb) ''nfs/AttrStat'' (create_default_case_attr_stat s)"

definition fail_dir_op_res :: "codec \<Rightarrow> nfs_stat \<Rightarrow> 'a handler" where
  "fail_dir_op_res pb s = reply_ptr (pack_dir_op_res pb) ''nfs/DirOpRes'' (create_default_case_dir_op_res s)"

definition fail_read_link_res :: "codec \<Rightarrow> nfs_stat \<Rightarrow> 'a handler" where
  "fail_read_link_res pb s =
    reply_ptr (pack_read_link_res pb) ''nfs/ReadLinkRes'' (create_default_case_read_link_res s)"

definition fail_read_res :: "codec \<Rightarrow> nfs_stat \<Rightarrow> 'a handler" where
  "fail_read_res pb s = reply_ptr (pack_read_res pb) ''nfs/ReadRes'' (create_default_case_read_res s)"

definition fail_read_dir_res :: "codec \<Rightarrow> nfs_stat \<Rightarrow> 'a handler" where
  "fail_read_dir_res pb s =
    reply_ptr (pack_read_dir_res pb) ''nfs/ReadDirRes'' (create_default_case_read_dir_res s)"

definition fail_stat_fs_res :: "codec \<Rightarrow> nfs_stat \<Rightarrow> 'a handler" where
  "fail_stat_fs_res pb s =
    reply_ptr (pack_stat_fs_res pb) ''nfs/StatFsRes'' (create_default_case_stat_fs_res s)"

definition reply_nfs_stat :: "codec \<Rightarrow> nfs_stat \<Rightarrow> 'a handler" where
  "reply_nfs_stat pb s = reply_ptr (pack_nfs_stat pb) ''nfs/NfsStat'' (create_nfs_stat s)"

section \<open>Steps the handlers share\<close>

text \<open>Check the type of the parameters and unpack them.\<close>

definition decode_params :: "string \<Rightarrow> (bytes \<Rightarrow> 'm option) \<Rightarrow> any_msg option \<Rightarrow> 'm handler" where
  "decode_params url unpack parameters =
    cbind (cderef parameters) (\<lambda>p.
    cbind (cguard (type_url p = Some url) create_garbage_args_accepted_reply) (\<lambda>_.
    csome (unpack (any_value p)) create_garbage_args_accepted_reply))"

definition not_null :: "'b option \<Rightarrow> 'b handler" where
  "not_null p = csome p create_garbage_args_accepted_reply"

text \<open>The inode number in a file handle, and the file handle and name in \<open>DirOpArgs\<close>.\<close>

definition decode_fhandle :: "fhandle option \<Rightarrow> u64 handler" where
  "decode_fhandle fh =
    cbind (not_null fh) (\<lambda>fh.
    cbind (not_null (fhandle_nfs_filehandle fh)) (\<lambda>nfh. cgo (inode_number nfh)))"

definition decode_dir_op :: "dir_op_args option \<Rightarrow> (u64 \<times> string) handler" where
  "decode_dir_op args =
    cbind (not_null args) (\<lambda>args.
    cbind (decode_fhandle (dirop_dir args)) (\<lambda>ino.
    cbind (not_null (dirop_name args)) (\<lambda>name.
    cbind (not_null name) (\<lambda>filename. cgo (ino, filename)))))"

definition decode_sattr :: "sattr option \<Rightarrow> (sattr \<times> timeval \<times> timeval) handler" where
  "decode_sattr sattr =
    cbind (not_null sattr) (\<lambda>sattr.
    cbind (not_null (sattr_atime sattr)) (\<lambda>atime.
    cbind (not_null (sattr_mtime sattr)) (\<lambda>mtime. cgo (sattr, atime, mtime))))"

definition path_of_inode :: "(nfs_stat \<Rightarrow> string handler) \<Rightarrow> u64 \<Rightarrow> string handler" where
  "path_of_inode fail ino =
    cbind (cget (\<lambda>s. get_absolute_path_from_inode_number ino (inode_cache s))) (\<lambda>path.
    case path of None \<Rightarrow> fail NFSERR_NOENT | Some path \<Rightarrow> cgo path)"

definition attributes_of :: "string \<Rightarrow> fattr handler" where
  "attributes_of path =
    cbind (on_os (get_attributes path)) (\<lambda>r.
    case r of Inl error_code \<Rightarrow> system_error | Inr fattr \<Rightarrow> cgo fattr)"

definition type_of :: "string \<Rightarrow> ftype handler" where
  "type_of path = cbind (attributes_of path) (\<lambda>fattr. cderef (fattr_nfs_ftype fattr))"

text \<open>Decode a directory handle to its path and check that it is a directory.\<close>

definition directory_path :: "(nfs_stat \<Rightarrow> string handler) \<Rightarrow> u64 \<Rightarrow> string handler" where
  "directory_path fail ino =
    cbind (path_of_inode fail ino) (\<lambda>path.
    cbind (type_of path) (\<lambda>ftype. if ftype \<noteq> NFDIR then fail NFSERR_NOTDIR else cgo path))"

text \<open>The check before an operation that makes a new name: the name must be short and not in use.\<close>

definition fresh_path :: "(nfs_stat \<Rightarrow> string handler) \<Rightarrow> string \<Rightarrow> string \<Rightarrow> string handler" where
  "fresh_path fail directory filename =
    (if length filename > 255 then fail NFSERR_NAMETOOLONG
     else
       (let path = get_file_absolute_path directory filename in
        cbind (on_os (sys_lstat path)) (\<lambda>r.
        case r of
          Inr _ \<Rightarrow> fail NFSERR_EXIST
        | Inl errno \<Rightarrow> if errno \<noteq> ENOENT then system_error else cgo path)))"

text \<open>The check before an operation on a name that must exist.\<close>

definition existing_path :: "(nfs_stat \<Rightarrow> (string \<times> stat_t) handler) \<Rightarrow> string \<Rightarrow> string \<Rightarrow>
    (string \<times> stat_t) handler" where
  "existing_path fail directory filename =
    (let path = get_file_absolute_path directory filename in
     cbind (on_os (sys_lstat path)) (\<lambda>r.
     case r of
       Inr st \<Rightarrow> cgo (path, st)
     | Inl errno \<Rightarrow> if errno = ENOENT then fail NFSERR_NOENT else system_error))"

text \<open>The AUTH_SYS member of the union in a credential.\<close>

definition auth_sys_of :: "opaque_auth \<Rightarrow> (server, 'r, auth_sys_params) cprog" where
  "auth_sys_of cred = (case auth_body cred of Auth_Body_Auth_Sys (Some a) \<Rightarrow> cgo a | _ \<Rightarrow> cub)"

definition permission_gate :: "(nfs_stat \<Rightarrow> unit handler) \<Rightarrow> opaque_auth option \<Rightarrow>
    (auth_sys_params \<Rightarrow> (server, accepted_reply option, int) cprog) \<Rightarrow> unit handler" where
  "permission_gate fail credential check =
    cbind (cderef credential) (\<lambda>cred.
    if flavor cred = AUTH_SYS then
      cbind (auth_sys_of cred) (\<lambda>auth_sys.
      cbind (check auth_sys) (\<lambda>stat.
      if stat < 0 then system_error
      else if stat = 1 then fail NFSERR_ACCES
      else cgo ()))
    else cgo ())"

text \<open>A check of one path with the uid and gid of the caller.\<close>

definition check_path :: "(string \<Rightarrow> u32 \<Rightarrow> u32 \<Rightarrow> os \<Rightarrow> int \<times> os) \<Rightarrow> string \<Rightarrow> auth_sys_params \<Rightarrow>
    (server, 'r, int) cprog" where
  "check_path check path auth_sys = on_os (check path (auth_uid auth_sys) (auth_gid auth_sys))"

text \<open>A system call whose failure is answered by the status that \<open>status\<close> gives, if any.\<close>

definition syscall :: "(nfs_stat \<Rightarrow> 'a handler) \<Rightarrow> (errno \<Rightarrow> nfs_stat option) \<Rightarrow>
    (os \<Rightarrow> (errno + 'a) \<times> os) \<Rightarrow> 'a handler" where
  "syscall fail status f =
    cbind (on_os f) (\<lambda>r.
    case r of
      Inr a \<Rightarrow> cgo a
    | Inl errno \<Rightarrow> (case status errno of Some stat \<Rightarrow> fail stat | None \<Rightarrow> system_error))"

text \<open>Create a file handle and put it into the cache; \<^term>\<open>None\<close> when the file cannot be examined.\<close>

definition make_filehandle :: "string \<Rightarrow> (server, 'r, nfs_filehandle option) cprog" where
  "make_filehandle path =
    (\<lambda>s. case create_nfs_filehandle path (inode_cache s, server_os s) of
           (fh, cache, os) \<Rightarrow> (Go fh, s\<lparr>inode_cache := cache, server_os := os\<rparr>))"

text \<open>Results of the cache functions that read through the head of an empty list.\<close>

definition uncache_inode :: "u64 \<Rightarrow> (server, 'r, nat) cprog" where
  "uncache_inode ino =
    cbind (cget inode_cache) (\<lambda>cache.
    cbind (cderef (remove_inode_mapping_by_inode_number ino cache)) (\<lambda>(code, cache').
    cbind (set_cache cache') (\<lambda>_. cgo code)))"

definition uncache_path :: "string \<Rightarrow> (server, 'r, nat) cprog" where
  "uncache_path path =
    cbind (cget inode_cache) (\<lambda>cache.
    cbind (cderef (remove_inode_mapping_by_absolute_path path cache)) (\<lambda>(code, cache').
    cbind (set_cache cache') (\<lambda>_. cgo code)))"

definition recache_path :: "string \<Rightarrow> string \<Rightarrow> (server, 'r, nat) cprog" where
  "recache_path path new =
    cbind (cget inode_cache) (\<lambda>cache.
    case update_inode_mapping_absolute_path_by_absolute_path path new cache of
      (code, cache') \<Rightarrow> cbind (set_cache cache') (\<lambda>_. cgo code))"

definition reply_dir_op_ok :: "codec \<Rightarrow> nfs_filehandle \<Rightarrow> fattr \<Rightarrow> 'a handler" where
  "reply_dir_op_ok pb fh fattr =
    reply (pack_dir_op_res pb) ''nfs/DirOpRes''
      (ok_result \<lparr>diropok_file = Some \<lparr>fhandle_nfs_filehandle = Some fh\<rparr>,
                  diropok_attributes = Some fattr\<rparr>)"

text \<open>The end of CREATE and MKDIR: a handle, the attributes, the reply.\<close>

definition reply_new_file :: "codec \<Rightarrow> string \<Rightarrow> unit handler" where
  "reply_new_file pb path =
    cbind (make_filehandle path) (\<lambda>fh.
    case fh of
      None \<Rightarrow> system_error
    | Some fh \<Rightarrow>
        cbind (on_os (get_attributes path)) (\<lambda>r.
        case r of
          Inl error_code \<Rightarrow> cbind (uncache_inode (inode_number fh)) (\<lambda>_. system_error)
        | Inr fattr \<Rightarrow> reply_dir_op_ok pb fh fattr))"

text \<open>Set both time stamps unless one of the four numbers is -1.\<close>

definition set_times :: "string \<Rightarrow> timeval \<Rightarrow> timeval \<Rightarrow> unit handler" where
  "set_times path atime mtime =
    (if seconds atime \<noteq> -1 \<and> useconds atime \<noteq> -1 \<and> seconds mtime \<noteq> -1 \<and> useconds mtime \<noteq> -1
     then syscall (\<lambda>_. system_error) (\<lambda>_. None)
            (sys_utimes path (seconds atime, useconds atime) (seconds mtime, useconds mtime))
     else cgo ())"

end
