(* ===== verification/Proc_Files.thy ===== *)
theory Proc_Files
  imports Server_State
begin

text \<open>
  The procedures on one file handle: NULL (0), GETATTR (1), SETATTR (2), READLINK (5), READ (6),
  WRITE (8) and STATFS (17), from \<open>src/nfs/server/procedures\<close>.
\<close>

abbreviation NFS_MAXDATA :: nat where "NFS_MAXDATA \<equiv> 8192"
abbreviation NFS_MAXPATHLEN :: nat where "NFS_MAXPATHLEN \<equiv> 1024"

definition serve_nfs_procedure_0_do_nothing ::
  "opaque_auth option \<Rightarrow> opaque_auth option \<Rightarrow> any_msg option \<Rightarrow> unit handler" where
  "serve_nfs_procedure_0_do_nothing credential verifier parameters =
    reply (\<lambda>_. []) ''nfs/None'' ()"

definition serve_nfs_procedure_1_get_file_attributes ::
  "codec \<Rightarrow> opaque_auth option \<Rightarrow> opaque_auth option \<Rightarrow> any_msg option \<Rightarrow> unit handler" where
  "serve_nfs_procedure_1_get_file_attributes pb credential verifier parameters =
    cbind (decode_params ''nfs/FHandle'' (unpack_fhandle pb) parameters) (\<lambda>fhandle.
    cbind (decode_fhandle (Some fhandle)) (\<lambda>ino.
    cbind (path_of_inode (fail_attr_stat pb) ino) (\<lambda>path.
    cbind (permission_gate (fail_attr_stat pb) credential
             (check_path check_getattr_proc_permissions path)) (\<lambda>_.
    cbind (attributes_of path) (\<lambda>fattr.
    reply (pack_attr_stat pb) ''nfs/AttrStat'' (ok_result fattr))))))"

text \<open>The four updates of SETATTR; a failure leaves the earlier ones in place.\<close>

definition update_attributes :: "string \<Rightarrow> sattr \<Rightarrow> timeval \<Rightarrow> timeval \<Rightarrow> unit handler" where
  "update_attributes path sattr atime mtime =
    cbind (if sattr_mode sattr \<noteq> -1
           then syscall (\<lambda>_. system_error) (\<lambda>_. None) (sys_chmod path (sattr_mode sattr))
           else cgo ()) (\<lambda>_.
    cbind (syscall (\<lambda>_. system_error) (\<lambda>_. None) (sys_chown path (sattr_uid sattr) (sattr_gid sattr))) (\<lambda>_.
    cbind (if sattr_size sattr \<noteq> -1
           then syscall (\<lambda>_. system_error) (\<lambda>_. None) (sys_truncate path (sattr_size sattr))
           else cgo ()) (\<lambda>_.
    set_times path atime mtime)))"

text \<open>The permission check of SETATTR reads through pointers inside \<open>SAttr\<close>.\<close>

definition check_setattr :: "string \<Rightarrow> sattr \<Rightarrow> auth_sys_params \<Rightarrow> (server, 'r, int) cprog" where
  "check_setattr path sattr auth_sys =
    (\<lambda>s. case check_setattr_proc_permissions path (Some sattr) (auth_uid auth_sys) (auth_gid auth_sys)
               (server_os s) of
           None \<Rightarrow> (UB, s)
         | Some (stat, os') \<Rightarrow> (Go stat, s\<lparr>server_os := os'\<rparr>))"

definition serve_nfs_procedure_2_set_file_attributes ::
  "codec \<Rightarrow> opaque_auth option \<Rightarrow> opaque_auth option \<Rightarrow> any_msg option \<Rightarrow> unit handler" where
  "serve_nfs_procedure_2_set_file_attributes pb credential verifier parameters =
    cbind (decode_params ''nfs/SAttrArgs'' (unpack_sattr_args pb) parameters) (\<lambda>args.
    cbind (decode_fhandle (sattrargs_file args)) (\<lambda>ino.
    cbind (decode_sattr (sattrargs_attributes args)) (\<lambda>(sattr, atime, mtime).
    cbind (path_of_inode (fail_attr_stat pb) ino) (\<lambda>path.
    cbind (permission_gate (fail_attr_stat pb) credential (check_setattr path sattr)) (\<lambda>_.
    cbind (update_attributes path sattr atime mtime) (\<lambda>_.
    cbind (attributes_of path) (\<lambda>fattr.
    reply (pack_attr_stat pb) ''nfs/AttrStat'' (ok_result fattr))))))))"

definition eio_status :: "errno \<Rightarrow> nfs_stat option" where
  "eio_status e = (if e = EIO then Some NFSERR_IO else None)"

definition serve_nfs_procedure_5_read_from_symbolic_link ::
  "codec \<Rightarrow> opaque_auth option \<Rightarrow> opaque_auth option \<Rightarrow> any_msg option \<Rightarrow> unit handler" where
  "serve_nfs_procedure_5_read_from_symbolic_link pb credential verifier parameters =
    cbind (decode_params ''nfs/FHandle'' (unpack_fhandle pb) parameters) (\<lambda>fhandle.
    cbind (decode_fhandle (Some fhandle)) (\<lambda>ino.
    cbind (path_of_inode (fail_read_link_res pb) ino) (\<lambda>path.
    cbind (type_of path) (\<lambda>ftype.
    if ftype \<noteq> NFLNK then fail_read_link_res pb NFSERR_STALE
    else
      cbind (permission_gate (fail_read_link_res pb) credential
               (check_path check_readlink_proc_permissions path)) (\<lambda>_.
      cbind (syscall (fail_read_link_res pb) eio_status (sys_readlink path NFS_MAXPATHLEN)) (\<lambda>target_path.
      reply (pack_read_link_res pb) ''nfs/ReadLinkRes'' (ok_result (Some target_path))))))))"

definition serve_nfs_procedure_6_read_from_file ::
  "codec \<Rightarrow> opaque_auth option \<Rightarrow> opaque_auth option \<Rightarrow> any_msg option \<Rightarrow> unit handler" where
  "serve_nfs_procedure_6_read_from_file pb credential verifier parameters =
    cbind (decode_params ''nfs/ReadArgs'' (unpack_read_args pb) parameters) (\<lambda>args.
    cbind (decode_fhandle (readargs_file args)) (\<lambda>ino.
    cbind (path_of_inode (fail_read_res pb) ino) (\<lambda>path.
    cbind (type_of path) (\<lambda>ftype.
    if ftype = NFDIR then fail_read_res pb NFSERR_ISDIR
    else
      cbind (permission_gate (fail_read_res pb) credential
               (check_path check_read_proc_permissions path)) (\<lambda>_.
      (let count = (if unat (readargs_count args) > NFS_MAXDATA then NFS_MAXDATA
                    else unat (readargs_count args)) in
      cbind (on_os (read_from_file (Some path) (unat (readargs_offset args)) count)) (\<lambda>r.
      case r of
        Inl error_code \<Rightarrow> system_error
      | Inr data \<Rightarrow>
          cbind (attributes_of path) (\<lambda>fattr.
          reply (pack_read_res pb) ''nfs/ReadRes''
            (ok_result \<lparr>readres_attributes = Some fattr, readres_nfsdata = Data data\<rparr>)))))))))"

definition write_data :: "codec \<Rightarrow> string \<Rightarrow> nat \<Rightarrow> bytes \<Rightarrow> unit handler" where
  "write_data pb path offset data =
    cbind (on_os (write_to_file (Some path) offset data)) (\<lambda>error_code.
    if error_code = 4 then fail_attr_stat pb NFSERR_FBIG
    else if error_code = 5 then fail_attr_stat pb NFSERR_IO
    else if error_code = 6 then fail_attr_stat pb NFSERR_NOSPC
    else if error_code > 0 then system_error
    else cgo ())"

definition serve_nfs_procedure_8_write_to_file ::
  "codec \<Rightarrow> opaque_auth option \<Rightarrow> opaque_auth option \<Rightarrow> any_msg option \<Rightarrow> unit handler" where
  "serve_nfs_procedure_8_write_to_file pb credential verifier parameters =
    cbind (decode_params ''nfs/WriteArgs'' (unpack_write_args pb) parameters) (\<lambda>args.
    cbind (decode_fhandle (writeargs_file args)) (\<lambda>ino.
    case writeargs_nfsdata args of
      Null_Data len \<Rightarrow> garbage_args
    | Data data \<Rightarrow>
        cbind (path_of_inode (fail_attr_stat pb) ino) (\<lambda>path.
        cbind (type_of path) (\<lambda>ftype.
        if ftype = NFDIR then fail_attr_stat pb NFSERR_ISDIR
        else if length data > NFS_MAXDATA then fail_attr_stat pb NFSERR_FBIG
        else
          cbind (permission_gate (fail_attr_stat pb) credential
                   (check_path check_write_proc_permissions path)) (\<lambda>_.
          cbind (write_data pb path (unat (writeargs_offset args)) data) (\<lambda>_.
          cbind (attributes_of path) (\<lambda>fattr.
          reply (pack_attr_stat pb) ''nfs/AttrStat'' (ok_result fattr))))))))"

definition serve_nfs_procedure_17_get_filesystem_attributes ::
  "codec \<Rightarrow> opaque_auth option \<Rightarrow> opaque_auth option \<Rightarrow> any_msg option \<Rightarrow> unit handler" where
  "serve_nfs_procedure_17_get_filesystem_attributes pb credential verifier parameters =
    cbind (decode_params ''nfs/FHandle'' (unpack_fhandle pb) parameters) (\<lambda>fhandle.
    cbind (decode_fhandle (Some fhandle)) (\<lambda>ino.
    cbind (path_of_inode (fail_stat_fs_res pb) ino) (\<lambda>path.
    cbind (permission_gate (fail_stat_fs_res pb) credential
             (check_path check_statfs_proc_permissions path)) (\<lambda>_.
    cbind (syscall (fail_stat_fs_res pb) eio_status (sys_statvfs path)) (\<lambda>fs_stat.
    reply (pack_stat_fs_res pb) ''nfs/StatFsRes''
      (ok_result \<lparr>fsinfo_tsize = ucast (f_bsize fs_stat), fsinfo_bsize = f_frsize fs_stat,
                  fsinfo_blocks = f_blocks fs_stat, fsinfo_bfree = f_bfree fs_stat,
                  fsinfo_bavail = f_bavail fs_stat\<rparr>))))))"

end
