(* ===== verification/Proc_Directories.thy ===== *)
theory Proc_Directories
  imports Server_State
begin

text \<open>
  The procedures on a directory: LOOKUP (4), CREATE (9), REMOVE (10), RENAME (11), LINK (12),
  SYMLINK (13), MKDIR (14), RMDIR (15) and READDIR (16), from \<open>src/nfs/server/procedures\<close>.
\<close>

section \<open>LOOKUP\<close>

text \<open>The handle comes from the cache if the cache has one for the inode.\<close>

definition lookup_filehandle :: "string \<Rightarrow> u64 \<Rightarrow> nfs_filehandle handler" where
  "lookup_filehandle path ino =
    cbind (cget (\<lambda>s. get_nfs_filehandle_from_inode_number ino (inode_cache s))) (\<lambda>cached.
    case cached of
      Some fh \<Rightarrow> cgo fh
    | None \<Rightarrow>
        cbind (make_filehandle path) (\<lambda>fh.
        case fh of None \<Rightarrow> system_error | Some fh \<Rightarrow> cgo fh))"

definition serve_nfs_procedure_4_look_up_file_name ::
  "codec \<Rightarrow> opaque_auth option \<Rightarrow> opaque_auth option \<Rightarrow> any_msg option \<Rightarrow> unit handler" where
  "serve_nfs_procedure_4_look_up_file_name pb credential verifier parameters =
    cbind (decode_params ''nfs/DirOpArgs'' (unpack_dir_op_args pb) parameters) (\<lambda>args.
    cbind (decode_dir_op (Some args)) (\<lambda>(ino, filename).
    cbind (directory_path (fail_dir_op_res pb) ino) (\<lambda>directory.
    cbind (existing_path (fail_dir_op_res pb) directory filename) (\<lambda>(path, file_stat).
    cbind (permission_gate (fail_dir_op_res pb) credential
             (check_path check_lookup_proc_permissions directory)) (\<lambda>_.
    cbind (lookup_filehandle path (st_ino file_stat)) (\<lambda>fh.
    cbind (on_os (get_attributes path)) (\<lambda>r.
    case r of
      Inl error_code \<Rightarrow> cbind (uncache_inode (inode_number fh)) (\<lambda>_. system_error)
    | Inr fattr \<Rightarrow> reply_dir_op_ok pb fh fattr)))))))"

section \<open>CREATE and MKDIR\<close>

fun create_status :: "errno \<Rightarrow> nfs_stat option" where
  "create_status EIO = Some NFSERR_IO"
| "create_status ENAMETOOLONG = Some NFSERR_NAMETOOLONG"
| "create_status ENOSPC = Some NFSERR_NOSPC"
| "create_status ENXIO = Some NFSERR_NXIO"
| "create_status _ = None"

definition decode_create_args ::
  "codec \<Rightarrow> any_msg option \<Rightarrow> (u64 \<times> string \<times> sattr \<times> timeval \<times> timeval) handler" where
  "decode_create_args pb parameters =
    cbind (decode_params ''nfs/CreateArgs'' (unpack_create_args pb) parameters) (\<lambda>args.
    cbind (decode_dir_op (createargs_where args)) (\<lambda>(ino, filename).
    cbind (decode_sattr (createargs_attributes args)) (\<lambda>(sattr, atime, mtime).
    cgo (ino, filename, sattr, atime, mtime))))"

text \<open>Make the file and initialise its attributes; a failure leaves the file in place.\<close>

definition create_file :: "codec \<Rightarrow> string \<Rightarrow> sattr \<Rightarrow> timeval \<Rightarrow> timeval \<Rightarrow> unit handler" where
  "create_file pb path sattr atime mtime =
    cbind (syscall (fail_dir_op_res pb) create_status
             (sys_open_creat path (if sattr_mode sattr \<noteq> -1 then Some (sattr_mode sattr) else None))) (\<lambda>_.
    cbind (syscall (\<lambda>_. system_error) (\<lambda>_. None) (sys_chown path (sattr_uid sattr) (sattr_gid sattr))) (\<lambda>_.
    cbind (if sattr_size sattr \<noteq> -1
           then syscall (\<lambda>_. system_error) (\<lambda>_. None) (sys_truncate path (sattr_size sattr))
           else cgo ()) (\<lambda>_.
    set_times path atime mtime)))"

definition serve_nfs_procedure_9_create_file ::
  "codec \<Rightarrow> opaque_auth option \<Rightarrow> opaque_auth option \<Rightarrow> any_msg option \<Rightarrow> unit handler" where
  "serve_nfs_procedure_9_create_file pb credential verifier parameters =
    cbind (decode_create_args pb parameters) (\<lambda>(ino, filename, sattr, atime, mtime).
    cbind (directory_path (fail_dir_op_res pb) ino) (\<lambda>directory.
    cbind (fresh_path (fail_dir_op_res pb) directory filename) (\<lambda>path.
    cbind (permission_gate (fail_dir_op_res pb) credential
             (check_path check_create_proc_permissions directory)) (\<lambda>_.
    cbind (create_file pb path sattr atime mtime) (\<lambda>_.
    reply_new_file pb path)))))"

fun mkdir_status :: "errno \<Rightarrow> nfs_stat option" where
  "mkdir_status EDQUOT = Some NFSERR_DQUOT"
| "mkdir_status ENAMETOOLONG = Some NFSERR_NAMETOOLONG"
| "mkdir_status ENOSPC = Some NFSERR_NOSPC"
| "mkdir_status EROFS = Some NFSERR_ROFS"
| "mkdir_status _ = None"

text \<open>A size in the attributes is refused only after the directory has been made.\<close>

definition create_directory :: "codec \<Rightarrow> string \<Rightarrow> sattr \<Rightarrow> timeval \<Rightarrow> timeval \<Rightarrow> unit handler" where
  "create_directory pb path sattr atime mtime =
    cbind (syscall (fail_dir_op_res pb) mkdir_status
             (sys_mkdir path (if sattr_mode sattr \<noteq> -1 then sattr_mode sattr else 0x1C0))) (\<lambda>_.
    cbind (syscall (\<lambda>_. system_error) (\<lambda>_. None) (sys_chown path (sattr_uid sattr) (sattr_gid sattr))) (\<lambda>_.
    if sattr_size sattr \<noteq> -1 then fail_dir_op_res pb NFSERR_ISDIR
    else set_times path atime mtime))"

definition serve_nfs_procedure_14_create_directory ::
  "codec \<Rightarrow> opaque_auth option \<Rightarrow> opaque_auth option \<Rightarrow> any_msg option \<Rightarrow> unit handler" where
  "serve_nfs_procedure_14_create_directory pb credential verifier parameters =
    cbind (decode_create_args pb parameters) (\<lambda>(ino, filename, sattr, atime, mtime).
    cbind (directory_path (fail_dir_op_res pb) ino) (\<lambda>directory.
    cbind (fresh_path (fail_dir_op_res pb) directory filename) (\<lambda>path.
    cbind (permission_gate (fail_dir_op_res pb) credential
             (check_path check_mkdir_proc_permissions directory)) (\<lambda>_.
    cbind (create_directory pb path sattr atime mtime) (\<lambda>_.
    reply_new_file pb path)))))"

section \<open>SYMLINK and LINK\<close>

fun symlink_status :: "errno \<Rightarrow> nfs_stat option" where
  "symlink_status EIO = Some NFSERR_IO"
| "symlink_status ENAMETOOLONG = Some NFSERR_NAMETOOLONG"
| "symlink_status ENOENT = Some NFSERR_NOENT"
| "symlink_status ENOSPC = Some NFSERR_NOSPC"
| "symlink_status EROFS = Some NFSERR_ROFS"
| "symlink_status _ = None"

definition serve_nfs_procedure_13_create_symbolic_link ::
  "codec \<Rightarrow> opaque_auth option \<Rightarrow> opaque_auth option \<Rightarrow> any_msg option \<Rightarrow> unit handler" where
  "serve_nfs_procedure_13_create_symbolic_link pb credential verifier parameters =
    cbind (decode_params ''nfs/SymLinkArgs'' (unpack_symlink_args pb) parameters) (\<lambda>args.
    cbind (decode_dir_op (symlinkargs_from args)) (\<lambda>(ino, filename).
    cbind (not_null (symlinkargs_to args)) (\<lambda>to.
    cbind (not_null to) (\<lambda>target.
    cbind (decode_sattr (symlinkargs_attributes args)) (\<lambda>_.
    cbind (directory_path (reply_nfs_stat pb) ino) (\<lambda>directory.
    cbind (fresh_path (reply_nfs_stat pb) directory filename) (\<lambda>path.
    cbind (permission_gate (reply_nfs_stat pb) credential
             (check_path check_symlink_proc_permissions directory)) (\<lambda>_.
    cbind (syscall (reply_nfs_stat pb) symlink_status (sys_symlink target path)) (\<lambda>_.
    reply_nfs_stat pb NFS_OK)))))))))"

fun link_status :: "errno \<Rightarrow> nfs_stat option" where
  "link_status EDQUOT = Some NFSERR_DQUOT"
| "link_status EIO = Some NFSERR_IO"
| "link_status ENAMETOOLONG = Some NFSERR_NAMETOOLONG"
| "link_status ENOENT = Some NFSERR_NOENT"
| "link_status ENOSPC = Some NFSERR_NOSPC"
| "link_status EROFS = Some NFSERR_ROFS"
| "link_status _ = None"

definition serve_nfs_procedure_12_create_link_to_file ::
  "codec \<Rightarrow> opaque_auth option \<Rightarrow> opaque_auth option \<Rightarrow> any_msg option \<Rightarrow> unit handler" where
  "serve_nfs_procedure_12_create_link_to_file pb credential verifier parameters =
    cbind (decode_params ''nfs/LinkArgs'' (unpack_link_args pb) parameters) (\<lambda>args.
    cbind (decode_fhandle (linkargs_from args)) (\<lambda>target_ino.
    cbind (decode_dir_op (linkargs_to args)) (\<lambda>(ino, filename).
    cbind (path_of_inode (reply_nfs_stat pb) target_ino) (\<lambda>target.
    cbind (type_of target) (\<lambda>ftype.
    if ftype \<noteq> NFREG then reply_nfs_stat pb NFSERR_ISDIR
    else
      cbind (directory_path (reply_nfs_stat pb) ino) (\<lambda>directory.
      cbind (fresh_path (reply_nfs_stat pb) directory filename) (\<lambda>path.
      cbind (permission_gate (reply_nfs_stat pb) credential
               (check_path check_link_proc_permissions directory)) (\<lambda>_.
      cbind (syscall (reply_nfs_stat pb) link_status (sys_link target path)) (\<lambda>_.
      reply_nfs_stat pb NFS_OK)))))))))"

section \<open>REMOVE and RMDIR\<close>

fun unlink_status :: "errno \<Rightarrow> nfs_stat option" where
  "unlink_status EIO = Some NFSERR_IO"
| "unlink_status ENAMETOOLONG = Some NFSERR_NAMETOOLONG"
| "unlink_status EROFS = Some NFSERR_ROFS"
| "unlink_status _ = None"

definition serve_nfs_procedure_10_remove_file ::
  "codec \<Rightarrow> opaque_auth option \<Rightarrow> opaque_auth option \<Rightarrow> any_msg option \<Rightarrow> unit handler" where
  "serve_nfs_procedure_10_remove_file pb credential verifier parameters =
    cbind (decode_params ''nfs/DirOpArgs'' (unpack_dir_op_args pb) parameters) (\<lambda>args.
    cbind (decode_dir_op (Some args)) (\<lambda>(ino, filename).
    cbind (directory_path (reply_nfs_stat pb) ino) (\<lambda>directory.
    cbind (existing_path (reply_nfs_stat pb) directory filename) (\<lambda>(path, _).
    cbind (type_of path) (\<lambda>ftype.
    if ftype = NFDIR then reply_nfs_stat pb NFSERR_ISDIR
    else
      cbind (permission_gate (reply_nfs_stat pb) credential
               (check_path check_remove_proc_permissions directory)) (\<lambda>_.
      cbind (syscall (reply_nfs_stat pb) unlink_status (sys_unlink path)) (\<lambda>_.
      cbind (uncache_path path) (\<lambda>error_code.
      if error_code > 1 then system_error else reply_nfs_stat pb NFS_OK))))))))"

fun rmdir_status :: "errno \<Rightarrow> nfs_stat option" where
  "rmdir_status ENAMETOOLONG = Some NFSERR_NAMETOOLONG"
| "rmdir_status ENOTEMPTY = Some NFSERR_NOTEMPTY"
| "rmdir_status EROFS = Some NFSERR_ROFS"
| "rmdir_status _ = None"

definition serve_nfs_procedure_15_remove_directory ::
  "codec \<Rightarrow> opaque_auth option \<Rightarrow> opaque_auth option \<Rightarrow> any_msg option \<Rightarrow> unit handler" where
  "serve_nfs_procedure_15_remove_directory pb credential verifier parameters =
    cbind (decode_params ''nfs/DirOpArgs'' (unpack_dir_op_args pb) parameters) (\<lambda>args.
    cbind (decode_dir_op (Some args)) (\<lambda>(ino, filename).
    cbind (directory_path (reply_nfs_stat pb) ino) (\<lambda>directory.
    cbind (existing_path (reply_nfs_stat pb) directory filename) (\<lambda>(path, _).
    cbind (type_of path) (\<lambda>ftype.
    if ftype \<noteq> NFDIR then reply_nfs_stat pb NFSERR_NOTDIR
    else
      cbind (permission_gate (reply_nfs_stat pb) credential
               (check_path check_rmdir_proc_permissions directory)) (\<lambda>_.
      cbind (syscall (reply_nfs_stat pb) rmdir_status (sys_rmdir path)) (\<lambda>_.
      cbind (uncache_path path) (\<lambda>error_code.
      if error_code > 1 then system_error else reply_nfs_stat pb NFS_OK))))))))"

section \<open>RENAME\<close>

fun rename_status :: "errno \<Rightarrow> nfs_stat option" where
  "rename_status EDQUOT = Some NFSERR_DQUOT"
| "rename_status EINVAL = Some NFSERR_EXIST"
| "rename_status ENAMETOOLONG = Some NFSERR_NAMETOOLONG"
| "rename_status ENOENT = Some NFSERR_NOENT"
| "rename_status ENOSPC = Some NFSERR_NOSPC"
| "rename_status ENOTEMPTY = Some NFSERR_NOTEMPTY"
| "rename_status EROFS = Some NFSERR_ROFS"
| "rename_status _ = None"

definition check_rename :: "string \<Rightarrow> string \<Rightarrow> auth_sys_params \<Rightarrow> (server, 'r, int) cprog" where
  "check_rename from_dir to_dir auth_sys =
    on_os (check_rename_proc_permissions from_dir to_dir (auth_uid auth_sys) (auth_gid auth_sys))"

definition serve_nfs_procedure_11_rename_file ::
  "codec \<Rightarrow> opaque_auth option \<Rightarrow> opaque_auth option \<Rightarrow> any_msg option \<Rightarrow> unit handler" where
  "serve_nfs_procedure_11_rename_file pb credential verifier parameters =
    cbind (decode_params ''nfs/RenameArgs'' (unpack_rename_args pb) parameters) (\<lambda>args.
    cbind (decode_dir_op (renameargs_from args)) (\<lambda>(from_ino, from_name).
    cbind (decode_dir_op (renameargs_to args)) (\<lambda>(to_ino, to_name).
    cbind (directory_path (reply_nfs_stat pb) from_ino) (\<lambda>from_dir.
    cbind (existing_path (reply_nfs_stat pb) from_dir from_name) (\<lambda>(old_path, _).
    cbind (directory_path (reply_nfs_stat pb) to_ino) (\<lambda>to_dir.
    cbind (permission_gate (reply_nfs_stat pb) credential (check_rename from_dir to_dir)) (\<lambda>_.
    (let new_path = get_file_absolute_path to_dir to_name in
    cbind (syscall (reply_nfs_stat pb) rename_status (sys_rename old_path new_path)) (\<lambda>_.
    cbind (recache_path old_path new_path) (\<lambda>error_code.
    if error_code > 1 then system_error else reply_nfs_stat pb NFS_OK))))))))))"

section \<open>READDIR\<close>

text \<open>
  \<open>read_from_directory\<close> on the state of the server.  The member \<open>auth_sys\<close> of the credential is read
  without a look at the flavor.
\<close>

definition read_directory :: "codec \<Rightarrow> opaque_auth option \<Rightarrow> string \<Rightarrow> u64 \<Rightarrow> u64 \<Rightarrow> nat \<Rightarrow>
    (directory_entry list \<times> bool) handler" where
  "read_directory pb credential path ino cookie count =
    cbind (cderef credential) (\<lambda>cred.
    cbind (auth_sys_of cred) (\<lambda>auth_sys.
    cbind (cget (\<lambda>s. read_from_directory pb (Some auth_sys) path ino cookie count
                        (readdir_sessions_list s) (server_os s))) (\<lambda>r.
    cbind (cderef r) (\<lambda>(result, sessions, os).
    cbind (set_sessions sessions os) (\<lambda>_.
    case result of Inl error_code \<Rightarrow> system_error | Inr x \<Rightarrow> cgo x)))))"

definition serve_nfs_procedure_16_read_from_directory ::
  "codec \<Rightarrow> opaque_auth option \<Rightarrow> opaque_auth option \<Rightarrow> any_msg option \<Rightarrow> unit handler" where
  "serve_nfs_procedure_16_read_from_directory pb credential verifier parameters =
    cbind (decode_params ''nfs/ReadDirArgs'' (unpack_readdir_args pb) parameters) (\<lambda>args.
    cbind (not_null (readdirargs_cookie args)) (\<lambda>cookie.
    cbind (decode_fhandle (readdirargs_dir args)) (\<lambda>ino.
    cbind (directory_path (fail_read_dir_res pb) ino) (\<lambda>directory.
    cbind (permission_gate (fail_read_dir_res pb) credential
             (check_path check_readdir_proc_permissions directory)) (\<lambda>_.
    cbind (read_directory pb credential directory ino cookie (unat (readdirargs_count args)))
      (\<lambda>(entries, end_of_stream).
    reply (pack_read_dir_res pb) ''nfs/ReadDirRes''
      (ok_result \<lparr>readdirok_entries = entries, readdirok_eof = end_of_stream\<rparr>)))))))"

end
