(* ===== verification/Proc_Mount.thy ===== *)
theory Proc_Mount
  imports Server_State
begin

text \<open>
  The Mount program: \<open>mount_list.c\<close>, NULL (0) and MNT (1) with the check of the file \<open>./exports\<close>.
\<close>

section \<open>The exports file\<close>

text \<open>One call of \<open>fgets\<close> with room for \<open>n\<close> bytes, and the string in the buffer without its newline.\<close>

fun fgets :: "nat \<Rightarrow> bytes \<Rightarrow> bytes \<times> bytes" where
  "fgets 0 bs = ([], bs)"
| "fgets (Suc n) [] = ([], [])"
| "fgets (Suc n) (b # bs) =
    (if b = 10 then ([b], bs) else (case fgets n bs of (line, rest) \<Rightarrow> (b # line, rest)))"

definition line_string :: "bytes \<Rightarrow> string" where
  "line_string line = map (\<lambda>b. char_of (unat b)) (takeWhile (\<lambda>b. b \<noteq> 0 \<and> b \<noteq> 10) line)"

fun strstr :: "string \<Rightarrow> string \<Rightarrow> bool" where
  "strstr [] pat = (pat = [])"
| "strstr (c # cs) pat = (take (length pat) (c # cs) = pat \<or> strstr cs pat)"

definition line_exports :: "string \<Rightarrow> string \<Rightarrow> bool" where
  "line_exports path line =
    (take (length path) line = path \<and>
     (case drop (length path) line of
        [] \<Rightarrow> False
      | c # _ \<Rightarrow> (c = CHR '' '' \<or> c = CHR 0x09) \<and> strstr (drop (length path) line) ''*(rw)''))"

lemma fgets_length: "fgets n bs = (line, rest) \<Longrightarrow> length line + length rest = length bs"
  by (induction n bs arbitrary: line rest rule: fgets.induct) (auto split: if_splits prod.splits)

lemma fgets_shorter:
  assumes "fgets n bs = (line, rest)" and "line \<noteq> []"
  shows "length rest < length bs"
  using fgets_length [OF assms(1)] assms(2) by (cases line) auto

function exports_lines :: "bytes \<Rightarrow> string list" where
  "exports_lines bs =
    (case fgets 1023 bs of
       (line, rest) \<Rightarrow> if line = [] then [] else line_string line # exports_lines rest)"
  by pat_completeness auto
termination
  by (relation "measure length") (auto intro: fgets_shorter [OF sym])

declare exports_lines.simps [simp del]

definition is_directory_exported :: "string option \<Rightarrow> os \<Rightarrow> bool \<times> os" where
  "is_directory_exported path os =
    (case path of
       None \<Rightarrow> (False, os)
     | Some path \<Rightarrow>
         (case sys_fopen_read ''./exports'' os of
            (Inl _, os') \<Rightarrow> (False, os')
          | (Inr file, os') \<Rightarrow>
              (case file_bytes (os_inodes os') file of
                 Inl _ \<Rightarrow> (False, os')
               | Inr content \<Rightarrow>
                   (case sys_fread file 0 (length content) os' of
                      ((data, _), os'') \<Rightarrow>
                        (list_ex (line_exports path) (exports_lines data), os'')))))"

section \<open>The mount list\<close>

definition create_new_mount_list_entry :: "string \<Rightarrow> string \<Rightarrow> string \<times> string" where
  "create_new_mount_list_entry client_hostname dirpath =
    (client_hostname, dirpath)"

definition add_mount_list_entry :: "string \<Rightarrow> string \<Rightarrow> (string \<times> string) list \<Rightarrow> (string \<times> string) list" where
  "add_mount_list_entry client_hostname dirpath current_list_head =
    create_new_mount_list_entry client_hostname dirpath # current_list_head"

section \<open>Procedures\<close>

definition reply_fh_status :: "codec \<Rightarrow> fh_status \<Rightarrow> 'a handler" where
  "reply_fh_status pb = reply (pack_fh_status pb) ''mount/FhStatus''"

definition fail_fh_status :: "codec \<Rightarrow> mnt_stat \<Rightarrow> 'a handler" where
  "fail_fh_status pb stat = reply_fh_status pb (create_default_case_fh_status stat)"

definition serve_mnt_procedure_0_do_nothing ::
  "opaque_auth option \<Rightarrow> opaque_auth option \<Rightarrow> any_msg option \<Rightarrow> unit handler" where
  "serve_mnt_procedure_0_do_nothing credential verifier parameters =
    reply (\<lambda>_. []) ''mount/None'' ()"

text \<open>The checks of MNT: the directory exists, is a directory, and is exported.\<close>

definition mountable_path :: "codec \<Rightarrow> string \<Rightarrow> unit handler" where
  "mountable_path pb path =
    cbind (on_os (sys_lstat path)) (\<lambda>r.
    case r of
      Inl errno \<Rightarrow> if errno = ENOENT then fail_fh_status pb MNTERR_NOENT else system_error
    | Inr _ \<Rightarrow>
        cbind (type_of path) (\<lambda>ftype.
        if ftype \<noteq> NFDIR then fail_fh_status pb MNTERR_NOTDIR
        else
          cbind (on_os (is_directory_exported (Some path))) (\<lambda>exported.
          if \<not> exported then fail_fh_status pb MNTERR_NOTEXP else cgo ())))"

definition serve_mnt_procedure_1_add_mount_entry ::
  "codec \<Rightarrow> opaque_auth option \<Rightarrow> opaque_auth option \<Rightarrow> any_msg option \<Rightarrow> unit handler" where
  "serve_mnt_procedure_1_add_mount_entry pb credential verifier parameters =
    cbind (decode_params ''mount/DirPath'' (unpack_dir_path pb) parameters) (\<lambda>dirpath.
    cbind (not_null dirpath) (\<lambda>path.
    cbind (mountable_path pb path) (\<lambda>_.
    cbind (permission_gate (\<lambda>_. fail_fh_status pb MNTERR_ACCES) credential
             (check_path check_mount_proc_permissions path)) (\<lambda>_.
    cbind (make_filehandle path) (\<lambda>fh.
    case fh of
      None \<Rightarrow> system_error
    | Some fh \<Rightarrow>
        cbind (cderef credential) (\<lambda>cred.
        cbind (auth_sys_of cred) (\<lambda>auth_sys.
        cbind (cderef (machinename auth_sys)) (\<lambda>name.
        cbind (cmodify (mount_list_update (add_mount_list_entry name path))) (\<lambda>_.
        reply_fh_status pb
          \<lparr>mnt_status = Some MNT_OK,
           fhstatus_body = Body_Ok (Some \<lparr>fhandle_nfs_filehandle = Some fh\<rparr>)\<rparr>)))))))))"

end
