(* ===== verification/Dispatch.thy ===== *)
theory Dispatch
  imports Proc_Files Proc_Directories Proc_Mount
begin

text \<open>
  \<open>nfs.c\<close>, \<open>mount.c\<close> and \<open>server.c\<close>: the choice of the procedure from program, version and procedure
  number.
\<close>

abbreviation NFS_VERSION_LOW :: u32 where "NFS_VERSION_LOW \<equiv> 2"
abbreviation NFS_VERSION_HIGH :: u32 where "NFS_VERSION_HIGH \<equiv> 2"

definition call_nfs ::
  "codec \<Rightarrow> opaque_auth option \<Rightarrow> opaque_auth option \<Rightarrow> u32 \<Rightarrow> u32 \<Rightarrow> any_msg option \<Rightarrow> unit handler" where
  "call_nfs pb credential verifier program_version procedure_number parameters =
    (if program_version \<noteq> 2
     then creturn (Some (create_prog_mismatch_accepted_reply NFS_VERSION_LOW NFS_VERSION_HIGH))
     else if procedure_number = 0
       then serve_nfs_procedure_0_do_nothing credential verifier parameters
     else if procedure_number = 1
       then serve_nfs_procedure_1_get_file_attributes pb credential verifier parameters
     else if procedure_number = 2
       then serve_nfs_procedure_2_set_file_attributes pb credential verifier parameters
     else if procedure_number = 4
       then serve_nfs_procedure_4_look_up_file_name pb credential verifier parameters
     else if procedure_number = 5
       then serve_nfs_procedure_5_read_from_symbolic_link pb credential verifier parameters
     else if procedure_number = 6
       then serve_nfs_procedure_6_read_from_file pb credential verifier parameters
     else if procedure_number = 8
       then serve_nfs_procedure_8_write_to_file pb credential verifier parameters
     else if procedure_number = 9
       then serve_nfs_procedure_9_create_file pb credential verifier parameters
     else if procedure_number = 10
       then serve_nfs_procedure_10_remove_file pb credential verifier parameters
     else if procedure_number = 11
       then serve_nfs_procedure_11_rename_file pb credential verifier parameters
     else if procedure_number = 12
       then serve_nfs_procedure_12_create_link_to_file pb credential verifier parameters
     else if procedure_number = 13
       then serve_nfs_procedure_13_create_symbolic_link pb credential verifier parameters
     else if procedure_number = 14
       then serve_nfs_procedure_14_create_directory pb credential verifier parameters
     else if procedure_number = 15
       then serve_nfs_procedure_15_remove_directory pb credential verifier parameters
     else if procedure_number = 16
       then serve_nfs_procedure_16_read_from_directory pb credential verifier parameters
     else if procedure_number = 17
       then serve_nfs_procedure_17_get_filesystem_attributes pb credential verifier parameters
     else creturn (create_default_case_accepted_reply PROC_UNAVAIL))"

definition call_mount ::
  "codec \<Rightarrow> opaque_auth option \<Rightarrow> opaque_auth option \<Rightarrow> u32 \<Rightarrow> u32 \<Rightarrow> any_msg option \<Rightarrow> unit handler" where
  "call_mount pb credential verifier program_version procedure_number parameters =
    (if program_version \<noteq> 2
     then creturn (Some (create_prog_mismatch_accepted_reply NFS_VERSION_LOW NFS_VERSION_HIGH))
     else if procedure_number = 0
       then serve_mnt_procedure_0_do_nothing credential verifier parameters
     else if procedure_number = 1
       then serve_mnt_procedure_1_add_mount_entry pb credential verifier parameters
     else creturn (create_default_case_accepted_reply PROC_UNAVAIL))"

definition forward_rpc_call_to_program ::
  "codec \<Rightarrow> opaque_auth option \<Rightarrow> opaque_auth option \<Rightarrow> u32 \<Rightarrow> u32 \<Rightarrow> u32 \<Rightarrow> any_msg option \<Rightarrow>
    unit handler" where
  "forward_rpc_call_to_program pb credential verifier program_number program_version
      procedure_number parameters =
    (if program_number = MOUNT_RPC_PROGRAM_NUMBER
     then call_mount pb credential verifier program_version procedure_number parameters
     else if program_number = NFS_RPC_PROGRAM_NUMBER
     then call_nfs pb credential verifier program_version procedure_number parameters
     else creturn (create_default_case_accepted_reply PROG_UNAVAIL))"

end
