(* ===== verification/Record_Marking.thy ===== *)
theory Record_Marking
  imports Control
begin

text \<open>
  Record marking over TCP (\<open>tcp_record_marking.c\<close>): a record is sent as fragments, each behind a four
  byte header whose top bit marks the last fragment.

  A connection is scripted: \<open>conn_sends\<close> says for each coming \<open>send\<close> how many bytes it takes or that it
  fails (and \<open>send\<close> takes everything once the script is used up), \<open>conn_in\<close> lists what the peer's bytes
  arrive as, ending with the end of the stream.  The sizes in the loops are unsigned 64 bit words, as in
  the source: the -1 of a failed call is the word 2^64 - 1 there, which the test \<open>< 0\<close> does not see.
\<close>

section \<open>Connections\<close>

datatype send_event = Takes nat | Send_Fails
datatype recv_event = Arrives bytes | Recv_Fails

record tcp_conn =
  conn_out :: bytes
  conn_sends :: "send_event list"
  conn_in :: "recv_event list"
  conn_junk :: "nat \<Rightarrow> byte"

text \<open>\<open>send\<close> of the first \<open>n\<close> bytes of a buffer returns the number of bytes taken, or -1.\<close>

definition tcp_send :: "bytes \<Rightarrow> u64 \<Rightarrow> tcp_conn \<Rightarrow> u64 \<times> tcp_conn" where
  "tcp_send buffer n c =
    (case conn_sends c of
       [] \<Rightarrow> (n, c\<lparr>conn_out := conn_out c @ take (unat n) buffer\<rparr>)
     | Takes k # es \<Rightarrow>
         (of_nat (min k (unat n)),
          c\<lparr>conn_out := conn_out c @ take (min k (unat n)) buffer, conn_sends := es\<rparr>)
     | Send_Fails # es \<Rightarrow> (-1, c\<lparr>conn_sends := es\<rparr>))"

text \<open>\<open>recv\<close> for at least one byte; the number is 0 at the end of the stream and -1 on failure.\<close>

fun tcp_recv :: "nat \<Rightarrow> recv_event list \<Rightarrow> u64 \<times> bytes \<times> recv_event list" where
  "tcp_recv n [] = (0, [], [])"
| "tcp_recv n (Recv_Fails # es) = (-1, [], es)"
| "tcp_recv n (Arrives bs # es) =
    (if bs = [] then tcp_recv n es
     else if length bs \<le> n then (of_nat (length bs), bs, es)
     else (of_nat n, take n bs, Arrives (drop n bs) # es))"

section \<open>Sending\<close>

function send_bytes_loop :: "bytes \<Rightarrow> u64 \<Rightarrow> u64 \<Rightarrow> tcp_conn \<Rightarrow> nat \<times> tcp_conn" where
  "send_bytes_loop buffer buffer_size total_bytes_sent c =
    (if total_bytes_sent < buffer_size then
       (case tcp_send (drop (unat total_bytes_sent) buffer) (buffer_size - total_bytes_sent) c of
          (bytes_sent, c') \<Rightarrow>
            if bytes_sent < 0 then (1, c')
            else if bytes_sent = 0 then (2, c')
            else send_bytes_loop buffer buffer_size (total_bytes_sent + bytes_sent) c')
     else (0, c))"
  by pat_completeness auto
termination
  by (relation "measure (\<lambda>(buffer, size, total, c).
        2 * length (conn_sends c) + (if total < size then 1 else 0))")
     (auto simp: tcp_send_def split: list.splits send_event.splits)

declare send_bytes_loop.simps [simp del]

definition send_bytes_tcp :: "bytes \<Rightarrow> u64 \<Rightarrow> tcp_conn \<Rightarrow> nat \<times> tcp_conn" where
  "send_bytes_tcp source_buffer buffer_size c = send_bytes_loop source_buffer buffer_size 0 c"

section \<open>Fragments\<close>

abbreviation RM_FRAGMENT_HEADER_SIZE :: u64 where "RM_FRAGMENT_HEADER_SIZE \<equiv> 4"
abbreviation RM_MAX_FRAGMENT_DATA_SIZE :: u64 where "RM_MAX_FRAGMENT_DATA_SIZE \<equiv> 0x7FFFFFFF"

text \<open>\<open>htonl\<close> followed by \<open>memcpy\<close>, and back.\<close>

definition be_bytes :: "u32 \<Rightarrow> bytes" where
  "be_bytes w = [ucast (drop_bit 24 w), ucast (drop_bit 16 w), ucast (drop_bit 8 w), ucast w]"

definition be_word :: "bytes \<Rightarrow> u32" where
  "be_word bs =
    push_bit 24 (ucast (bs ! 0)) OR push_bit 16 (ucast (bs ! 1)) OR push_bit 8 (ucast (bs ! 2))
    OR ucast (bs ! 3)"

definition fragment_size_of :: "u64 \<Rightarrow> u64" where
  "fragment_size_of bytes_left =
    (if bytes_left < RM_MAX_FRAGMENT_DATA_SIZE then bytes_left else RM_MAX_FRAGMENT_DATA_SIZE)"

lemma unat_fragment_size:
  "unat (fragment_size_of n) = min (unat n) 0x7FFFFFFF"
  by (simp add: fragment_size_of_def word_less_nat_alt)

lemma fragment_advance:
  assumes "sent < sz"
  shows "unat (sent + fragment_size_of (sz - sent)) = unat sent + unat (fragment_size_of (sz - sent))"
    and "unat sz - unat (sent + fragment_size_of (sz - sent)) < unat sz - unat sent"
proof -
  let ?f = "fragment_size_of (sz - sent)"
  have lt: "unat sent < unat sz" using assms by (simp add: word_less_nat_alt)
  have left: "unat (sz - sent) = unat sz - unat sent"
    using assms by (simp add: unat_sub less_imp_le)
  then have f: "0 < unat ?f" "unat ?f \<le> unat sz - unat sent"
    using lt by (simp_all add: unat_fragment_size)
  have "unat sz < 2 ^ 64" using unsigned_less [of sz] by simp
  then have "unat sent + unat ?f < 2 ^ 64" using f(2) lt by simp
  then show add: "unat (sent + ?f) = unat sent + unat ?f" by (simp add: unat_word_ariths)
  show "unat sz - unat (sent + ?f) < unat sz - unat sent" using add f lt by simp
qed

definition fragment_header_of :: "u64 \<Rightarrow> u32" where
  "fragment_header_of bytes_left =
    (if bytes_left = fragment_size_of bytes_left then 0x80000000 else 0)
    OR ucast (fragment_size_of bytes_left)"

text \<open>The loop of \<open>send_rm_record_tcp\<close>, for any function that sends a number of bytes.\<close>

function send_fragments ::
  "(bytes \<Rightarrow> u64 \<Rightarrow> 'c \<Rightarrow> nat \<times> 'c) \<Rightarrow> bytes \<Rightarrow> u64 \<Rightarrow> u64 \<Rightarrow> 'c \<Rightarrow> nat \<times> 'c" where
  "send_fragments send data data_size bytes_sent c =
    (if bytes_sent < data_size then
       (let bytes_left = data_size - bytes_sent;
            fragment_size = fragment_size_of bytes_left
        in case send (be_bytes (fragment_header_of bytes_left)) 4 c of
             (error_code, c') \<Rightarrow>
               if error_code > 0 then (1, c')
               else (case send (drop (unat bytes_sent) data) fragment_size c' of
                       (error_code, c'') \<Rightarrow>
                         if error_code > 0 then (2, c'')
                         else send_fragments send data data_size (bytes_sent + fragment_size) c''))
     else (0, c))"
  by pat_completeness auto
termination
  by (relation "measure (\<lambda>(send, data, size, sent, c). unat size - unat sent)")
     (auto intro: fragment_advance)

declare send_fragments.simps [simp del]

definition send_rm_record_tcp :: "bytes \<Rightarrow> u64 \<Rightarrow> tcp_conn \<Rightarrow> nat \<times> tcp_conn" where
  "send_rm_record_tcp rm_record_data rm_record_data_size c =
    send_fragments send_bytes_tcp rm_record_data rm_record_data_size 0 c"

section \<open>Receiving\<close>

fun in_size :: "recv_event list \<Rightarrow> nat" where
  "in_size [] = 0"
| "in_size (Arrives bs # es) = Suc (length bs + in_size es)"
| "in_size (Recv_Fails # es) = Suc (in_size es)"

lemma tcp_recv_shrinks: "tcp_recv n es = (k, bs, es') \<Longrightarrow> k \<noteq> 0 \<Longrightarrow> in_size es' < in_size es"
  by (induction n es rule: tcp_recv.induct) (auto split: if_splits intro!: diff_less Nat.gr0I)

definition overwrite :: "nat \<Rightarrow> bytes \<Rightarrow> bytes \<Rightarrow> bytes" where
  "overwrite i bs buffer = take i buffer @ bs @ drop (i + length bs) buffer"

function receive_bytes_loop ::
  "u64 \<Rightarrow> u64 \<Rightarrow> bytes \<Rightarrow> recv_event list \<Rightarrow> nat \<times> bytes \<times> recv_event list" where
  "receive_bytes_loop bytes_to_read total_bytes_read destination es =
    (if total_bytes_read < bytes_to_read then
       (case tcp_recv (unat (bytes_to_read - total_bytes_read)) es of
          (bytes_read, bs, es') \<Rightarrow>
            if bytes_read < 0 then (1, destination, es')
            else if bytes_read = 0 then (2, destination, es')
            else receive_bytes_loop bytes_to_read (total_bytes_read + bytes_read)
                   (overwrite (unat total_bytes_read) bs destination) es')
     else (0, destination, es))"
  by pat_completeness auto
termination
  by (relation "measure (\<lambda>(n, total, dest, es). in_size es)")
     (auto intro: tcp_recv_shrinks [OF sym])

declare receive_bytes_loop.simps [simp del]

text \<open>\<open>destination\<close> is the content of the buffer before the call.\<close>

definition receive_bytes_tcp ::
  "u64 \<Rightarrow> bytes \<Rightarrow> recv_event list \<Rightarrow> nat \<times> bytes \<times> recv_event list" where
  "receive_bytes_tcp bytes_to_read destination es = receive_bytes_loop bytes_to_read 0 destination es"

lemma receive_bytes_loop_size:
  "receive_bytes_loop n tot dest es = (code, dest', es') \<Longrightarrow> in_size es' \<le> in_size es"
proof (induction n tot dest es arbitrary: code dest' es' rule: receive_bytes_loop.induct)
  case (1 n tot dest es)
  obtain k bs es2 where r: "tcp_recv (unat (n - tot)) es = (k, bs, es2)" by (metis prod_cases3)
  show ?case
  proof (cases "tot < n \<and> k \<noteq> 0")
    case True
    with 1 r have "in_size es' \<le> in_size es2"
      by (simp add: receive_bytes_loop.simps [of n tot dest es])
    with True r show ?thesis using tcp_recv_shrinks by fastforce
  next
    case False
    have "k = 0 \<Longrightarrow> in_size es2 \<le> in_size es"
      using r by (induction "unat (n - tot)" es rule: tcp_recv.induct) (auto split: if_splits)
    with False 1(2) r show ?thesis
      by (auto simp: receive_bytes_loop.simps [of n tot dest es] split: if_splits)
  qed
qed

lemma receive_bytes_loop_shrinks:
  assumes "receive_bytes_loop n tot dest es = (0, dest', es')" and "tot < n"
  shows "in_size es' < in_size es"
proof -
  obtain k bs es2 where r: "tcp_recv (unat (n - tot)) es = (k, bs, es2)" by (metis prod_cases3)
  with assms have "k \<noteq> 0"
    and "receive_bytes_loop n (tot + k) (overwrite (unat tot) bs dest) es2 = (0, dest', es')"
    by (auto simp: receive_bytes_loop.simps [of n tot dest es] split: if_splits)
  then show ?thesis using receive_bytes_loop_size tcp_recv_shrinks [OF r] by fastforce
qed

lemma receive_step_shrinks:
  assumes "receive_bytes_loop RM_FRAGMENT_HEADER_SIZE 0 dest es = (0, dest', es1)"
    and "receive_bytes_loop n tot dest2 es1 = (code, dest3, es2)"
  shows "in_size es2 < in_size es"
  using receive_bytes_loop_shrinks [OF assms(1)] receive_bytes_loop_size [OF assms(2)] by simp

text \<open>
  \<open>realloc\<close> of the C library of GNU: \<open>realloc (NULL, n)\<close> is \<open>malloc (n)\<close>, which is not \<open>NULL\<close> for
  \<open>n = 0\<close>; \<open>realloc (p, 0)\<close> frees and returns \<open>NULL\<close>.
\<close>

definition realloc :: "(nat \<Rightarrow> byte) \<Rightarrow> bytes option \<Rightarrow> nat \<Rightarrow> bytes option" where
  "realloc junk p n =
    (case p of
       None \<Rightarrow> Some (map junk [0..<n])
     | Some b \<Rightarrow> if n = 0 then None else Some (take n b @ map junk [length b..<n]))"

definition buffer_from :: "nat \<Rightarrow> bytes option \<Rightarrow> bytes" where
  "buffer_from i p = (case p of None \<Rightarrow> [] | Some b \<Rightarrow> drop i b)"

function receive_fragments ::
  "(nat \<Rightarrow> byte) \<Rightarrow> bytes option \<Rightarrow> u64 \<Rightarrow> recv_event list \<Rightarrow> bytes option \<times> recv_event list" where
  "receive_fragments junk buffer bytes_read es =
    (case receive_bytes_tcp RM_FRAGMENT_HEADER_SIZE (map junk [0..<4]) es of
       (error_code, header_buffer, es') \<Rightarrow>
         if error_code > 0 then (None, es')
         else
           (let fragment_header = be_word header_buffer;
                is_last_fragment = (fragment_header AND 0x80000000 \<noteq> 0);
                fragment_size = ucast (fragment_header AND 0x7FFFFFFF) :: u64;
                buffer' = realloc junk buffer (unat (bytes_read + fragment_size))
            in case receive_bytes_tcp fragment_size (buffer_from (unat bytes_read) buffer') es' of
                 (error_code, payload, es'') \<Rightarrow>
                   if error_code > 0 then (None, es'')
                   else
                     (let buffer'' = map_option (\<lambda>b. take (unat bytes_read) b @ payload) buffer'
                      in if is_last_fragment then (buffer'', es'')
                         else receive_fragments junk buffer'' (bytes_read + fragment_size) es'')))"
  by pat_completeness auto
termination
  by (relation "measure (\<lambda>(junk, buffer, read, es). in_size es)")
     (auto simp: receive_bytes_tcp_def intro: receive_step_shrinks [OF sym sym])

declare receive_fragments.simps [simp del]

definition receive_rm_record_tcp :: "tcp_conn \<Rightarrow> bytes option \<times> tcp_conn" where
  "receive_rm_record_tcp c =
    (case receive_fragments (conn_junk c) None 0 (conn_in c) of
       (record_data, es) \<Rightarrow> (record_data, c\<lparr>conn_in := es\<rparr>))"

section \<open>Sending writes the encoded record\<close>

abbreviation fragment_limit :: nat where "fragment_limit \<equiv> 0x7FFFFFFF"

text \<open>The format: what a record looks like on the wire.\<close>

function rm_encode :: "bytes \<Rightarrow> bytes" where
  "rm_encode data =
    (if data = [] then []
     else if length data \<le> fragment_limit
       then be_bytes (0x80000000 OR of_nat (length data)) @ data
     else be_bytes 0x7FFFFFFF @ take fragment_limit data @ rm_encode (drop fragment_limit data))"
  by pat_completeness auto
termination by (relation "measure length") auto

declare rm_encode.simps [simp del]

lemma rm_encode_Nil [simp]: "rm_encode [] = []"
  by (simp add: rm_encode.simps)

lemma length_be_bytes [simp]: "length (be_bytes w) = 4"
  by (simp add: be_bytes_def)

lemma rm_encode_step:
  assumes "length data = unat n" and "data \<noteq> []"
  shows "rm_encode data =
    be_bytes (fragment_header_of n) @ take (unat (fragment_size_of n)) data
    @ rm_encode (drop (unat (fragment_size_of n)) data)"
proof (cases "length data \<le> fragment_limit")
  case True
  then have "n \<le> 0x7FFFFFFF" using assms(1) by (simp add: word_le_nat_alt)
  then have f: "fragment_size_of n = n" by (auto simp: fragment_size_of_def)
  have "(of_nat (length data) :: u32) = ucast n" using assms(1) by simp
  with True assms show ?thesis
    by (simp add: rm_encode.simps [of data] fragment_header_of_def f)
next
  case False
  then have f: "fragment_size_of n = 0x7FFFFFFF" and "n \<noteq> 0x7FFFFFFF"
    using assms(1) by (auto simp: fragment_size_of_def word_less_nat_alt)
  with False assms show ?thesis
    by (simp add: rm_encode.simps [of data] fragment_header_of_def)
qed

text \<open>
  What a function that sends a number of bytes promises: as long as the connection is \<open>ready\<close>, it puts
  exactly these bytes behind those already sent.
\<close>

locale byte_sender =
  fixes send :: "bytes \<Rightarrow> u64 \<Rightarrow> 'c \<Rightarrow> nat \<times> 'c"
    and sent :: "'c \<Rightarrow> bytes"
    and ready :: "'c \<Rightarrow> bool"
  assumes send_ok: "ready c \<Longrightarrow> unat n \<le> length buf \<Longrightarrow>
    \<exists>c'. send buf n c = (0, c') \<and> ready c' \<and> sent c' = sent c @ take (unat n) buf"
begin

lemma send_fragments_encodes:
  assumes "ready c" and "k \<le> sz" and "unat sz = length data"
  shows "\<exists>c'. send_fragments send data sz k c = (0, c') \<and> ready c' \<and>
    sent c' = sent c @ rm_encode (drop (unat k) data)"
  using assms
proof (induction "unat sz - unat k" arbitrary: c k rule: less_induct)
  case less
  show ?case
  proof (cases "k < sz")
    case True
    let ?left = "sz - k" and ?f = "fragment_size_of (sz - k)" and ?d = "drop (unat k) data"
    have left: "unat ?left = length ?d" using True less.prems by (simp add: unat_sub less_imp_le)
    have fle: "unat ?f \<le> length ?d" using left by (simp add: unat_fragment_size)
    obtain c1 where c1: "send (be_bytes (fragment_header_of ?left)) 4 c = (0, c1)" "ready c1"
      "sent c1 = sent c @ be_bytes (fragment_header_of ?left)"
      using send_ok [OF less.prems(1), of 4 "be_bytes (fragment_header_of ?left)"] by auto
    obtain c2 where c2: "send ?d ?f c1 = (0, c2)" "ready c2" "sent c2 = sent c1 @ take (unat ?f) ?d"
      using send_ok [OF c1(2) fle] by auto
    have adv: "unat (k + ?f) = unat k + unat ?f" by (rule fragment_advance(1) [OF True])
    have "k + ?f \<le> sz" using adv fle True less.prems(3)
      by (simp add: word_le_nat_alt word_less_nat_alt)
    from less.hyps [OF fragment_advance(2) [OF True] c2(2) this less.prems(3)] obtain c3 where
      c3: "send_fragments send data sz (k + ?f) c2 = (0, c3)" "ready c3"
        "sent c3 = sent c2 @ rm_encode (drop (unat (k + ?f)) data)" by blast
    have "?d \<noteq> []" using True less.prems(3) by (simp add: word_less_nat_alt)
    with left have "rm_encode ?d = be_bytes (fragment_header_of ?left) @ take (unat ?f) ?d
        @ rm_encode (drop (unat ?f) ?d)" by (intro rm_encode_step) simp_all
    then show ?thesis using True c1 c2 c3 adv
      by (simp add: send_fragments.simps [of send data sz k c] Let_def add.commute)
  next
    case False
    then have "k = sz" using less.prems(2) by simp
    then show ?thesis using less.prems by (simp add: send_fragments.simps)
  qed
qed

end

text \<open>A TCP connection keeps the promise while every \<open>send\<close> takes at least one byte.\<close>

definition sends_progress :: "tcp_conn \<Rightarrow> bool" where
  "sends_progress c \<longleftrightarrow> (\<forall>e \<in> set (conn_sends c). case e of Takes k \<Rightarrow> k > 0 | Send_Fails \<Rightarrow> False)"

lemma send_bytes_loop_ok:
  assumes "sends_progress c" and "k \<le> sz" and "unat sz \<le> length buf"
  shows "\<exists>c'. send_bytes_loop buf sz k c = (0, c') \<and> sends_progress c' \<and>
    conn_out c' = conn_out c @ take (unat sz - unat k) (drop (unat k) buf)"
  using assms
proof (induction "length (conn_sends c)" arbitrary: c k)
  case 0
  then show ?case
    by (cases "k < sz")
      (auto simp: send_bytes_loop.simps [of buf sz k c] send_bytes_loop.simps [of buf sz sz]
        tcp_send_def sends_progress_def unat_sub less_imp_le)
next
  case (Suc n)
  show ?case
  proof (cases "k < sz")
    case True
    from Suc.hyps(2) Suc.prems(1) obtain m es where e: "conn_sends c = Takes m # es" "m > 0"
      by (cases "conn_sends c") (auto simp: sends_progress_def split: send_event.splits)
    define j where "j = min m (unat (sz - k))"
    let ?c = "c\<lparr>conn_out := conn_out c @ take j (drop (unat k) buf), conn_sends := es\<rparr>"
    have left: "unat (sz - k) = unat sz - unat k" using True by (simp add: unat_sub less_imp_le)
    have lt: "unat k < unat sz" using True by (simp add: word_less_nat_alt)
    have j: "0 < j" "unat k + j \<le> unat sz" using e(2) left lt by (auto simp: j_def)
    have "unat sz < 2 ^ 64" using unsigned_less [of sz] by simp
    with j have m: "unat (of_nat j :: u64) = j" "unat (k + of_nat j) = unat k + j"
      by (simp_all add: unat_of_nat unat_word_ariths)
    have le: "k + of_nat j \<le> sz" using m j by (simp add: word_le_nat_alt)
    have nz: "(of_nat j :: u64) \<noteq> 0" using m(1) j(1) by (metis less_irrefl unat_0)
    have "n = length (conn_sends ?c)" "sends_progress ?c"
      using Suc.hyps(2) e Suc.prems(1) by (simp_all add: sends_progress_def)
    from Suc.hyps(1) [OF this le Suc.prems(3)] obtain c' where
      c': "send_bytes_loop buf sz (k + of_nat j) ?c = (0, c')" "sends_progress c'"
      "conn_out c' = conn_out ?c @ take (unat sz - (unat k + j)) (drop (unat k + j) buf)"
      by (auto simp: m(2))
    have "send_bytes_loop buf sz k c = send_bytes_loop buf sz (k + of_nat j) ?c"
      using True e nz by (simp add: send_bytes_loop.simps [of buf sz k c] tcp_send_def j_def)
    moreover have "take j (drop (unat k) buf) @ take (unat sz - (unat k + j)) (drop (unat k + j) buf) =
        take (unat sz - unat k) (drop (unat k) buf)"
      using j take_add [of j "unat sz - (unat k + j)" "drop (unat k) buf"] by (simp add: add.commute)
    ultimately show ?thesis using c' by simp
  next
    case False
    then show ?thesis using Suc.prems by (simp add: send_bytes_loop.simps)
  qed
qed

interpretation tcp_sender: byte_sender send_bytes_tcp conn_out sends_progress
proof
  fix c and n :: u64 and buf :: bytes
  assume "sends_progress c" and "unat n \<le> length buf"
  then show "\<exists>c'. send_bytes_tcp buf n c = (0, c') \<and> sends_progress c' \<and>
      conn_out c' = conn_out c @ take (unat n) buf"
    using send_bytes_loop_ok [of c 0 n buf] by (simp add: send_bytes_tcp_def)
qed

section \<open>Receiving decodes what arrives, however it is cut\<close>

fun arrived :: "recv_event list \<Rightarrow> bytes" where
  "arrived [] = []"
| "arrived (Arrives bs # es) = bs @ arrived es"
| "arrived (Recv_Fails # es) = arrived es"

definition healthy :: "recv_event list \<Rightarrow> bool" where
  "healthy es \<longleftrightarrow> Recv_Fails \<notin> set es"

lemma tcp_recv_ok:
  assumes "healthy es" and "0 < n" and "arrived es \<noteq> []"
  shows "\<exists>bs es'. tcp_recv n es = (of_nat (length bs), bs, es') \<and> bs \<noteq> [] \<and> length bs \<le> n \<and>
    arrived es = bs @ arrived es' \<and> healthy es' \<and> in_size es' < in_size es"
  using assms
proof (induction n es rule: tcp_recv.induct)
  case (3 n bs es)
  show ?case
  proof (cases "bs = []")
    case True
    with 3 show ?thesis by (auto simp: healthy_def)
  next
    case False
    with 3 show ?thesis
      by (cases "length bs \<le> n") (auto simp: healthy_def min_def append_take_drop_id intro!: exI [of _ "take n bs"])
  qed
qed (simp_all add: healthy_def)

lemma receive_bytes_loop_ok:
  assumes "healthy es" and "k \<le> n" and "length dest = unat n"
    and "unat n - unat k \<le> length (arrived es)"
  shows "\<exists>es'. receive_bytes_loop n k dest es =
      (0, take (unat k) dest @ take (unat n - unat k) (arrived es), es') \<and> healthy es' \<and>
      arrived es' = drop (unat n - unat k) (arrived es)"
  using assms
proof (induction "in_size es" arbitrary: es k dest rule: less_induct)
  case less
  show ?case
  proof (cases "k < n")
    case True
    have left: "unat (n - k) = unat n - unat k" using True by (simp add: unat_sub less_imp_le)
    have lt: "unat k < unat n" using True by (simp add: word_less_nat_alt)
    have "0 < unat (n - k)" "arrived es \<noteq> []" using left lt less.prems(4) by auto
    from tcp_recv_ok [OF less.prems(1) this] obtain bs es1 where
      r: "tcp_recv (unat (n - k)) es = (of_nat (length bs), bs, es1)" "bs \<noteq> []"
        "length bs \<le> unat (n - k)" "arrived es = bs @ arrived es1" "healthy es1"
        "in_size es1 < in_size es" by blast
    have "unat n < 2 ^ 64" using unsigned_less [of n] by simp
    with r(3) left lt have m: "unat (of_nat (length bs) :: u64) = length bs"
      "unat (k + of_nat (length bs)) = unat k + length bs"
      by (simp_all add: unat_of_nat unat_word_ariths)
    have nz: "(of_nat (length bs) :: u64) \<noteq> 0" using m(1) r(2) by (metis length_0_conv unat_0)
    have le: "k + of_nat (length bs) \<le> n" using m r(3) left lt by (simp add: word_le_nat_alt)
    let ?dest = "overwrite (unat k) bs dest"
    have len: "length ?dest = unat n"
      using less.prems(3) r(3) left lt by (simp add: overwrite_def)
    have enough: "unat n - unat (k + of_nat (length bs)) \<le> length (arrived es1)"
      using less.prems(4) r(4) m(2) by simp
    from less.hyps [OF r(6) r(5) le len enough] obtain es' where
      e: "receive_bytes_loop n (k + of_nat (length bs)) ?dest es1 =
          (0, take (unat k + length bs) ?dest @ take (unat n - (unat k + length bs)) (arrived es1), es')"
        "healthy es'" "arrived es' = drop (unat n - (unat k + length bs)) (arrived es1)"
      by (auto simp: m(2))
    have "take (unat k + length bs) ?dest = take (unat k) dest @ bs"
      using lt less.prems(3) by (simp add: overwrite_def)
    with e True r nz left show ?thesis
      by (simp add: receive_bytes_loop.simps [of n k dest es])
  next
    case False
    then show ?thesis using less.prems by (simp add: receive_bytes_loop.simps)
  qed
qed

lemma receive_bytes_tcp_ok:
  assumes "healthy es" and "length dest = unat n" and "unat n \<le> length (arrived es)"
  shows "\<exists>es'. receive_bytes_tcp n dest es = (0, take (unat n) (arrived es), es') \<and> healthy es' \<and>
      arrived es' = drop (unat n) (arrived es)"
  using receive_bytes_loop_ok [of es 0 n dest] assms by (simp add: receive_bytes_tcp_def)

lemma be_word_be_bytes [simp]: "be_word (be_bytes w) = w"
proof (rule bit_word_eqI)
  fix n
  assume "n < LENGTH(32)"
  then show "bit (be_word (be_bytes w)) n = bit w n"
    by (cases "n < 8"; cases "n < 16"; cases "n < 24") (auto simp: be_word_def be_bytes_def bit_simps)
qed

lemma header_last:
  assumes "n \<le> fragment_limit"
  shows "(0x80000000 OR of_nat n :: u32) AND 0x7FFFFFFF = of_nat n"
    and "(0x80000000 OR of_nat n :: u32) AND 0x80000000 \<noteq> 0"
proof -
  have m: "(0x7FFFFFFF :: u32) = mask 31" by (simp add: mask_eq_exp_minus_1)
  have "(of_nat n :: u32) AND mask 31 = of_nat n"
    using assms by (simp add: take_bit_eq_mask [symmetric] take_bit_of_nat take_bit_nat_eq_self)
  moreover have "(0x80000000 :: u32) AND mask 31 = 0" by (simp add: mask_eq_exp_minus_1)
  ultimately show "(0x80000000 OR of_nat n :: u32) AND 0x7FFFFFFF = of_nat n"
    by (simp add: bit.conj_disj_distrib2 m)
  have "bit ((0x80000000 OR of_nat n :: u32) AND 0x80000000) 31" by (simp add: bit_simps)
  then show "(0x80000000 OR of_nat n :: u32) AND 0x80000000 \<noteq> 0" by force
qed

lemma realloc_grows:
  assumes "buffer = Some acc \<or> buffer = None \<and> acc = []" and "0 < n"
  obtains new where "realloc junk buffer (length acc + n) = Some (acc @ new)" and "length new = n"
proof -
  have "realloc junk buffer (length acc + n) = Some (acc @ map junk [length acc..<length acc + n])"
    using assms by (auto simp: realloc_def)
  then show thesis by (rule that) simp
qed

text \<open>One turn of the loop: a header and its payload.\<close>

lemma receive_fragments_step:
  assumes "healthy es" and "arrived es = be_bytes h @ payload @ rest"
    and "unat (h AND 0x7FFFFFFF) = length payload" and "payload \<noteq> []"
    and "unat got = length acc" and "length acc + length payload < 2 ^ 64"
    and "buffer = Some acc \<or> buffer = None \<and> acc = []"
  shows "\<exists>es'. healthy es' \<and> arrived es' = rest \<and>
    receive_fragments junk buffer got es =
      (if h AND 0x80000000 \<noteq> 0 then (Some (acc @ payload), es')
       else receive_fragments junk (Some (acc @ payload)) (got + of_nat (length payload)) es')"
proof -
  obtain es1 where es1: "receive_bytes_tcp 4 (map junk [0..<4]) es = (0, be_bytes h, es1)"
    "healthy es1" "arrived es1 = payload @ rest"
    using receive_bytes_tcp_ok [OF assms(1), of "map junk [0..<4]" 4] assms(2) by auto
  let ?n = "ucast (h AND 0x7FFFFFFF) :: u64"
  have nw: "?n = of_nat (length payload)" using assms(3) by (simp flip: assms(3))
  then have n: "unat ?n = length payload" using assms(6) by (simp add: unat_of_nat)
  have "unat (got + ?n) = length acc + length payload"
    using assms(5,6) n by (simp add: unat_word_ariths)
  moreover obtain new where "realloc junk buffer (length acc + length payload) = Some (acc @ new)"
    and new: "length new = length payload"
    using realloc_grows [OF assms(7), of "length payload"] assms(4) by blast
  ultimately have buf: "realloc junk buffer (unat (got + ?n)) = Some (acc @ new)" by simp
  obtain es2 where es2: "receive_bytes_tcp ?n new es1 = (0, payload, es2)"
    "healthy es2" "arrived es2 = rest"
    using receive_bytes_tcp_ok [OF es1(2), of new ?n] es1(3) n new by auto
  have "receive_fragments junk buffer got es =
      (if h AND 0x80000000 \<noteq> 0 then (Some (acc @ payload), es2)
       else receive_fragments junk (Some (acc @ payload)) (got + ?n) es2)"
    by (subst receive_fragments.simps)
      (simp add: es1(1) es2(1) buf buffer_from_def assms(5) Let_def)
  with es2 nw show ?thesis by auto
qed

lemma receive_fragments_decodes:
  assumes "healthy es" and "arrived es = rm_encode data @ rest" and "data \<noteq> []"
    and "unat got = length acc" and "length acc + length data < 2 ^ 64"
    and "buffer = Some acc \<or> buffer = None \<and> acc = []"
  shows "\<exists>es'. receive_fragments junk buffer got es = (Some (acc @ data), es') \<and> healthy es' \<and>
    arrived es' = rest"
  using assms
proof (induction data arbitrary: es got acc buffer rule: rm_encode.induct)
  case (1 data)
  show ?case
  proof (cases "length data \<le> fragment_limit")
    case True
    let ?h = "0x80000000 OR of_nat (length data) :: u32"
    have "arrived es = be_bytes ?h @ data @ rest"
      using 1(3) "1.prems"(3) True by (simp add: rm_encode.simps [of data])
    moreover have "unat (?h AND 0x7FFFFFFF) = length data"
      using True by (simp add: header_last(1) unat_of_nat)
    ultimately show ?thesis
      using receive_fragments_step [OF "1.prems"(1) _ _ "1.prems"(3-6), of ?h rest junk]
        header_last(2) [OF True] by auto
  next
    case False
    let ?p = "take fragment_limit data" and ?q = "drop fragment_limit data"
    have "arrived es = be_bytes 0x7FFFFFFF @ ?p @ (rm_encode ?q @ rest)"
      using "1.prems"(2,3) False by (simp add: rm_encode.simps [of data])
    moreover have "unat ((0x7FFFFFFF :: u32) AND 0x7FFFFFFF) = length ?p" using False by simp
    moreover have "?p \<noteq> []" using False by auto
    moreover have "length acc + length ?p < 2 ^ 64" using "1.prems"(5) by simp
    ultimately obtain es1 where es1: "healthy es1" "arrived es1 = rm_encode ?q @ rest"
      "receive_fragments junk buffer got es =
        receive_fragments junk (Some (acc @ ?p)) (got + of_nat (length ?p)) es1"
      using receive_fragments_step [OF "1.prems"(1) _ _ _ "1.prems"(4) _ "1.prems"(6), of "0x7FFFFFFF" ?p
          "rm_encode ?q @ rest" junk] by auto
    have "unat (got + of_nat (length ?p)) = length (acc @ ?p)"
      using "1.prems"(4,5) by (simp add: unat_word_ariths unat_of_nat)
    moreover have "?q \<noteq> []" "length (acc @ ?p) + length ?q < 2 ^ 64" using False "1.prems"(5) by auto
    ultimately have "\<exists>es'. receive_fragments junk (Some (acc @ ?p)) (got + of_nat (length ?p)) es1 =
        (Some ((acc @ ?p) @ ?q), es') \<and> healthy es' \<and> arrived es' = rest"
      using "1.prems"(3) False es1(1,2) by (intro "1.IH") simp_all
    with es1(3) show ?thesis by simp
  qed
qed

section \<open>Properties\<close>

text \<open>
  C16: Record marking over TCP is a round trip.  A record that is sent over a connection whose
  \<open>send\<close> calls make progress, in pieces of any size, is received unchanged by a peer that gets these
  bytes in chunks of any size, and what follows the record on the stream stays for the next call.
\<close>

theorem tcp_record_round_trip:
  assumes "data \<noteq> []" and "length data < 2 ^ 64" and "sends_progress c" and "healthy (conn_in c2)"
    and "arrived (conn_in c2) =
      drop (length (conn_out c)) (conn_out (snd (send_rm_record_tcp data (of_nat (length data)) c))) @ rest"
  shows "fst (send_rm_record_tcp data (of_nat (length data)) c) = 0 \<and>
    (\<exists>c2'. receive_rm_record_tcp c2 = (Some data, c2') \<and> healthy (conn_in c2') \<and>
           arrived (conn_in c2') = rest)"
proof -
  have n: "unat (of_nat (length data) :: u64) = length data" using assms(2) by (simp add: unat_of_nat)
  obtain c' where c': "send_rm_record_tcp data (of_nat (length data)) c = (0, c')"
    "conn_out c' = conn_out c @ rm_encode data"
    using tcp_sender.send_fragments_encodes [OF assms(3) _ n, of 0] by (auto simp: send_rm_record_tcp_def)
  then have "arrived (conn_in c2) = rm_encode data @ rest" using assms(5) by simp
  from receive_fragments_decodes [OF assms(4) this assms(1), of 0 "[]" None "conn_junk c2"] assms(2)
  show ?thesis using c' by (auto simp: receive_rm_record_tcp_def)
qed

definition ex_conn :: "send_event list \<Rightarrow> recv_event list \<Rightarrow> tcp_conn" where
  "ex_conn sends arrivals =
    \<lparr>conn_out = [9], conn_sends = sends, conn_in = arrivals, conn_junk = (\<lambda>_. 0)\<rparr>"

lemmas send_eval = ex_conn_def send_rm_record_tcp_def send_fragments.simps send_bytes_tcp_def
  send_bytes_loop.simps tcp_send_def fragment_size_of_def fragment_header_of_def be_bytes_def Let_def

theorem tcp_record_round_trip_witness:
  "\<exists>c2'. receive_rm_record_tcp (ex_conn [] [Arrives [0x80, 0], Arrives [0, 3, 1], Arrives [2, 3, 7]]) =
      (Some [1, 2, 3], c2') \<and> arrived (conn_in c2') = [7]"
  using tcp_record_round_trip [of "[1, 2, 3]" "ex_conn [Takes 2, Takes 1, Takes 5] []"
      "ex_conn [] [Arrives [0x80, 0], Arrives [0, 3, 1], Arrives [2, 3, 7]]" "[7]"]
  by (auto simp: send_eval sends_progress_def healthy_def)

text \<open>
  C31: A failed \<open>send\<close> is reported as success: when the first \<open>send\<close> returns -1, \<open>send_bytes_tcp\<close>
  returns 0 although no byte was sent, because the result is stored in a \<open>size_t\<close> and compared with 0.
\<close>

theorem send_failure_unnoticed:
  assumes "0 < n" and "conn_sends c = Send_Fails # es"
  shows "send_bytes_tcp buf n c = (0, c\<lparr>conn_sends := es\<rparr>)"
  using assms by (simp add: send_bytes_tcp_def send_bytes_loop.simps [of buf n] tcp_send_def)

theorem send_failure_unnoticed_witness:
  "send_bytes_tcp [1, 2] 2 (ex_conn [Send_Fails] []) = (0, (ex_conn [Send_Fails] [])\<lparr>conn_sends := []\<rparr>)"
  by (rule send_failure_unnoticed) (simp_all add: ex_conn_def)

text \<open>
  C32: A failed \<open>recv\<close> is taken for a complete read: when the first \<open>recv\<close> returns -1,
  \<open>receive_bytes_tcp\<close> returns 0 and the buffer keeps what it held before, so that a header or a payload
  is made of bytes that never arrived.
\<close>

theorem receive_failure_unnoticed:
  assumes "0 < n"
  shows "receive_bytes_tcp n buf (Recv_Fails # es) = (0, buf, es)"
  using assms by (simp add: receive_bytes_tcp_def receive_bytes_loop.simps [of n] overwrite_def)

theorem receive_failure_unnoticed_witness:
  "receive_bytes_tcp 4 [5, 6, 7, 8] [Recv_Fails, Arrives [1]] = (0, [5, 6, 7, 8], [Arrives [1]])"
  by (rule receive_failure_unnoticed) simp

end
