(* ===== verification/Rpc_Server.thy ===== *)
theory Rpc_Server
  imports Dispatch Record_Marking
begin

text \<open>
  \<open>tcp_rpc_server.c\<close>: one RPC of one connection, from the record that arrives to the record that
  answers it.  The state is the server, the connection, and the counter behind the transaction
  identifiers.
\<close>

record tcp_thread =
  th_server :: server
  th_conn :: tcp_conn
  th_xid :: u32

type_synonym ('r, 'a) thread = "(tcp_thread, 'r, 'a) cprog"

section \<open>Replies\<close>

definition send_rpc_reply_body_tcp :: "codec \<Rightarrow> reply_body \<Rightarrow> ('r, nat) thread" where
  "send_rpc_reply_body_tcp pb reply_body = (\<lambda>t.
    (case generate_rpc_xid (th_xid t) of
       (new_xid, counter) \<Rightarrow>
         (let rpc_msg_buffer = pack_rpc_msg pb
                \<lparr>xid = new_xid, mtype = REPLY, rpc_body = Rpc_Rbody (Some reply_body)\<rparr>
          in case send_rm_record_tcp rpc_msg_buffer (of_nat (length rpc_msg_buffer)) (th_conn t) of
               (error_code, conn) \<Rightarrow>
                 (Go (if error_code > 0 then 1 else 0), t\<lparr>th_conn := conn, th_xid := counter\<rparr>))))"

definition send_rpc_accepted_reply_message_tcp ::
  "codec \<Rightarrow> accepted_reply option \<Rightarrow> ('r, nat) thread" where
  "send_rpc_accepted_reply_message_tcp pb accepted_reply =
    send_rpc_reply_body_tcp pb \<lparr>rbody_stat = MSG_ACCEPTED, rbody_reply = Reply_Areply accepted_reply\<rparr>"

definition send_rpc_rejected_reply_message_tcp ::
  "codec \<Rightarrow> rejected_reply option \<Rightarrow> ('r, nat) thread" where
  "send_rpc_rejected_reply_message_tcp pb rejected_reply =
    send_rpc_reply_body_tcp pb \<lparr>rbody_stat = MSG_DENIED, rbody_reply = Reply_Rreply rejected_reply\<rparr>"

definition send_auth_error_rejected_reply_tcp :: "codec \<Rightarrow> auth_stat \<Rightarrow> ('r, nat) thread" where
  "send_auth_error_rejected_reply_tcp pb auth_stat =
    cbind (send_rpc_rejected_reply_message_tcp pb (Some (create_auth_error_rejected_reply auth_stat)))
      (\<lambda>error_code. cgo (if error_code > 0 then 1 else 0))"

section \<open>Credentials\<close>

text \<open>What is wrong with a credential or a verifier; \<^term>\<open>None\<close> when nothing is.\<close>

definition credential_error :: "opaque_auth option \<Rightarrow> auth_stat option" where
  "credential_error credential =
    (case credential of
       None \<Rightarrow> Some AUTH_BADCRED
     | Some cred \<Rightarrow>
         if flavor cred = AUTH_NONE then
           (case auth_body cred of Auth_Body_Empty (Some _) \<Rightarrow> None | _ \<Rightarrow> Some AUTH_BADCRED)
         else if flavor cred = AUTH_SYS then
           (case auth_body cred of
              Auth_Body_Auth_Sys (Some a) \<Rightarrow>
                if machinename a = None then Some AUTH_BADCRED
                else if auth_gids a = None then Some AUTH_BADCRED
                else None
            | _ \<Rightarrow> Some AUTH_BADCRED)
         else Some AUTH_BADCRED)"

definition verifier_error :: "opaque_auth option \<Rightarrow> auth_stat option" where
  "verifier_error verifier =
    (case verifier of
       None \<Rightarrow> Some AUTH_BADVERF
     | Some verf \<Rightarrow>
         if flavor verf = AUTH_NONE then
           (case auth_body verf of Auth_Body_Empty (Some _) \<Rightarrow> None | _ \<Rightarrow> Some AUTH_BADVERF)
         else Some AUTH_BADVERF)"

definition validate_credential_and_verifier_tcp ::
  "codec \<Rightarrow> opaque_auth option \<Rightarrow> opaque_auth option \<Rightarrow> ('r, int) thread" where
  "validate_credential_and_verifier_tcp pb credential verifier =
    (case credential_error credential of
       Some stat \<Rightarrow>
         cbind (send_auth_error_rejected_reply_tcp pb stat) (\<lambda>error_code.
         cgo (if error_code > 0 then -1 else 1))
     | None \<Rightarrow>
         (case verifier_error verifier of
            Some stat \<Rightarrow>
              cbind (send_auth_error_rejected_reply_tcp pb stat) (\<lambda>error_code.
              cgo (if error_code > 0 then -1 else 1))
          | None \<Rightarrow> cgo 0))"

section \<open>One RPC\<close>

text \<open>The handlers run on the server part of the state; what they return is the reply.\<close>

definition on_server :: "unit handler \<Rightarrow> ('r, accepted_reply option) thread" where
  "on_server m = (\<lambda>t.
    (case m (th_server t) of
       (Return r, s) \<Rightarrow> (Go r, t\<lparr>th_server := s\<rparr>)
     | (_, s) \<Rightarrow> (UB, t\<lparr>th_server := s\<rparr>)))"

definition receive_record :: "('r, bytes option) thread" where
  "receive_record = (\<lambda>t.
    (case receive_rm_record_tcp (th_conn t) of (data, conn) \<Rightarrow> (Go data, t\<lparr>th_conn := conn\<rparr>)))"

definition reply_to_call :: "codec \<Rightarrow> call_body \<Rightarrow> (nat, unit) thread" where
  "reply_to_call pb call_body =
    (if rpcvers call_body \<noteq> 2 then
       cbind (send_rpc_rejected_reply_message_tcp pb (Some (create_rpc_mismatch_rejected_reply 2 2)))
         (\<lambda>error_code. creturn (if error_code > 0 then 5 else 0))
     else
       cbind (validate_credential_and_verifier_tcp pb (call_credential call_body) (call_verifier call_body))
         (\<lambda>error_code.
       if error_code \<noteq> 0 then creturn 6
       else
         cbind (cderef (call_credential call_body)) (\<lambda>cred.
         if flavor cred = AUTH_NONE \<and> call_proc call_body \<noteq> 0 then
           cbind (send_auth_error_rejected_reply_tcp pb AUTH_TOOWEAK) creturn
         else
           cbind (on_server (forward_rpc_call_to_program pb (call_credential call_body)
                    (call_verifier call_body) (call_prog call_body) (call_vers call_body)
                    (call_proc call_body) (call_params call_body))) (\<lambda>accepted_reply.
           cbind (send_rpc_accepted_reply_message_tcp pb accepted_reply) (\<lambda>error_code.
           creturn (if error_code > 0 then 7 else 0))))))"

definition process_single_rpc_tcp :: "codec \<Rightarrow> (nat, unit) thread" where
  "process_single_rpc_tcp pb =
    cbind receive_record (\<lambda>buffer.
    case buffer of
      None \<Rightarrow> creturn 1
    | Some rpc_msg_buffer \<Rightarrow>
        (case deserialize_rpc_msg pb rpc_msg_buffer of
           None \<Rightarrow> creturn 2
         | Some rpc_call \<Rightarrow>
             if mtype rpc_call \<noteq> CALL then creturn 3
             else (case rpc_body rpc_call of
                     Rpc_Cbody None \<Rightarrow> creturn 4
                   | Rpc_Cbody (Some call_body) \<Rightarrow> reply_to_call pb call_body
                   | _ \<Rightarrow> creturn 3)))"

end
