(* ===== verification/Examples.thy ===== *)
theory Examples
  imports Rpc_Server
begin

text \<open>
  A small server to evaluate the definitions on: the tree \<open>/d/f\<close>, \<open>/d/s\<close> and \<open>/exports\<close>, a cache that
  knows \<open>/d\<close> and \<open>/d/f\<close>, and a caller with uid and gid 1000.  The codec stands in for the serialisation
  library: it decodes every buffer to one fixed message.
\<close>

definition ex_time :: timespec where
  "ex_time = \<lparr>tv_sec = 100, tv_nsec = 5\<rparr>"

definition ex_inode :: "content \<Rightarrow> mode_t \<Rightarrow> u32 \<Rightarrow> nat \<Rightarrow> inode" where
  "ex_inode c perm owner links =
    \<lparr>i_content = c, i_perm = perm, i_uid = owner, i_gid = owner, i_nlink = links,
     i_atime = ex_time, i_mtime = ex_time, i_ctime = ex_time\<rparr>"

definition ex_inodes :: inodes where
  "ex_inodes =
    [2 \<mapsto> ex_inode (Directory [(''.'', 2), (''..'', 2), (''d'', 3), (''exports'', 5)]) 0x1ED 0 3,
     3 \<mapsto> ex_inode (Directory [(''.'', 3), (''..'', 2), (''f'', 4), (''s'', 6)]) 0x1ED 1000 2,
     4 \<mapsto> ex_inode (Regular [1, 2, 3]) 0x1A4 1000 1,
     5 \<mapsto> ex_inode (Regular (map (of_nat \<circ> of_char) (''/d *(rw)'' @ [CHR 0x0A]))) 0x1A4 0 1,
     6 \<mapsto> ex_inode (Symlink ''f'') 0x1FF 1000 1]"

definition ex_os :: os where
  "ex_os =
    \<lparr>os_inodes = ex_inodes, os_root = 2, os_cwd = 2, os_free = [10, 11, 12], os_clock = ex_time,
     os_faults = [], os_umask = 0x12, os_vararg = 0, os_bufsize = 4096, os_cookie = of_nat,
     os_open = [], os_dev = 1, os_blksize = 4096, os_blocks = of_nat,
     os_statvfs = \<lparr>f_bsize = 4096, f_frsize = 4096, f_blocks = 10, f_bfree = 5, f_bavail = 5\<rparr>\<rparr>"

definition ex_server :: server where
  "ex_server =
    \<lparr>inode_cache = [\<lparr>nfs_fh = \<lparr>inode_number = 4, fh_timestamp = 100\<rparr>, absolute_path = ''/d/f''\<rparr>,
                    \<lparr>nfs_fh = \<lparr>inode_number = 3, fh_timestamp = 100\<rparr>, absolute_path = ''/d''\<rparr>],
     mount_list = [], readdir_sessions_list = [], server_os = ex_os\<rparr>"

section \<open>Callers\<close>

definition ex_caller :: "u32 \<Rightarrow> auth_sys_params" where
  "ex_caller uid =
    \<lparr>auth_timestamp = 0, machinename = Some ''host'', auth_uid = uid, auth_gid = uid,
     auth_gids = Some [uid]\<rparr>"

definition ex_cred :: "u32 \<Rightarrow> opaque_auth option" where
  "ex_cred uid = Some \<lparr>flavor = AUTH_SYS, auth_body = Auth_Body_Auth_Sys (Some (ex_caller uid))\<rparr>"

definition ex_verf :: "opaque_auth option" where
  "ex_verf = Some create_auth_none_opaque_auth"

section \<open>Messages\<close>

definition ex_fhandle :: "u64 \<Rightarrow> fhandle" where
  "ex_fhandle ino = \<lparr>fhandle_nfs_filehandle = Some \<lparr>inode_number = ino, fh_timestamp = 100\<rparr>\<rparr>"

definition ex_dir_op :: "u64 \<Rightarrow> string \<Rightarrow> dir_op_args" where
  "ex_dir_op ino name = \<lparr>dirop_dir = Some (ex_fhandle ino), dirop_name = Some (Some name)\<rparr>"

definition ex_sattr :: "u64 \<Rightarrow> sattr" where
  "ex_sattr sz =
    \<lparr>sattr_mode = 0x1A4, sattr_uid = -1, sattr_gid = -1, sattr_size = sz,
     sattr_atime = Some \<lparr>seconds = -1, useconds = -1\<rparr>, sattr_mtime = Some \<lparr>seconds = -1, useconds = -1\<rparr>\<rparr>"

definition ex_params :: "string \<Rightarrow> any_msg option" where
  "ex_params url = Some \<lparr>type_url = Some url, any_value = []\<rparr>"

text \<open>The message a buffer decodes to can be chosen by a record update; a result packs to its status.\<close>

definition ex_status :: "'a nfs_result \<Rightarrow> bytes" where
  "ex_status r = (if nfs_status r = Some NFS_OK then [0] else [1])"

definition ex_codec :: codec where
  "ex_codec =
    \<lparr>unpack_fhandle = (\<lambda>_. Some (ex_fhandle 4)),
     unpack_sattr_args = (\<lambda>_. Some \<lparr>sattrargs_file = Some (ex_fhandle 4),
                                   sattrargs_attributes = Some (ex_sattr 1)\<rparr>),
     unpack_dir_op_args = (\<lambda>_. Some (ex_dir_op 3 ''f'')),
     unpack_read_args = (\<lambda>_. Some \<lparr>readargs_file = Some (ex_fhandle 4), readargs_offset = 1,
                                  readargs_count = 10000\<rparr>),
     unpack_write_args = (\<lambda>_. Some \<lparr>writeargs_file = Some (ex_fhandle 4), writeargs_offset = 2,
                                   writeargs_nfsdata = Data [7, 8]\<rparr>),
     unpack_create_args = (\<lambda>_. Some \<lparr>createargs_where = Some (ex_dir_op 3 ''g''),
                                    createargs_attributes = Some (ex_sattr (-1))\<rparr>),
     unpack_rename_args = (\<lambda>_. Some \<lparr>renameargs_from = Some (ex_dir_op 3 ''f''),
                                    renameargs_to = Some (ex_dir_op 3 ''g'')\<rparr>),
     unpack_link_args = (\<lambda>_. Some \<lparr>linkargs_from = Some (ex_fhandle 4),
                                  linkargs_to = Some (ex_dir_op 3 ''g'')\<rparr>),
     unpack_symlink_args = (\<lambda>_. Some \<lparr>symlinkargs_from = Some (ex_dir_op 3 ''g''),
                                     symlinkargs_to = Some (Some ''f''),
                                     symlinkargs_attributes = Some (ex_sattr (-1))\<rparr>),
     unpack_readdir_args = (\<lambda>_. Some \<lparr>readdirargs_dir = Some (ex_fhandle 3),
                                     readdirargs_cookie = Some 0, readdirargs_count = 25\<rparr>),
     unpack_dir_path = (\<lambda>_. Some (Some ''/d'')),
     unpack_rpc_msg = (\<lambda>_. None),
     pack_attr_stat = ex_status, pack_dir_op_res = ex_status, pack_read_link_res = ex_status,
     pack_read_res = ex_status, pack_nfs_stat = (\<lambda>s. if s = NFS_OK then [0] else [1]),
     pack_read_dir_res = ex_status, pack_stat_fs_res = ex_status,
     pack_fh_status = (\<lambda>f. if mnt_status f = Some MNT_OK then [0] else [1]),
     pack_rpc_msg = (\<lambda>_. [1, 2, 3]), entry_packed_size = (\<lambda>_. 10)\<rparr>"

section \<open>Evaluation\<close>

text \<open>The definitions that a simplifier run needs to evaluate a handler on these states.\<close>

lemmas ex_defs = ex_os_def ex_inodes_def ex_inode_def ex_time_def ex_server_def ex_cred_def
  ex_caller_def ex_verf_def ex_params_def ex_codec_def ex_fhandle_def ex_dir_op_def ex_sattr_def
  ex_status_def

lemmas path_defs = resolve_def resolve_parent_def path_components_def raw_components_def
  is_absolute_def start_dir_def lookup_entry_def dir_entries_def symlink_target_def

lemmas read_call_defs = sys_lstat_def os_lstat_def stat_of_def sys_statvfs_def sys_readlink_def
  sys_opendir_def sys_closedir_def sys_readdir_def sys_seekdir_def stream_entries_def
  sys_fopen_read_def sys_fopen_update_def sys_fseek_def sys_fread_def file_bytes_def next_fault_def
  with_fault_def

lemmas write_call_defs = sys_unlink_def os_unlink_def drop_link_def dir_del_def upd_inode_def
  touched_def map_content_def free_inode_def sub_nlink_def add_nlink_def sys_open_creat_def
  os_open_creat_def create_entry_def dir_add_def new_inode_def sys_mkdir_def os_mkdir_def
  strip_slashes_def sys_symlink_def sys_link_def os_link_def sys_rmdir_def os_rmdir_def empty_dir_def
  sys_rename_def os_rename_def rename_entry_def is_dot_def replace_entry_def reparent_def
  dir_repoint_def sys_chmod_def sys_chown_def sys_truncate_def sys_utimes_def on_file_def
  sys_fwrite_def sys_fclose_def kernel_write_def direct_part_def file_write_def write_at_def

lemmas step_defs = control_defs decode_params_def decode_fhandle_def decode_dir_op_def
  decode_sattr_def not_null_def path_of_inode_def attributes_of_def type_of_def directory_path_def
  fresh_path_def existing_path_def auth_sys_of_def permission_gate_def check_path_def syscall_def
  on_os_def set_cache_def set_sessions_def make_filehandle_def uncache_inode_def uncache_path_def
  recache_path_def set_times_def decode_create_args_def lookup_filehandle_def create_file_def
  create_directory_def check_setattr_def update_attributes_def write_data_def read_directory_def
  mountable_path_def check_rename_def

lemmas reply_defs = reply_def reply_ptr_def system_error_def garbage_args_def reply_nfs_stat_def
  create_nfs_stat_def fail_attr_stat_def fail_read_res_def fail_dir_op_res_def fail_read_link_res_def
  fail_read_dir_res_def fail_stat_fs_res_def reply_dir_op_ok_def reply_new_file_def
  reply_fh_status_def fail_fh_status_def ok_result_def error_result_def

lemmas file_defs = get_attributes_def fattr_of_stat_def decode_file_type_def
  get_file_absolute_path_def get_inode_number_def create_nfs_filehandle_def add_inode_mapping_def
  read_from_file_def write_to_file_def proc_permission_defs class_permission_defs
  check_permission_def check_class_bits_def check_root_user_def check_setattr_proc_permissions_def
  remove_inode_mapping_by_inode_number_def remove_inode_mapping_by_absolute_path_def

lemmas handler_eval = ex_defs path_defs read_call_defs write_call_defs step_defs reply_defs file_defs
  default_case_defs Let_def

end
