(* ===== verification/Posix_Facts.thy ===== *)
theory Posix_Facts
  imports Posix
begin

text \<open>
  Facts about the system calls that the proofs about the server rest on.

  \<open>same_files\<close> relates two states that differ at most in the fault script and in the open directory
  streams: what calls that only read leave behind.  \<open>extends\<close> relates two states where every path that
  could be resolved before still leads to the same file: what calls leave behind that create names or
  change attributes or data, but remove nothing.
\<close>

section \<open>Calls that only read\<close>

definition same_files :: "os \<Rightarrow> os \<Rightarrow> bool" where
  "same_files os os' \<longleftrightarrow> os'\<lparr>os_faults := [], os_open := []\<rparr> = os\<lparr>os_faults := [], os_open := []\<rparr>"

lemma same_files_refl [simp, intro]: "same_files os os"
  by (simp add: same_files_def)

lemma same_files_trans: "same_files a b \<Longrightarrow> same_files b c \<Longrightarrow> same_files a c"
  by (simp add: same_files_def)

lemma same_filesD:
  assumes "same_files os os'"
  shows "os_inodes os' = os_inodes os" "os_root os' = os_root os" "os_cwd os' = os_cwd os"
    "os_free os' = os_free os" "os_clock os' = os_clock os" "os_umask os' = os_umask os"
    "os_vararg os' = os_vararg os" "os_bufsize os' = os_bufsize os" "os_cookie os' = os_cookie os"
    "os_dev os' = os_dev os" "os_blksize os' = os_blksize os" "os_blocks os' = os_blocks os"
    "os_statvfs os' = os_statvfs os"
  using assms unfolding same_files_def by (cases os; cases os'; simp)+

lemma same_files_faults [simp]: "same_files os (os\<lparr>os_faults := fl\<rparr>)"
  by (simp add: same_files_def)

lemma same_files_open [simp]: "same_files os (os\<lparr>os_open := is\<rparr>)"
  by (cases os) (simp add: same_files_def)

lemma resolve_same_files: "same_files os os' \<Longrightarrow> resolve os' = resolve os"
  by (intro ext) (simp add: resolve_def start_dir_def same_filesD)

lemma next_fault_same: "same_files os (snd (next_fault os))"
  by (simp add: next_fault_def split: list.splits)

lemma next_fault_sameD: "next_fault os = (f, os') \<Longrightarrow> same_files os os'"
  using next_fault_same [of os] by simp

lemma with_fault_same:
  assumes "\<And>os. same_files os (snd (f os))"
  shows "same_files os (snd (with_fault f os))"
  using assms next_fault_same [of os]
  by (auto simp: with_fault_def split: prod.splits fault.splits intro: same_files_trans) 

lemma sys_lstat_same [simp]: "same_files os (snd (sys_lstat p os))"
  unfolding sys_lstat_def
  by (rule with_fault_same) (simp add: os_lstat_def split: sum.splits option.splits)

lemma sys_lstat_sameD: "sys_lstat p os = (r, os') \<Longrightarrow> same_files os os'"
  by (metis snd_conv sys_lstat_same)

lemma sys_statvfs_same [simp]: "same_files os (snd (sys_statvfs p os))"
  unfolding sys_statvfs_def by (rule with_fault_same) (simp split: sum.splits)

lemma sys_readlink_same [simp]: "same_files os (snd (sys_readlink p n os))"
  unfolding sys_readlink_def by (rule with_fault_same) (simp split: sum.splits option.splits)

lemma sys_opendir_same [simp]: "same_files os (snd (sys_opendir p os))"
  unfolding sys_opendir_def by (rule with_fault_same) (simp split: sum.splits)

lemma sys_opendir_sameD: "sys_opendir p os = (r, os') \<Longrightarrow> same_files os os'"
  by (metis snd_conv sys_opendir_same)

lemma sys_closedir_same [simp]: "same_files os (sys_closedir i os)"
  by (simp add: sys_closedir_def)

lemma sys_readdir_same [simp]: "same_files os (snd (sys_readdir i pos os))"
  unfolding sys_readdir_def by (rule with_fault_same) simp

lemma sys_fopen_read_same [simp]: "same_files os (snd (sys_fopen_read p os))"
  unfolding sys_fopen_read_def by (rule with_fault_same) simp

lemma sys_fopen_update_same [simp]: "same_files os (snd (sys_fopen_update p os))"
  unfolding sys_fopen_update_def by (rule with_fault_same) (simp split: sum.splits)

lemma sys_fseek_same [simp]: "same_files os (snd (sys_fseek os))"
  unfolding sys_fseek_def by (rule with_fault_same) simp

lemma sys_fread_same [simp]: "same_files os (snd (sys_fread i off n os))"
  using next_fault_same [of os]
  by (auto simp: sys_fread_def split: prod.splits sum.splits fault.splits)

text \<open>What a call that succeeded found, for a state that may have moved on by reads only.\<close>

lemma with_fault_Inr:
  assumes "with_fault f os = (Inr a, os')"
  obtains os1 where "f os1 = (Inr a, os')" and "same_files os os1"
  using assms next_fault_same [of os]
  by (auto simp: with_fault_def split: prod.splits fault.splits)

lemma with_fault_no_faults [simp]:
  "os_faults os = [] \<Longrightarrow> with_fault f os = f os"
  by (simp add: with_fault_def next_fault_def)

lemma stat_of_same_files: "same_files os os' \<Longrightarrow> stat_of os' = stat_of os"
  by (intro ext) (simp add: stat_of_def same_filesD)

lemma sys_lstat_Inr:
  assumes "sys_lstat p os = (Inr st, os')"
  obtains i nd where "resolve os False p = Inr i" and "os_inodes os i = Some nd" and "st = stat_of os i nd"
    and "same_files os os'"
proof -
  from assms obtain os1 where os1: "os_lstat p os1 = (Inr st, os')" "same_files os os1"
    unfolding sys_lstat_def by (rule with_fault_Inr)
  note eqs = resolve_same_files [OF os1(2)] same_filesD(1) [OF os1(2)] stat_of_same_files [OF os1(2)]
  show thesis
  proof (cases "resolve os False p")
    case (Inl e)
    with os1(1) eqs show thesis by (simp add: os_lstat_def)
  next
    case (Inr i)
    show thesis
    proof (cases "os_inodes os i")
      case None
      with Inr os1(1) eqs show thesis by (simp add: os_lstat_def)
    next
      case (Some nd)
      with Inr os1 eqs show thesis by (intro that [of i nd]) (simp_all add: os_lstat_def)
    qed
  qed
qed

section \<open>Calls that remove nothing\<close>

fun content_le :: "content \<Rightarrow> content \<Rightarrow> bool" where
  "content_le (Directory es) (Directory es') = (map_of es \<subseteq>\<^sub>m map_of es')"
| "content_le (Symlink t) (Symlink t') = (t = t')"
| "content_le (Directory _) _ = False"
| "content_le (Symlink _) _ = False"
| "content_le _ (Directory _) = False"
| "content_le _ (Symlink _) = False"
| "content_le _ _ = True"

lemma content_le_refl [simp]: "content_le c c"
  by (cases c) simp_all

lemma content_le_trans: "content_le a b \<Longrightarrow> content_le b c \<Longrightarrow> content_le a c"
  by (cases a; cases b; cases c) (auto intro: map_le_trans)

definition tree_le :: "inodes \<Rightarrow> inodes \<Rightarrow> bool" where
  "tree_le fs fs' \<longleftrightarrow>
    (\<forall>i nd. fs i = Some nd \<longrightarrow> (\<exists>nd'. fs' i = Some nd' \<and> content_le (i_content nd) (i_content nd')))"

lemma tree_leD:
  assumes "tree_le fs fs'" and "fs i = Some nd"
  obtains nd' where "fs' i = Some nd'" and "content_le (i_content nd) (i_content nd')"
  using assms by (auto simp: tree_le_def)

lemma tree_le_refl [simp]: "tree_le fs fs"
  by (auto simp: tree_le_def)

lemma tree_le_trans: "tree_le a b \<Longrightarrow> tree_le b c \<Longrightarrow> tree_le a c"
  unfolding tree_le_def by (metis content_le_trans)

lemma tree_le_lookup:
  assumes "tree_le fs fs'" and "lookup_entry fs d c = Inr i"
  shows "lookup_entry fs' d c = Inr i"
proof -
  from assms(2) obtain nd es where d: "fs d = Some nd" "i_content nd = Directory es"
    "length c \<le> NAME_MAX" "map_of es c = Some i" "fs i \<noteq> None"
    by (auto simp: lookup_entry_def dir_entries_def split: option.splits content.splits if_splits)
  obtain nd' where nd': "fs' d = Some nd'" "content_le (Directory es) (i_content nd')"
    using tree_leD [OF assms(1) d(1)] d(2) by auto
  then obtain es' where es': "i_content nd' = Directory es'" "map_of es \<subseteq>\<^sub>m map_of es'"
    by (cases "i_content nd'") auto
  then have "map_of es' c = Some i" using d(4) by (auto simp: map_le_def dom_def)
  moreover have "fs' i \<noteq> None" using assms(1) d(5) by (auto simp: tree_le_def)
  ultimately show ?thesis using nd'(1) es'(1) d(3) by (simp add: lookup_entry_def dir_entries_def)
qed

lemma tree_le_symlink:
  assumes "tree_le fs fs'" and "fs i \<noteq> None"
  shows "symlink_target fs' i = symlink_target fs i"
proof -
  from assms(2) obtain nd where nd: "fs i = Some nd" by auto
  then obtain nd' where nd': "fs' i = Some nd'" "content_le (i_content nd) (i_content nd')"
    using tree_leD [OF assms(1)] by blast
  then show ?thesis
    using nd by (cases "i_content nd"; cases "i_content nd'") (simp_all add: symlink_target_def)
qed

lemma tree_le_walk:
  assumes "tree_le fs fs'" and "walk fs rt follow k cur cs = Inr i"
  shows "walk fs' rt follow k cur cs = Inr i"
  using assms
proof (induction fs rt follow k cur cs rule: walk.induct)
  case (2 fs rt follow k cur c cs)
  from "2.prems"(2) obtain j where j: "lookup_entry fs cur c = Inr j" by (auto split: sum.splits)
  then have j': "lookup_entry fs' cur c = Inr j" by (rule tree_le_lookup [OF "2.prems"(1)])
  have "fs j \<noteq> None" using j by (auto simp: lookup_entry_def split: sum.splits if_splits option.splits)
  then have st: "symlink_target fs' j = symlink_target fs j" by (rule tree_le_symlink [OF "2.prems"(1)])
  show ?case
  proof (cases "symlink_target fs j")
    case None
    with 2 j j' st show ?thesis by simp
  next
    case (Some t)
    show ?thesis
    proof (cases "cs = [] \<and> \<not> follow")
      case True
      with "2.prems" j j' st Some show ?thesis by simp
    next
      case False
      then obtain k' where k: "k = Suc k'" and t: "t \<noteq> []"
        and w: "walk fs rt follow k' (if is_absolute t then rt else cur) (path_components t @ cs) = Inr i"
        using "2.prems"(2) j Some by (cases k) (simp_all split: if_split_asm)
      from "2.IH"(2) [OF j Some False k t "2.prems"(1) w] show ?thesis
        using False j' st Some k t by (cases "is_absolute t") auto
    qed
  qed
qed simp

text \<open>The numbers handed out for new files are not in use.\<close>

definition fresh_ok :: "os \<Rightarrow> bool" where
  "fresh_ok os \<longleftrightarrow> distinct (os_free os) \<and> (\<forall>i \<in> set (os_free os). os_inodes os i = None)"

definition extends :: "os \<Rightarrow> os \<Rightarrow> bool" where
  "extends os os' \<longleftrightarrow>
    os_root os' = os_root os \<and> os_cwd os' = os_cwd os \<and> tree_le (os_inodes os) (os_inodes os')"

lemma extends_resolve: "extends os os' \<Longrightarrow> resolve os follow p = Inr i \<Longrightarrow> resolve os' follow p = Inr i"
  by (auto simp: extends_def resolve_def start_dir_def split: if_splits intro: tree_le_walk)

definition grows :: "os \<Rightarrow> os \<Rightarrow> bool" where
  "grows os os' \<longleftrightarrow> (fresh_ok os \<longrightarrow> extends os os' \<and> fresh_ok os')"

lemma grows_refl [simp]: "grows os os"
  by (simp add: grows_def extends_def)

lemma grows_trans: "grows a b \<Longrightarrow> grows b c \<Longrightarrow> grows a c"
  by (auto simp: grows_def extends_def intro: tree_le_trans)

lemma same_files_grows: "same_files os os' \<Longrightarrow> grows os os'"
  by (simp add: grows_def extends_def fresh_ok_def same_filesD)

lemma with_fault_grows:
  assumes "\<And>os. grows os (snd (f os))"
  shows "grows os (snd (with_fault f os))"
proof -
  obtain ft os1 where n: "next_fault os = (ft, os1)" by fastforce
  then have "grows os os1" by (intro same_files_grows next_fault_sameD)
  with n assms show ?thesis
    by (cases ft) (auto simp: with_fault_def intro: grows_trans)
qed

lemma upd_inode_grows:
  assumes "\<And>nd. content_le (i_content nd) (i_content (f nd))"
  shows "grows os (upd_inode i f os)"
proof (cases "os_inodes os i")
  case (Some nd)
  then show ?thesis
    using assms [of nd]
    by (auto simp: grows_def extends_def fresh_ok_def tree_le_def upd_inode_def)
qed (simp add: upd_inode_def)

lemma content_le_add [simp]: "content_le c (content_add n i c)"
  by (cases c) (auto simp: map_add_def map_le_def split: option.splits)

lemma content_le_write [simp]: "content_le c (content_write off new c)"
  by (cases c) simp_all

lemma content_le_truncate [simp]: "content_le c (content_truncate n c)"
  by (cases c) simp_all

lemma touched_content [simp]: "i_content (touched os nd) = i_content nd"
  by (simp add: touched_def)

lemma map_content_content [simp]: "i_content (map_content f nd) = f (i_content nd)"
  by (simp add: map_content_def)

lemma dir_add_grows: "grows os (dir_add d n i os)"
  unfolding dir_add_def by (rule upd_inode_grows) simp

lemma add_nlink_grows: "grows os (add_nlink i os)"
  unfolding add_nlink_def by (rule upd_inode_grows) simp

lemma file_write_grows: "grows os (file_write i off new os)"
  by (simp add: file_write_def upd_inode_grows)

lemma new_file_grows:
  assumes "os_free os = i # fr"
  shows "grows os (os\<lparr>os_free := fr, os_inodes := (os_inodes os)(i \<mapsto> nd)\<rparr>)"
  using assms by (auto simp: grows_def extends_def fresh_ok_def tree_le_def)

lemma create_entry_grows:
  assumes "\<And>d os. grows os (post d os)"
  shows "grows os (snd (create_entry mk post p os))"
  by (auto simp: create_entry_def split: sum.splits prod.splits list.splits
      intro!: grows_trans [OF _ assms] grows_trans [OF _ dir_add_grows] new_file_grows)

lemma on_file_grows:
  assumes "\<And>os nd. content_le (i_content nd) (i_content (f os nd))"
  shows "grows os (snd (on_file follow p refuse f os))"
  by (auto simp: on_file_def assms upd_inode_grows split: sum.splits option.splits)

lemma sys_chmod_grows [simp]: "grows os (snd (sys_chmod p m os))"
  unfolding sys_chmod_def by (intro with_fault_grows on_file_grows) simp

lemma sys_chown_grows [simp]: "grows os (snd (sys_chown p u g os))"
  unfolding sys_chown_def by (intro with_fault_grows on_file_grows) simp

lemma sys_truncate_grows [simp]: "grows os (snd (sys_truncate p n os))"
  unfolding sys_truncate_def by (rule with_fault_grows) (simp add: on_file_grows)

lemma sys_utimes_grows [simp]: "grows os (snd (sys_utimes p at mt os))"
  unfolding sys_utimes_def by (rule with_fault_grows) (simp add: on_file_grows)

lemma sys_open_creat_grows [simp]: "grows os (snd (sys_open_creat p m os))"
  unfolding sys_open_creat_def
  by (rule with_fault_grows) (simp add: os_open_creat_def create_entry_grows split: sum.splits)

lemma sys_mkdir_grows [simp]: "grows os (snd (sys_mkdir p m os))"
  unfolding sys_mkdir_def os_mkdir_def
  by (intro with_fault_grows create_entry_grows add_nlink_grows)

lemma sys_symlink_grows [simp]: "grows os (snd (sys_symlink t p os))"
  unfolding sys_symlink_def by (rule with_fault_grows) (simp add: create_entry_grows)

lemma sys_link_grows [simp]: "grows os (snd (sys_link old new os))"
  unfolding sys_link_def
  by (rule with_fault_grows)
    (auto simp: os_link_def split: sum.splits prod.splits
      intro: grows_trans [OF dir_add_grows add_nlink_grows])

lemma kernel_write_grows: "grows os (snd (kernel_write i off new os))"
proof -
  obtain ft os1 where n: "next_fault os = (ft, os1)" by fastforce
  then have "grows os os1" by (intro same_files_grows next_fault_sameD)
  with n show ?thesis
    by (auto simp: kernel_write_def split: sum.splits fault.splits
        intro: grows_trans [OF _ file_write_grows])
qed

lemma sys_fwrite_grows [simp]: "grows os (snd (sys_fwrite i off new os))"
  using kernel_write_grows [of os i off "take (direct_part os (length new)) new"]
  by (auto simp: sys_fwrite_def split: prod.splits option.splits)

lemma sys_fclose_grows [simp]: "grows os (snd (sys_fclose i off new os))"
  using kernel_write_grows [of os i "off + direct_part os (length new)"
      "drop (direct_part os (length new)) new"]
  by (auto simp: sys_fclose_def split: prod.splits)


end
