(* ===== verification/Server_Frames.thy ===== *)
theory Server_Frames
  imports Server_State Posix_Facts
begin

text \<open>
  Frame rules for the steps the handlers share.  The locale \<open>read_frame\<close> is about a relation between
  server states that reading the file system cannot break; its lemmas say that every shared step that
  only reads keeps the relation.  It is interpreted for three relations: the files stay as they are, the
  caches and lists of the server stay as they are, and the cache stays consistent with the files.
\<close>

section \<open>Reading leaves the files alone\<close>

lemma get_attributes_same [simp]: "same_files os (snd (get_attributes p os))"
  by (auto simp: get_attributes_def dest: sys_lstat_sameD split: prod.splits sum.splits)

lemma get_inode_number_same [simp]: "same_files os (snd (get_inode_number p os))"
  by (auto simp: get_inode_number_def dest: sys_lstat_sameD split: prod.splits sum.splits)

lemma get_inode_number_sameD: "get_inode_number p os = (r, os') \<Longrightarrow> same_files os os'"
  by (metis get_inode_number_same snd_conv)

lemma get_attributes_sameD: "get_attributes p os = (r, os') \<Longrightarrow> same_files os os'"
  by (metis get_attributes_same snd_conv)

lemma check_permission_same [simp]: "same_files os (snd (check_permission a b c p uid gid os))"
  by (auto simp: check_permission_def dest: sys_lstat_sameD split: prod.splits sum.splits)

lemma class_permission_same [simp]:
  "same_files os (snd (check_read_permission p uid gid os))"
  "same_files os (snd (check_write_permission p uid gid os))"
  "same_files os (snd (check_execute_permission p uid gid os))"
  by (simp_all add: class_permission_defs)

lemma check_write_permission_sameD: "check_write_permission p uid gid os = (r, os') \<Longrightarrow> same_files os os'"
  by (metis class_permission_same(2) snd_conv)

lemma check_setattr_same:
  "check_setattr_proc_permissions path sattr uid gid os = Some (r, os') \<Longrightarrow> same_files os os'"
  by (auto simp: check_setattr_proc_permissions_def split: option.splits if_splits
      dest: check_write_permission_sameD)

lemma check_rename_same [simp]:
  "same_files os (snd (check_rename_proc_permissions f t uid gid os))"
proof -
  obtain r os1 where w: "check_write_permission f uid gid os = (r, os1)" by fastforce
  then have "same_files os os1" using class_permission_same(2) [of os f uid gid] by simp
  then have "same_files os (snd (check_write_permission t uid gid os1))"
    using class_permission_same(2) same_files_trans by blast
  with w \<open>same_files os os1\<close> show ?thesis
    by (simp add: check_rename_proc_permissions_def)
qed

lemma proc_permission_same [simp]:
  "same_files os (snd (check_mount_proc_permissions p uid gid os))"
  "same_files os (snd (check_getattr_proc_permissions p uid gid os))"
  "same_files os (snd (check_lookup_proc_permissions p uid gid os))"
  "same_files os (snd (check_readlink_proc_permissions p uid gid os))"
  "same_files os (snd (check_read_proc_permissions p uid gid os))"
  "same_files os (snd (check_write_proc_permissions p uid gid os))"
  "same_files os (snd (check_create_proc_permissions p uid gid os))"
  "same_files os (snd (check_remove_proc_permissions p uid gid os))"
  "same_files os (snd (check_link_proc_permissions p uid gid os))"
  "same_files os (snd (check_symlink_proc_permissions p uid gid os))"
  "same_files os (snd (check_mkdir_proc_permissions p uid gid os))"
  "same_files os (snd (check_rmdir_proc_permissions p uid gid os))"
  "same_files os (snd (check_readdir_proc_permissions p uid gid os))"
  "same_files os (snd (check_statfs_proc_permissions p uid gid os))"
  by (simp_all add: proc_permission_defs del: check_rename_same)

lemma read_from_file_same [simp]: "same_files os (snd (read_from_file p off n os))"
proof (cases p)
  case (Some path)
  obtain r1 os1 where 1: "sys_fopen_read path os = (r1, os1)" by fastforce
  obtain r2 os2 where 2: "sys_fseek os1 = (r2, os2)" by fastforce
  have s1: "same_files os os1" using 1 sys_fopen_read_same [of os path] by simp
  have s2: "same_files os os2" using 2 sys_fseek_same [of os1] s1 same_files_trans by fastforce
  have "same_files os (snd (sys_fread i off n os2))" for i
    using sys_fread_same s2 same_files_trans by blast
  then show ?thesis
    using Some 1 2 s1 s2
    by (auto simp: read_from_file_def split: sum.splits prod.splits) (metis snd_conv)+
qed (simp add: read_from_file_def)

lemma write_to_file_grows [simp]: "grows os (snd (write_to_file p off data os))"
proof (cases p)
  case (Some path)
  obtain r1 os1 where 1: "sys_fopen_update path os = (r1, os1)" by fastforce
  obtain r2 os2 where 2: "sys_fseek os1 = (r2, os2)" by fastforce
  have s1: "grows os os1" using 1 sys_fopen_update_same [of os path] same_files_grows by fastforce
  have s2: "grows os os2" using 2 sys_fseek_same [of os1] s1 same_files_grows grows_trans by fastforce
  have s3: "grows os (snd (sys_fwrite i off data os2))" for i using s2 sys_fwrite_grows grows_trans by blast
  have s4: "grows os (snd (sys_fclose i off data (snd (sys_fwrite j off data os2))))" for i j
    using s3 sys_fclose_grows grows_trans by blast
  show ?thesis
    using Some 1 2 s1 s2 s3 s4
    by (auto simp: write_to_file_def split: sum.splits prod.splits option.splits) (metis snd_conv)+
qed (simp add: write_to_file_def)

section \<open>Shared steps that only read\<close>

locale read_frame = frame_relation R for R :: "server \<Rightarrow> server \<Rightarrow> bool" +
  assumes frame_read: "same_files (server_os s) os' \<Longrightarrow> R s (s\<lparr>server_os := os'\<rparr>)"
begin

lemma keeps_on_os_read [frame_intros]:
  assumes "\<And>os. same_files os (snd (f os))"
  shows "keeps R (on_os f)"
proof (rule keepsI)
  fix s :: server
  have "same_files (server_os s) (snd (f (server_os s)))" by (rule assms)
  then have "R s (s\<lparr>server_os := snd (f (server_os s))\<rparr>)" by (rule frame_read)
  then show "R s (snd (on_os f s))" by (simp add: on_os_def case_prod_beta)
qed

lemma keeps_garbage_args [frame_intros]: "keeps R garbage_args"
  unfolding garbage_args_def by (rule keeps_creturn)

lemma keeps_system_error [frame_intros]: "keeps R system_error"
  unfolding system_error_def by (rule keeps_creturn)

lemma keeps_reply [frame_intros]: "keeps R (reply pack url m)"
  unfolding reply_def by (rule keeps_creturn)

lemma keeps_reply_ptr [frame_intros]: "keeps R (reply_ptr pack url m)"
  unfolding reply_ptr_def by (intro keeps_case_option keeps_cub keeps_reply)

lemma keeps_fail [frame_intros]:
  "keeps R (fail_attr_stat pb st)" "keeps R (fail_dir_op_res pb st)"
  "keeps R (fail_read_link_res pb st)" "keeps R (fail_read_res pb st)"
  "keeps R (fail_read_dir_res pb st)" "keeps R (fail_stat_fs_res pb st)"
  "keeps R (reply_nfs_stat pb st)" "keeps R (reply_dir_op_ok pb fh fa)"
  unfolding fail_attr_stat_def fail_dir_op_res_def fail_read_link_res_def fail_read_res_def
    fail_read_dir_res_def fail_stat_fs_res_def reply_nfs_stat_def reply_dir_op_ok_def
  by (rule keeps_reply_ptr keeps_reply)+

lemma keeps_not_null [frame_intros]: "keeps R (not_null p)"
  unfolding not_null_def by (rule keeps_csome)

lemma keeps_decode_params [frame_intros]: "keeps R (decode_params url unpack parameters)"
  unfolding decode_params_def by (intro keeps_cbind keeps_cderef keeps_cguard keeps_csome)

lemma keeps_decode_fhandle [frame_intros]: "keeps R (decode_fhandle fh)"
  unfolding decode_fhandle_def by (intro keeps_cbind keeps_not_null keeps_cgo)

lemma keeps_decode_dir_op [frame_intros]: "keeps R (decode_dir_op args)"
  unfolding decode_dir_op_def
  by (intro keeps_cbind keeps_not_null keeps_decode_fhandle keeps_cgo)

lemma keeps_decode_sattr [frame_intros]: "keeps R (decode_sattr args)"
  unfolding decode_sattr_def by (intro keeps_cbind keeps_not_null keeps_cgo)

lemma keeps_path_of_inode [frame_intros]:
  "(\<And>st. keeps R (fail st)) \<Longrightarrow> keeps R (path_of_inode fail ino)"
  unfolding path_of_inode_def by (intro keeps_cbind keeps_cget keeps_case_option keeps_cgo)

lemma keeps_attributes_of [frame_intros]: "keeps R (attributes_of path)"
  unfolding attributes_of_def
  by (intro keeps_cbind keeps_on_os_read keeps_case_sum keeps_system_error keeps_cgo) simp

lemma keeps_type_of [frame_intros]: "keeps R (type_of path)"
  unfolding type_of_def by (intro keeps_cbind keeps_attributes_of keeps_cderef)

lemma keeps_directory_path [frame_intros]:
  "(\<And>st. keeps R (fail st)) \<Longrightarrow> keeps R (directory_path fail ino)"
  unfolding directory_path_def
  by (intro keeps_cbind keeps_path_of_inode keeps_type_of keeps_if keeps_cgo)

lemma keeps_fresh_path [frame_intros]:
  "(\<And>st. keeps R (fail st)) \<Longrightarrow> keeps R (fresh_path fail directory filename)"
  unfolding fresh_path_def Let_def
  by (intro keeps_if keeps_cbind keeps_on_os_read keeps_case_sum keeps_system_error keeps_cgo) simp_all

lemma keeps_existing_path [frame_intros]:
  "(\<And>st. keeps R (fail st)) \<Longrightarrow> keeps R (existing_path fail directory filename)"
  unfolding existing_path_def Let_def
  by (intro keeps_if keeps_cbind keeps_on_os_read keeps_case_sum keeps_system_error keeps_cgo) simp_all

lemma keeps_auth_sys_of [frame_intros]: "keeps R (auth_sys_of cred)"
  unfolding auth_sys_of_def by (auto intro: keeps_cub keeps_cgo split: auth_body.splits option.splits)

lemma keeps_permission_gate [frame_intros]:
  assumes "\<And>st. keeps R (fail st)" and "\<And>a. keeps R (check a)"
  shows "keeps R (permission_gate fail cred check)"
  unfolding permission_gate_def
  by (intro keeps_cbind keeps_cderef keeps_if keeps_auth_sys_of keeps_system_error keeps_cgo assms)

lemma keeps_check_path [frame_intros]:
  "(\<And>os uid gid. same_files os (snd (check path uid gid os))) \<Longrightarrow> keeps R (check_path check path a)"
  unfolding check_path_def by (rule keeps_on_os_read)

lemma keeps_syscall [frame_intros]:
  assumes "keeps R (on_os f :: (errno + 'a) handler)" and "\<And>st. keeps R (fail st)"
  shows "keeps R (syscall fail status f :: 'a handler)"
  unfolding syscall_def
  by (intro keeps_cbind assms keeps_case_sum keeps_case_option keeps_system_error keeps_cgo)

end

section \<open>Three frames\<close>

definition files_kept :: "server \<Rightarrow> server \<Rightarrow> bool" where
  "files_kept s s' \<longleftrightarrow> same_files (server_os s) (server_os s')"

definition lists_kept :: "server \<Rightarrow> server \<Rightarrow> bool" where
  "lists_kept s s' \<longleftrightarrow> inode_cache s' = inode_cache s \<and> mount_list s' = mount_list s \<and>
    readdir_sessions_list s' = readdir_sessions_list s"

text \<open>Every entry of the cache names a path that leads to the inode with its number.\<close>

definition cache_consistent :: "server \<Rightarrow> bool" where
  "cache_consistent s \<longleftrightarrow> fresh_ok (server_os s) \<and>
    (\<forall>m \<in> set (inode_cache s). resolve (server_os s) False (absolute_path m) = Inr (mapping_ino m))"

definition consistency_kept :: "server \<Rightarrow> server \<Rightarrow> bool" where
  "consistency_kept s s' \<longleftrightarrow> (cache_consistent s \<longrightarrow> cache_consistent s')"

interpretation files: read_frame files_kept
  by unfold_locales (auto simp: files_kept_def intro: same_files_trans)

interpretation lists: read_frame lists_kept
  by unfold_locales (auto simp: lists_kept_def)

lemma cache_consistent_grows:
  assumes "cache_consistent s" and "grows (server_os s) os'"
  shows "cache_consistent (s\<lparr>server_os := os'\<rparr>)"
  using assms by (auto simp: cache_consistent_def grows_def dest: extends_resolve)

lemma cache_consistent_same:
  assumes "same_files (server_os s) (server_os s')" and "inode_cache s' = inode_cache s"
  shows "cache_consistent s \<Longrightarrow> cache_consistent s'"
  using assms(2) resolve_same_files [OF assms(1)] same_filesD [OF assms(1)]
  by (simp add: cache_consistent_def fresh_ok_def)

interpretation consistency: read_frame consistency_kept
  by unfold_locales
    (auto simp: consistency_kept_def intro: cache_consistent_grows same_files_grows)

lemma consistency_on_os [frame_intros]:
  assumes "\<And>os. grows os (snd (f os))"
  shows "keeps consistency_kept (on_os f)"
  using assms cache_consistent_grows
  by (auto simp: keeps_def consistency_kept_def on_os_def split: prod.splits) (metis snd_conv)

end
