(* ===== verification/Directory_Facts.thy ===== *)
theory Directory_Facts
  imports Directory_Reading Posix_Facts
begin

text \<open>
  What reading of directories guarantees: it changes no file, the entries it returns are a piece of the
  directory of bounded size, and the list of sessions stays well-formed.
\<close>

section \<open>Reading directories changes no file\<close>

lemma read_entries_same: "same_files os (snd (snd (read_entries pb d bc pos tot es os)))"
proof (induction pb d bc pos tot es os rule: read_entries.induct)
  case (1 pb d bc pos tot es os)
  obtain r os1 where r: "sys_readdir d pos os = (r, os1)" by fastforce
  then have s: "same_files os os1" using sys_readdir_same [of os d pos] by simp
  show ?case
  proof (cases r)
    case (Inl e)
    with r s show ?thesis by (simp add: read_entries.simps [of pb d bc pos tot es os])
  next
    case (Inr x)
    show ?thesis
    proof (cases x)
      case None
      with Inr r s show ?thesis by (simp add: read_entries.simps [of pb d bc pos tot es os])
    next
      case (Some e)
      with Inr r s 1 show ?thesis
        by (auto simp: read_entries.simps [of pb d bc pos tot es os] Let_def intro: same_files_trans)
    qed
  qed
qed

lemma remove_loop_same: "remove_loop client ino ss os = Some (r, ss', os') \<Longrightarrow> same_files os os'"
  by (induction client ino ss os arbitrary: r ss' os' rule: remove_loop.induct)
    (auto simp: free_readdir_session_def split: option.splits bool.splits)

lemma remove_readdir_session_same:
  "remove_readdir_session client ino ss os = Some (r, ss', os') \<Longrightarrow> same_files os os'"
  by (auto simp: remove_readdir_session_def simp del: remove_loop.simps
      split: option.splits list.splits dest: remove_loop_same)

lemma read_from_session_same:
  assumes "read_from_session pb client ino session cookie bc ss os = Some (r, ss', os')"
  shows "same_files os os'"
proof -
  define start where "start = (if cookie = 0 then 0 else sys_seekdir (directory_stream session) cookie os)"
  obtain res pos os1 where e: "read_entries pb (directory_stream session) bc start 0 [] os = (res, pos, os1)"
    by (metis prod_cases3)
  then have s: "same_files os os1"
    using read_entries_same [of os pb "directory_stream session" bc start 0 "[]"] by simp
  from assms e s show ?thesis
    by (auto simp: read_from_session_def start_def [symmetric] Let_def
        split: sum.splits option.splits if_splits dest!: remove_readdir_session_same
        intro: same_files_trans)
qed

lemma add_session_same:
  "add_new_readdir_session client path ino ss os = Some (r, ss', os') \<Longrightarrow> same_files os os'"
  by (auto simp: add_new_readdir_session_def create_new_readdir_session_def dest: sys_opendir_sameD
      split: option.splits sum.splits prod.splits)

lemma read_from_directory_same:
  assumes "read_from_directory pb client path ino cookie bc ss os = Some (r, ss', os')"
  shows "same_files os os'"
  using assms
  by (auto simp: read_from_directory_def split: option.splits if_splits
      dest!: add_session_same read_from_session_same intro: same_files_trans)

section \<open>Sessions\<close>

text \<open>
  The session of a client and a directory, as the code decides it: same directory, machine name and uid.
  The gid takes no part.
\<close>

definition session_of :: "auth_sys_params \<Rightarrow> u64 \<Rightarrow> readdir_session \<Rightarrow> bool" where
  "session_of client ino session \<longleftrightarrow>
    directory_inode_number session = ino \<and>
    machinename (client_authsysparams session) = machinename client \<and>
    auth_uid (client_authsysparams session) = auth_uid client"

definition named :: "readdir_sessions \<Rightarrow> bool" where
  "named ss \<longleftrightarrow> (\<forall>session \<in> set ss. machinename (client_authsysparams session) \<noteq> None)"

lemma session_matches_named:
  assumes "machinename client \<noteq> None" and "machinename (client_authsysparams session) \<noteq> None"
  shows "session_matches client ino session = Some (session_of client ino session)"
  using assms by (auto simp: session_matches_def compare_authsysparams_def session_of_def)

lemma find_loop_named:
  assumes "machinename client \<noteq> None" and "named ss"
  shows "find_loop client ino ss = Some (List.find (session_of client ino) ss)"
  using assms(2)
  by (induction ss) (simp_all add: named_def session_matches_named [OF assms(1)] split: bool.splits)

lemma remove_loop_named:
  assumes "machinename client \<noteq> None" and "named ss"
  shows "remove_loop client ino ss os =
    Some (case List.find (session_of client ino) ss of
            None \<Rightarrow> (6, ss, os)
          | Some session \<Rightarrow> (0, remove_first (session_of client ino) ss, free_readdir_session session os))"
  using assms(2)
  by (induction ss) (auto simp: named_def session_matches_named [OF assms(1)] split: bool.splits option.splits)

lemma update_session_named:
  assumes "machinename client \<noteq> None" and "named ss"
  shows "update_session client ino f ss = update_first (session_of client ino) f ss"
  using assms(2) unfolding update_session_def
  by (induction ss) (simp_all add: named_def session_matches_named [OF assms(1)])

lemma named_update_first:
  assumes "named ss" and "\<And>x. client_authsysparams (f x) = client_authsysparams x"
  shows "named (update_first P f ss)"
  using assms by (induction ss) (auto simp: named_def)

lemma named_remove_first: "named ss \<Longrightarrow> named (remove_first P ss)"
  using set_remove_first [of P ss] by (auto simp: named_def)

lemma find_update_first:
  assumes "\<And>x. P (f x) = P x"
  shows "List.find P (update_first P f ss) = map_option f (List.find P ss)"
  by (induction ss) (simp_all add: assms)

lemma remove_update_first:
  assumes "\<And>x. P (f x) = P x"
  shows "remove_first P (update_first P f ss) = remove_first P ss"
  by (induction ss) (simp_all add: assms)

lemma session_of_update [simp]:
  "session_of client ino (session\<lparr>stream_position := p\<rparr>) = session_of client ino session"
  "session_of client ino (session\<lparr>stream_position := p, last_readdir_rpc_timestamp := t\<rparr>) =
    session_of client ino session"
  by (simp_all add: session_of_def)

lemma remove_session_named:
  assumes "machinename client \<noteq> None" and "named ss"
    and "List.find (session_of client ino) ss = Some session"
  shows "remove_readdir_session (Some client) ino ss os =
    Some (0, remove_first (session_of client ino) ss, free_readdir_session session os)"
proof -
  obtain x xs where "ss = x # xs" using assms(3) by (cases ss) auto
  then have "remove_readdir_session (Some client) ino ss os = remove_loop client ino ss os"
    by (simp add: remove_readdir_session_def del: remove_loop.simps)
  with assms show ?thesis by (simp add: remove_loop_named)
qed

text \<open>What \<open>read_from_session\<close> does to the list, given what was read.\<close>

definition session_start :: "readdir_session \<Rightarrow> u64 \<Rightarrow> os \<Rightarrow> nat" where
  "session_start session cookie os =
    (if cookie = 0 then 0 else sys_seekdir (directory_stream session) cookie os)"

lemma read_from_session_conv:
  assumes "machinename client \<noteq> None" and "named ss"
    and "List.find (session_of client ino) ss = Some session"
  shows "read_from_session pb client ino session cookie bc ss os =
    (case read_entries pb (directory_stream session) bc (session_start session cookie os) 0 [] os of
       (Inl code, pos, os') \<Rightarrow>
         Some (Inl code, update_first (session_of client ino) (\<lambda>s. s\<lparr>stream_position := pos\<rparr>) ss, os')
     | (Inr (entries, eof), pos, os') \<Rightarrow>
         if eof then Some (Inr (entries, True), remove_first (session_of client ino) ss,
                           free_readdir_session session os')
         else Some (Inr (entries, False),
                    update_first (session_of client ino)
                      (\<lambda>s. s\<lparr>stream_position := pos,
                             last_readdir_rpc_timestamp := tv_sec (os_clock os')\<rparr>) ss, os'))"
proof -
  let ?P = "session_of client ino" and ?start = "session_start session cookie os"
  obtain res pos os1 where
    r: "read_entries pb (directory_stream session) bc ?start 0 [] os = (res, pos, os1)"
    by (metis prod_cases3)
  let ?f = "\<lambda>s. s\<lparr>stream_position := pos, last_readdir_rpc_timestamp := tv_sec (os_clock os1)\<rparr>"
  have n: "named (update_first ?P ?f ss)" using assms(2) by (rule named_update_first) simp
  have "List.find ?P (update_first ?P ?f ss) = Some (?f session)"
    using assms(3) by (simp add: find_update_first)
  from remove_session_named [OF assms(1) n this]
  have "remove_readdir_session (Some client) ino (update_first ?P ?f ss) os1 =
      Some (0, remove_first ?P ss, free_readdir_session session os1)"
    by (simp add: remove_update_first free_readdir_session_def)
  then show ?thesis
    using r by (auto simp: read_from_session_def session_start_def [symmetric] Let_def
        update_session_named [OF assms(1,2)] split: sum.splits)
qed

lemma named_cons: "named (x # ss) \<longleftrightarrow> machinename (client_authsysparams x) \<noteq> None \<and> named ss"
  by (simp add: named_def)

lemma add_session_conv:
  assumes "machinename client \<noteq> None"
  shows "add_new_readdir_session (Some client) path ino ss os =
    (case sys_opendir path os of
       (Inl _, os') \<Rightarrow> Some (2, ss, os')
     | (Inr d, os') \<Rightarrow>
         Some (0, \<lparr>client_authsysparams = the (deep_copy_authsysparams client),
                   directory_absolute_path = path, directory_inode_number = ino,
                   directory_stream = d, stream_position = 0,
                   last_readdir_rpc_timestamp = tv_sec (os_clock os')\<rparr> # ss, os'))"
  using assms
  by (auto simp: add_new_readdir_session_def create_new_readdir_session_def deep_copy_authsysparams_def
      split: prod.splits sum.splits)

lemma deep_copy_session:
  assumes "machinename client \<noteq> None" and "client_authsysparams x = the (deep_copy_authsysparams client)"
    and "directory_inode_number x = ino"
  shows "session_of client ino x" and "machinename (client_authsysparams x) \<noteq> None"
  using assms by (auto simp: session_of_def deep_copy_authsysparams_def)

text \<open>Reading a directory has a result, and every session keeps a client with a name.\<close>

lemma read_from_session_total:
  assumes "machinename client \<noteq> None" and "named ss"
    and "List.find (session_of client ino) ss = Some session"
  shows "\<exists>r ss' os'. read_from_session pb client ino session cookie bc ss os = Some (r, ss', os') \<and> named ss'"
  using assms
  by (auto simp: read_from_session_conv named_update_first named_remove_first
      split: prod.splits sum.splits)

lemma read_from_directory_total:
  assumes "machinename client \<noteq> None" and "named ss"
  shows "\<exists>r ss' os'. read_from_directory pb (Some client) path ino cookie bc ss os = Some (r, ss', os') \<and>
    named ss'"
proof (cases "List.find (session_of client ino) ss")
  case (Some session)
  then show ?thesis
    using assms read_from_session_total [OF assms Some]
    by (simp add: read_from_directory_def find_readdir_session_def get_readdir_session_def find_loop_named)
next
  case None
  obtain r os1 where o: "sys_opendir path os = (r, os1)" by fastforce
  show ?thesis
  proof (cases r)
    case (Inl e)
    with None o assms show ?thesis
      by (simp add: read_from_directory_def find_readdir_session_def find_loop_named add_session_conv)
  next
    case (Inr d)
    define x where "x = \<lparr>client_authsysparams = the (deep_copy_authsysparams client),
      directory_absolute_path = path, directory_inode_number = ino, directory_stream = d,
      stream_position = 0, last_readdir_rpc_timestamp = tv_sec (os_clock os1)\<rparr>"
    have x: "session_of client ino x" "machinename (client_authsysparams x) \<noteq> None"
      by (rule deep_copy_session [OF assms(1)]; simp add: x_def)+
    then have n: "named (x # ss)" and f: "List.find (session_of client ino) (x # ss) = Some x"
      using assms(2) by (simp_all add: named_cons)
    show ?thesis
      using None o Inr assms(2) read_from_session_total [OF assms(1) n f]
      by (simp add: read_from_directory_def find_readdir_session_def get_readdir_session_def
          find_loop_named [OF assms(1)] find_loop_named [OF assms(1) n] f x(1)
          add_session_conv [OF assms(1)] x_def [symmetric] del: find_loop.simps)
  qed
qed

end
