(* ===== verification/Safety.thy ===== *)
theory Safety
  imports Examples Server_Frames Directory_Facts
begin

text \<open>
  What the procedures leave alone: procedures that only read do not change files, and every procedure
  that removes no name keeps the inode cache consistent with the file system.
\<close>

section \<open>Steps with an effect on the lists of the server\<close>

lemma files_make_filehandle [frame_intros]: "keeps files_kept (make_filehandle path)"
  unfolding keeps_def make_filehandle_def create_nfs_filehandle_def files_kept_def
  by (auto simp: Let_def split: prod.splits sum.splits dest: get_inode_number_sameD)

lemma files_modify [frame_intros]:
  "keeps files_kept (set_cache c)" "keeps files_kept (cmodify (mount_list_update f))"
  by (simp_all add: keeps_def files_kept_def set_cache_def cmodify_def)

lemma files_uncache [frame_intros]:
  "keeps files_kept (uncache_inode ino)" "keeps files_kept (uncache_path p)"
  "keeps files_kept (recache_path p q)"
  unfolding uncache_inode_def uncache_path_def recache_path_def by (intro frame_intros)+

lemma files_read_directory [frame_intros]:
  "keeps files_kept (read_directory pb cred path ino cookie count)"
proof (rule keepsI)
  fix s
  show "files_kept s (snd (read_directory pb cred path ino cookie count s))"
    by (auto simp: read_directory_def control_defs auth_sys_of_def set_sessions_def system_error_def
        files_kept_def split: option.splits auth_body.splits sum.splits prod.splits
        dest: read_from_directory_same)
qed

section \<open>Procedures that only read\<close>

lemma files_readers:
  "keeps files_kept (serve_nfs_procedure_0_do_nothing cred verf params)"
  "keeps files_kept (serve_nfs_procedure_1_get_file_attributes pb cred verf params)"
  "keeps files_kept (serve_nfs_procedure_4_look_up_file_name pb cred verf params)"
  "keeps files_kept (serve_nfs_procedure_5_read_from_symbolic_link pb cred verf params)"
  "keeps files_kept (serve_nfs_procedure_6_read_from_file pb cred verf params)"
  "keeps files_kept (serve_nfs_procedure_16_read_from_directory pb cred verf params)"
  "keeps files_kept (serve_nfs_procedure_17_get_filesystem_attributes pb cred verf params)"
  "keeps files_kept (serve_mnt_procedure_0_do_nothing cred verf params)"
  unfolding serve_nfs_procedure_0_do_nothing_def serve_nfs_procedure_1_get_file_attributes_def
    serve_nfs_procedure_4_look_up_file_name_def serve_nfs_procedure_5_read_from_symbolic_link_def
    serve_nfs_procedure_6_read_from_file_def serve_nfs_procedure_16_read_from_directory_def
    serve_nfs_procedure_17_get_filesystem_attributes_def serve_mnt_procedure_0_do_nothing_def
    lookup_filehandle_def Let_def
  by (intro frame_intros; simp)+

lemma is_directory_exported_same [simp]: "same_files os (snd (is_directory_exported p os))"
proof (cases p)
  case (Some path)
  obtain r os1 where 1: "sys_fopen_read ''./exports'' os = (r, os1)" by fastforce
  then have s: "same_files os os1" using sys_fopen_read_same [of os "''./exports''"] by simp
  have "same_files os (snd (sys_fread i 0 n os1))" for i n
    using sys_fread_same s same_files_trans by blast
  with 1 s Some show ?thesis
    by (auto simp: is_directory_exported_def split: sum.splits prod.splits) (metis snd_conv)
qed (simp add: is_directory_exported_def)

context read_frame
begin

lemma keeps_reply_fh_status [frame_intros]:
  "keeps R (reply_fh_status pb fs)" "keeps R (fail_fh_status pb st)"
  by (simp_all add: reply_fh_status_def fail_fh_status_def keeps_reply)

lemma keeps_mountable_path [frame_intros]: "keeps R (mountable_path pb path)"
  unfolding mountable_path_def
  by (intro keeps_cbind keeps_on_os_read keeps_case_sum keeps_if keeps_system_error keeps_type_of
      keeps_reply_fh_status keeps_cgo) simp_all

end

context read_frame
begin

lemma keeps_check_setattr [frame_intros]: "keeps R (check_setattr path sattr a)"
  unfolding keeps_def check_setattr_def
  by (auto split: option.splits intro: frame_refl frame_read check_setattr_same)

end

lemma files_mount: "keeps files_kept (serve_mnt_procedure_1_add_mount_entry pb cred verf params)"
  unfolding serve_mnt_procedure_1_add_mount_entry_def by (intro frame_intros; simp)

lemma files_call_mount: "keeps files_kept (call_mount pb cred verf vers proc params)"
  unfolding call_mount_def by (intro frame_intros files_readers files_mount)

section \<open>The cache stays consistent\<close>

lemma consistency_make_filehandle [frame_intros]: "keeps consistency_kept (make_filehandle path)"
proof (rule keepsI)
  fix s :: server
  obtain r os1 where r: "get_inode_number path (server_os s) = (r, os1)" by fastforce
  then have same: "same_files (server_os s) os1" by (rule get_inode_number_sameD)
  show "consistency_kept s (snd (make_filehandle path s))"
  proof (cases r)
    case (Inl e)
    with r same show ?thesis
      by (auto simp: make_filehandle_def create_nfs_filehandle_def consistency_kept_def
          intro: cache_consistent_grows same_files_grows)
  next
    case (Inr ino)
    with r obtain st where "sys_lstat path (server_os s) = (Inr st, os1)" "ino = st_ino st"
      by (auto simp: get_inode_number_def split: prod.splits sum.splits)
    then have "resolve (server_os s) False path = Inr ino"
      by (auto elim!: sys_lstat_Inr simp: stat_of_def)
    then have new: "resolve os1 False path = Inr ino" by (simp add: resolve_same_files [OF same])
    have old: "cache_consistent s \<Longrightarrow> cache_consistent (s\<lparr>server_os := os1\<rparr>)"
      using same by (intro cache_consistent_grows same_files_grows)
    show ?thesis
      using r Inr new old
      by (auto simp: make_filehandle_def create_nfs_filehandle_def consistency_kept_def Let_def
          add_inode_mapping_def cache_consistent_def)
  qed
qed

lemma consistency_uncache_inode [frame_intros]: "keeps consistency_kept (uncache_inode ino)"
  unfolding keeps_def uncache_inode_def consistency_kept_def cache_consistent_def
  by (auto simp: control_defs set_cache_def remove_by_ino_conv dest: subsetD [OF set_remove_first]
      split: option.splits)

lemma consistency_reply_new_file [frame_intros]: "keeps consistency_kept (reply_new_file pb path)"
  unfolding reply_new_file_def by (intro frame_intros; simp)

lemma consistency_set_times [frame_intros]: "keeps consistency_kept (set_times path at mt)"
  unfolding set_times_def by (intro frame_intros; simp)

lemma consistency_mount_list [frame_intros]: "keeps consistency_kept (cmodify (mount_list_update f))"
  by (simp add: keeps_def consistency_kept_def cache_consistent_def cmodify_def)

lemma consistency_read_directory [frame_intros]:
  "keeps consistency_kept (read_directory pb cred path ino cookie count)"
proof (rule keepsI)
  fix s
  have "inode_cache (snd (read_directory pb cred path ino cookie count s)) = inode_cache s"
    by (auto simp: read_directory_def control_defs auth_sys_of_def set_sessions_def system_error_def
        split: option.splits auth_body.splits sum.splits prod.splits)
  moreover have "same_files (server_os s) (server_os (snd (read_directory pb cred path ino cookie count s)))"
    using files_read_directory [of pb cred path ino cookie count] by (simp add: keeps_def files_kept_def)
  ultimately show "consistency_kept s (snd (read_directory pb cred path ino cookie count s))"
    using cache_consistent_same by (simp add: consistency_kept_def)
qed

lemma consistency_update_attributes [frame_intros]:
  "keeps consistency_kept (update_attributes path sattr at mt)"
  unfolding update_attributes_def by (intro frame_intros; simp)

lemma consistency_write_data [frame_intros]: "keeps consistency_kept (write_data pb path off data)"
  unfolding write_data_def by (intro frame_intros; simp)

lemma consistency_create [frame_intros]:
  "keeps consistency_kept (create_file pb path sattr at mt)"
  "keeps consistency_kept (create_directory pb path sattr at mt)"
  unfolding create_file_def create_directory_def by (intro frame_intros; simp)+

lemma consistency_lookup_filehandle [frame_intros]: "keeps consistency_kept (lookup_filehandle path ino)"
  unfolding lookup_filehandle_def by (intro frame_intros)

lemma consistency_decode_create_args [frame_intros]:
  "keeps consistency_kept (decode_create_args pb params)"
  unfolding decode_create_args_def by (intro frame_intros)

lemma consistency_files:
  "keeps consistency_kept (serve_nfs_procedure_0_do_nothing cred verf params)"
  "keeps consistency_kept (serve_nfs_procedure_1_get_file_attributes pb cred verf params)"
  "keeps consistency_kept (serve_nfs_procedure_2_set_file_attributes pb cred verf params)"
  "keeps consistency_kept (serve_nfs_procedure_5_read_from_symbolic_link pb cred verf params)"
  "keeps consistency_kept (serve_nfs_procedure_6_read_from_file pb cred verf params)"
  "keeps consistency_kept (serve_nfs_procedure_17_get_filesystem_attributes pb cred verf params)"
  unfolding serve_nfs_procedure_0_do_nothing_def serve_nfs_procedure_1_get_file_attributes_def
    serve_nfs_procedure_2_set_file_attributes_def serve_nfs_procedure_5_read_from_symbolic_link_def
    serve_nfs_procedure_6_read_from_file_def serve_nfs_procedure_17_get_filesystem_attributes_def Let_def
  by (intro frame_intros; simp)+

lemma consistency_write:
  "keeps consistency_kept (serve_nfs_procedure_8_write_to_file pb cred verf params)"
proof -
  have case_data: "keeps consistency_kept (case d of Null_Data n \<Rightarrow> m n | Data bs \<Rightarrow> f bs)"
    if "\<And>n. keeps consistency_kept (m n)" "\<And>bs. keeps consistency_kept (f bs)"
    for d :: binary_data and m :: "_ \<Rightarrow> unit handler" and f
    using that by (cases d) auto
  show ?thesis
    unfolding serve_nfs_procedure_8_write_to_file_def by (intro frame_intros case_data; simp)
qed

lemma consistency_directories:
  "keeps consistency_kept (serve_nfs_procedure_4_look_up_file_name pb cred verf params)"
  "keeps consistency_kept (serve_nfs_procedure_9_create_file pb cred verf params)"
  "keeps consistency_kept (serve_nfs_procedure_12_create_link_to_file pb cred verf params)"
  "keeps consistency_kept (serve_nfs_procedure_13_create_symbolic_link pb cred verf params)"
  "keeps consistency_kept (serve_nfs_procedure_14_create_directory pb cred verf params)"
  "keeps consistency_kept (serve_nfs_procedure_16_read_from_directory pb cred verf params)"
  unfolding serve_nfs_procedure_4_look_up_file_name_def serve_nfs_procedure_9_create_file_def
    serve_nfs_procedure_12_create_link_to_file_def serve_nfs_procedure_13_create_symbolic_link_def
    serve_nfs_procedure_14_create_directory_def serve_nfs_procedure_16_read_from_directory_def
  by (intro frame_intros; simp)+

lemma consistency_mount:
  "keeps consistency_kept (serve_mnt_procedure_0_do_nothing cred verf params)"
  "keeps consistency_kept (serve_mnt_procedure_1_add_mount_entry pb cred verf params)"
  unfolding serve_mnt_procedure_0_do_nothing_def serve_mnt_procedure_1_add_mount_entry_def
  by (intro frame_intros; simp)+

lemma consistency_call_mount: "keeps consistency_kept (call_mount pb cred verf vers procedure params)"
  unfolding call_mount_def by (intro frame_intros consistency_mount)

lemma consistency_call_nfs:
  "procedure \<notin> {10, 11, 15} \<Longrightarrow> keeps consistency_kept (call_nfs pb cred verf vers procedure params)"
  by (simp add: call_nfs_def consistency_files consistency_write consistency_directories
      consistency.keeps_creturn)

lemma files_call_nfs:
  "procedure \<in> {0, 1, 4, 5, 6, 16, 17} \<Longrightarrow> keeps files_kept (call_nfs pb cred verf vers procedure params)"
  by (auto simp: call_nfs_def files_readers files.keeps_creturn)

section \<open>Properties\<close>



text \<open>
  C10: The inode cache stays consistent with the file system.  If every cached path leads to the inode
  it is cached for, this is still so after any call except REMOVE, RENAME and RMDIR: in particular a
  handle the server gives out (LOOKUP, CREATE, MKDIR, MNT) leads back to its file.
\<close>

theorem cache_stays_consistent:
  assumes "cache_consistent s" and "prog = NFS_RPC_PROGRAM_NUMBER \<Longrightarrow> procedure \<notin> {10, 11, 15}"
  shows "cache_consistent (snd (forward_rpc_call_to_program pb cred verf prog vers procedure params s))"
proof -
  have "keeps consistency_kept (forward_rpc_call_to_program pb cred verf prog vers procedure params)"
    using assms(2) consistency_call_nfs [of procedure pb cred verf vers params]
    by (auto simp: forward_rpc_call_to_program_def consistency_call_mount consistency.keeps_creturn)
  then show ?thesis using assms(1) by (simp add: keeps_def consistency_kept_def)
qed

lemma ex_server_consistent: "cache_consistent ex_server"
  by (simp add: cache_consistent_def fresh_ok_def ex_defs path_defs)

theorem cache_stays_consistent_witness:
  "cache_consistent (snd (forward_rpc_call_to_program ex_codec (ex_cred 1000) ex_verf 10003 2 9
      (ex_params ''nfs/CreateArgs'') ex_server))"
  by (rule cache_stays_consistent [OF ex_server_consistent]) simp

end
