(* ===== verification/Access_Control.thy ===== *)
theory Access_Control
  imports Safety
begin

text \<open>
  The server enforces the permissions of the files.  A caller other than root who lacks the write bit
  of its class on a file or directory changes nothing through a procedure that would write there.
\<close>

section \<open>The rule of POSIX\<close>

text \<open>The position of the three bits that apply to a caller.\<close>

definition class_shift :: "stat_t \<Rightarrow> u32 \<Rightarrow> u32 \<Rightarrow> nat" where
  "class_shift st uid gid = (if uid = st_uid st then 6 else if gid = st_gid st then 3 else 0)"

lemma and_bit: "(w :: mode_t) AND 2 ^ n \<noteq> 0 \<longleftrightarrow> bit w n"
  by (metis and_exp_eq_0_iff_not_bit)

lemma and_bits:
  "(w :: mode_t) AND 0x100 \<noteq> 0 \<longleftrightarrow> bit w 8" "w AND 0x80 \<noteq> 0 \<longleftrightarrow> bit w 7"
  "w AND 0x40 \<noteq> 0 \<longleftrightarrow> bit w 6" "w AND 0x20 \<noteq> 0 \<longleftrightarrow> bit w 5" "w AND 0x10 \<noteq> 0 \<longleftrightarrow> bit w 4"
  "w AND 0x8 \<noteq> 0 \<longleftrightarrow> bit w 3" "w AND 0x4 \<noteq> 0 \<longleftrightarrow> bit w 2" "w AND 0x2 \<noteq> 0 \<longleftrightarrow> bit w 1"
  "w AND 0x1 \<noteq> 0 \<longleftrightarrow> bit w 0"
  using and_bit [of w 8] and_bit [of w 7] and_bit [of w 6] and_bit [of w 5] and_bit [of w 4]
    and_bit [of w 3] and_bit [of w 2] and_bit [of w 1] and_bit [of w 0] by simp_all

section \<open>Handlers that stop at the permission check\<close>

text \<open>The handlers read files and the cache before the check, and change neither.\<close>

definition quiet :: "server \<Rightarrow> server \<Rightarrow> bool" where
  "quiet s s' \<longleftrightarrow> same_files (server_os s) (server_os s') \<and> inode_cache s' = inode_cache s"

interpretation quiet: read_frame quiet
  by unfold_locales (auto simp: quiet_def intro: same_files_trans)

text \<open>\<open>guarded s P m\<close>: started in a state like \<open>s\<close>, \<open>m\<close> ends in one, and only goes on with values in \<open>P\<close>.\<close>

definition guarded :: "server \<Rightarrow> ('a \<Rightarrow> bool) \<Rightarrow> 'a handler \<Rightarrow> bool" where
  "guarded s P m \<longleftrightarrow> (\<forall>s1. quiet s s1 \<longrightarrow>
    quiet s (snd (m s1)) \<and> (\<forall>a. fst (m s1) = Go a \<longrightarrow> P a))"

lemma guarded_quiet: "keeps quiet m \<Longrightarrow> guarded s (\<lambda>_. True) m"
  by (auto simp: guarded_def keeps_def intro: quiet.frame_trans)

lemma guarded_cbind:
  assumes "guarded s P m" and "\<And>a. P a \<Longrightarrow> guarded s Q (f a)"
  shows "guarded s Q (cbind m f)"
  unfolding guarded_def
proof (intro allI impI)
  fix s1
  assume "quiet s s1"
  obtain c t where m: "m s1 = (c, t)" by fastforce
  with \<open>quiet s s1\<close> assms(1) have "quiet s t" "\<And>a. c = Go a \<Longrightarrow> P a" by (auto simp: guarded_def)
  with m assms(2) show "quiet s (snd (cbind m f s1)) \<and> (\<forall>a. fst (cbind m f s1) = Go a \<longrightarrow> Q a)"
    by (cases c) (auto simp: cbind_def guarded_def)
qed

lemma guarded_case_prod:
  "(\<And>x y. a = (x, y) \<Longrightarrow> guarded s P (f x y)) \<Longrightarrow> guarded s P (case a of (x, y) \<Rightarrow> f x y)"
  by (cases a) simp

lemma guarded_if: "guarded s P m \<Longrightarrow> guarded s P n \<Longrightarrow> guarded s P (if b then m else n)"
  by simp

lemma guarded_False: "guarded s (\<lambda>_. False) m \<Longrightarrow> guarded s P m"
  by (auto simp: guarded_def)

lemma guarded_decode_params:
  "guarded s (\<lambda>a. \<exists>p. params = Some p \<and> unpack (any_value p) = Some a) (decode_params url unpack params)"
  by (auto simp: guarded_def decode_params_def control_defs split: option.splits)

text \<open>The inode number in a handle.\<close>

definition handle_ino :: "fhandle option \<Rightarrow> u64 option" where
  "handle_ino fh = Option.bind fh (\<lambda>fh. map_option inode_number (fhandle_nfs_filehandle fh))"

definition dir_op_ino :: "dir_op_args option \<Rightarrow> u64 option" where
  "dir_op_ino args = Option.bind args (\<lambda>args. handle_ino (dirop_dir args))"

lemma guarded_decode_fhandle: "guarded s (\<lambda>ino. handle_ino fh = Some ino) (decode_fhandle fh)"
  by (auto simp: guarded_def decode_fhandle_def not_null_def control_defs handle_ino_def
      split: option.splits)

lemma guarded_decode_dir_op: "guarded s (\<lambda>x. dir_op_ino args = Some (fst x)) (decode_dir_op args)"
  by (auto simp: guarded_def decode_dir_op_def decode_fhandle_def not_null_def control_defs
      dir_op_ino_def handle_ino_def split: option.splits)

lemma guarded_basic:
  "guarded s P (creturn r)" "guarded s P cub" "P a \<Longrightarrow> guarded s P (cgo a)"
  "(\<And>s1. quiet s s1 \<Longrightarrow> P (f s1)) \<Longrightarrow> guarded s P (cget f)"
  by (auto simp: guarded_def control_defs)

lemma guarded_replies:
  "guarded s P system_error" "guarded s P garbage_args" "guarded s P (fail_dir_op_res pb st)"
  "guarded s P (reply_nfs_stat pb st)" "guarded s P (fail_attr_stat pb st)"
  by (auto simp: system_error_def garbage_args_def fail_dir_op_res_def reply_nfs_stat_def
      fail_attr_stat_def reply_ptr_def reply_def guarded_basic split: option.splits)

lemma guarded_path_of_inode:
  assumes "\<And>st P. guarded s P (fail st)"
  shows "guarded s (\<lambda>path. get_absolute_path_from_inode_number ino (inode_cache s) = Some path)
    (path_of_inode fail ino)"
  unfolding path_of_inode_def
  by (rule guarded_cbind [OF guarded_basic(4) [where P = "\<lambda>x. x =
        get_absolute_path_from_inode_number ino (inode_cache s)"]])
    (auto simp: quiet_def guarded_basic assms split: option.splits)

lemma guarded_directory_path:
  assumes "\<And>st P. guarded s P (fail st)"
  shows "guarded s (\<lambda>path. get_absolute_path_from_inode_number ino (inode_cache s) = Some path)
    (directory_path fail ino)"
  unfolding directory_path_def
  by (intro guarded_cbind [OF guarded_path_of_inode] guarded_if
      guarded_cbind [OF guarded_quiet, OF quiet.keeps_type_of] assms guarded_basic)

text \<open>May the caller write to the file at the path?\<close>

definition may_write :: "os \<Rightarrow> string \<Rightarrow> u32 \<Rightarrow> u32 \<Rightarrow> bool" where
  "may_write os path uid gid =
    (case resolve os False path of
       Inl _ \<Rightarrow> False
     | Inr i \<Rightarrow>
         (case os_inodes os i of
            None \<Rightarrow> False
          | Some nd \<Rightarrow> bit (i_perm nd)
              (if uid = i_uid nd then 7 else if gid = i_gid nd then 4 else 1)))"

lemma type_bits_high:
  assumes "n < 12"
  shows "\<not> bit (type_bits c) n"
proof -
  have "type_bits c AND mask 12 = 0" by (cases c) (simp_all add: mask_eq_exp_minus_1)
  then have "\<not> bit (type_bits c AND mask 12) n" by simp
  then show ?thesis using assms by (simp add: bit_simps)
qed

lemma st_mode_bit:
  assumes "n < 12"
  shows "bit (st_mode (stat_of os i nd)) n \<longleftrightarrow> bit (i_perm nd) n"
proof -
  have m: "(0xFFF :: mode_t) = mask 12" by (simp add: mask_eq_exp_minus_1)
  show ?thesis
    using assms by (auto simp: stat_of_def m bit_simps type_bits_high)
qed

lemma check_write_denied:
  assumes "\<not> may_write os path uid gid" and "same_files os os1"
  shows "fst (check_write_permission path uid gid os1) \<in> {-1, 1}"
proof -
  obtain r os2 where l: "sys_lstat path os1 = (r, os2)" by fastforce
  show ?thesis
  proof (cases r)
    case (Inl e)
    with l show ?thesis by (simp add: check_write_permission_def check_permission_def)
  next
    case (Inr st)
    with l obtain i nd where i: "resolve os1 False path = Inr i" "os_inodes os1 i = Some nd"
      "st = stat_of os1 i nd" by (auto elim: sys_lstat_Inr)
    then have "may_write os path uid gid \<longleftrightarrow>
        bit (i_perm nd) (if uid = i_uid nd then 7 else if gid = i_gid nd then 4 else 1)"
      using resolve_same_files [OF assms(2)] same_filesD(1) [OF assms(2)] by (simp add: may_write_def)
    moreover have "class_shift st uid gid + 1 = (if uid = i_uid nd then 7 else if gid = i_gid nd then 4 else 1)"
      by (simp add: i(3) class_shift_def stat_of_def)
    ultimately have "\<not> bit (i_perm nd) (class_shift st uid gid + 1)" using assms(1) by simp
    moreover have "class_shift st uid gid + 1 < 12" by (simp add: class_shift_def)
    ultimately have "\<not> bit (st_mode st) (class_shift st uid gid + 1)" using st_mode_bit i(3) by blast
    then have "check_class_bits S_IWUSR S_IWGRP S_IWOTH st uid gid = 1"
      by (auto simp: check_class_bits_def and_bits class_shift_def split: if_splits)
    with l Inr show ?thesis by (simp add: check_write_permission_def check_permission_def)
  qed
qed

lemma guarded_gate:
  assumes "cred = Some \<lparr>flavor = AUTH_SYS, auth_body = Auth_Body_Auth_Sys (Some a)\<rparr>"
    and "\<And>st P. guarded s P (fail st)" and "keeps quiet (check a)"
    and "\<And>s1. quiet s s1 \<Longrightarrow> \<exists>r s2. check a s1 = (Go r, s2) \<and> r \<in> {-1, 1}"
  shows "guarded s P (permission_gate fail cred check)"
proof -
  have "guarded s (\<lambda>r. r \<in> {-1, 1}) (check a)"
    using assms(3,4) unfolding guarded_def keeps_def by (metis fst_conv ctl.inject(2) quiet.frame_trans)
  then have "guarded s P (cbind (check a) (\<lambda>stat. if stat < 0 then system_error
      else if stat = 1 then fail NFSERR_ACCES else cgo ()))"
    by (rule guarded_cbind) (auto intro: guarded_replies assms(2))
  then show ?thesis by (simp add: permission_gate_def assms(1) cderef_def auth_sys_of_def)
qed

text \<open>The situation of a caller who may not write to a path.\<close>

definition denied :: "server \<Rightarrow> opaque_auth option \<Rightarrow> string \<Rightarrow> bool" where
  "denied s cred path \<longleftrightarrow>
    (case cred of
       Some c \<Rightarrow> flavor c = AUTH_SYS \<and>
         (case auth_body c of
            Auth_Body_Auth_Sys (Some a) \<Rightarrow>
              auth_uid a \<noteq> 0 \<and> \<not> may_write (server_os s) path (auth_uid a) (auth_gid a)
          | _ \<Rightarrow> False)
     | None \<Rightarrow> False)"

lemma deniedE:
  assumes "denied s cred path"
  obtains a where "cred = Some \<lparr>flavor = AUTH_SYS, auth_body = Auth_Body_Auth_Sys (Some a)\<rparr>"
    "auth_uid a \<noteq> 0" "\<not> may_write (server_os s) path (auth_uid a) (auth_gid a)"
proof (cases cred)
  case (Some c)
  with assms show thesis
    by (cases c) (auto simp: denied_def split: auth_body.splits option.splits intro: that)
qed (use assms in \<open>simp add: denied_def\<close>)

lemma guarded_write_gate:
  assumes "denied s cred path" and "\<And>st P. guarded s P (fail st)"
    and "check \<in> {check_create_proc_permissions, check_remove_proc_permissions, check_link_proc_permissions,
      check_symlink_proc_permissions, check_mkdir_proc_permissions, check_rmdir_proc_permissions,
      check_write_proc_permissions}"
  shows "guarded s P (permission_gate fail cred (check_path check path))"
proof -
  obtain a where a: "cred = Some \<lparr>flavor = AUTH_SYS, auth_body = Auth_Body_Auth_Sys (Some a)\<rparr>"
    "auth_uid a \<noteq> 0" "\<not> may_write (server_os s) path (auth_uid a) (auth_gid a)"
    using assms(1) by (rule deniedE)
  have c: "check path (auth_uid a) (auth_gid a) os = check_write_permission path (auth_uid a) (auth_gid a) os" for os
    using assms(3) a(2) by (auto simp: proc_permission_defs check_root_user_def)
  then have k: "keeps quiet (check_path check path a)"
    unfolding check_path_def by (intro quiet.keeps_on_os_read) simp
  show ?thesis
  proof (rule guarded_gate [OF a(1)])
    show "keeps quiet (check_path check path a)" by (rule k)
    show "guarded s P (fail st)" for st P by (rule assms(2))
    fix s1
    assume "quiet s s1"
    then have "fst (check_write_permission path (auth_uid a) (auth_gid a) (server_os s1)) \<in> {-1, 1}"
      using a(3) by (intro check_write_denied) (auto simp: quiet_def)
    then show "\<exists>r s2. check_path check path a s1 = (Go r, s2) \<and> r \<in> {-1, 1}"
      by (auto simp: check_path_def on_os_def c split: prod.splits)
  qed
qed

section \<open>The procedures that write\<close>

text \<open>Does a SETATTR ask for anything?  The number -1 in a field means that it is not to change.\<close>

definition asks_change :: "sattr option \<Rightarrow> bool" where
  "asks_change sattr \<longleftrightarrow>
    (case sattr of
       None \<Rightarrow> False
     | Some a \<Rightarrow>
         sattr_mode a \<noteq> -1 \<or> sattr_uid a \<noteq> -1 \<or> sattr_gid a \<noteq> -1 \<or> sattr_size a \<noteq> -1 \<or>
         list_ex (\<lambda>t. case t of None \<Rightarrow> False | Some t \<Rightarrow> seconds t \<noteq> -1 \<or> useconds t \<noteq> -1)
           [sattr_atime a, sattr_mtime a])"

text \<open>The inode numbers of the files and directories that a call asks to write to.\<close>

definition write_targets :: "codec \<Rightarrow> u32 \<Rightarrow> bytes \<Rightarrow> u64 option list" where
  "write_targets pb procedure bs =
    (if procedure = 2 then
       (case unpack_sattr_args pb bs of
          Some args \<Rightarrow> if asks_change (sattrargs_attributes args) then [handle_ino (sattrargs_file args)] else []
        | None \<Rightarrow> [])
     else if procedure = 8 then
       (case unpack_write_args pb bs of Some args \<Rightarrow> [handle_ino (writeargs_file args)] | None \<Rightarrow> [])
     else if procedure = 9 \<or> procedure = 14 then
       (case unpack_create_args pb bs of Some args \<Rightarrow> [dir_op_ino (createargs_where args)] | None \<Rightarrow> [])
     else if procedure = 10 \<or> procedure = 15 then
       (case unpack_dir_op_args pb bs of Some args \<Rightarrow> [dir_op_ino (Some args)] | None \<Rightarrow> [])
     else if procedure = 11 then
       (case unpack_rename_args pb bs of
          Some args \<Rightarrow> [dir_op_ino (renameargs_from args), dir_op_ino (renameargs_to args)] | None \<Rightarrow> [])
     else if procedure = 12 then
       (case unpack_link_args pb bs of Some args \<Rightarrow> [dir_op_ino (linkargs_to args)] | None \<Rightarrow> [])
     else if procedure = 13 then
       (case unpack_symlink_args pb bs of Some args \<Rightarrow> [dir_op_ino (symlinkargs_from args)] | None \<Rightarrow> [])
     else [])"

lemmas guarded_steps =
  guarded_cbind [OF guarded_decode_params] guarded_cbind [OF guarded_decode_dir_op]
  guarded_cbind [OF guarded_decode_fhandle] guarded_cbind [OF guarded_directory_path]
  guarded_cbind [OF guarded_path_of_inode] guarded_case_prod guarded_if
  guarded_cbind [OF guarded_quiet, OF quiet.keeps_existing_path]
  guarded_cbind [OF guarded_quiet, OF quiet.keeps_fresh_path]
  guarded_cbind [OF guarded_quiet, OF quiet.keeps_type_of]
  guarded_cbind [OF guarded_quiet, OF quiet.keeps_not_null]
  guarded_cbind [OF guarded_quiet, OF quiet.keeps_decode_sattr]
  guarded_cbind [OF guarded_write_gate [where P = "\<lambda>_. False"]]
  guarded_replies quiet.keeps_fail

text \<open>A call that would write to a path the caller may not write to.\<close>

definition forbidden :: "codec \<Rightarrow> server \<Rightarrow> opaque_auth option \<Rightarrow> u32 \<Rightarrow> any_msg option \<Rightarrow> bool" where
  "forbidden pb s cred procedure params \<longleftrightarrow>
    (case params of
       None \<Rightarrow> False
     | Some p \<Rightarrow> list_ex (\<lambda>ino. case ino of
           None \<Rightarrow> False
         | Some ino \<Rightarrow> (case get_absolute_path_from_inode_number ino (inode_cache s) of
                           None \<Rightarrow> False | Some path \<Rightarrow> denied s cred path))
         (write_targets pb procedure (any_value p)))"

lemmas forbidden_defs = forbidden_def write_targets_def

lemma guarded_remove:
  "forbidden pb s cred 10 params \<Longrightarrow>
    guarded s (\<lambda>_. True) (serve_nfs_procedure_10_remove_file pb cred verf params)"
  unfolding serve_nfs_procedure_10_remove_file_def
  by (intro guarded_steps) (auto simp: forbidden_defs)

lemma guarded_rmdir:
  "forbidden pb s cred 15 params \<Longrightarrow>
    guarded s (\<lambda>_. True) (serve_nfs_procedure_15_remove_directory pb cred verf params)"
  unfolding serve_nfs_procedure_15_remove_directory_def
  by (intro guarded_steps) (auto simp: forbidden_defs)

lemma guarded_decode_create_args:
  "guarded s (\<lambda>x. \<exists>p args. params = Some p \<and> unpack_create_args pb (any_value p) = Some args \<and>
      dir_op_ino (createargs_where args) = Some (fst x)) (decode_create_args pb params)"
  unfolding decode_create_args_def
  by (intro guarded_steps guarded_basic) auto

lemma guarded_create:
  "forbidden pb s cred 9 params \<Longrightarrow>
    guarded s (\<lambda>_. True) (serve_nfs_procedure_9_create_file pb cred verf params)"
  unfolding serve_nfs_procedure_9_create_file_def
  by (intro guarded_cbind [OF guarded_decode_create_args] guarded_steps) (auto simp: forbidden_defs)

lemma guarded_mkdir:
  "forbidden pb s cred 14 params \<Longrightarrow>
    guarded s (\<lambda>_. True) (serve_nfs_procedure_14_create_directory pb cred verf params)"
  unfolding serve_nfs_procedure_14_create_directory_def
  by (intro guarded_cbind [OF guarded_decode_create_args] guarded_steps) (auto simp: forbidden_defs)

lemma guarded_symlink:
  "forbidden pb s cred 13 params \<Longrightarrow>
    guarded s (\<lambda>_. True) (serve_nfs_procedure_13_create_symbolic_link pb cred verf params)"
  unfolding serve_nfs_procedure_13_create_symbolic_link_def
  by (intro guarded_steps) (auto simp: forbidden_defs)

lemma guarded_link:
  "forbidden pb s cred 12 params \<Longrightarrow>
    guarded s (\<lambda>_. True) (serve_nfs_procedure_12_create_link_to_file pb cred verf params)"
  unfolding serve_nfs_procedure_12_create_link_to_file_def
  by (intro guarded_steps) (auto simp: forbidden_defs)

lemma guarded_write:
  assumes "forbidden pb s cred 8 params"
  shows "guarded s (\<lambda>_. True) (serve_nfs_procedure_8_write_to_file pb cred verf params)"
proof -
  have data: "guarded s Q (case d of Null_Data n \<Rightarrow> m n | Data bs \<Rightarrow> f bs)"
    if "\<And>n. guarded s Q (m n)" "\<And>bs. guarded s Q (f bs)" for d Q and m f :: "_ \<Rightarrow> unit handler"
    using that by (cases d) auto
  show ?thesis
    unfolding serve_nfs_procedure_8_write_to_file_def
    by (intro guarded_steps data) (use assms in \<open>auto simp: forbidden_defs\<close>)
qed

lemma check_rename_denied:
  assumes "\<not> may_write os from uid gid \<or> \<not> may_write os to uid gid" and "uid \<noteq> 0" and "same_files os os1"
  shows "fst (check_rename_proc_permissions from to uid gid os1) \<in> {-1, 1}"
proof -
  obtain r os2 where c: "check_write_permission from uid gid os1 = (r, os2)" by fastforce
  then have "same_files os os2" using assms(3) check_write_permission_sameD same_files_trans by blast
  then have "fst (check_write_permission to uid gid os2) \<in> {-1, 1}" if "\<not> may_write os to uid gid"
    using that by (rule check_write_denied [rotated])
  moreover have "r \<in> {-1, 0, 1}"
    using c by (auto simp: check_write_permission_def check_permission_def check_class_bits_def
        split: prod.splits sum.splits if_splits)
  moreover have "r \<in> {-1, 1}" if "\<not> may_write os from uid gid"
    using check_write_denied [OF that assms(3)] c by simp
  ultimately show ?thesis
    using assms(1,2) c by (auto simp: check_rename_proc_permissions_def check_root_user_def)
qed

lemma guarded_rename_gate:
  assumes "denied s cred from \<or> denied s cred to" and "\<And>st P. guarded s P (fail st)"
  shows "guarded s P (permission_gate fail cred (check_rename from to))"
proof -
  obtain a where a: "cred = Some \<lparr>flavor = AUTH_SYS, auth_body = Auth_Body_Auth_Sys (Some a)\<rparr>"
    "auth_uid a \<noteq> 0" "\<not> may_write (server_os s) from (auth_uid a) (auth_gid a) \<or>
      \<not> may_write (server_os s) to (auth_uid a) (auth_gid a)"
    using assms(1) by (auto elim: deniedE)
  show ?thesis
  proof (rule guarded_gate [OF a(1)])
    show "keeps quiet (check_rename from to a)"
      unfolding check_rename_def by (intro quiet.keeps_on_os_read) simp
    show "guarded s P (fail st)" for st P by (rule assms(2))
    fix s1
    assume "quiet s s1"
    then have "fst (check_rename_proc_permissions from to (auth_uid a) (auth_gid a) (server_os s1)) \<in> {-1, 1}"
      using a(2,3) by (intro check_rename_denied) (auto simp: quiet_def)
    then show "\<exists>r s2. check_rename from to a s1 = (Go r, s2) \<and> r \<in> {-1, 1}"
      by (auto simp: check_rename_def on_os_def split: prod.splits)
  qed
qed

lemma guarded_rename:
  "forbidden pb s cred 11 params \<Longrightarrow>
    guarded s (\<lambda>_. True) (serve_nfs_procedure_11_rename_file pb cred verf params)"
  unfolding serve_nfs_procedure_11_rename_file_def
  by (intro guarded_steps guarded_cbind [OF guarded_rename_gate [where P = "\<lambda>_. False"]])
    (auto simp: forbidden_defs)

lemma guarded_decode_sattr:
  "guarded s (\<lambda>x. args = Some (fst x) \<and> sattr_atime (fst x) \<noteq> None \<and> sattr_mtime (fst x) \<noteq> None)
    (decode_sattr args)"
  by (auto simp: guarded_def decode_sattr_def not_null_def control_defs split: option.splits)

lemma check_setattr_denied:
  assumes "\<not> may_write os path uid gid" and "uid \<noteq> 0" and "same_files os os1" and "asks_change (Some sattr)"
    and "sattr_atime sattr \<noteq> None" and "sattr_mtime sattr \<noteq> None"
  shows "\<exists>r os2. check_setattr_proc_permissions path (Some sattr) uid gid os1 = Some (r, os2) \<and> r \<in> {-1, 1}"
proof -
  obtain r os2 where "check_write_permission path uid gid os1 = (r, os2)" "r \<in> {-1, 1}"
    using check_write_denied [OF assms(1,3)] by (metis fst_conv surj_pair)
  then show ?thesis
    using assms(2,4-6)
    by (auto simp: check_setattr_proc_permissions_def check_root_user_def asks_change_def)
qed

lemma guarded_setattr_gate:
  assumes "denied s cred path" and "\<And>st P. guarded s P (fail st)" and "asks_change (Some sattr)"
    and "sattr_atime sattr \<noteq> None" and "sattr_mtime sattr \<noteq> None"
  shows "guarded s P (permission_gate fail cred (check_setattr path sattr))"
proof -
  obtain a where a: "cred = Some \<lparr>flavor = AUTH_SYS, auth_body = Auth_Body_Auth_Sys (Some a)\<rparr>"
    "auth_uid a \<noteq> 0" "\<not> may_write (server_os s) path (auth_uid a) (auth_gid a)"
    using assms(1) by (rule deniedE)
  show ?thesis
  proof (rule guarded_gate [OF a(1)])
    show "keeps quiet (check_setattr path sattr a)" by (rule quiet.keeps_check_setattr)
    show "guarded s P (fail st)" for st P by (rule assms(2))
    fix s1
    assume "quiet s s1"
    then have "same_files (server_os s) (server_os s1)" by (simp add: quiet_def)
    from check_setattr_denied [OF a(3,2) this assms(3-5)]
    show "\<exists>r s2. check_setattr path sattr a s1 = (Go r, s2) \<and> r \<in> {-1, 1}"
      by (auto simp: check_setattr_def)
  qed
qed

lemma guarded_setattr:
  "forbidden pb s cred 2 params \<Longrightarrow>
    guarded s (\<lambda>_. True) (serve_nfs_procedure_2_set_file_attributes pb cred verf params)"
  unfolding serve_nfs_procedure_2_set_file_attributes_def
  by (intro guarded_cbind [OF guarded_decode_sattr] guarded_steps
      guarded_cbind [OF guarded_setattr_gate [where P = "\<lambda>_. False"]])
    (auto simp: forbidden_defs split: if_splits)

section \<open>Properties\<close>



text \<open>
  C9: Permissions are enforced.  A caller other than root who may not write to the file or directory
  that a SETATTR, WRITE, CREATE, REMOVE, RENAME, LINK, SYMLINK, MKDIR or RMDIR names (for RENAME: to one
  of the two directories) changes nothing: after the call, whatever else its arguments are and whatever
  system calls fail, every inode and the inode cache are as before.
\<close>

theorem permission_enforced:
  assumes "forbidden pb s cred procedure params"
  shows "os_inodes (server_os (snd (call_nfs pb cred verf vers procedure params s))) =
      os_inodes (server_os s) \<and>
    inode_cache (snd (call_nfs pb cred verf vers procedure params s)) = inode_cache s"
proof -
  have "procedure \<in> {2, 8, 9, 10, 11, 12, 13, 14, 15}"
    using assms by (auto simp: forbidden_defs split: option.splits if_splits)
  then have "guarded s (\<lambda>_. True) (call_nfs pb cred verf vers procedure params)"
    using assms guarded_setattr guarded_write guarded_create guarded_remove guarded_rename guarded_link
      guarded_symlink guarded_mkdir guarded_rmdir by (auto simp: call_nfs_def guarded_basic)
  moreover have "quiet s s" by (rule quiet.frame_refl)
  ultimately have "quiet s (snd (call_nfs pb cred verf vers procedure params s))"
    by (simp add: guarded_def)
  then show ?thesis by (auto simp: quiet_def dest: same_filesD(1))
qed

text \<open>The caller with uid and gid 500 is neither owner nor in the group of \<open>/d\<close>, which has mode 755.\<close>

theorem permission_enforced_witness:
  "os_inodes (server_os (snd (call_nfs ex_codec (ex_cred 500) ex_verf 2 10 (ex_params ''nfs/DirOpArgs'')
      ex_server))) = os_inodes (server_os ex_server) \<and>
    inode_cache (snd (call_nfs ex_codec (ex_cred 500) ex_verf 2 10 (ex_params ''nfs/DirOpArgs'')
      ex_server)) = inode_cache ex_server"
  by (rule permission_enforced)
    (simp add: forbidden_defs ex_defs dir_op_ino_def handle_ino_def denied_def may_write_def path_defs)

end
