(* ===== verification/Quic_Record_Marking.thy ===== *)
theory Quic_Record_Marking
  imports Record_Marking
begin

text \<open>
  Record marking over QUIC (\<open>quic_record_marking.c\<close>).  The sender is a loop like the one over TCP.  The
  receiver cannot block: on every readable event it takes what the stream has, and keeps what it knows of
  the record so far in a receiving context.

  The QUIC library is not part of the repository.  Its calls are the fields of a record \<open>tquic\<close>, functions
  on the state of the library, of any type.  A loop around such a call need not end, so the loops are
  partial functions, with the value \<^term>\<open>None\<close> when they do not return.
\<close>

section \<open>The QUIC library\<close>

text \<open>
  Connections are named by numbers.  \<open>quic_stream_write\<close> gets the bytes to write and the flag \<open>fin\<close>, and
  returns their number or a negative error code.  \<open>quic_stream_read\<close> gets the size of the buffer, and returns
  the number of bytes read or a negative error code, and the bytes.  \<open>quic_stream_bidi_new\<close> returns an error
  code and the identifier of the new stream.  Signed 64 bit results are words, negative by \<open>sint\<close>.
\<close>

record 'q tquic =
  quic_stream_write :: "nat \<Rightarrow> u64 \<Rightarrow> bytes \<Rightarrow> bool \<Rightarrow> 'q \<Rightarrow> u64 \<times> 'q"
  quic_stream_read :: "nat \<Rightarrow> u64 \<Rightarrow> nat \<Rightarrow> 'q \<Rightarrow> u64 \<times> bytes \<times> 'q"
  quic_stream_wantwrite :: "nat \<Rightarrow> u64 \<Rightarrow> bool \<Rightarrow> 'q \<Rightarrow> 'q"
  quic_stream_bidi_new :: "nat \<Rightarrow> u32 \<Rightarrow> bool \<Rightarrow> 'q \<Rightarrow> int \<times> u64 \<times> 'q"

section \<open>Sending\<close>

partial_function (option) send_bytes_quic_loop ::
  "'q tquic \<Rightarrow> nat \<Rightarrow> u64 \<Rightarrow> bytes \<Rightarrow> u64 \<Rightarrow> u64 \<Rightarrow> 'q \<Rightarrow> (nat \<times> 'q) option" where
  "send_bytes_quic_loop lib conn stream_id source_buffer buffer_size total_bytes_sent q =
    (if total_bytes_sent < buffer_size then
       (case quic_stream_write lib conn stream_id
               (take (unat (buffer_size - total_bytes_sent)) (drop (unat total_bytes_sent) source_buffer))
               False q of
          (bytes_sent, q') \<Rightarrow>
            if bytes_sent < 0 then Some (1, q')
            else if bytes_sent = 0 then Some (2, q')
            else send_bytes_quic_loop lib conn stream_id source_buffer buffer_size
                   (total_bytes_sent + bytes_sent) q')
     else Some (0, q))"

definition send_bytes_quic ::
  "'q tquic \<Rightarrow> nat \<Rightarrow> u64 \<Rightarrow> bytes \<Rightarrow> u64 \<Rightarrow> 'q \<Rightarrow> (nat \<times> 'q) option" where
  "send_bytes_quic lib conn stream_id source_buffer buffer_size q =
    send_bytes_quic_loop lib conn stream_id source_buffer buffer_size 0 q"

text \<open>
  The loop over the fragments is that of TCP.  The state \<^term>\<open>None\<close> is that of a call that has not
  returned; the loop stops there.
\<close>

definition send_or_hang ::
  "'q tquic \<Rightarrow> nat \<Rightarrow> u64 \<Rightarrow> bytes \<Rightarrow> u64 \<Rightarrow> 'q option \<Rightarrow> nat \<times> 'q option" where
  "send_or_hang lib conn stream_id buffer n c =
    (case c of
       None \<Rightarrow> (1, None)
     | Some q \<Rightarrow>
         (case send_bytes_quic lib conn stream_id buffer n q of
            None \<Rightarrow> (1, None)
          | Some (error_code, q') \<Rightarrow> (error_code, Some q')))"

definition send_rm_record_quic ::
  "'q tquic \<Rightarrow> nat \<Rightarrow> u64 \<Rightarrow> bytes \<Rightarrow> u64 \<Rightarrow> 'q \<Rightarrow> (nat \<times> 'q) option" where
  "send_rm_record_quic lib conn stream_id rm_record_data rm_record_data_size q =
    (case send_fragments (send_or_hang lib conn stream_id) rm_record_data rm_record_data_size 0 (Some q) of
       (error_code, Some q') \<Rightarrow> Some (error_code, q')
     | (_, None) \<Rightarrow> None)"

section \<open>Receiving contexts\<close>

text \<open>A pointer to a heap buffer: null, to the bytes of the buffer, or to a buffer already freed.\<close>

datatype heap_ptr = Null | Live bytes | Freed

record rm_context =
  quic_connection :: nat
  stream_id :: u64
  accumulated_payloads_size :: u64
  accumulated_payloads :: "bytes option"
  num_received_header_bytes :: u64
  received_header_bytes :: heap_ptr
  is_last_fragment :: bool
  expected_size :: u64
  num_received_payload_bytes :: u64
  received_payload_bytes :: heap_ptr
  record_fully_received :: bool

definition create_rm_receiving_context :: "nat \<Rightarrow> u64 \<Rightarrow> rm_context" where
  "create_rm_receiving_context conn sid =
    \<lparr>quic_connection = conn, stream_id = sid, accumulated_payloads_size = 0, accumulated_payloads = None,
     num_received_header_bytes = 0, received_header_bytes = Null, is_last_fragment = False,
     expected_size = 0, num_received_payload_bytes = 0, received_payload_bytes = Null,
     record_fully_received = False\<rparr>"

definition reset_rm_receiving_context_for_next_rm_fragment :: "rm_context \<Rightarrow> rm_context" where
  "reset_rm_receiving_context_for_next_rm_fragment context =
    context\<lparr>num_received_header_bytes := 0, received_header_bytes := Null, is_last_fragment := False,
      expected_size := 0, num_received_payload_bytes := 0, received_payload_bytes := Null,
      record_fully_received := False\<rparr>"

section \<open>The list of contexts\<close>

definition context_key :: "rm_context \<Rightarrow> nat \<times> u64" where
  "context_key context = (quic_connection context, stream_id context)"

definition add_new_rm_receiving_context :: "nat \<Rightarrow> u64 \<Rightarrow> rm_context list \<Rightarrow> nat \<times> rm_context list" where
  "add_new_rm_receiving_context conn sid contexts =
    (0, create_rm_receiving_context conn sid # contexts)"

fun find_rm_receiving_context :: "nat \<Rightarrow> u64 \<Rightarrow> rm_context list \<Rightarrow> nat" where
  "find_rm_receiving_context conn sid [] = 1"
| "find_rm_receiving_context conn sid (context # rest) =
    (if quic_connection context = conn \<and> stream_id context = sid then 0
     else find_rm_receiving_context conn sid rest)"

fun get_rm_receiving_context :: "nat \<Rightarrow> u64 \<Rightarrow> rm_context list \<Rightarrow> rm_context option" where
  "get_rm_receiving_context conn sid [] = None"
| "get_rm_receiving_context conn sid (context # rest) =
    (if quic_connection context = conn \<and> stream_id context = sid then Some context
     else get_rm_receiving_context conn sid rest)"

text \<open>Removing looks at the first entry without asking whether there is one: \<^term>\<open>None\<close> on an empty list.\<close>

definition remove_rm_receiving_context ::
  "nat \<Rightarrow> u64 \<Rightarrow> rm_context list \<Rightarrow> (nat \<times> rm_context list) option" where
  "remove_rm_receiving_context conn sid contexts =
    (case contexts of
       [] \<Rightarrow> None
     | first # rest \<Rightarrow>
         if quic_connection first = conn \<and> stream_id first = sid then Some (0, rest)
         else
           (let matching = (\<lambda>context. quic_connection context = conn \<and> stream_id context = sid)
            in if List.find matching rest \<noteq> None then Some (0, first # remove_first matching rest)
               else Some (4, contexts)))"

text \<open>The context a pointer into the list leads to is updated in place.\<close>

definition put_rm_receiving_context :: "rm_context \<Rightarrow> rm_context list \<Rightarrow> rm_context list" where
  "put_rm_receiving_context context contexts =
    update_first (\<lambda>c. context_key c = context_key context) (\<lambda>_. context) contexts"

section \<open>Receiving\<close>

text \<open>
  \<open>memcpy\<close> into a heap buffer at an offset; \<^term>\<open>None\<close> when it writes outside of a live buffer, or reads
  outside of one.  The contents of fresh memory are \<open>junk\<close>.
\<close>

definition buffer_write :: "bytes \<Rightarrow> nat \<Rightarrow> bytes \<Rightarrow> bytes option" where
  "buffer_write b i bs = (if i + length bs \<le> length b then Some (overwrite i bs b) else None)"

definition heap_write :: "heap_ptr \<Rightarrow> nat \<Rightarrow> bytes \<Rightarrow> heap_ptr option" where
  "heap_write p i bs =
    (if bs = [] then Some p
     else case p of Live b \<Rightarrow> map_option Live (buffer_write b i bs) | _ \<Rightarrow> None)"

definition heap_read :: "heap_ptr \<Rightarrow> nat \<Rightarrow> bytes option" where
  "heap_read p n =
    (if n = 0 then Some []
     else case p of Live b \<Rightarrow> if n \<le> length b then Some (take n b) else None | _ \<Rightarrow> None)"

definition heap_free :: "heap_ptr \<Rightarrow> heap_ptr option" where
  "heap_free p = (case p of Null \<Rightarrow> Some Null | Live _ \<Rightarrow> Some Freed | Freed \<Rightarrow> None)"

definition malloc_if_null :: "(nat \<Rightarrow> byte) \<Rightarrow> heap_ptr \<Rightarrow> nat \<Rightarrow> heap_ptr" where
  "malloc_if_null junk p n = (if p = Null then Live (map junk [0..<n]) else p)"

text \<open>
  The three parts of the inner loop.  The value they go on with is what is left of the chunk that was
  read; a return is the error code of the whole function.
\<close>

definition receive_header_part :: "(nat \<Rightarrow> byte) \<Rightarrow> bytes \<Rightarrow> (rm_context, nat, bytes) cprog" where
  "receive_header_part junk bs = (\<lambda>context.
    let header = malloc_if_null junk (received_header_bytes context) 4;
        header_bytes_left = RM_FRAGMENT_HEADER_SIZE - num_received_header_bytes context;
        n = (if unat header_bytes_left < length bs then unat header_bytes_left else length bs);
        received = num_received_header_bytes context + of_nat n
    in case heap_write header (unat (num_received_header_bytes context)) (take n bs) of
         None \<Rightarrow> (UB, context)
       | Some header \<Rightarrow>
           let context = context\<lparr>received_header_bytes := header, num_received_header_bytes := received\<rparr>
           in if received = RM_FRAGMENT_HEADER_SIZE then
                (case heap_read header 4 of
                   None \<Rightarrow> (UB, context)
                 | Some h \<Rightarrow>
                     (Go (drop n bs),
                      context\<lparr>is_last_fragment := (be_word h AND 0x80000000 \<noteq> 0),
                        expected_size := ucast (be_word h AND 0x7FFFFFFF)\<rparr>))
              else (Go (drop n bs), context))"

definition receive_payload_part :: "(nat \<Rightarrow> byte) \<Rightarrow> bytes \<Rightarrow> (rm_context, nat, bytes) cprog" where
  "receive_payload_part junk bs = (\<lambda>context.
    if num_received_payload_bytes context < expected_size context then
      let payload = malloc_if_null junk (received_payload_bytes context) (unat (expected_size context));
          payload_bytes_left = expected_size context - num_received_payload_bytes context;
          n = (if unat payload_bytes_left < length bs then unat payload_bytes_left else length bs)
      in if received_header_bytes context = Null then
           (Return 3, context\<lparr>received_payload_bytes := payload\<rparr>)
         else (case heap_write payload (unat (num_received_payload_bytes context)) (take n bs) of
                 None \<Rightarrow> (UB, context)
               | Some payload \<Rightarrow>
                   (Go (drop n bs),
                    context\<lparr>received_payload_bytes := payload,
                      num_received_payload_bytes := num_received_payload_bytes context + of_nat n\<rparr>))
    else (Go bs, context))"

text \<open>A complete fragment is appended to the record; the value tells whether it was the last one.\<close>

definition complete_fragment :: "(nat \<Rightarrow> byte) \<Rightarrow> (rm_context, nat, bool) cprog" where
  "complete_fragment junk =
    cbind (cget accumulated_payloads) (\<lambda>old.
    cbind (cget accumulated_payloads_size) (\<lambda>size.
    cbind (cget num_received_payload_bytes) (\<lambda>n.
    cbind (cmodify (\<lambda>c. c\<lparr>accumulated_payloads :=
             realloc junk old (if old = None then unat n else unat (size + n))\<rparr>)) (\<lambda>_.
    cbind (cget accumulated_payloads) (\<lambda>new.
    cbind (csome new 3) (\<lambda>accumulated.
    cbind (cget received_payload_bytes) (\<lambda>payload_ptr.
    cbind (cderef (heap_read payload_ptr (unat n))) (\<lambda>payload.
    cbind (cderef (buffer_write accumulated (unat size) payload)) (\<lambda>accumulated.
    cbind (cmodify (\<lambda>c. c\<lparr>accumulated_payloads := Some accumulated,
             accumulated_payloads_size := size + n\<rparr>)) (\<lambda>_.
    cbind (cget received_header_bytes) (\<lambda>header_ptr.
    cbind (cderef (heap_free header_ptr)) (\<lambda>header_ptr.
    cbind (cderef (heap_free payload_ptr)) (\<lambda>payload_ptr.
    cbind (cmodify (\<lambda>c. c\<lparr>received_header_bytes := header_ptr,
             received_payload_bytes := payload_ptr\<rparr>)) (\<lambda>_.
    cbind (cget is_last_fragment) (\<lambda>last.
    if last then cbind (cmodify (\<lambda>c. c\<lparr>record_fully_received := True\<rparr>)) (\<lambda>_. cgo True)
    else cbind (cmodify reset_rm_receiving_context_for_next_rm_fragment) (\<lambda>_. cgo False))))))))))))))))"

text \<open>The inner loop over the bytes of one chunk; it goes on with the bytes behind the end of the record.\<close>

partial_function (option) process_chunk ::
  "(nat \<Rightarrow> byte) \<Rightarrow> bytes \<Rightarrow> rm_context \<Rightarrow> ((nat, bytes) ctl \<times> rm_context) option" where
  "process_chunk junk bs context =
    (if bs = [] then Some (Go [], context)
     else if num_received_header_bytes context < RM_FRAGMENT_HEADER_SIZE then
       (case receive_header_part junk bs context of
          (Go rest, context') \<Rightarrow> process_chunk junk rest context'
        | (Return e, context') \<Rightarrow> Some (Return e, context')
        | (UB, context') \<Rightarrow> Some (UB, context'))
     else
       (case receive_payload_part junk bs context of
          (Go rest, context') \<Rightarrow>
            if num_received_payload_bytes context' = expected_size context' then
              (case complete_fragment junk context' of
                 (Go is_last, context'') \<Rightarrow>
                   if is_last then Some (Go rest, context'') else process_chunk junk rest context''
               | (Return e, context'') \<Rightarrow> Some (Return e, context'')
               | (UB, context'') \<Rightarrow> Some (UB, context''))
            else process_chunk junk rest context'
        | (Return e, context') \<Rightarrow> Some (Return e, context')
        | (UB, context') \<Rightarrow> Some (UB, context')))"

abbreviation READ_BUF_SIZE :: nat where "READ_BUF_SIZE \<equiv> 10000"

partial_function (option) receive_available_bytes_quic ::
  "'q tquic \<Rightarrow> (nat \<Rightarrow> byte) \<Rightarrow> rm_context \<Rightarrow> 'q \<Rightarrow> ((nat, unit) ctl \<times> rm_context \<times> 'q) option" where
  "receive_available_bytes_quic lib junk context q =
    (case quic_stream_read lib (quic_connection context) (stream_id context) READ_BUF_SIZE q of
       (bytes_read, read_buffer, q') \<Rightarrow>
         if sint bytes_read < 0 then Some (Return 0, context, q')
         else if bytes_read = 0 then Some (Return 2, context, q')
         else
           (case process_chunk junk (take (unat bytes_read) read_buffer) context of
              None \<Rightarrow> None
            | Some (Go rest, context') \<Rightarrow>
                if record_fully_received context'
                then Some (Return (if rest \<noteq> [] then 4 else 0), context', q')
                else receive_available_bytes_quic lib junk context' q'
            | Some (Return e, context') \<Rightarrow> Some (Return e, context', q')
            | Some (UB, context') \<Rightarrow> Some (UB, context', q')))"

section \<open>A record is sent as it is encoded\<close>

text \<open>
  What the sender relies on: while a stream is open for writing, \<open>quic_stream_write\<close> accepts at least one
  of the bytes it gets, tells how many, and puts them behind those \<open>written\<close> before.
\<close>

definition takes_writes ::
  "'q tquic \<Rightarrow> nat \<Rightarrow> u64 \<Rightarrow> ('q \<Rightarrow> bytes) \<Rightarrow> ('q \<Rightarrow> bool) \<Rightarrow> bool" where
  "takes_writes lib conn sid written open_stream \<longleftrightarrow>
    (\<forall>q bs. open_stream q \<and> bs \<noteq> [] \<longrightarrow>
      (case quic_stream_write lib conn sid bs False q of
         (n, q') \<Rightarrow> 0 < unat n \<and> unat n \<le> length bs \<and> open_stream q' \<and>
           written q' = written q @ take (unat n) bs))"

lemma send_bytes_quic_loop_ok:
  assumes "takes_writes lib conn sid written ok" and "ok q" and "k \<le> sz" and "unat sz \<le> length buf"
  shows "\<exists>q'. send_bytes_quic_loop lib conn sid buf sz k q = Some (0, q') \<and> ok q' \<and>
    written q' = written q @ take (unat sz - unat k) (drop (unat k) buf)"
  using assms(2-3)
proof (induction "unat sz - unat k" arbitrary: q k rule: less_induct)
  case less
  show ?case
  proof (cases "k < sz")
    case True
    let ?bs = "take (unat (sz - k)) (drop (unat k) buf)"
    have left: "unat (sz - k) = unat sz - unat k" using True by (simp add: unat_sub less_imp_le)
    have lt: "unat k < unat sz" using True by (simp add: word_less_nat_alt)
    have len: "length ?bs = unat sz - unat k" using left lt assms(4) by simp
    then have "?bs \<noteq> []" using lt by auto
    with assms(1) less.prems(1) obtain n q1 where
      w: "quic_stream_write lib conn sid ?bs False q = (n, q1)" "0 < unat n" "unat n \<le> length ?bs" "ok q1"
        "written q1 = written q @ take (unat n) ?bs"
      unfolding takes_writes_def by blast
    have "unat sz < 2 ^ 64" using unsigned_less [of sz] by simp
    moreover have sum: "unat k + unat n \<le> unat sz" using w(3) len lt by linarith
    ultimately have add: "unat (k + n) = unat k + unat n" by (simp add: unat_word_ariths)
    have le: "k + n \<le> sz" using add sum by (simp add: word_le_nat_alt)
    have "unat sz - unat (k + n) < unat sz - unat k" using add w(2) lt by simp
    from less.hyps [OF this w(4) le] obtain q2 where
      q2: "send_bytes_quic_loop lib conn sid buf sz (k + n) q1 = Some (0, q2)" "ok q2"
        "written q2 = written q1 @ take (unat sz - (unat k + unat n)) (drop (unat k + unat n) buf)"
      by (auto simp: add)
    have "n \<noteq> 0" using w(2) by auto
    then have "send_bytes_quic_loop lib conn sid buf sz k q = Some (0, q2)"
      using True w(1) q2(1) by (subst send_bytes_quic_loop.simps) simp
    moreover have "take (unat n) ?bs @ take (unat sz - (unat k + unat n)) (drop (unat k + unat n) buf) =
        take (unat sz - unat k) (drop (unat k) buf)"
    proof -
      have "unat n + (unat sz - (unat k + unat n)) = unat sz - unat k" using sum by simp
      then show ?thesis
        using w(3) left take_add [of "unat n" "unat sz - (unat k + unat n)" "drop (unat k) buf"]
        by (simp add: add.commute)
    qed
    ultimately show ?thesis using q2(2,3) w(5) by auto
  next
    case False
    then show ?thesis using less.prems by (subst send_bytes_quic_loop.simps) simp
  qed
qed

lemma quic_byte_sender:
  assumes "takes_writes lib conn sid written ok"
  shows "byte_sender (send_or_hang lib conn sid) (\<lambda>c. written (the c)) (\<lambda>c. \<exists>q. c = Some q \<and> ok q)"
proof
  fix c and n :: u64 and buf :: bytes
  assume "\<exists>q. c = Some q \<and> ok q" and "unat n \<le> length buf"
  then show "\<exists>c'. send_or_hang lib conn sid buf n c = (0, c') \<and> (\<exists>q. c' = Some q \<and> ok q) \<and>
      written (the c') = written (the c) @ take (unat n) buf"
    using send_bytes_quic_loop_ok [OF assms, of _ 0 n buf]
    by (fastforce simp: send_or_hang_def send_bytes_quic_def)
qed

lemma send_rm_record_quic_ok:
  assumes "takes_writes lib conn sid written ok" and "ok q" and "length data < 2 ^ 64"
  shows "\<exists>q'. send_rm_record_quic lib conn sid data (of_nat (length data)) q = Some (0, q') \<and> ok q' \<and>
    written q' = written q @ rm_encode data"
  using byte_sender.send_fragments_encodes [OF quic_byte_sender [OF assms(1)], of "Some q" 0
      "of_nat (length data)" data] assms(2,3)
  by (auto simp: send_rm_record_quic_def unat_of_nat)

text \<open>
  A QUIC library with one connection: the chunks that arrive, an empty one where the stream is drained for
  the moment, and the bytes written, of which it takes at most three at a time.
\<close>

definition ex_read :: "nat \<Rightarrow> bytes list \<times> bytes \<Rightarrow> u64 \<times> bytes \<times> bytes list \<times> bytes" where
  "ex_read n q =
    (case q of
       ([], out) \<Rightarrow> (-1, [], [], out)
     | (chunk # chunks, out) \<Rightarrow>
         if chunk = [] then (-1, [], chunks, out)
         else if length chunk \<le> n then (of_nat (length chunk), chunk, chunks, out)
         else (of_nat n, take n chunk, drop n chunk # chunks, out))"

definition ex_write :: "bytes \<Rightarrow> bytes list \<times> bytes \<Rightarrow> u64 \<times> bytes list \<times> bytes" where
  "ex_write bs q = (of_nat (min 3 (length bs)), fst q, snd q @ take 3 bs)"

definition ex_lib :: "(bytes list \<times> bytes) tquic" where
  "ex_lib =
    \<lparr>quic_stream_write = (\<lambda>_ _ bs _. ex_write bs), quic_stream_read = (\<lambda>_ _. ex_read),
     quic_stream_wantwrite = (\<lambda>_ _ _ q. q), quic_stream_bidi_new = (\<lambda>_ _ _ q. (0, 4, q))\<rparr>"

lemma ex_takes_writes: "takes_writes ex_lib conn sid snd (\<lambda>_. True)"
  by (auto simp: takes_writes_def ex_lib_def ex_write_def unat_of_nat min_def take_all)

text \<open>
  C19: A record is sent over a QUIC stream in its wire format.  On a stream that accepts at least one byte
  per write, \<open>send_rm_record_quic\<close> returns, with success, and the stream has got exactly the encoding of the
  record, whatever the sizes of the single writes.
\<close>

theorem quic_record_sent:
  assumes "takes_writes lib conn sid written ok" and "ok q" and "length data < 2 ^ 64"
  shows "\<exists>q'. send_rm_record_quic lib conn sid data (of_nat (length data)) q = Some (0, q') \<and> ok q' \<and>
    written q' = written q @ rm_encode data"
  by (rule send_rm_record_quic_ok [OF assms])

theorem quic_record_sent_witness:
  "\<exists>q'. send_rm_record_quic ex_lib 1 4 [1, 2, 3, 4, 5] (of_nat (length [1 :: byte, 2, 3, 4, 5])) ([], []) =
      Some (0, q') \<and> True \<and> snd q' = snd ([] :: bytes list, []) @ rm_encode [1, 2, 3, 4, 5]"
  by (rule quic_record_sent [OF ex_takes_writes]) simp_all

lemma negative_code: "sint (e :: u64) < 0 \<Longrightarrow> 2 ^ 63 \<le> unat e"
proof (rule ccontr)
  assume "sint e < 0" and "\<not> 2 ^ 63 \<le> unat e"
  then have "uint e < 2 ^ 63" by (metis not_le of_nat_less_iff of_nat_numeral of_nat_power uint_nat)
  moreover have "- (2 ^ 63) \<le> (0 :: int)" by simp
  then have "- (2 ^ 63) \<le> uint e" using unsigned_greater_eq order_trans by blast
  ultimately have "sint e = uint e" by (simp add: sint_uint signed_take_bit_int_eq_self)
  with \<open>sint e < 0\<close> show False by simp
qed

text \<open>
  C36: A failed write is reported as success.  When \<open>quic_stream_write\<close> answers the first write with an
  error code (the stream is closed, or has no room for the moment), \<open>send_bytes_quic\<close> returns 0 although
  nothing was written: the negative code is a huge number in the \<open>size_t\<close> that counts the bytes.
\<close>

theorem quic_write_failure_unnoticed:
  assumes "0 < n" and "unat n < 2 ^ 63" and "sint e < 0"
    and "quic_stream_write lib conn sid (take (unat n) buf) False q = (e, q')"
  shows "send_bytes_quic lib conn sid buf n q = Some (0, q')"
proof -
  have "n \<le> e" "e \<noteq> 0" using negative_code [OF assms(3)] assms(2,3) by (auto simp: word_le_nat_alt)
  then have "\<not> e < n" by simp
  with assms(1,4) \<open>e \<noteq> 0\<close> show ?thesis
    by (simp add: send_bytes_quic_def send_bytes_quic_loop.simps [of _ _ _ _ _ 0]
        send_bytes_quic_loop.simps [of _ _ _ _ n e])
qed

text \<open>The library of the example, with a stream that has no room.\<close>

theorem quic_write_failure_unnoticed_witness:
  "send_bytes_quic (ex_lib\<lparr>quic_stream_write := (\<lambda>_ _ _ _ q. (-1, q))\<rparr>) 1 4 [1, 2] 2 ([], [9]) =
    Some (0, [], [9])"
  by (rule quic_write_failure_unnoticed [where e = "-1"]) simp_all

end
