(* ===== verification/Quic_Server.thy ===== *)
theory Quic_Server
  imports Rpc_Server Quic_Record_Marking
begin

text \<open>
  \<open>quic_rpc_server.c\<close>: the callbacks that the QUIC library runs on the server.  The state is the NFS server,
  the state of the library, the counter behind the transaction identifiers, and the list of receiving
  contexts.  A call that never returns has no result, like one whose behaviour is undefined.
\<close>

record 'q quic_state =
  qs_server :: server
  qs_net :: 'q
  qs_xid :: u32
  qs_contexts :: "rm_context list"

type_synonym ('q, 'r, 'a) quic_prog = "('q quic_state, 'r, 'a) cprog"

section \<open>Replies\<close>

definition send_rpc_reply_body_quic ::
  "codec \<Rightarrow> 'q tquic \<Rightarrow> nat \<Rightarrow> u64 \<Rightarrow> reply_body \<Rightarrow> ('q, 'r, nat) quic_prog" where
  "send_rpc_reply_body_quic pb lib conn sid reply_body = (\<lambda>t.
    (case generate_rpc_xid (qs_xid t) of
       (new_xid, counter) \<Rightarrow>
         (let rpc_msg_buffer = pack_rpc_msg pb
                \<lparr>xid = new_xid, mtype = REPLY, rpc_body = Rpc_Rbody (Some reply_body)\<rparr>
          in case send_rm_record_quic lib conn sid rpc_msg_buffer (of_nat (length rpc_msg_buffer))
                    (qs_net t) of
               None \<Rightarrow> (UB, t\<lparr>qs_xid := counter\<rparr>)
             | Some (error_code, net) \<Rightarrow>
                 (Go (if error_code > 0 then 1 else 0), t\<lparr>qs_net := net, qs_xid := counter\<rparr>))))"

definition send_rpc_accepted_reply_message_quic ::
  "codec \<Rightarrow> 'q tquic \<Rightarrow> nat \<Rightarrow> u64 \<Rightarrow> accepted_reply option \<Rightarrow> ('q, 'r, nat) quic_prog" where
  "send_rpc_accepted_reply_message_quic pb lib conn sid accepted_reply =
    send_rpc_reply_body_quic pb lib conn sid
      \<lparr>rbody_stat = MSG_ACCEPTED, rbody_reply = Reply_Areply accepted_reply\<rparr>"

definition send_rpc_rejected_reply_message_quic ::
  "codec \<Rightarrow> 'q tquic \<Rightarrow> nat \<Rightarrow> u64 \<Rightarrow> rejected_reply option \<Rightarrow> ('q, 'r, nat) quic_prog" where
  "send_rpc_rejected_reply_message_quic pb lib conn sid rejected_reply =
    send_rpc_reply_body_quic pb lib conn sid
      \<lparr>rbody_stat = MSG_DENIED, rbody_reply = Reply_Rreply rejected_reply\<rparr>"

definition send_auth_error_rejected_reply_quic ::
  "codec \<Rightarrow> 'q tquic \<Rightarrow> nat \<Rightarrow> u64 \<Rightarrow> auth_stat \<Rightarrow> ('q, 'r, nat) quic_prog" where
  "send_auth_error_rejected_reply_quic pb lib conn sid auth_stat =
    cbind (send_rpc_rejected_reply_message_quic pb lib conn sid
             (Some (create_auth_error_rejected_reply auth_stat)))
      (\<lambda>error_code. cgo (if error_code > 0 then 1 else 0))"

text \<open>The checks are those of the TCP server, in the same order and with the same status.\<close>

definition validate_credential_and_verifier_quic ::
  "codec \<Rightarrow> 'q tquic \<Rightarrow> nat \<Rightarrow> u64 \<Rightarrow> opaque_auth option \<Rightarrow> opaque_auth option \<Rightarrow> ('q, 'r, int) quic_prog" where
  "validate_credential_and_verifier_quic pb lib conn sid credential verifier =
    (case credential_error credential of
       Some stat \<Rightarrow>
         cbind (send_auth_error_rejected_reply_quic pb lib conn sid stat) (\<lambda>error_code.
         cgo (if error_code > 0 then -1 else 1))
     | None \<Rightarrow>
         (case verifier_error verifier of
            Some stat \<Rightarrow>
              cbind (send_auth_error_rejected_reply_quic pb lib conn sid stat) (\<lambda>error_code.
              cgo (if error_code > 0 then -1 else 1))
          | None \<Rightarrow> cgo 0))"

section \<open>One RPC\<close>

definition on_quic_server :: "unit handler \<Rightarrow> ('q, 'r, accepted_reply option) quic_prog" where
  "on_quic_server m = (\<lambda>t.
    (case m (qs_server t) of
       (Return r, s) \<Rightarrow> (Go r, t\<lparr>qs_server := s\<rparr>)
     | (_, s) \<Rightarrow> (UB, t\<lparr>qs_server := s\<rparr>)))"

definition reply_to_call_quic ::
  "codec \<Rightarrow> 'q tquic \<Rightarrow> nat \<Rightarrow> u64 \<Rightarrow> call_body \<Rightarrow> ('q, nat, 'a) quic_prog" where
  "reply_to_call_quic pb lib conn sid call_body =
    (if rpcvers call_body \<noteq> 2 then
       cbind (send_rpc_rejected_reply_message_quic pb lib conn sid
                (Some (create_rpc_mismatch_rejected_reply 2 2)))
         (\<lambda>error_code. creturn (if error_code > 0 then 5 else 0))
     else
       cbind (validate_credential_and_verifier_quic pb lib conn sid (call_credential call_body)
                (call_verifier call_body)) (\<lambda>error_code.
       if error_code \<noteq> 0 then creturn 6
       else
         cbind (cderef (call_credential call_body)) (\<lambda>cred.
         if flavor cred = AUTH_NONE \<and> call_proc call_body \<noteq> 0 then
           cbind (send_auth_error_rejected_reply_quic pb lib conn sid AUTH_TOOWEAK) creturn
         else
           cbind (on_quic_server (forward_rpc_call_to_program pb (call_credential call_body)
                    (call_verifier call_body) (call_prog call_body) (call_vers call_body)
                    (call_proc call_body) (call_params call_body))) (\<lambda>accepted_reply.
           cbind (send_rpc_accepted_reply_message_quic pb lib conn sid accepted_reply) (\<lambda>error_code.
           creturn (if error_code > 0 then 7 else 0))))))"

definition handle_client_quic ::
  "codec \<Rightarrow> 'q tquic \<Rightarrow> bytes option \<Rightarrow> u64 \<Rightarrow> nat \<Rightarrow> u64 \<Rightarrow> ('q, nat, 'a) quic_prog" where
  "handle_client_quic pb lib rpc_call_buffer rpc_call_buffer_size conn sid =
    (case rpc_call_buffer of
       None \<Rightarrow> creturn 1
     | Some buffer \<Rightarrow>
         (case deserialize_rpc_msg pb (take (unat rpc_call_buffer_size) buffer) of
            None \<Rightarrow> creturn 2
          | Some rpc_call \<Rightarrow>
              if mtype rpc_call \<noteq> CALL then creturn 3
              else (case rpc_body rpc_call of
                      Rpc_Cbody None \<Rightarrow> creturn 4
                    | Rpc_Cbody (Some call_body) \<Rightarrow> reply_to_call_quic pb lib conn sid call_body
                    | _ \<Rightarrow> creturn 3)))"

section \<open>Stream events\<close>

definition server_on_stream_readable ::
  "codec \<Rightarrow> 'q tquic \<Rightarrow> (nat \<Rightarrow> byte) \<Rightarrow> nat \<Rightarrow> u64 \<Rightarrow> ('q, unit, unit) quic_prog" where
  "server_on_stream_readable pb lib junk conn sid = (\<lambda>t.
    let contexts = (if find_rm_receiving_context conn sid (qs_contexts t) > 0
                    then snd (add_new_rm_receiving_context conn sid (qs_contexts t)) else qs_contexts t)
    in case get_rm_receiving_context conn sid contexts of
         None \<Rightarrow> (Return (), t\<lparr>qs_contexts := contexts\<rparr>)
       | Some context \<Rightarrow>
           (case receive_available_bytes_quic lib junk context (qs_net t) of
              None \<Rightarrow> (UB, t\<lparr>qs_contexts := contexts\<rparr>)
            | Some (r, context', net) \<Rightarrow>
                (let t' = t\<lparr>qs_net := net, qs_contexts := put_rm_receiving_context context' contexts\<rparr>
                 in case r of
                      Return error_code \<Rightarrow>
                        if error_code > 0 then (Return (), t')
                        else if record_fully_received context' then
                          (cbind (ccall (handle_client_quic pb lib (accumulated_payloads context')
                                    (accumulated_payloads_size context') conn sid)) (\<lambda>_.
                           cbind (cget qs_contexts) (\<lambda>contexts.
                           cbind (cderef (remove_rm_receiving_context conn sid contexts)) (\<lambda>(_, contexts).
                           cbind (cmodify (qs_contexts_update (\<lambda>_. contexts))) (\<lambda>_. creturn ()))))) t'
                        else (Return (), t')
                    | _ \<Rightarrow> (UB, t'))))"

definition server_on_stream_writable :: "'q tquic \<Rightarrow> nat \<Rightarrow> u64 \<Rightarrow> ('q, unit, unit) quic_prog" where
  "server_on_stream_writable lib conn sid =
    cbind (cmodify (\<lambda>t. t\<lparr>qs_net := quic_stream_wantwrite lib conn sid False (qs_net t)\<rparr>)) creturn"

end
