(* ===== verification/Quic_Receiving.thy ===== *)
theory Quic_Receiving
  imports Quic_Record_Marking
begin

text \<open>
  The receiver of records over QUIC.  \<open>context_ok\<close> is the invariant of a receiving context between two
  events.  With it the loop over a chunk ends, stays inside its buffers, and gives the same context for two
  chunks as for their concatenation (\<open>process_chunk_append\<close>), so that a record is found however it is cut.
\<close>

section \<open>The list of contexts is a keyed list\<close>

lemma get_rm_receiving_context_find:
  "get_rm_receiving_context conn sid contexts = List.find (\<lambda>c. context_key c = (conn, sid)) contexts"
  by (induction contexts) (auto simp: context_key_def)

lemma find_rm_receiving_context_get:
  "find_rm_receiving_context conn sid contexts =
    (if get_rm_receiving_context conn sid contexts = None then 1 else 0)"
  by (induction contexts) auto

lemma remove_rm_receiving_context_first:
  "contexts \<noteq> [] \<Longrightarrow> remove_rm_receiving_context conn sid contexts =
    Some (if get_rm_receiving_context conn sid contexts = None then 4 else 0,
      remove_first (\<lambda>c. context_key c = (conn, sid)) contexts)"
  by (cases contexts)
    (auto simp: remove_rm_receiving_context_def get_rm_receiving_context_find context_key_def Let_def
      find_None_conv dest!: find_SomeD)

interpretation rm_contexts: keyed_list context_key "(#)"
  "\<lambda>(conn, sid). get_rm_receiving_context conn sid"
  "\<lambda>(conn, sid) contexts. case remove_rm_receiving_context conn sid contexts of
     None \<Rightarrow> contexts | Some (_, contexts') \<Rightarrow> contexts'"
proof -
  have get: "(\<lambda>(conn, sid). get_rm_receiving_context conn sid) = (\<lambda>k. List.find (\<lambda>c. context_key c = k))"
    by (auto simp: fun_eq_iff get_rm_receiving_context_find)
  have del: "(\<lambda>(conn, sid) contexts. case remove_rm_receiving_context conn sid contexts of
      None \<Rightarrow> contexts | Some (_, contexts') \<Rightarrow> contexts') = (\<lambda>k. remove_first (\<lambda>c. context_key c = k))"
  proof (intro ext)
    fix k contexts
    show "(case k of (conn, sid) \<Rightarrow> \<lambda>contexts. case remove_rm_receiving_context conn sid contexts of
        None \<Rightarrow> contexts | Some (_, contexts') \<Rightarrow> contexts') contexts =
      remove_first (\<lambda>c. context_key c = k) contexts"
      by (cases k; cases "contexts = []")
        (simp_all add: remove_rm_receiving_context_first, simp add: remove_rm_receiving_context_def)
  qed
  show "keyed_list context_key (#) (\<lambda>(conn, sid). get_rm_receiving_context conn sid)
    (\<lambda>(conn, sid) contexts. case remove_rm_receiving_context conn sid contexts of
       None \<Rightarrow> contexts | Some (_, contexts') \<Rightarrow> contexts')"
    unfolding get del by (rule keyed_list_listI)
qed

section \<open>The state of a fragment\<close>

definition fragment_ok :: "rm_context \<Rightarrow> bool" where
  "fragment_ok c \<longleftrightarrow>
    (if num_received_header_bytes c < RM_FRAGMENT_HEADER_SIZE then
       num_received_payload_bytes c = 0 \<and> received_payload_bytes c = Null \<and>
       (if num_received_header_bytes c = 0 then received_header_bytes c = Null
        else (\<exists>h. received_header_bytes c = Live h \<and> length h = 4))
     else
       num_received_header_bytes c = RM_FRAGMENT_HEADER_SIZE \<and> 
       (\<exists>h. received_header_bytes c = Live h \<and> length h = 4) \<and>
       (received_payload_bytes c = Null \<and> num_received_payload_bytes c = 0 \<or>
        num_received_payload_bytes c < expected_size c \<and>
        (\<exists>b. received_payload_bytes c = Live b \<and> length b = unat (expected_size c))))"

definition accumulated_ok :: "bytes option \<Rightarrow> u64 \<Rightarrow> bool" where
  "accumulated_ok p n = (case p of None \<Rightarrow> n = 0 | Some b \<Rightarrow> length b = unat n)"

definition context_ok :: "rm_context \<Rightarrow> bool" where
  "context_ok c \<longleftrightarrow> fragment_ok c \<and> \<not> record_fully_received c \<and>
    accumulated_ok (accumulated_payloads c) (accumulated_payloads_size c)"

lemma length_overwrite [simp]: "i + length bs \<le> length b \<Longrightarrow> length (overwrite i bs b) = length b"
  by (simp add: overwrite_def)

lemma overwrite_Nil [simp]: "i \<le> length b \<Longrightarrow> overwrite i [] b = b"
  by (simp add: overwrite_def)

lemma overwrite_overwrite:
  "i + length xs + length ys \<le> length b \<Longrightarrow>
    overwrite (i + length xs) ys (overwrite i xs b) = overwrite i (xs @ ys) b"
  by (simp add: overwrite_def ac_simps)

definition header_buffer :: "(nat \<Rightarrow> byte) \<Rightarrow> rm_context \<Rightarrow> bytes" where
  "header_buffer junk c = (case received_header_bytes c of Live h \<Rightarrow> h | _ \<Rightarrow> map junk [0..<4])"

lemma malloc_header:
  assumes "fragment_ok c" "num_received_header_bytes c < 4"
  shows "malloc_if_null junk (received_header_bytes c) 4 = Live (header_buffer junk c)" "length (header_buffer junk c) = 4"
  using assms by (auto simp: fragment_ok_def malloc_if_null_def header_buffer_def split: if_splits)

definition parse_header :: "bytes \<Rightarrow> rm_context \<Rightarrow> rm_context" where
  "parse_header h c = (if num_received_header_bytes c = 4 then
     c\<lparr>is_last_fragment := (be_word h AND 0x80000000 \<noteq> 0),
                        expected_size := ucast (be_word h AND 0x7FFFFFFF)\<rparr> else c)"

lemma header_part:
  assumes "fragment_ok c" and "num_received_header_bytes c < 4" and "bs \<noteq> []"
    and "n = min (4 - unat (num_received_header_bytes c)) (length bs)"
    and "h = overwrite (unat (num_received_header_bytes c)) (take n bs) (header_buffer junk c)"
  shows "receive_header_part junk bs c = (Go (drop n bs), parse_header h
    (c\<lparr>received_header_bytes := Live h, num_received_header_bytes := num_received_header_bytes c + of_nat n\<rparr>))"
    and "fragment_ok (parse_header h
    (c\<lparr>received_header_bytes := Live h, num_received_header_bytes := num_received_header_bytes c + of_nat n\<rparr>))"
proof -
  let ?k = "num_received_header_bytes c"
  have left: "unat (RM_FRAGMENT_HEADER_SIZE - ?k) = 4 - unat ?k"
    using assms(2) by (simp add: unat_sub less_imp_le)
  have k: "unat ?k < 4" using assms(2) by (simp add: word_less_nat_alt)
  have n: "(if unat (RM_FRAGMENT_HEADER_SIZE - ?k) < length bs then unat (RM_FRAGMENT_HEADER_SIZE - ?k) else length bs) = n"
    using assms(4) left by auto
  have fits: "unat ?k + n \<le> 4" and pos: "0 < n" using assms(3,4) k by auto
  have h: "length h = 4" using malloc_header(2) [OF assms(1,2)] fits assms(4,5) by simp
  have w: "heap_write (Live (header_buffer junk c)) (unat ?k) (take n bs) = Some (Live h)"
    using malloc_header(2) [OF assms(1,2)] fits assms(3,4,5) pos by (simp add: heap_write_def buffer_write_def)
  show "receive_header_part junk bs c = (Go (drop n bs), parse_header h
    (c\<lparr>received_header_bytes := Live h, num_received_header_bytes := num_received_header_bytes c + of_nat n\<rparr>))"
    using h unfolding receive_header_part_def malloc_header(1) [OF assms(1,2)] n Let_def w
    by (simp add: parse_header_def heap_read_def)
  have sum: "unat (?k + of_nat n) = unat ?k + n"
    using fits by (simp add: unat_word_ariths unat_of_nat)
  then have "?k + of_nat n = 4 \<or> ?k + of_nat n < 4" "?k + of_nat n \<noteq> 0"
    using fits pos by (auto simp: word_less_nat_alt word_unat_eq_iff)
  then show "fragment_ok (parse_header h
    (c\<lparr>received_header_bytes := Live h, num_received_header_bytes := num_received_header_bytes c + of_nat n\<rparr>))"
    using assms(1,2) h by (auto simp: parse_header_def fragment_ok_def)
qed


lemma header_part_split:
  assumes "fragment_ok c" and "num_received_header_bytes c < 4" and "a \<noteq> []" and "b \<noteq> []"
    and "unat (num_received_header_bytes c) + length a < 4"
  shows "\<exists>c'. receive_header_part junk a c = (Go [], c') \<and> fragment_ok c' \<and> num_received_header_bytes c' < 4 \<and>
    receive_header_part junk (a @ b) c = receive_header_part junk b c'"
proof -
  let ?k = "num_received_header_bytes c"
  let ?h = "overwrite (unat ?k) a (header_buffer junk c)"
  define c' where "c' = c\<lparr>received_header_bytes := Live ?h, num_received_header_bytes := ?k + of_nat (length a)\<rparr>"
  have sum: "unat (?k + of_nat (length a)) = unat ?k + length a"
    using assms(5) by (simp add: unat_word_ariths unat_of_nat)
  then have lt: "?k + of_nat (length a) < 4" using assms(5) by (simp add: word_less_nat_alt)
  then have "parse_header ?h c' = c'" by (auto simp: parse_header_def c'_def)
  moreover have na: "min (4 - unat ?k) (length a) = length a" using assms(5) by simp
  ultimately have c': "receive_header_part junk a c = (Go [], c')" "fragment_ok c'"
    using header_part [OF assms(1-3) na [symmetric] refl, where junk = junk] by (simp_all add: c'_def)
  have lt': "num_received_header_bytes c' < 4" using lt by (simp add: c'_def)
  let ?m = "min (4 - unat (num_received_header_bytes c')) (length b)"
  have n: "length a + ?m = min (4 - unat ?k) (length (a @ b))"
    using assms(5) by (simp add: c'_def sum)
  have hb: "header_buffer junk c' = ?h" by (simp add: c'_def header_buffer_def)
  have fits: "unat ?k + length a + length (take ?m b) \<le> length (header_buffer junk c)"
    using malloc_header(2) [OF assms(1,2)] assms(5) by (simp add: c'_def sum)
  have ov: "overwrite (unat ?k) (take (length a + ?m) (a @ b)) (header_buffer junk c) =
      overwrite (unat (num_received_header_bytes c')) (take ?m b) (header_buffer junk c')"
    using overwrite_overwrite [OF fits] unfolding hb by (simp add: c'_def sum)
  have ab: "a @ b \<noteq> []" using assms(3) by simp
  have "receive_header_part junk (a @ b) c = receive_header_part junk b c'"
    unfolding header_part(1) [OF assms(1,2) ab n refl] header_part(1) [OF c'(2) lt' assms(4) refl refl] ov
    by (simp add: c'_def ac_simps parse_header_def)
  with c' lt' show ?thesis by blast
qed


definition payload_buffer :: "(nat \<Rightarrow> byte) \<Rightarrow> rm_context \<Rightarrow> bytes" where
  "payload_buffer junk c =
    (case received_payload_bytes c of Live b \<Rightarrow> b | _ \<Rightarrow> map junk [0..<unat (expected_size c)])"

lemma malloc_payload:
  assumes "fragment_ok c" "\<not> num_received_header_bytes c < 4"
  shows "malloc_if_null junk (received_payload_bytes c) (unat (expected_size c)) = Live (payload_buffer junk c)"
    and "length (payload_buffer junk c) = unat (expected_size c)"
  using assms by (auto simp: fragment_ok_def malloc_if_null_def payload_buffer_def split: if_splits)

lemma payload_part:
  assumes "fragment_ok c" and "\<not> num_received_header_bytes c < 4" and "bs \<noteq> []"
    and "num_received_payload_bytes c < expected_size c"
    and "n = min (unat (expected_size c) - unat (num_received_payload_bytes c)) (length bs)"
    and "p = overwrite (unat (num_received_payload_bytes c)) (take n bs) (payload_buffer junk c)"
  shows "receive_payload_part junk bs c = (Go (drop n bs),
    c\<lparr>received_payload_bytes := Live p, num_received_payload_bytes := num_received_payload_bytes c + of_nat n\<rparr>)"
    and "length p = unat (expected_size c)"
    and "unat (num_received_payload_bytes c + of_nat n) = unat (num_received_payload_bytes c) + n"
proof -
  let ?k = "num_received_payload_bytes c"
  have left: "unat (expected_size c - ?k) = unat (expected_size c) - unat ?k"
    using assms(4) by (simp add: unat_sub less_imp_le)
  have k: "unat ?k < unat (expected_size c)" using assms(4) by (simp add: word_less_nat_alt)
  have n: "(if unat (expected_size c - ?k) < length bs then unat (expected_size c - ?k) else length bs) = n"
    using assms(5) left by auto
  have fits: "unat ?k + n \<le> unat (expected_size c)" and pos: "0 < n" using assms(3,5) k by auto
  note len = malloc_payload(2) [OF assms(1,2), of junk]
  show "length p = unat (expected_size c)" using len fits assms(5,6) by simp
  have w: "heap_write (Live (payload_buffer junk c)) (unat ?k) (take n bs) = Some (Live p)"
    using len fits assms(3,5,6) pos by (simp add: heap_write_def buffer_write_def)
  have "received_header_bytes c \<noteq> Null" using assms(1,2) by (auto simp: fragment_ok_def)
  then show "receive_payload_part junk bs c = (Go (drop n bs),
    c\<lparr>received_payload_bytes := Live p, num_received_payload_bytes := num_received_payload_bytes c + of_nat n\<rparr>)"
    using assms(4) unfolding receive_payload_part_def malloc_payload(1) [OF assms(1,2)] n Let_def w by simp
  show "unat (?k + of_nat n) = unat ?k + n"
  proof -
    have "unat (expected_size c) < 2 ^ 64" using unsigned_less [of "expected_size c"] by simp
    with fits show ?thesis by (simp add: unat_word_ariths unat_of_nat)
  qed
qed

lemma payload_part_empty:
  "\<not> num_received_payload_bytes c < expected_size c \<Longrightarrow> receive_payload_part junk bs c = (Go bs, c)"
  by (simp add: receive_payload_part_def)

lemma payload_part_split:
  assumes "fragment_ok c" and "\<not> num_received_header_bytes c < 4" and "a \<noteq> []" and "b \<noteq> []"
    and "unat (num_received_payload_bytes c) + length a < unat (expected_size c)"
  shows "\<exists>c'. receive_payload_part junk a c = (Go [], c') \<and> fragment_ok c' \<and>
    \<not> num_received_header_bytes c' < 4 \<and> num_received_payload_bytes c' \<noteq> expected_size c' \<and>
    receive_payload_part junk (a @ b) c = receive_payload_part junk b c'"
proof -
  let ?k = "num_received_payload_bytes c"
  let ?p = "overwrite (unat ?k) a (payload_buffer junk c)"
  define c' where "c' = c\<lparr>received_payload_bytes := Live ?p, num_received_payload_bytes := ?k + of_nat (length a)\<rparr>"
  have lt: "?k < expected_size c" using assms(5) by (simp add: word_less_nat_alt)
  have na: "min (unat (expected_size c) - unat ?k) (length a) = length a" using assms(5) by simp
  note part = payload_part [OF assms(1-3) lt na [symmetric], of ?p junk, simplified]
  have c': "receive_payload_part junk a c = (Go [], c')" using part(1) by (simp add: c'_def)
  have lt': "num_received_payload_bytes c' < expected_size c'"
    using part(3) assms(5) by (simp add: c'_def word_less_nat_alt)
  have ok: "fragment_ok c'" "\<not> num_received_header_bytes c' < 4"
    using assms(1,2) part(2) lt' by (auto simp: fragment_ok_def c'_def)
  let ?m = "min (unat (expected_size c') - unat (num_received_payload_bytes c')) (length b)"
  have n: "length a + ?m = min (unat (expected_size c) - unat ?k) (length (a @ b))"
    using assms(5) part(3) by (simp add: c'_def)
  have pb: "payload_buffer junk c' = ?p" by (simp add: c'_def payload_buffer_def)
  have fits: "unat ?k + length a + length (take ?m b) \<le> length (payload_buffer junk c)"
    using malloc_payload(2) [OF assms(1,2)] assms(5) part(3) by (simp add: c'_def)
  have ov: "overwrite (unat ?k) (take (length a + ?m) (a @ b)) (payload_buffer junk c) =
      overwrite (unat (num_received_payload_bytes c')) (take ?m b) (payload_buffer junk c')"
    using overwrite_overwrite [OF fits] part(3) unfolding pb by (simp add: c'_def)
  have ab: "a @ b \<noteq> []" using assms(3) by simp
  have "receive_payload_part junk (a @ b) c = receive_payload_part junk b c'"
    unfolding payload_part(1) [OF assms(1,2) ab lt n refl]
      payload_part(1) [OF ok assms(4) lt' refl refl] ov
    by (simp add: c'_def ac_simps)
  with c' ok lt' show ?thesis by (metis order_less_irrefl)
qed

definition budget :: "rm_context \<Rightarrow> nat" where
  "budget c = unat (accumulated_payloads_size c) + unat (num_received_payload_bytes c)"

definition work :: "bytes \<Rightarrow> rm_context \<Rightarrow> nat" where
  "work bs c = 2 * length bs + (if num_received_header_bytes c < 4 then 0 else 1)"

lemma work_less: "length bs' < length bs \<Longrightarrow> work bs' c' < work bs c"
  by (simp add: work_def)

lemma work_reset:
  "length bs' \<le> length bs \<Longrightarrow> num_received_header_bytes c' < 4 \<Longrightarrow> \<not> num_received_header_bytes c < 4 \<Longrightarrow>
    work bs' c' < work bs c"
  by (simp add: work_def)

lemma context_ok_header:
  assumes "context_ok c" and "num_received_header_bytes c < 4" and "bs \<noteq> []"
  shows "\<exists>c'. receive_header_part junk bs c =
      (Go (drop (4 - unat (num_received_header_bytes c)) bs), c') \<and> context_ok c' \<and>
      0 < 4 - unat (num_received_header_bytes c) \<and> budget c' = budget c \<and>
      context_key c' = context_key c"
proof -
  have f: "fragment_ok c" using assms(1) by (simp add: context_ok_def)
  have d: "drop (min k (length bs)) bs = drop k bs" for k by (simp add: min_def)
  have "0 < 4 - unat (num_received_header_bytes c)" using assms(2) by (simp add: word_less_nat_alt)
  then show ?thesis
    using header_part [OF f assms(2,3) refl refl, of junk] assms(1)
    by (auto simp: d context_ok_def parse_header_def budget_def context_key_def)
qed

text \<open>A fragment whose payload is complete, before its buffers are given back.\<close>

definition fragment_full :: "rm_context \<Rightarrow> bytes \<Rightarrow> bool" where
  "fragment_full c payload \<longleftrightarrow>
    num_received_payload_bytes c = expected_size c \<and> length payload = unat (expected_size c) \<and>
    received_payload_bytes c = (if payload = [] then Null else Live payload) \<and>
    (\<exists>h. received_header_bytes c = Live h) \<and> \<not> record_fully_received c \<and>
    accumulated_ok (accumulated_payloads c) (accumulated_payloads_size c)"

lemma context_ok_payload:
  assumes "context_ok c" and "\<not> num_received_header_bytes c < 4" and "bs \<noteq> []"
  shows "\<exists>c'. receive_payload_part junk bs c =
      (Go (drop (unat (expected_size c) - unat (num_received_payload_bytes c)) bs), c') \<and>
      budget c' + length (drop (unat (expected_size c) - unat (num_received_payload_bytes c)) bs) =
        budget c + length bs \<and> context_key c' = context_key c \<and>
      (if unat (expected_size c) - unat (num_received_payload_bytes c) \<le> length bs
       then \<exists>payload. fragment_full c' payload
       else context_ok c' \<and> \<not> num_received_header_bytes c' < 4 \<and>
         num_received_payload_bytes c' \<noteq> expected_size c')"
proof (cases "num_received_payload_bytes c < expected_size c")
  case True
  have f: "fragment_ok c" using assms(1) by (simp add: context_ok_def)
  let ?left = "unat (expected_size c) - unat (num_received_payload_bytes c)"
  define n where "n = min ?left (length bs)"
  define p where "p = overwrite (unat (num_received_payload_bytes c)) (take n bs) (payload_buffer junk c)"
  note part = payload_part [OF f assms(2,3) True n_def p_def]
  define c' where "c' = c\<lparr>received_payload_bytes := Live p,
    num_received_payload_bytes := num_received_payload_bytes c + of_nat n\<rparr>"
  have lt: "unat (num_received_payload_bytes c) < unat (expected_size c)"
    using True by (simp add: word_less_nat_alt)
  have d: "drop n bs = drop ?left bs" by (simp add: n_def min_def)
  have part1: "receive_payload_part junk bs c = (Go (drop ?left bs), c')" "context_key c' = context_key c"
    using part(1) by (simp_all add: c'_def d context_key_def)
  have b: "budget c' + length (drop n bs) = budget c + length bs"
    using part(3) by (simp add: budget_def c'_def n_def)
  show ?thesis
  proof (cases "?left \<le> length bs")
    case True
    then have "num_received_payload_bytes c + of_nat n = expected_size c"
      using part(3) lt by (simp add: word_unat_eq_iff n_def)
    moreover have "p \<noteq> []" using part(2) lt by auto
    ultimately have "fragment_full c' p"
      using assms(1,2) part(2) f
      by (auto simp: fragment_full_def c'_def context_ok_def fragment_ok_def)
    with True part1 b d show ?thesis by auto
  next
    case False
    then have "num_received_payload_bytes c' < expected_size c'"
      using part(3) by (simp add: c'_def n_def word_less_nat_alt)
    with False part1 b d part(2) assms(1,2) f show ?thesis
      by (auto simp: context_ok_def fragment_ok_def c'_def)
  qed
next
  case False
  then have "received_payload_bytes c = Null" "expected_size c = 0" "num_received_payload_bytes c = 0"
    using assms(1,2) by (auto simp: context_ok_def fragment_ok_def word_less_nat_alt word_unat_eq_iff)
  then have "fragment_full c []"
    using assms(1,2) by (auto simp: fragment_full_def context_ok_def fragment_ok_def)
  with False show ?thesis
    using \<open>expected_size c = 0\<close> by (auto simp: payload_part_empty)
qed


lemma full_payload:
  assumes "fragment_full c payload"
  shows "heap_read (received_payload_bytes c) (unat (num_received_payload_bytes c)) = Some payload"
    and "heap_free (received_payload_bytes c) = Some (if payload = [] then Null else Freed)"
    and "heap_free (received_header_bytes c) = Some Freed"
    and "num_received_payload_bytes c = of_nat (length payload)"
    and "unat (num_received_payload_bytes c) = length payload"
  using assms by (auto simp: fragment_full_def heap_read_def heap_free_def) (metis length_greater_0_conv)

lemma buffer_write_end [simp]:
  "length new = length bs \<Longrightarrow> buffer_write (old @ new) (length old) bs = Some (old @ bs)"
  by (simp add: buffer_write_def overwrite_def)

definition accumulated :: "rm_context \<Rightarrow> bytes" where
  "accumulated c = (case accumulated_payloads c of None \<Rightarrow> [] | Some b \<Rightarrow> b)"

definition appended :: "bytes \<Rightarrow> rm_context \<Rightarrow> rm_context" where
  "appended payload c =
    c\<lparr>accumulated_payloads := Some (accumulated c @ payload),
      accumulated_payloads_size := accumulated_payloads_size c + of_nat (length payload)\<rparr>"

lemma accumulated_size:
  "fragment_full c payload \<Longrightarrow> unat (accumulated_payloads_size c) = length (accumulated c)"
  by (auto simp: fragment_full_def accumulated_ok_def accumulated_def split: option.splits)

lemma complete_fragment_full:
  assumes "fragment_full c payload" and "budget c < 2 ^ 64"
    and "accumulated_payloads c = Some [] \<longrightarrow> payload \<noteq> []"
  shows "complete_fragment junk c =
    (if is_last_fragment c
     then (Go True, (appended payload c)\<lparr>received_header_bytes := Freed,
        received_payload_bytes := (if payload = [] then Null else Freed), record_fully_received := True\<rparr>)
     else (Go False, reset_rm_receiving_context_for_next_rm_fragment (appended payload c)))"
proof -
  note full = full_payload [OF assms(1)] and size = accumulated_size [OF assms(1)]
  have "unat (accumulated_payloads_size c + num_received_payload_bytes c) =
      length (accumulated c) + length payload"
    using assms(2) size full(5) by (simp add: budget_def unat_word_ariths)
  then obtain new where "length new = length payload" "realloc junk (accumulated_payloads c)
      (if accumulated_payloads c = None then unat (num_received_payload_bytes c)
       else unat (accumulated_payloads_size c + num_received_payload_bytes c)) = Some (accumulated c @ new)"
    using assms(3) full(5)
    by (auto simp: realloc_def accumulated_def intro: that [of "map junk [length (accumulated c)..<length (accumulated c) + length payload]"]
      split: option.splits)
  then show ?thesis
    using full size
    by (simp add: complete_fragment_def control_defs appended_def
        reset_rm_receiving_context_for_next_rm_fragment_def)
qed

lemma complete_fragment_fails:
  assumes "fragment_full c payload"
    and "2 ^ 64 \<le> budget c \<or> accumulated_payloads c = Some [] \<and> payload = []"
  shows "\<exists>c'. complete_fragment junk c = (Return 3, c') \<or>
    complete_fragment junk c = (UB, c') \<and> 2 ^ 64 \<le> budget c"
proof -
  note full = full_payload [OF assms(1)] and size = accumulated_size [OF assms(1)]
  have "unat (num_received_payload_bytes c) < 2 ^ 64"
    using unsigned_less [of "num_received_payload_bytes c"] by simp
  then have lt: "length payload < 2 ^ 64" by (simp add: full(5))
  obtain b where b: "accumulated_payloads c = Some b"
    using assms lt full(5) by (auto simp: budget_def fragment_full_def accumulated_ok_def split: option.splits)
  then have ab: "accumulated c = b" by (simp add: accumulated_def)
  let ?sum = "unat (accumulated_payloads_size c + num_received_payload_bytes c)"
  show ?thesis
  proof (cases "?sum = 0")
    case True
    then have "realloc junk (Some b) ?sum = None" by (simp add: realloc_def)
    with b show ?thesis by (auto simp: complete_fragment_def control_defs)
  next
    case False
    then have over: "2 ^ 64 \<le> budget c" using assms(2) size full(5) ab b by (auto simp: unat_word_ariths)
    then have "?sum < length b + length payload"
      using size ab full(5) lt by (simp add: budget_def unat_word_ariths) 
    moreover define new where "new = take ?sum b @ map junk [length b..<?sum]"
    have new: "realloc junk (Some b) ?sum = Some new" using False by (simp add: realloc_def new_def)
    ultimately have "buffer_write new (length b) payload = None" by (auto simp: buffer_write_def new_def)
    with new full size b ab over show ?thesis by (simp add: complete_fragment_def control_defs)
  qed
qed

lemma complete_fragment_cases:
  assumes "fragment_full c payload"
  obtains (last) c' where "complete_fragment junk c = (Go True, c')" and "record_fully_received c'"
      and "context_key c' = context_key c"
  | (next_one) c' where "complete_fragment junk c = (Go False, c')" and "context_ok c'"
      and "num_received_header_bytes c' < 4" and "budget c' \<le> budget c" and "context_key c' = context_key c"
  | (no_memory) c' where "complete_fragment junk c = (Return 3, c')"
  | (overflow) c' where "complete_fragment junk c = (UB, c')" and "2 ^ 64 \<le> budget c"
proof (cases "2 ^ 64 \<le> budget c \<or> accumulated_payloads c = Some [] \<and> payload = []")
  case False
  let ?c = "reset_rm_receiving_context_for_next_rm_fragment (appended payload c)"
  have step: "complete_fragment junk c =
    (if is_last_fragment c
     then (Go True, (appended payload c)\<lparr>received_header_bytes := Freed,
        received_payload_bytes := (if payload = [] then Null else Freed), record_fully_received := True\<rparr>)
     else (Go False, ?c))"
    using False by (intro complete_fragment_full [OF assms]) auto
  have "unat (accumulated_payloads_size c + num_received_payload_bytes c) =
      length (accumulated c) + length payload"
    using False full_payload(5) [OF assms] accumulated_size [OF assms]
    by (simp add: budget_def unat_word_ariths)
  then have "unat (accumulated_payloads_size c + of_nat (length payload)) =
      length (accumulated c) + length payload" by (simp add: full_payload(4) [OF assms])
  then have "context_ok ?c" "budget ?c \<le> budget c"
    using full_payload(5) [OF assms] accumulated_size [OF assms]
    by (simp_all add: context_ok_def fragment_ok_def appended_def budget_def accumulated_ok_def
        reset_rm_receiving_context_for_next_rm_fragment_def)
  then show thesis
    using last next_one step
    by (cases "is_last_fragment c")
      (simp_all add: reset_rm_receiving_context_for_next_rm_fragment_def context_key_def appended_def)
next
  case True
  then show thesis using complete_fragment_fails [OF assms, of junk] no_memory overflow by blast
qed

lemma process_chunk_ok:
  assumes "context_ok c"
  shows "\<exists>r c'. process_chunk junk bs c = Some (r, c') \<and>
    (case r of
       Go rest \<Rightarrow> context_key c' = context_key c \<and>
         (record_fully_received c' \<or> rest = [] \<and> context_ok c' \<and> budget c' \<le> budget c + length bs)
     | Return e \<Rightarrow> e = 3
     | UB \<Rightarrow> 2 ^ 64 \<le> budget c + length bs)"
  using assms
proof (induction "work bs c" arbitrary: bs c rule: less_induct)
  case less
  show ?case
  proof (cases "bs = []")
    case False
    show ?thesis
    proof (cases "num_received_header_bytes c < 4")
      case True
      let ?n = "4 - unat (num_received_header_bytes c)"
      obtain c' where c': "receive_header_part junk bs c = (Go (drop ?n bs), c')" "context_ok c'"
        "0 < ?n" "budget c' = budget c" "context_key c' = context_key c"
        using context_ok_header [OF less.prems True False] by blast
      have "0 < length bs" using False by simp
      then have "length (drop ?n bs) < length bs" using c'(3) unfolding length_drop by linarith
      then have "work (drop ?n bs) c' < work bs c" by (rule work_less)
      from less.hyps [OF this c'(2)] True False c' show ?thesis
        by (subst process_chunk.simps) (fastforce split: ctl.splits)
    next
      case header: False
      let ?n = "unat (expected_size c) - unat (num_received_payload_bytes c)"
      obtain c' where c': "receive_payload_part junk bs c = (Go (drop ?n bs), c')"
        "budget c' + length (drop ?n bs) = budget c + length bs"
        "context_key c' = context_key c"
        "if ?n \<le> length bs then \<exists>payload. fragment_full c' payload
         else context_ok c' \<and> \<not> num_received_header_bytes c' < 4 \<and>
           num_received_payload_bytes c' \<noteq> expected_size c'"
        using context_ok_payload [OF less.prems header False, of junk] by blast
      show ?thesis
      proof (cases "?n \<le> length bs")
        case True
        then obtain payload where full: "fragment_full c' payload" using c'(4) by auto
        then have eq: "num_received_payload_bytes c' = expected_size c'" by (simp add: fragment_full_def)
        from full show ?thesis
        proof (cases rule: complete_fragment_cases [where junk = junk])
          case (next_one c'')
          have "work (drop ?n bs) c'' < work bs c" using header next_one by (intro work_reset) auto
          from less.hyps [OF this next_one(2)] eq header False c' next_one show ?thesis
            by (subst process_chunk.simps) (fastforce split: ctl.splits)
        qed (use eq header False c' in \<open>subst process_chunk.simps, simp\<close>)+
      next
        case short: False
        then have "work (drop ?n bs) c' < work bs c" using False by (intro work_less) auto
        from less.hyps [OF this] short header False c' show ?thesis
          by (subst process_chunk.simps) (fastforce split: ctl.splits)
      qed
    qed
  qed (use less.prems in \<open>simp add: process_chunk.simps\<close>)
qed

definition and_then :: "(nat \<Rightarrow> byte) \<Rightarrow> ((nat, bytes) ctl \<times> rm_context) option \<Rightarrow> bytes \<Rightarrow>
    ((nat, bytes) ctl \<times> rm_context) option" where
  "and_then junk r bs =
    (case r of
       Some (Go rest, c) \<Rightarrow>
         if record_fully_received c then Some (Go (rest @ bs), c) else process_chunk junk bs c
     | _ \<Rightarrow> r)"

lemma process_header:
  "bs \<noteq> [] \<Longrightarrow> num_received_header_bytes c < 4 \<Longrightarrow> receive_header_part junk bs c = (Go rest, c') \<Longrightarrow>
    process_chunk junk bs c = process_chunk junk rest c'"
  by (subst process_chunk.simps) simp

lemma process_payload:
  "bs \<noteq> [] \<Longrightarrow> \<not> num_received_header_bytes c < 4 \<Longrightarrow> receive_payload_part junk bs c = (Go rest, c') \<Longrightarrow>
    num_received_payload_bytes c' \<noteq> expected_size c' \<Longrightarrow>
    process_chunk junk bs c = process_chunk junk rest c'"
  by (subst process_chunk.simps) simp

lemma process_complete:
  "bs \<noteq> [] \<Longrightarrow> \<not> num_received_header_bytes c < 4 \<Longrightarrow> receive_payload_part junk bs c = (Go rest, c') \<Longrightarrow>
    num_received_payload_bytes c' = expected_size c' \<Longrightarrow>
    process_chunk junk bs c =
     (case complete_fragment junk c' of
        (Go is_last, c'') \<Rightarrow> if is_last then Some (Go rest, c'') else process_chunk junk rest c''
      | (Return e, c'') \<Rightarrow> Some (Return e, c'')
      | (UB, c'') \<Rightarrow> Some (UB, c''))"
  by (subst process_chunk.simps) simp

lemma header_part_long:
  assumes "fragment_ok c" and "num_received_header_bytes c < 4" and "a \<noteq> []"
    and "4 \<le> unat (num_received_header_bytes c) + length a" 
  shows "receive_header_part junk (a @ b) c =
    map_prod (\<lambda>r. case r of Go rest \<Rightarrow> Go (rest @ b) | Return e \<Rightarrow> Return e | UB \<Rightarrow> UB) id
      (receive_header_part junk a c)"
proof -
  let ?n = "4 - unat (num_received_header_bytes c)"
  have ab: "a @ b \<noteq> []" using assms(3) by simp
  have n: "?n = min ?n (length a)" "?n = min ?n (length (a @ b))" using assms(4) by auto
  show ?thesis
    using assms(4) unfolding header_part(1) [OF assms(1,2) assms(3) n(1) refl] header_part(1) [OF assms(1,2) ab n(2) refl]
    by simp
qed

lemma payload_part_long:
  assumes "fragment_ok c" and "\<not> num_received_header_bytes c < 4" and "a \<noteq> []"
    and "unat (expected_size c) \<le> unat (num_received_payload_bytes c) + length a" 
  shows "receive_payload_part junk (a @ b) c =
    map_prod (\<lambda>r. case r of Go rest \<Rightarrow> Go (rest @ b) | Return e \<Rightarrow> Return e | UB \<Rightarrow> UB) id
      (receive_payload_part junk a c)"
proof (cases "num_received_payload_bytes c < expected_size c")
  case True
  let ?n = "unat (expected_size c) - unat (num_received_payload_bytes c)"
  have ab: "a @ b \<noteq> []" using assms(3) by simp
  have n: "?n = min ?n (length a)" "?n = min ?n (length (a @ b))" using assms(4) by auto
  show ?thesis
    using assms(4) unfolding payload_part(1) [OF assms(1,2) assms(3) True n(1) refl]
      payload_part(1) [OF assms(1,2) ab True n(2) refl]
    by simp
qed (simp add: payload_part_empty)

lemma append_in_header:
  assumes "context_ok c" and "num_received_header_bytes c < 4" and "a \<noteq> []" and "b \<noteq> []"
    and IH: "\<And>a' c'. work a' c' < work a c \<Longrightarrow> context_ok c' \<Longrightarrow>
      process_chunk junk (a' @ b) c' = and_then junk (process_chunk junk a' c') b"
  shows "process_chunk junk (a @ b) c = and_then junk (process_chunk junk a c) b"
proof -
  let ?n = "4 - unat (num_received_header_bytes c)"
  have f: "fragment_ok c" using assms(1) by (simp add: context_ok_def)
  obtain c' where c': "receive_header_part junk a c = (Go (drop ?n a), c')" "context_ok c'" "0 < ?n"
    using context_ok_header [OF assms(1-3)] by blast
  show ?thesis
  proof (cases "unat (num_received_header_bytes c) + length a < 4")
    case short: True
    obtain c1 where c1: "receive_header_part junk a c = (Go [], c1)" "fragment_ok c1"
      "num_received_header_bytes c1 < 4"
      "receive_header_part junk (a @ b) c = receive_header_part junk b c1"
      using header_part_split [OF f assms(2-4) short] by blast
    then have "c1 = c'" using c'(1) by simp
    with c'(2) have nf: "\<not> record_fully_received c1" by (simp add: context_ok_def)
    obtain rest c2 where b: "receive_header_part junk b c1 = (Go rest, c2)"
      using header_part(1) [OF c1(2,3) assms(4) refl refl, of junk] by blast
    with nf show ?thesis
      using process_header [OF _ assms(2), of "a @ b" junk rest c2] process_header [OF assms(4) c1(3) b]
        process_header [OF assms(3,2) c1(1)] assms(3) c1(4)
      by (simp add: and_then_def process_chunk.simps [of _ "[]"])
  next
    case long: False
    have "receive_header_part junk (a @ b) c = (Go (drop ?n a @ b), c')"
      using header_part_long [OF f assms(2,3), of junk b] long c'(1) by simp
    moreover have "work (drop ?n a) c' < work a c"
      by (rule work_less) (use assms(3) c'(3) in \<open>cases a; simp\<close>)
    ultimately show ?thesis
      using IH [OF _ c'(2)] process_header [OF _ assms(2)] process_header [OF assms(3,2) c'(1)] assms(3)
      by simp
  qed
qed

lemma append_in_payload:
  assumes "context_ok c" and "\<not> num_received_header_bytes c < 4" and "a \<noteq> []" and "b \<noteq> []"
    and IH: "\<And>a' c'. work a' c' < work a c \<Longrightarrow> context_ok c' \<Longrightarrow>
      process_chunk junk (a' @ b) c' = and_then junk (process_chunk junk a' c') b"
  shows "process_chunk junk (a @ b) c = and_then junk (process_chunk junk a c) b"
proof -
  let ?n = "unat (expected_size c) - unat (num_received_payload_bytes c)"
  have f: "fragment_ok c" using assms(1) by (simp add: context_ok_def)
  obtain c' where c': "receive_payload_part junk a c = (Go (drop ?n a), c')"
    "if ?n \<le> length a then \<exists>payload. fragment_full c' payload
     else context_ok c' \<and> \<not> num_received_header_bytes c' < 4 \<and>
       num_received_payload_bytes c' \<noteq> expected_size c'"
    using context_ok_payload [OF assms(1-3), of junk] by blast
  show ?thesis
  proof (cases "unat (num_received_payload_bytes c) + length a < unat (expected_size c)")
    case short: True
    obtain c1 where c1: "receive_payload_part junk a c = (Go [], c1)" "fragment_ok c1"
      "\<not> num_received_header_bytes c1 < 4" "num_received_payload_bytes c1 \<noteq> expected_size c1"
      "receive_payload_part junk (a @ b) c = receive_payload_part junk b c1"
      using payload_part_split [OF f assms(2-4) short] by blast
    have c1': "c1 = c'" "context_ok c1" using c1(1) c' short by auto
    obtain rest c'' where b: "receive_payload_part junk b c1 = (Go rest, c'')"
      using context_ok_payload [OF c1'(2) c1(3) assms(4), of junk] by blast
    have "process_chunk junk (a @ b) c = process_chunk junk b c1"
      using assms(2-4) c1(3,5) b
      by (simp add: process_chunk.simps [of _ "a @ b"] process_chunk.simps [of _ b])
    then show ?thesis
      using process_payload [OF assms(3,2) c1(1,4)] c1'(2)
      by (simp add: and_then_def process_chunk.simps [of _ "[]"] context_ok_def)
  next
    case long: False
    then obtain payload where full: "fragment_full c' payload" using c'(2) by (auto split: if_splits)
    then have eq: "num_received_payload_bytes c' = expected_size c'" by (simp add: fragment_full_def)
    have ab: "receive_payload_part junk (a @ b) c = (Go (drop ?n a @ b), c')"
      using payload_part_long [OF f assms(2,3), of junk b] long c'(1) by simp
    note turn = process_complete [OF assms(3,2) c'(1) eq] process_complete [OF _ assms(2) ab eq]
    from full show ?thesis
    proof (cases rule: complete_fragment_cases [where junk = junk])
      case (next_one c'')
      have "work (drop ?n a) c'' < work a c" using assms(2) next_one by (intro work_reset) auto
      from IH [OF this next_one(2)] next_one(1) turn assms(3) show ?thesis by simp
    qed (use turn assms(3) in \<open>simp_all add: and_then_def\<close>)
  qed
qed

lemma process_chunk_append:
  assumes "context_ok c"
  shows "process_chunk junk (a @ b) c = and_then junk (process_chunk junk a c) b"
  using assms
proof (induction "work a c" arbitrary: a c rule: less_induct)
  case less
  consider "a = []" | "b = []" | "a \<noteq> []" "b \<noteq> []" by blast
  then show ?case
  proof cases
    case 1
    then show ?thesis
      using less.prems by (simp add: process_chunk.simps [of _ "[]"] and_then_def context_ok_def)
  next
    case 2
    obtain r c' where r: "process_chunk junk a c = Some (r, c')"
      "case r of Go rest \<Rightarrow> record_fully_received c' \<or> rest = [] \<and> context_ok c' | _ \<Rightarrow> True"
      using process_chunk_ok [OF less.prems, of junk a] by (fastforce split: ctl.splits)
    then show ?thesis using 2
      by (auto simp: and_then_def process_chunk.simps [of _ "[]"] split: ctl.splits)
  next
    case 3
    then show ?thesis
      using append_in_header [OF less.prems _ 3 less.hyps] append_in_payload [OF less.prems _ 3 less.hyps]
      by blast
  qed
qed

section \<open>Decoding\<close>

definition at_boundary :: "rm_context \<Rightarrow> bytes \<Rightarrow> bool" where
  "at_boundary c acc \<longleftrightarrow>
    num_received_header_bytes c = 0 \<and> received_header_bytes c = Null \<and>
    num_received_payload_bytes c = 0 \<and> received_payload_bytes c = Null \<and> \<not> record_fully_received c \<and>
    (accumulated_payloads c = Some acc \<or> accumulated_payloads c = None \<and> acc = []) \<and>
    unat (accumulated_payloads_size c) = length acc"

lemma boundary_ok: "at_boundary c acc \<Longrightarrow> context_ok c"
  by (auto simp: at_boundary_def context_ok_def fragment_ok_def accumulated_ok_def
      word_less_nat_alt word_unat_eq_iff)

lemma receive_fragment:
  assumes "at_boundary c acc" and "unat (h AND 0x7FFFFFFF) = length payload" and "payload \<noteq> []"
    and "length acc + length payload < 2 ^ 64"
  shows "\<exists>c2. fragment_full c2 payload \<and> budget c2 < 2 ^ 64 \<and> context_key c2 = context_key c \<and>
    (is_last_fragment c2 \<longleftrightarrow> h AND 0x80000000 \<noteq> 0) \<and> num_received_header_bytes c2 = 4 \<and>
    accumulated_payloads c2 = accumulated_payloads c \<and>
    accumulated_payloads_size c2 = accumulated_payloads_size c \<and>
    process_chunk junk (be_bytes h @ payload @ rest) c =
     (case complete_fragment junk c2 of
        (Go is_last, c'') \<Rightarrow> if is_last then Some (Go rest, c'') else process_chunk junk rest c''
      | (Return e, c'') \<Rightarrow> Some (Return e, c'')
      | (UB, c'') \<Rightarrow> Some (UB, c''))"
proof -
  have b: "num_received_header_bytes c = 0" "received_header_bytes c = Null" "num_received_payload_bytes c = 0"
     "received_payload_bytes c = Null" "\<not> record_fully_received c"
    using assms(1) by (simp_all add: at_boundary_def)
  have f: "fragment_ok c" using boundary_ok [OF assms(1)] by (simp add: context_ok_def)
  define c1 where "c1 = c\<lparr>received_header_bytes := Live (be_bytes h), num_received_header_bytes := 4,
    is_last_fragment := (h AND 0x80000000 \<noteq> 0), expected_size := ucast (h AND 0x7FFFFFFF)\<rparr>"
  have header: "receive_header_part junk (be_bytes h @ payload @ rest) c = (Go (payload @ rest), c1)"
    using header_part(1) [OF f _ _ refl refl, of "be_bytes h @ payload @ rest" junk] b assms(3)
    by (simp add: parse_header_def c1_def overwrite_def header_buffer_def)
  have "fragment_ok c1" using b by (simp add: fragment_ok_def c1_def)
  have "expected_size c1 = of_nat (length payload)" by (simp add: c1_def flip: assms(2))
  then have e: "unat (expected_size c1) = length payload" using assms(4) by (simp add: unat_of_nat)
  then have pos: "0 < expected_size c1" using assms(3) by (simp add: word_less_nat_alt)
  define c2 where "c2 = c1\<lparr>received_payload_bytes := Live payload,
    num_received_payload_bytes := expected_size c1\<rparr>"
  have k: "num_received_payload_bytes c1 = 0" "\<not> num_received_header_bytes c1 < 4" 
    "received_payload_bytes c1 = Null" using b by (simp_all add: c1_def)
  have pr: "payload @ rest \<noteq> []" using assms(3) by simp
  have n: "length payload = min (unat (expected_size c1) - unat (num_received_payload_bytes c1))
      (length (payload @ rest))" using e k by simp
  have pl: "payload_buffer junk c1 = map junk [0..<length payload]" using k e by (simp add: payload_buffer_def)
  have w: "of_nat (length payload) = expected_size c1" using e by (simp flip: e)
  have pay: "receive_payload_part junk (payload @ rest) c1 = (Go rest, c2)"
    using payload_part(1) [OF \<open>fragment_ok c1\<close> k(2) pr _ n refl, of junk] pos k
    by (simp add: c2_def overwrite_def pl w)
  have "fragment_full c2 payload" "budget c2 < 2 ^ 64" "context_key c2 = context_key c"
    "is_last_fragment c2 \<longleftrightarrow> h AND 0x80000000 \<noteq> 0" "num_received_header_bytes c2 = 4"
    "accumulated_payloads c2 = accumulated_payloads c"
    "accumulated_payloads_size c2 = accumulated_payloads_size c"
    using e assms(1,3,4)
    by (auto simp: fragment_full_def budget_def context_key_def c2_def c1_def at_boundary_def
        accumulated_ok_def word_unat_eq_iff)
  moreover have "process_chunk junk (be_bytes h @ payload @ rest) c = process_chunk junk (payload @ rest) c1"
    using process_header [OF _ _ header] b assms(3) by simp
  moreover have eq: "num_received_payload_bytes c2 = expected_size c2" by (simp add: c2_def)
  ultimately show ?thesis using process_complete [OF pr k(2) pay eq] by auto
qed

text \<open>The context of a complete record, as long as it has not been given back.\<close>

definition holds_record :: "rm_context \<Rightarrow> bytes \<Rightarrow> bool" where
  "holds_record c data \<longleftrightarrow>
    record_fully_received c \<and> accumulated_payloads c = Some data \<and>
    unat (accumulated_payloads_size c) = length data \<and>
    num_received_header_bytes c = 4 \<and> received_header_bytes c = Freed \<and> received_payload_bytes c = Freed \<and>
    num_received_payload_bytes c = expected_size c \<and> expected_size c \<noteq> 0 \<and>
    unat (expected_size c) \<le> length data"

lemma process_fragment:
  assumes "at_boundary c acc" and "unat (h AND 0x7FFFFFFF) = length payload" and "payload \<noteq> []"
    and "length acc + length payload < 2 ^ 64"
  shows "\<exists>c'. context_key c' = context_key c \<and>
    (if h AND 0x80000000 \<noteq> 0
     then process_chunk junk (be_bytes h @ payload @ rest) c = Some (Go rest, c') \<and>
       holds_record c' (acc @ payload)
     else process_chunk junk (be_bytes h @ payload @ rest) c = process_chunk junk rest c' \<and>
       at_boundary c' (acc @ payload))"
proof -
  obtain c2 where c2: "fragment_full c2 payload" "budget c2 < 2 ^ 64" "context_key c2 = context_key c"
    "is_last_fragment c2 \<longleftrightarrow> h AND 0x80000000 \<noteq> 0" "num_received_header_bytes c2 = 4"
    "accumulated_payloads c2 = accumulated_payloads c"
    "accumulated_payloads_size c2 = accumulated_payloads_size c"
    "process_chunk junk (be_bytes h @ payload @ rest) c =
     (case complete_fragment junk c2 of
        (Go is_last, c'') \<Rightarrow> if is_last then Some (Go rest, c'') else process_chunk junk rest c''
      | (Return e, c'') \<Rightarrow> Some (Return e, c'')
      | (UB, c'') \<Rightarrow> Some (UB, c''))"
    using receive_fragment [OF assms, of junk rest] by blast
  note all = complete_fragment_full [OF c2(1,2), of junk] assms(1,3,4) c2
  have size: "unat (accumulated_payloads_size c + of_nat (length payload)) = length (acc @ payload)"
    using assms(1,4) by (simp add: at_boundary_def unat_word_ariths unat_of_nat)
  show ?thesis
  proof (cases "h AND 0x80000000 = 0")
    case True
    then show ?thesis using all size
      by (intro exI [of _ "reset_rm_receiving_context_for_next_rm_fragment (appended payload c2)"])
        (auto simp: at_boundary_def appended_def accumulated_def reset_rm_receiving_context_for_next_rm_fragment_def
          context_key_def)
  next
    case False
    then show ?thesis using all size
      by (intro exI [of _ "(appended payload c2)\<lparr>received_header_bytes := Freed,
        received_payload_bytes := (if payload = [] then Null else Freed), record_fully_received := True\<rparr>"])
        (auto simp: at_boundary_def appended_def accumulated_def holds_record_def fragment_full_def context_key_def)
  qed
qed


lemma process_record:
  assumes "at_boundary c acc" and "data \<noteq> []" and "length acc + length data < 2 ^ 64"
  shows "\<exists>c'. process_chunk junk (rm_encode data @ rest) c = Some (Go rest, c') \<and>
    holds_record c' (acc @ data) \<and> context_key c' = context_key c"
  using assms
proof (induction data arbitrary: c acc rule: rm_encode.induct)
  case (1 data)
  show ?case
  proof (cases "length data \<le> fragment_limit")
    case True
    then show ?thesis
      using process_fragment [OF "1.prems"(1) _ "1.prems"(2,3), of "0x80000000 OR of_nat (length data)" junk rest]
        header_last [OF True] "1.prems"(2)
      by (auto simp: rm_encode.simps [of data] unat_of_nat)
  next
    case False
    let ?p = "take fragment_limit data" and ?q = "drop fragment_limit data"
    obtain c1 where c1: "context_key c1 = context_key c" "at_boundary c1 (acc @ ?p)"
      "process_chunk junk (be_bytes 0x7FFFFFFF @ ?p @ (rm_encode ?q @ rest)) c =
        process_chunk junk (rm_encode ?q @ rest) c1"
      using process_fragment [OF "1.prems"(1), of "0x7FFFFFFF" ?p junk "rm_encode ?q @ rest"] "1.prems" False
      by auto
    have "?q \<noteq> []" "length (acc @ ?p) + length ?q < 2 ^ 64" using False "1.prems"(3) by auto
    from "1.IH" [OF "1.prems"(2) False c1(2) this] c1(1,3) False "1.prems"(2) show ?thesis
      by (simp add: rm_encode.simps [of data])
  qed
qed

lemma created_boundary: "at_boundary (create_rm_receiving_context conn sid) []"
  by (simp add: at_boundary_def create_rm_receiving_context_def)

text \<open>The context after a part of a record that has arrived.\<close>

definition receiving :: "(nat \<Rightarrow> byte) \<Rightarrow> bytes \<Rightarrow> rm_context \<Rightarrow> bool" where
  "receiving junk bs c \<longleftrightarrow>
    process_chunk junk bs (create_rm_receiving_context (quic_connection c) (stream_id c)) =
      Some (Go [], c) \<and> \<not> record_fully_received c"

lemma receiving_created: "receiving junk [] (create_rm_receiving_context conn sid)"
  by (simp add: receiving_def process_chunk.simps create_rm_receiving_context_def)

lemma receiving_ok: "receiving junk bs c \<Longrightarrow> context_ok c"
  using process_chunk_ok [OF boundary_ok [OF created_boundary, of "quic_connection c" "stream_id c"], of junk bs]
  by (auto simp: receiving_def)

lemma receiving_append:
  assumes "receiving junk bs c"
  shows "process_chunk junk (bs @ bs') (create_rm_receiving_context (quic_connection c) (stream_id c)) =
    process_chunk junk bs' c"
  using process_chunk_append [OF boundary_ok [OF created_boundary]] assms
  by (simp add: receiving_def and_then_def)

lemma receiving_step:
  assumes "receiving junk bs c" and "process_chunk junk bs' c = Some (Go rest, c')" and "\<not> record_fully_received c'"
  shows "receiving junk (bs @ bs') c'"
proof -
  from process_chunk_ok [OF receiving_ok [OF assms(1)], of junk bs'] assms(2,3)
  have "rest = []" "context_key c' = context_key c" by auto
  then show ?thesis using receiving_append [OF assms(1), of bs'] assms(2,3)
    by (simp add: receiving_def context_key_def)
qed

lemma receiving_record:
  assumes "receiving junk bs c" and "bs @ bs' = rm_encode data" and "data \<noteq> []" and "length data < 2 ^ 64"
  shows "\<exists>c'. process_chunk junk (bs' @ rest) c = Some (Go rest, c') \<and> holds_record c' data"
  using process_record [OF created_boundary assms(3), of junk rest] assms(2,4) 
    receiving_append [OF assms(1), of "bs' @ rest"] by (metis append.assoc append_Nil list.size(3) add_0)

text \<open>A proper part of a record is not taken for a record.\<close>

lemma receiving_part:
  assumes "receiving junk bs c" and "bs @ bs' @ later = rm_encode data" and "later \<noteq> []"
    and "data \<noteq> []" and "length data < 2 ^ 64"
  shows "\<exists>c'. process_chunk junk bs' c = Some (Go [], c') \<and> receiving junk (bs @ bs') c'"
proof -
  have ok: "context_ok c" by (rule receiving_ok [OF assms(1)])
  obtain c2 where c2: "process_chunk junk (bs' @ later) c = Some (Go [], c2)" 
    using receiving_record [OF assms(1) _ assms(4,5), of "bs' @ later" "[]"] assms(2) by auto
  obtain r c' where r: "process_chunk junk bs' c = Some (r, c')"
    "case r of Go rest \<Rightarrow> record_fully_received c' \<or> rest = [] | _ \<Rightarrow> True"
    using process_chunk_ok [OF ok, of junk bs'] by (fastforce split: ctl.splits)
  with c2 assms(3) have "r = Go []" "\<not> record_fully_received c'"
    unfolding process_chunk_append [OF ok]
    by (auto simp: and_then_def split: ctl.splits if_splits)
  then show ?thesis using r receiving_step [OF assms(1)] by auto
qed

section \<open>Reading what a stream has\<close>

fun delivers :: "'q tquic \<Rightarrow> nat \<Rightarrow> u64 \<Rightarrow> 'q \<Rightarrow> bytes list \<Rightarrow> 'q \<Rightarrow> bool" where
  "delivers lib conn sid q [] q' \<longleftrightarrow> q' = q"
| "delivers lib conn sid q (chunk # chunks) q' \<longleftrightarrow>
    (case quic_stream_read lib conn sid READ_BUF_SIZE q of
       (n, bs, q1) \<Rightarrow> n = of_nat (length chunk) \<and> bs = chunk \<and> chunk \<noteq> [] \<and> length chunk \<le> READ_BUF_SIZE \<and>
         delivers lib conn sid q1 chunks q')"

definition drained :: "'q tquic \<Rightarrow> nat \<Rightarrow> u64 \<Rightarrow> 'q \<Rightarrow> 'q \<Rightarrow> bool" where
  "drained lib conn sid q q' \<longleftrightarrow>
    (case quic_stream_read lib conn sid READ_BUF_SIZE q of (n, bs, q1) \<Rightarrow> sint n < 0 \<and> q1 = q')"

lemma chunk_size:
  assumes "n \<le> READ_BUF_SIZE" and "0 < n"
  shows "\<not> sint (of_nat n :: u64) < 0" "(of_nat n :: u64) \<noteq> 0" "unat (of_nat n :: u64) = n"
proof -
  show u: "unat (of_nat n :: u64) = n" using assms by (simp add: unat_of_nat)
  then show "(of_nat n :: u64) \<noteq> 0" using assms by (metis less_irrefl unat_0)
  have "sint (of_nat n :: u64) = int n" using assms by (simp add: signed_of_nat signed_take_bit_int_eq_self)
  then show "\<not> sint (of_nat n :: u64) < 0" by simp
qed

lemma read_chunk:
  assumes "delivers lib (quic_connection c) (stream_id c) q (chunk # chunks) q'"
  shows "\<exists>q1. delivers lib (quic_connection c) (stream_id c) q1 chunks q' \<and>
    receive_available_bytes_quic lib junk c q =
      (case process_chunk junk chunk c of
              None \<Rightarrow> None
            | Some (Go rest, context') \<Rightarrow>
                if record_fully_received context'
                then Some (Return (if rest \<noteq> [] then 4 else 0), context', q1)
                else receive_available_bytes_quic lib junk context' q1
            | Some (Return e, context') \<Rightarrow> Some (Return e, context', q1)
            | Some (UB, context') \<Rightarrow> Some (UB, context', q1))"
proof -
  obtain q1 where "quic_stream_read lib (quic_connection c) (stream_id c) READ_BUF_SIZE q =
      (of_nat (length chunk), chunk, q1)" "delivers lib (quic_connection c) (stream_id c) q1 chunks q'"
    "chunk \<noteq> []" "length chunk \<le> READ_BUF_SIZE" using assms by (auto split: prod.splits)
  then show ?thesis
    using chunk_size [of "length chunk"] by (subst receive_available_bytes_quic.simps) auto
qed

lemma read_drained:
  "drained lib (quic_connection c) (stream_id c) q q' \<Longrightarrow>
    receive_available_bytes_quic lib junk c q = Some (Return 0, c, q')"
  by (subst receive_available_bytes_quic.simps) (auto simp: drained_def split: prod.splits)


lemma delivers_nonempty: "delivers lib conn sid q chunks q' \<Longrightarrow> concat chunks = [] \<longleftrightarrow> chunks = []"
  by (cases chunks) (auto split: prod.splits)

lemma receiving_key:
  "receiving junk bs c \<Longrightarrow> process_chunk junk bs' c = Some (Go rest, c') \<Longrightarrow>
    quic_connection c' = quic_connection c \<and> stream_id c' = stream_id c"
  using process_chunk_ok [OF receiving_ok, of junk bs c junk bs'] by (auto simp: context_key_def)

lemma receive_part:
  assumes "receiving junk bs c" and "delivers lib (quic_connection c) (stream_id c) q chunks q'"
    and "bs @ concat chunks @ later = rm_encode data" and "later \<noteq> []"
    and "data \<noteq> []" and "length data < 2 ^ 64"
  shows "\<exists>c'. receiving junk (bs @ concat chunks) c' \<and> context_key c' = context_key c \<and>
    receive_available_bytes_quic lib junk c q = receive_available_bytes_quic lib junk c' q'"
  using assms(1-3)
proof (induction chunks arbitrary: bs c q)
  case Nil
  then show ?case by (auto simp: context_key_def)
next
  case (Cons chunk chunks)
  obtain q1 where q1: "delivers lib (quic_connection c) (stream_id c) q1 chunks q'"
    "receive_available_bytes_quic lib junk c q =
      (case process_chunk junk chunk c of
         None \<Rightarrow> None
       | Some (Go rest, context') \<Rightarrow>
           if record_fully_received context'
           then Some (Return (if rest \<noteq> [] then 4 else 0), context', q1)
           else receive_available_bytes_quic lib junk context' q1
       | Some (Return e, context') \<Rightarrow> Some (Return e, context', q1)
       | Some (UB, context') \<Rightarrow> Some (UB, context', q1))"
    using read_chunk [OF Cons.prems(2), of junk] by blast
  obtain c1 where c1: "process_chunk junk chunk c = Some (Go [], c1)" "receiving junk (bs @ chunk) c1"
    using receiving_part [OF Cons.prems(1), of chunk "concat chunks @ later"] Cons.prems(3) assms(4-6) by auto
  then have key: "quic_connection c1 = quic_connection c" "stream_id c1 = stream_id c"
    using receiving_key [OF Cons.prems(1)] by auto
  with Cons.IH [OF c1(2), of q1] q1 c1 Cons.prems(3) show ?case
    by (auto simp: receiving_def context_key_def)
qed

lemma receive_rest:
  assumes "receiving junk bs c" and "delivers lib (quic_connection c) (stream_id c) q chunks q'"
    and "bs @ concat chunks = rm_encode data" and "chunks \<noteq> []" and "data \<noteq> []" and "length data < 2 ^ 64"
  shows "\<exists>c'. holds_record c' data \<and> context_key c' = context_key c \<and>
    receive_available_bytes_quic lib junk c q = Some (Return 0, c', q')"
proof -
  obtain chunks1 chunk where split: "chunks = chunks1 @ [chunk]" using assms(4) by (metis rev_exhaust)
  have d: "delivers lib conn sid q (xs @ ys) q' \<longleftrightarrow>
      (\<exists>q1. delivers lib conn sid q xs q1 \<and> delivers lib conn sid q1 ys q')" for conn sid q xs ys
    by (induction xs arbitrary: q) (auto split: prod.splits)
  then obtain q1 where q1: "delivers lib (quic_connection c) (stream_id c) q chunks1 q1"
    "delivers lib (quic_connection c) (stream_id c) q1 [chunk] q'" using assms(2) split by auto
  have "chunk \<noteq> []" using q1(2) by (auto split: prod.splits)
  then obtain c1 where c1: "receiving junk (bs @ concat chunks1) c1" "context_key c1 = context_key c"
    "receive_available_bytes_quic lib junk c q = receive_available_bytes_quic lib junk c1 q1"
    using receive_part [OF assms(1) q1(1), of chunk data] assms(3,5,6) split by auto
  then have k: "quic_connection c1 = quic_connection c" "stream_id c1 = stream_id c"
    by (simp_all add: context_key_def)
  obtain c2 where c2: "process_chunk junk chunk c1 = Some (Go [], c2)" "holds_record c2 data"
    using receiving_record [OF c1(1) _ assms(5,6), of chunk "[]"] assms(3) split by auto
  moreover have "context_key c2 = context_key c"
    using receiving_key [OF c1(1) c2(1)] k by (simp add: context_key_def)
  ultimately show ?thesis
    using read_chunk [of lib c1 q1 chunk "[]" q' junk] q1(2) c1(3) k by (auto simp: holds_record_def)
qed


text \<open>A completed context must not see another byte: its buffers have been freed.\<close>

lemma completed_context_UB:
  assumes "holds_record c data" and "length data < 2 ^ 63" and "chunk \<noteq> []"
  shows "\<exists>c'. process_chunk junk chunk c = Some (UB, c')"
proof -
  have h: "num_received_header_bytes c = 4" "num_received_payload_bytes c = expected_size c"
    "received_payload_bytes c = Freed" "accumulated_payloads c = Some data"
    "unat (accumulated_payloads_size c) = length data" "0 < unat (expected_size c)"
    using assms(1) by (auto simp: holds_record_def word_unat_eq_iff)
  have "unat (accumulated_payloads_size c + expected_size c) = length data + unat (expected_size c)"
    using assms(1,2) h by (simp add: unat_word_ariths holds_record_def)
  then have "\<exists>c'. complete_fragment junk c = (UB, c')"
    using h by (auto simp: complete_fragment_def control_defs realloc_def heap_read_def)
  then show ?thesis
    using process_complete [OF assms(3), of c junk chunk c] h by (auto simp: payload_part_empty)
qed

section \<open>Properties\<close>

text \<open>
  C17: A record is received over QUIC however it is cut.  If a part of the encoding of a record has arrived
  on a stream, and a readable event brings the next chunks, the receiver reads them all and returns
  success.  When they bring the end of the record, the context holds exactly the record; when a byte is
  still missing, the context is that of the longer part, and the record is not taken for complete.
\<close>

theorem quic_record_received:
  assumes "receiving junk bs c" and "delivers lib (quic_connection c) (stream_id c) q chunks q1"
    and "drained lib (quic_connection c) (stream_id c) q1 q2" and "chunks \<noteq> []"
    and "bs @ concat chunks @ later = rm_encode data" and "data \<noteq> []" and "length data < 2 ^ 64"
  shows "\<exists>c' q'. receive_available_bytes_quic lib junk c q = Some (Return 0, c', q') \<and>
    (if later = [] then record_fully_received c' \<and> accumulated_payloads c' = Some data
     else receiving junk (bs @ concat chunks) c')"
proof (cases "later = []")
  case True
  then show ?thesis using receive_rest [OF assms(1,2) _ assms(4,6,7)] assms(5) by (auto simp: holds_record_def)
next
  case False
  then obtain c' where "receiving junk (bs @ concat chunks) c'" "context_key c' = context_key c"
    "receive_available_bytes_quic lib junk c q = receive_available_bytes_quic lib junk c' q1"
    using receive_part [OF assms(1,2,5) _ assms(6,7)] by blast
  with False show ?thesis using read_drained [of lib c' q1 q2 junk] assms(3) by (auto simp: context_key_def)
qed

lemma ex_encoded: "rm_encode [5, 6] = [0x80, 0, 0, 2, 5, 6]"
  by (simp add: rm_encode.simps [of "[5, 6]"] be_bytes_def)

lemmas ex_receive_defs = drained_def ex_lib_def ex_read_def create_rm_receiving_context_def ex_encoded

theorem quic_record_received_witness:
  "\<exists>c' q'. receive_available_bytes_quic ex_lib (\<lambda>_. 7) (create_rm_receiving_context 1 4)
      ([[0x80, 0, 0], [2, 5], []], []) = Some (Return 0, c', q') \<and> receiving (\<lambda>_. 7) [0x80, 0, 0, 2, 5] c'"
  using quic_record_received [OF receiving_created, of ex_lib 1 4 "([[0x80, 0, 0], [2, 5], []], [])"
      "[[0x80, 0, 0], [2, 5]]" "([[]], [])" "([], [])" "[6]" "[5, 6]" "\<lambda>_. 7"]
  by (simp add: ex_receive_defs)



text \<open>
  C35: A second message on a stream brings the receiver down.  When the chunk with the end of a record
  also has bytes behind it, the receiver returns the error code 4 and keeps the context, whose buffers have
  been freed; the next chunk on that stream is then copied out of, and the buffers are freed again.
\<close>

theorem quic_trailing_bytes_crash:
  assumes "receiving junk bs c" and "delivers lib (quic_connection c) (stream_id c) q [bs' @ extra] q1"
    and "bs @ bs' = rm_encode data" and "data \<noteq> []" and "length data < 2 ^ 63" and "extra \<noteq> []"
    and "delivers lib (quic_connection c) (stream_id c) q2 [chunk] q3"
  shows "\<exists>c' c''. receive_available_bytes_quic lib junk c q = Some (Return 4, c', q1) \<and>
    receive_available_bytes_quic lib junk c' q2 = Some (UB, c'', q3)"
proof -
  obtain c' where c': "process_chunk junk (bs' @ extra) c = Some (Go extra, c')" "holds_record c' data"
    using receiving_record [OF assms(1,3,4)] assms(5) by fastforce
  have k: "quic_connection c' = quic_connection c" "stream_id c' = stream_id c"
    using receiving_key [OF assms(1) c'(1)] by auto
  have "chunk \<noteq> []" using assms(7) by (auto split: prod.splits)
  then obtain c'' where c'': "process_chunk junk chunk c' = Some (UB, c'')"
    using completed_context_UB [OF c'(2) assms(5)] by blast
  have "receive_available_bytes_quic lib junk c q = Some (Return 4, c', q1)"
    using read_chunk [OF assms(2), of junk] c' assms(6) by (auto simp: holds_record_def)
  moreover have "receive_available_bytes_quic lib junk c' q2 = Some (UB, c'', q3)"
    using read_chunk [of lib c' q2 chunk "[]" q3 junk] assms(7) c'' k by auto
  ultimately show ?thesis by blast
qed

theorem quic_trailing_bytes_crash_witness:
  "\<exists>c' c''. receive_available_bytes_quic ex_lib (\<lambda>_. 7) (create_rm_receiving_context 1 4)
      ([[0x80, 0, 0, 2, 5, 6, 0x80], [0, 0]], []) = Some (Return 4, c', [[0, 0]], []) \<and>
    receive_available_bytes_quic ex_lib (\<lambda>_. 7) c' ([[0, 0]], []) = Some (UB, c'', [], [])"
  using quic_trailing_bytes_crash [OF receiving_created, of ex_lib 1 4
      "([[0x80, 0, 0, 2, 5, 6, 0x80], [0, 0]], [])" "[0x80, 0, 0, 2, 5, 6]" "[0x80]" "([[0, 0]], [])" "[5, 6]"
      "([[0, 0]], [])" "[0, 0]" "([], [])" "\<lambda>_. 7"]
  by (simp add: ex_receive_defs)

end
