(* ===== verification/Handler_Safety.thy ===== *)
theory Handler_Safety
  imports Examples Directory_Facts
begin

text \<open>
  Every procedure answers.  \<open>hoare P m Q\<close> says that the handler fragment \<open>m\<close>, started in a state with
  \<open>P\<close>, has defined behaviour, that every reply it returns is one a client accepts as well-formed, that
  the sessions stay well-formed, and that \<open>Q\<close> holds if it goes on.  The locale \<open>os_blind\<close> is about
  assertions that do not mention the operating system, which no system call can break.
\<close>

section \<open>Assertions\<close>

definition sessions_ok :: "server \<Rightarrow> bool" where
  "sessions_ok s \<longleftrightarrow> named (readdir_sessions_list s)"

definition cache_nonempty :: "server \<Rightarrow> bool" where
  "cache_nonempty s \<longleftrightarrow> sessions_ok s \<and> inode_cache s \<noteq> []"

definition good_reply :: "accepted_reply option \<Rightarrow> bool" where
  "good_reply r \<longleftrightarrow> (\<exists>a. r = Some a \<and> validate_accepted a = 0)"

definition hoare :: "(server \<Rightarrow> bool) \<Rightarrow> 'a handler \<Rightarrow> ('a \<Rightarrow> server \<Rightarrow> bool) \<Rightarrow> bool" where
  "hoare P m Q \<longleftrightarrow> (\<forall>s. P s \<longrightarrow> wp m (\<lambda>r s'. good_reply r \<and> sessions_ok s') Q s)"

lemma hoareI: "(\<And>s. P s \<Longrightarrow> wp m (\<lambda>r s'. good_reply r \<and> sessions_ok s') Q s) \<Longrightarrow> hoare P m Q"
  by (simp add: hoare_def)

lemma hoare_cbind:
  assumes "hoare P m Q" and "\<And>a. hoare (Q a) (f a) R"
  shows "hoare P (cbind m f) R"
proof (rule hoareI)
  fix s
  assume "P s"
  then have "wp m (\<lambda>r s'. good_reply r \<and> sessions_ok s') Q s" using assms(1) by (simp add: hoare_def)
  then show "wp (cbind m f) (\<lambda>r s'. good_reply r \<and> sessions_ok s') R s"
    unfolding wp_cbind by (rule wp_mono) (use assms(2) in \<open>simp_all add: hoare_def\<close>)
qed

lemma hoare_weaken:
  assumes "hoare P m Q" and "\<And>s. P' s \<Longrightarrow> P s" and "\<And>a s. Q a s \<Longrightarrow> Q' a s"
  shows "hoare P' m Q'"
proof (rule hoareI)
  fix s
  assume "P' s"
  then have "wp m (\<lambda>r s'. good_reply r \<and> sessions_ok s') Q s" using assms by (simp add: hoare_def)
  then show "wp m (\<lambda>r s'. good_reply r \<and> sessions_ok s') Q' s"
    by (rule wp_mono) (use assms(3) in simp_all)
qed

lemma hoare_if: "(b \<Longrightarrow> hoare P m Q) \<Longrightarrow> (\<not> b \<Longrightarrow> hoare P n Q) \<Longrightarrow> hoare P (if b then m else n) Q"
  by simp

lemma hoare_cbind_if:
  "(b \<Longrightarrow> hoare P m (\<lambda>_. P)) \<Longrightarrow> (\<not> b \<Longrightarrow> hoare P n (\<lambda>_. P)) \<Longrightarrow> (\<And>a. hoare P (f a) R) \<Longrightarrow>
    hoare P (cbind (if b then m else n) f) R"
  by (rule hoare_cbind [of P _ "\<lambda>_. P"]) simp_all

lemma hoare_option:
  "(x = None \<Longrightarrow> hoare P m Q) \<Longrightarrow> (\<And>a. x = Some a \<Longrightarrow> hoare P (f a) Q) \<Longrightarrow>
    hoare P (case x of None \<Rightarrow> m | Some a \<Rightarrow> f a) Q"
  by (cases x) simp_all

lemma hoare_sum:
  "(\<And>e. x = Inl e \<Longrightarrow> hoare P (m e) Q) \<Longrightarrow> (\<And>a. x = Inr a \<Longrightarrow> hoare P (f a) Q) \<Longrightarrow>
    hoare P (case x of Inl e \<Rightarrow> m e | Inr a \<Rightarrow> f a) Q"
  by (cases x) simp_all

lemma hoare_prod: "(\<And>a b. x = (a, b) \<Longrightarrow> hoare P (f a b) Q) \<Longrightarrow> hoare P (case x of (a, b) \<Rightarrow> f a b) Q"
  by (cases x) simp

lemma hoare_pre: "(\<And>s. P s \<Longrightarrow> C) \<Longrightarrow> (C \<Longrightarrow> hoare P m Q) \<Longrightarrow> hoare P m Q"
  by (auto simp: hoare_def)

text \<open>Replies that the client side check accepts.\<close>

lemma good_wrapped [simp]:
  "good_reply (Some (wrap_procedure_results_in_successful_accepted_reply bs url))"
  by (simp add: good_reply_def wrap_procedure_results_in_successful_accepted_reply_def
      validate_accepted_def validate_reply_verifier_def create_auth_none_opaque_auth_def)

lemma good_default [simp]:
  "st \<noteq> SUCCESS \<Longrightarrow> st \<noteq> PROG_MISMATCH \<Longrightarrow> good_reply (create_default_case_accepted_reply st)"
  by (cases st) (simp_all add: good_reply_def create_default_case_accepted_reply_def
      validate_accepted_def validate_reply_verifier_def create_auth_none_opaque_auth_def)

lemma good_errors [simp]:
  "good_reply create_garbage_args_accepted_reply" "good_reply create_system_error_accepted_reply"
  by (simp_all add: create_garbage_args_accepted_reply_def create_system_error_accepted_reply_def)

lemma good_mismatch [simp]: "good_reply (Some (create_prog_mismatch_accepted_reply l h))"
  by (simp add: good_reply_def create_prog_mismatch_accepted_reply_def validate_accepted_def
      validate_reply_verifier_def create_auth_none_opaque_auth_def)

lemma wp_on_os [wp_rules]:
  "wp (on_os f) Q G s = (case f (server_os s) of (a, os') \<Rightarrow> G a (s\<lparr>server_os := os'\<rparr>))"
  by (simp add: wp_def on_os_def split: prod.splits)

section \<open>Shared steps\<close>

locale os_blind =
  fixes P :: "server \<Rightarrow> bool"
  assumes blind: "P s \<Longrightarrow> P (s\<lparr>server_os := os'\<rparr>)"
    and strong: "P s \<Longrightarrow> sessions_ok s"
begin

lemma h_garbage_args: "hoare P garbage_args Q"
  by (rule hoareI) (simp add: garbage_args_def wp_rules strong)

lemma h_system_error: "hoare P system_error Q"
  by (rule hoareI) (simp add: system_error_def wp_rules strong)

lemma h_reply: "hoare P (reply pack url m) Q"
  by (rule hoareI) (simp add: reply_def wp_rules strong)

lemma h_fail:
  "st \<noteq> NFS_OK \<Longrightarrow> hoare P (fail_attr_stat pb st) Q"
  "st \<noteq> NFS_OK \<Longrightarrow> hoare P (fail_dir_op_res pb st) Q"
  "st \<noteq> NFS_OK \<Longrightarrow> hoare P (fail_read_link_res pb st) Q"
  "st \<noteq> NFS_OK \<Longrightarrow> hoare P (fail_read_res pb st) Q"
  "st \<noteq> NFS_OK \<Longrightarrow> hoare P (fail_read_dir_res pb st) Q"
  "st \<noteq> NFS_OK \<Longrightarrow> hoare P (fail_stat_fs_res pb st) Q"
  "hoare P (reply_nfs_stat pb st) Q"
  "hoare P (reply_dir_op_ok pb fh fa) Q"
  by (simp_all add: fail_attr_stat_def fail_dir_op_res_def fail_read_link_res_def fail_read_res_def
      fail_read_dir_res_def fail_stat_fs_res_def reply_nfs_stat_def reply_dir_op_ok_def
      default_case_defs reply_ptr_def create_nfs_stat_def h_reply)

lemma h_cgo: "(\<And>s. P s \<Longrightarrow> Q a s) \<Longrightarrow> hoare P (cgo a) Q"
  by (rule hoareI) (simp add: wp_rules)

lemma h_not_null: "hoare P (not_null p) (\<lambda>a s. P s \<and> p = Some a)"
  by (rule hoareI) (simp add: not_null_def wp_rules strong split: option.splits)

lemma h_decode_params: "params \<noteq> None \<Longrightarrow> hoare P (decode_params url unpack params) (\<lambda>_. P)"
  by (rule hoareI) (auto simp: decode_params_def wp_rules strong split: option.splits)

lemma h_decode_fhandle: "hoare P (decode_fhandle fh) (\<lambda>_. P)"
  by (rule hoareI) (simp add: decode_fhandle_def not_null_def wp_rules strong split: option.splits)

lemma h_decode_dir_op: "hoare P (decode_dir_op args) (\<lambda>_. P)"
  by (rule hoareI)
    (simp add: decode_dir_op_def decode_fhandle_def not_null_def wp_rules strong split: option.splits)

lemma h_decode_sattr:
  "hoare P (decode_sattr args)
    (\<lambda>(sattr, at, mt) s. P s \<and> sattr_atime sattr = Some at \<and> sattr_mtime sattr = Some mt)"
  by (rule hoareI) (simp add: decode_sattr_def not_null_def wp_rules strong split: option.splits)

lemma h_on_os: "hoare P (on_os f) (\<lambda>_. P)"
  by (rule hoareI) (simp add: wp_rules blind split: prod.splits)

lemma h_attributes_of:
  "hoare P (attributes_of path) (\<lambda>a s. P s \<and> fattr_nfs_ftype a \<noteq> None)"
  by (rule hoareI)
    (auto simp: attributes_of_def wp_rules strong blind get_attributes_def fattr_of_stat_def
      system_error_def split: prod.splits sum.splits)

lemma h_type_of: "hoare P (type_of path) (\<lambda>_. P)"
  unfolding type_of_def
  by (rule hoare_cbind [OF h_attributes_of]) (auto simp: hoare_def wp_rules split: option.splits)

lemma h_syscall:
  assumes "\<And>e st. status e = Some st \<Longrightarrow> hoare P (fail st) (\<lambda>_. P)"
  shows "hoare P (syscall fail status f) (\<lambda>_. P)"
  unfolding syscall_def
  by (intro hoare_cbind [OF h_on_os] hoare_sum hoare_option assms h_system_error h_cgo)

lemma h_syscall_plain: "hoare P (syscall (\<lambda>_. system_error) (\<lambda>_. None) f) (\<lambda>_. P)"
  by (rule h_syscall) simp

lemma h_fresh_path:
  assumes "\<And>st. st \<noteq> NFS_OK \<Longrightarrow> hoare P (fail st) (\<lambda>_. P)"
  shows "hoare P (fresh_path fail directory filename) (\<lambda>_. P)"
  unfolding fresh_path_def Let_def
  by (intro hoare_if hoare_cbind [OF h_on_os] hoare_sum assms h_system_error h_cgo) simp_all

lemma h_existing_path:
  assumes "\<And>st. st \<noteq> NFS_OK \<Longrightarrow> hoare P (fail st) (\<lambda>_. P)"
  shows "hoare P (existing_path fail directory filename) (\<lambda>_. P)"
  unfolding existing_path_def Let_def
  by (intro hoare_if hoare_cbind [OF h_on_os] hoare_sum assms h_system_error h_cgo) simp_all

lemma h_permission_gate:
  assumes "\<And>st. st \<noteq> NFS_OK \<Longrightarrow> hoare P (fail st) (\<lambda>_. P)"
    and "\<And>a. hoare P (check a) (\<lambda>_. P)"
    and "cred = Some \<lparr>flavor = AUTH_SYS, auth_body = Auth_Body_Auth_Sys (Some a0)\<rparr>"
  shows "hoare P (permission_gate fail cred check) (\<lambda>_. P)"
proof -
  have "hoare P (cbind (check a0) (\<lambda>stat. if stat < 0 then system_error
      else if stat = 1 then fail NFSERR_ACCES else cgo ())) (\<lambda>_. P)"
    by (intro hoare_cbind [OF assms(2)] hoare_if h_system_error assms(1) h_cgo) simp_all
  then show ?thesis by (simp add: permission_gate_def assms(3) cderef_def auth_sys_of_def)
qed

lemma h_check_path: "hoare P (check_path check path a) (\<lambda>_. P)"
  unfolding check_path_def by (rule h_on_os)

lemma h_set_times: "hoare P (set_times path at mt) (\<lambda>_. P)"
  unfolding set_times_def by (intro hoare_if h_syscall_plain h_cgo)

end

interpretation sess: os_blind sessions_ok
  by unfold_locales (simp_all add: sessions_ok_def)

interpretation nonempty: os_blind cache_nonempty
  by unfold_locales (simp_all add: cache_nonempty_def sessions_ok_def)

section \<open>Steps that look at the cache\<close>

lemma h_path_of_inode:
  assumes "\<And>st. st \<noteq> NFS_OK \<Longrightarrow> hoare sessions_ok (fail st) (\<lambda>_. cache_nonempty)"
  shows "hoare sessions_ok (path_of_inode fail ino) (\<lambda>_. cache_nonempty)"
proof (rule hoareI)
  fix s
  assume s: "sessions_ok s"
  then show "wp (path_of_inode fail ino) (\<lambda>r s'. good_reply r \<and> sessions_ok s') (\<lambda>_. cache_nonempty) s"
    using assms [of NFSERR_NOENT]
    by (cases "inode_cache s")
      (auto simp: path_of_inode_def wp_rules hoare_def cache_nonempty_def split: option.splits)
qed

lemma h_directory_path:
  assumes "\<And>st. st \<noteq> NFS_OK \<Longrightarrow> hoare sessions_ok (fail st) (\<lambda>_. cache_nonempty)"
  shows "hoare sessions_ok (directory_path fail ino) (\<lambda>_. cache_nonempty)"
proof -
  have fail: "hoare cache_nonempty (fail NFSERR_NOTDIR) (\<lambda>_. cache_nonempty)"
    using assms [of NFSERR_NOTDIR] by (rule hoare_weaken) (simp_all add: nonempty.strong)
  show ?thesis
    unfolding directory_path_def
    by (intro hoare_cbind [OF h_path_of_inode] hoare_cbind [OF nonempty.h_type_of] hoare_if assms fail
        nonempty.h_cgo)
qed

lemma nonempty_weaken: "hoare sessions_ok m Q \<Longrightarrow> hoare cache_nonempty m Q"
  by (erule hoare_weaken) (simp_all add: nonempty.strong)

lemma h_cget: "hoare P (cget f) (\<lambda>_. P)"
  by (simp add: hoare_def wp_rules)

lemma h_make_filehandle:
  "hoare cache_nonempty (make_filehandle path) (\<lambda>_. cache_nonempty)"
  "hoare sessions_ok (make_filehandle path)
    (\<lambda>fh s. if fh = None then sessions_ok s else cache_nonempty s)"
  by (auto simp: hoare_def wp_def make_filehandle_def create_nfs_filehandle_def Let_def
      add_inode_mapping_def cache_nonempty_def sessions_ok_def split: prod.splits sum.splits)

lemma h_uncache:
  "hoare cache_nonempty (uncache_inode ino) (\<lambda>_. sessions_ok)"
  "hoare cache_nonempty (uncache_path p) (\<lambda>code s. sessions_ok s \<and> code \<le> 1)"
  "hoare cache_nonempty (recache_path p q) (\<lambda>code s. sessions_ok s \<and> code \<le> 1)"
  by (auto simp: hoare_def uncache_inode_def uncache_path_def recache_path_def set_cache_def wp_rules
      remove_by_ino_conv remove_by_path_conv update_mapping_conv cache_nonempty_def sessions_ok_def)

lemma h_reply_new_file: "hoare cache_nonempty (reply_new_file pb path) Q"
  unfolding reply_new_file_def
  by (intro hoare_cbind [OF h_make_filehandle(1)] hoare_option nonempty.h_system_error
      hoare_cbind [OF nonempty.h_on_os] hoare_sum hoare_cbind [OF h_uncache(1)] sess.h_system_error
      nonempty.h_fail)

lemma h_lookup_filehandle: "hoare cache_nonempty (lookup_filehandle path ino) (\<lambda>_. cache_nonempty)"
  unfolding lookup_filehandle_def
  by (intro hoare_cbind [OF h_cget] hoare_option nonempty.h_cgo hoare_cbind [OF h_make_filehandle(1)]
      nonempty.h_system_error)

text \<open>A credential that passed the validation of \<open>tcp_rpc_server.c\<close>, with flavor AUTH_SYS.\<close>

definition valid_auth_sys :: "opaque_auth option \<Rightarrow> bool" where
  "valid_auth_sys cred \<longleftrightarrow>
    (case cred of None \<Rightarrow> False | Some c \<Rightarrow> flavor c = AUTH_SYS \<and> credential_error cred = None)"

lemma valid_auth_sysE:
  assumes "valid_auth_sys cred"
  obtains a name where "cred = Some \<lparr>flavor = AUTH_SYS, auth_body = Auth_Body_Auth_Sys (Some a)\<rparr>"
    and "machinename a = Some name" and "auth_gids a \<noteq> None"
proof (cases cred)
  case (Some c)
  with assms show thesis
    by (cases c) (auto simp: valid_auth_sys_def credential_error_def split: if_splits auth_body.splits
        option.splits intro: that)
qed (use assms in \<open>simp add: valid_auth_sys_def\<close>)

lemma h_read_directory:
  assumes "valid_auth_sys cred"
  shows "hoare cache_nonempty (read_directory pb cred path ino cookie count) (\<lambda>_. cache_nonempty)"
proof (rule hoareI)
  fix s
  assume s: "cache_nonempty s"
  obtain a where a: "cred = Some \<lparr>flavor = AUTH_SYS, auth_body = Auth_Body_Auth_Sys (Some a)\<rparr>"
    "machinename a \<noteq> None" using assms by (auto elim: valid_auth_sysE)
  have "named (readdir_sessions_list s)" using s by (simp add: cache_nonempty_def sessions_ok_def)
  from read_from_directory_total [OF a(2) this, of pb path ino cookie count "server_os s"]
  obtain r ss' os' where "read_from_directory pb (Some a) path ino cookie count
      (readdir_sessions_list s) (server_os s) = Some (r, ss', os')" "named ss'" by blast
  with s a(1) show "wp (read_directory pb cred path ino cookie count)
      (\<lambda>r s'. good_reply r \<and> sessions_ok s') (\<lambda>_. cache_nonempty) s"
    by (simp add: read_directory_def auth_sys_of_def set_sessions_def system_error_def wp_rules
        cache_nonempty_def sessions_ok_def split: sum.splits)
qed

lemma h_check_setattr:
  assumes "sattr_atime sattr = Some at" and "sattr_mtime sattr = Some mt"
  shows "hoare cache_nonempty (check_setattr path sattr a) (\<lambda>_. cache_nonempty)"
proof (rule hoareI)
  fix s
  assume s: "cache_nonempty s"
  have "check_setattr_proc_permissions path (Some sattr) (auth_uid a) (auth_gid a) (server_os s) \<noteq> None"
    using assms by (simp add: check_setattr_proc_permissions_def)
  then obtain st os' where "check_setattr_proc_permissions path (Some sattr) (auth_uid a) (auth_gid a)
      (server_os s) = Some (st, os')"
    by auto
  then show "wp (check_setattr path sattr a) (\<lambda>r s'. good_reply r \<and> sessions_ok s') (\<lambda>_. cache_nonempty) s"
    using s by (simp add: wp_def check_setattr_def cache_nonempty_def sessions_ok_def)
qed

section \<open>The procedures\<close>

text \<open>The errors that a system call is answered with are never \<open>NFS_OK\<close>.\<close>

lemma status_not_ok:
  "eio_status e = Some st \<Longrightarrow> st \<noteq> NFS_OK"
  "create_status e = Some st \<Longrightarrow> st \<noteq> NFS_OK"
  "mkdir_status e = Some st \<Longrightarrow> st \<noteq> NFS_OK"
  by (cases e; auto simp: eio_status_def split: if_splits)+

lemma nonempty_gate:
  assumes "\<And>st. st \<noteq> NFS_OK \<Longrightarrow> hoare cache_nonempty (fail st) (\<lambda>_. cache_nonempty)"
    and "\<And>a. hoare cache_nonempty (check a) (\<lambda>_. cache_nonempty)"
    and "valid_auth_sys cred"
  shows "hoare cache_nonempty (permission_gate fail cred check) (\<lambda>_. cache_nonempty)"
  using assms(3) nonempty.h_permission_gate [OF assms(1,2)] by (auto elim: valid_auth_sysE)

lemma h_check_rename: "hoare cache_nonempty (check_rename from to a) (\<lambda>_. cache_nonempty)"
  unfolding check_rename_def by (rule nonempty.h_on_os)

lemma h_attributes: "hoare cache_nonempty (attributes_of path) (\<lambda>_. cache_nonempty)"
  by (rule hoare_weaken [OF nonempty.h_attributes_of]) simp_all

lemma h_sattr: "hoare sessions_ok (decode_sattr args) (\<lambda>_. sessions_ok)"
  by (rule hoare_weaken [OF sess.h_decode_sattr]) auto

text \<open>The first step of a handler is one of these, and what it leaves is the rest of the handler.\<close>

lemmas hoare_steps =
  hoare_cbind [OF sess.h_decode_params] hoare_cbind [OF sess.h_decode_fhandle]
  hoare_cbind [OF sess.h_decode_dir_op] hoare_cbind [OF h_sattr]
  hoare_cbind [OF h_path_of_inode] hoare_cbind [OF h_directory_path]
  hoare_cbind [OF nonempty_weaken, OF h_directory_path]
  hoare_cbind [OF nonempty.h_type_of] hoare_cbind [OF h_attributes]
  hoare_cbind [OF nonempty.h_fresh_path] hoare_cbind [OF nonempty.h_existing_path]
  hoare_cbind [OF nonempty_gate] hoare_cbind [OF nonempty.h_syscall] hoare_cbind [OF nonempty.h_on_os]
  hoare_cbind [OF h_lookup_filehandle] hoare_cbind [OF h_uncache(1)] hoare_cbind_if

lemmas hoare_ends =
  hoare_if hoare_prod hoare_sum hoare_option
  sess.h_garbage_args sess.h_system_error sess.h_fail sess.h_reply sess.h_cgo
  nonempty.h_garbage_args nonempty.h_system_error nonempty.h_fail nonempty.h_reply nonempty.h_cgo
  nonempty.h_syscall nonempty.h_syscall_plain nonempty.h_set_times
  nonempty.h_check_path h_check_setattr h_check_rename h_reply_new_file

lemma h_create_file: "hoare cache_nonempty (create_file pb path sattr at mt) (\<lambda>_. cache_nonempty)"
  unfolding create_file_def
  by (intro hoare_steps hoare_ends) (simp_all add: status_not_ok)

lemma h_create_directory:
  "hoare cache_nonempty (create_directory pb path sattr at mt) (\<lambda>_. cache_nonempty)"
  unfolding create_directory_def
  by (intro hoare_steps hoare_ends) (simp_all add: status_not_ok)

lemma h_update_attributes:
  "hoare cache_nonempty (update_attributes path sattr at mt) (\<lambda>_. cache_nonempty)"
  unfolding update_attributes_def by (intro hoare_steps hoare_ends) simp_all

lemma h_write_data: "hoare cache_nonempty (write_data pb path off data) (\<lambda>_. cache_nonempty)"
  unfolding write_data_def by (intro hoare_steps hoare_ends) simp_all

lemma h_decode_create_args:
  "params \<noteq> None \<Longrightarrow> hoare sessions_ok (decode_create_args pb params) (\<lambda>_. sessions_ok)"
  unfolding decode_create_args_def by (intro hoare_steps hoare_ends) simp_all

lemma h_null: "hoare sessions_ok (serve_nfs_procedure_0_do_nothing cred verf params) R"
  unfolding serve_nfs_procedure_0_do_nothing_def by (rule sess.h_reply)

lemma h_getattr:
  "params \<noteq> None \<Longrightarrow> valid_auth_sys cred \<Longrightarrow>
    hoare sessions_ok (serve_nfs_procedure_1_get_file_attributes pb cred verf params) R"
  unfolding serve_nfs_procedure_1_get_file_attributes_def
  by (intro hoare_steps hoare_ends) simp_all

lemma h_readlink:
  "params \<noteq> None \<Longrightarrow> valid_auth_sys cred \<Longrightarrow>
    hoare sessions_ok (serve_nfs_procedure_5_read_from_symbolic_link pb cred verf params) R"
  unfolding serve_nfs_procedure_5_read_from_symbolic_link_def
  by (intro hoare_steps hoare_ends) (simp_all add: status_not_ok)

lemma h_read:
  "params \<noteq> None \<Longrightarrow> valid_auth_sys cred \<Longrightarrow>
    hoare sessions_ok (serve_nfs_procedure_6_read_from_file pb cred verf params) R"
  unfolding serve_nfs_procedure_6_read_from_file_def Let_def
  by (intro hoare_steps hoare_ends) simp_all

lemma h_statfs:
  "params \<noteq> None \<Longrightarrow> valid_auth_sys cred \<Longrightarrow>
    hoare sessions_ok (serve_nfs_procedure_17_get_filesystem_attributes pb cred verf params) R"
  unfolding serve_nfs_procedure_17_get_filesystem_attributes_def
  by (intro hoare_steps hoare_ends) (simp_all add: status_not_ok)

lemma h_write:
  assumes "params \<noteq> None" "valid_auth_sys cred"
  shows "hoare sessions_ok (serve_nfs_procedure_8_write_to_file pb cred verf params) R"
proof -
  have data: "hoare sessions_ok (case d of Null_Data n \<Rightarrow> m | Data x \<Rightarrow> f x) R"
    if "hoare sessions_ok m R" "\<And>x. hoare sessions_ok (f x) R" for d m f
    using that by (cases d) simp_all
  show ?thesis
    unfolding serve_nfs_procedure_8_write_to_file_def
    by (intro hoare_steps data hoare_cbind [OF h_write_data] hoare_ends) (simp_all add: assms)
qed

lemma h_setattr:
  assumes "params \<noteq> None" "valid_auth_sys cred"
  shows "hoare sessions_ok (serve_nfs_procedure_2_set_file_attributes pb cred verf params) R"
proof -
  have sattr: "hoare sessions_ok (cbind (decode_sattr args) (\<lambda>(sattr, at, mt). f sattr at mt)) R"
    if "\<And>sattr at mt. sattr_atime sattr = Some at \<Longrightarrow> sattr_mtime sattr = Some mt \<Longrightarrow>
          hoare sessions_ok (f sattr at mt) R" for args f
    by (rule hoare_cbind [OF sess.h_decode_sattr])
      (use that in \<open>auto simp: hoare_def split: prod.splits\<close>)
  show ?thesis
    unfolding serve_nfs_procedure_2_set_file_attributes_def
    by (intro sattr hoare_steps hoare_cbind [OF h_update_attributes] hoare_ends) (simp_all add: assms)
qed

lemma h_lookup:
  "params \<noteq> None \<Longrightarrow> valid_auth_sys cred \<Longrightarrow>
    hoare sessions_ok (serve_nfs_procedure_4_look_up_file_name pb cred verf params) R"
  unfolding serve_nfs_procedure_4_look_up_file_name_def
  by (intro hoare_steps hoare_ends) simp_all

lemma h_create:
  "params \<noteq> None \<Longrightarrow> valid_auth_sys cred \<Longrightarrow>
    hoare sessions_ok (serve_nfs_procedure_9_create_file pb cred verf params) R"
  unfolding serve_nfs_procedure_9_create_file_def
  by (intro hoare_cbind [OF h_decode_create_args] hoare_cbind [OF h_create_file] hoare_steps hoare_ends)
    simp_all

lemma h_mkdir:
  "params \<noteq> None \<Longrightarrow> valid_auth_sys cred \<Longrightarrow>
    hoare sessions_ok (serve_nfs_procedure_14_create_directory pb cred verf params) R"
  unfolding serve_nfs_procedure_14_create_directory_def
  by (intro hoare_cbind [OF h_decode_create_args] hoare_cbind [OF h_create_directory] hoare_steps
      hoare_ends) simp_all

lemma h_pointer: "hoare sessions_ok (not_null p) (\<lambda>_. sessions_ok)"
  by (rule hoare_weaken [OF sess.h_not_null]) simp_all

lemma h_symlink:
  "params \<noteq> None \<Longrightarrow> valid_auth_sys cred \<Longrightarrow>
    hoare sessions_ok (serve_nfs_procedure_13_create_symbolic_link pb cred verf params) R"
  unfolding serve_nfs_procedure_13_create_symbolic_link_def
  by (intro hoare_cbind [OF h_pointer] hoare_steps hoare_ends) simp_all

lemma h_link:
  "params \<noteq> None \<Longrightarrow> valid_auth_sys cred \<Longrightarrow>
    hoare sessions_ok (serve_nfs_procedure_12_create_link_to_file pb cred verf params) R"
  unfolding serve_nfs_procedure_12_create_link_to_file_def
  by (intro hoare_steps hoare_ends) simp_all

text \<open>The cache code after REMOVE, RMDIR and RENAME is 0 or 1, so the error branch is not taken.\<close>

lemma h_uncache_path:
  "hoare cache_nonempty (cbind (uncache_path p) (\<lambda>code. if code > 1 then system_error
      else reply_nfs_stat pb NFS_OK)) R"
  "hoare cache_nonempty (cbind (recache_path p q) (\<lambda>code. if code > 1 then system_error
      else reply_nfs_stat pb NFS_OK)) R"
  by (rule hoare_cbind [OF hoare_weaken, OF h_uncache(2), where Q = "\<lambda>_. sessions_ok"]
      hoare_cbind [OF hoare_weaken, OF h_uncache(3), where Q = "\<lambda>_. sessions_ok"];
    simp add: sess.h_system_error sess.h_fail)+

lemma h_remove:
  "params \<noteq> None \<Longrightarrow> valid_auth_sys cred \<Longrightarrow>
    hoare sessions_ok (serve_nfs_procedure_10_remove_file pb cred verf params) R"
  unfolding serve_nfs_procedure_10_remove_file_def
  by (intro h_uncache_path hoare_steps hoare_ends) simp_all

lemma h_rmdir:
  "params \<noteq> None \<Longrightarrow> valid_auth_sys cred \<Longrightarrow>
    hoare sessions_ok (serve_nfs_procedure_15_remove_directory pb cred verf params) R"
  unfolding serve_nfs_procedure_15_remove_directory_def
  by (intro h_uncache_path hoare_steps hoare_ends) simp_all

lemma h_rename:
  "params \<noteq> None \<Longrightarrow> valid_auth_sys cred \<Longrightarrow>
    hoare sessions_ok (serve_nfs_procedure_11_rename_file pb cred verf params) R"
  unfolding serve_nfs_procedure_11_rename_file_def Let_def
  by (intro h_uncache_path hoare_steps hoare_ends) simp_all

lemma h_readdir:
  "params \<noteq> None \<Longrightarrow> valid_auth_sys cred \<Longrightarrow>
    hoare sessions_ok (serve_nfs_procedure_16_read_from_directory pb cred verf params) R"
  unfolding serve_nfs_procedure_16_read_from_directory_def
  by (intro hoare_cbind [OF h_pointer] hoare_cbind [OF h_read_directory] hoare_steps hoare_ends)
    simp_all

lemma h_mountable_path: "hoare sessions_ok (mountable_path pb path) (\<lambda>_. sessions_ok)"
  unfolding mountable_path_def fail_fh_status_def reply_fh_status_def
  by (intro hoare_cbind [OF sess.h_on_os] hoare_cbind [OF sess.h_type_of] hoare_ends) simp_all

lemma h_mnt:
  assumes "params \<noteq> None" "valid_auth_sys cred"
  shows "hoare sessions_ok (serve_mnt_procedure_1_add_mount_entry pb cred verf params) R"
proof -
  obtain a name where a: "cred = Some \<lparr>flavor = AUTH_SYS, auth_body = Auth_Body_Auth_Sys (Some a)\<rparr>"
    "machinename a = Some name" using assms(2) by (auto elim: valid_auth_sysE)
  have add: "hoare sessions_ok (cmodify (mount_list_update f)) (\<lambda>_. sessions_ok)" for f
    by (simp add: hoare_def wp_rules sessions_ok_def)
  have gate: "hoare sessions_ok (permission_gate fail cred check) (\<lambda>_. sessions_ok)"
    if "\<And>st. st \<noteq> NFS_OK \<Longrightarrow> hoare sessions_ok (fail st) (\<lambda>_. sessions_ok)"
      "\<And>a. hoare sessions_ok (check a) (\<lambda>_. sessions_ok)" for fail check
    by (rule sess.h_permission_gate) (use that a(1) in auto)
  have fh: "hoare sessions_ok (make_filehandle path) (\<lambda>_. sessions_ok)" for path
    by (rule hoare_weaken [OF h_make_filehandle(2)]) (auto simp: nonempty.strong split: if_splits)
  have name: "hoare sessions_ok (cbind (cderef cred) (\<lambda>cred. cbind (auth_sys_of cred)
      (\<lambda>auth_sys. cbind (cderef (machinename auth_sys)) f))) R"
    if "\<And>name. hoare sessions_ok (f name) R" for f
    using that a by (simp add: cderef_def auth_sys_of_def)
  show ?thesis
    unfolding serve_mnt_procedure_1_add_mount_entry_def fail_fh_status_def reply_fh_status_def
    by (intro hoare_cbind [OF h_pointer] hoare_cbind [OF h_mountable_path] hoare_cbind [OF gate]
        hoare_cbind [OF fh] name hoare_cbind [OF add] hoare_steps hoare_ends sess.h_check_path)
      (simp_all add: assms)
qed

lemmas h_procedures = h_null h_getattr h_setattr h_lookup h_readlink h_read h_write h_create h_remove
  h_rename h_link h_symlink h_mkdir h_rmdir h_readdir h_statfs h_mnt

lemma h_creturn: "good_reply r \<Longrightarrow> hoare sessions_ok (creturn r) R"
  by (simp add: hoare_def wp_rules)

lemma h_forward:
  "params \<noteq> None \<Longrightarrow> valid_auth_sys cred \<Longrightarrow>
    hoare sessions_ok (forward_rpc_call_to_program pb cred verf prog vers procedure params) R"
  unfolding forward_rpc_call_to_program_def call_nfs_def call_mount_def
    serve_mnt_procedure_0_do_nothing_def
  by (intro hoare_if h_procedures h_creturn sess.h_reply) simp_all

section \<open>Every call is answered\<close>

lemma hoare_answers:
  assumes "hoare P m (\<lambda>_ _. False)" and "P s"
  shows "\<exists>a s'. m s = (Return (Some a), s') \<and> validate_accepted a = 0 \<and> sessions_ok s'"
proof -
  obtain c s' where m: "m s = (c, s')" by fastforce
  have "wp m (\<lambda>r s'. good_reply r \<and> sessions_ok s') (\<lambda>_ _. False) s" using assms by (simp add: hoare_def)
  with m show ?thesis by (cases c) (auto simp: wp_def good_reply_def)
qed

text \<open>
  C1: A call whose parameters are present and whose AUTH_SYS credential passed validation is always
  answered: whatever the program, version and procedure, whatever the arguments decode to and whatever
  system calls fail, the handler has defined behaviour and returns an accepted reply that the structural
  check of the client accepts, and every READDIR session keeps a client with a name.
\<close>

theorem forward_rpc_call_answers:
  assumes "sessions_ok s" and "params \<noteq> None" and "valid_auth_sys cred"
  shows "\<exists>a s'. forward_rpc_call_to_program pb cred verf prog vers procedure params s =
    (Return (Some a), s') \<and> validate_accepted a = 0 \<and> sessions_ok s'"
  by (rule hoare_answers [OF h_forward]) (use assms in auto)

theorem forward_rpc_call_answers_witness:
  "\<exists>a s'. forward_rpc_call_to_program ex_codec (ex_cred 1000) ex_verf 10003 2 10
    (ex_params ''nfs/DirOpArgs'') ex_server = (Return (Some a), s') \<and> validate_accepted a = 0 \<and>
    sessions_ok s'"
  by (rule forward_rpc_call_answers)
    (simp_all add: ex_defs sessions_ok_def named_def valid_auth_sys_def credential_error_def)

end
