(* ===== verification/Rpc_Answering.thy ===== *)
theory Rpc_Answering
  imports Handler_Safety
begin

text \<open>
  How a server answers a call, without the transport.  \<open>answer\<close> is the specification: a call is refused
  for the first reason that applies, or its program runs and the accepted reply goes out.  The TCP server
  and the QUIC server have the same function for it, up to how they send a reply; \<open>answer_call\<close> is that
  function, and the locale \<open>rpc_transport\<close> shows that it implements \<open>answer\<close> over every transport that
  delivers a reply while it is ready.
\<close>

section \<open>The specification\<close>

text \<open>The reason to refuse a call before it reaches a program, as RFC 5531 orders the checks.\<close>

definition refusal :: "call_body \<Rightarrow> rejected_reply option" where
  "refusal call =
    (if rpcvers call \<noteq> 2 then Some (create_rpc_mismatch_rejected_reply 2 2)
     else case credential_error (call_credential call) of
       Some st \<Rightarrow> Some (create_auth_error_rejected_reply st)
     | None \<Rightarrow>
        (case verifier_error (call_verifier call) of
           Some st \<Rightarrow> Some (create_auth_error_rejected_reply st)
         | None \<Rightarrow>
            (case call_credential call of
               Some cred \<Rightarrow> if flavor cred = AUTH_NONE \<and> call_proc call \<noteq> 0
                             then Some (create_auth_error_rejected_reply AUTH_TOOWEAK) else None
             | None \<Rightarrow> None)))"

definition denied_body :: "rejected_reply \<Rightarrow> reply_body" where
  "denied_body r = \<lparr>rbody_stat = MSG_DENIED, rbody_reply = Reply_Rreply (Some r)\<rparr>"

definition accepted_body :: "accepted_reply option \<Rightarrow> reply_body" where
  "accepted_body a = \<lparr>rbody_stat = MSG_ACCEPTED, rbody_reply = Reply_Areply a\<rparr>"

text \<open>A bad credential or verifier makes the caller see the code 6, though the rejection was sent.\<close>

definition refusal_code :: "call_body \<Rightarrow> nat" where
  "refusal_code call =
    (if rpcvers call = 2 \<and>
        (credential_error (call_credential call) \<noteq> None \<or> verifier_error (call_verifier call) \<noteq> None)
     then 6 else 0)"

definition run_program :: "codec \<Rightarrow> call_body \<Rightarrow> unit handler" where
  "run_program pb call =
    forward_rpc_call_to_program pb (call_credential call) (call_verifier call) (call_prog call)
      (call_vers call) (call_proc call) (call_params call)"

definition answer :: "codec \<Rightarrow> call_body \<Rightarrow> server \<Rightarrow> (nat \<times> reply_body \<times> server) option" where
  "answer pb call s =
    (case refusal call of
       Some r \<Rightarrow> Some (refusal_code call, denied_body r, s)
     | None \<Rightarrow>
         (case run_program pb call s of
            (Return a, s') \<Rightarrow> Some (0, accepted_body a, s')
          | _ \<Rightarrow> None))"

section \<open>Facts about the specification\<close>

lemma h_forward_null:
  "hoare sessions_ok (forward_rpc_call_to_program pb cred verf prog vers 0 params) R"
  unfolding forward_rpc_call_to_program_def call_nfs_def call_mount_def
    serve_mnt_procedure_0_do_nothing_def
  by (simp add: h_null h_creturn sess.h_reply)

lemma unrefused_credential:
  assumes "refusal call = None"
  shows "valid_auth_sys (call_credential call) \<or> call_proc call = 0"
proof (cases "call_credential call")
  case (Some cred)
  with assms have "credential_error (Some cred) = None"
    by (auto simp: refusal_def split: if_splits option.splits)
  moreover from this have "flavor cred = AUTH_NONE \<or> flavor cred = AUTH_SYS"
    by (auto simp: credential_error_def split: if_splits)
  ultimately show ?thesis
    using assms Some by (auto simp: valid_auth_sys_def refusal_def split: if_splits option.splits)
qed (use assms in \<open>auto simp: refusal_def credential_error_def split: if_splits\<close>)

lemma program_answers:
  assumes "refusal call = None" and "sessions_ok s" and "call_params call \<noteq> None \<or> call_proc call = 0"
  shows "\<exists>a s'. run_program pb call s = (Return (Some a), s') \<and> validate_accepted a = 0 \<and> sessions_ok s'"
proof -
  have "hoare sessions_ok (run_program pb call) (\<lambda>_ _. False)"
    using h_forward_null [of pb] h_forward [of "call_params call" "call_credential call" pb]
      unrefused_credential [OF assms(1)] assms(3) unfolding run_program_def
    by (cases "call_proc call = 0") auto
  from hoare_answers [OF this assms(2)] show ?thesis by blast
qed

text \<open>The message that carries a reply.\<close>

definition reply_message :: "u32 \<Rightarrow> reply_body \<Rightarrow> rpc_msg" where
  "reply_message x body = \<lparr>xid = x, mtype = REPLY, rpc_body = Rpc_Rbody (Some body)\<rparr>"

lemma reply_structure:
  "validate_accepted a = 0 \<Longrightarrow>
    validate_rpc_reply_structure (Some (reply_message x (accepted_body (Some a)))) = Some 0"
  "validate_rpc_reply_structure (Some (reply_message x
    (denied_body (create_auth_error_rejected_reply st)))) = Some 0"
  "validate_rpc_reply_structure (Some (reply_message x
    (denied_body (create_rpc_mismatch_rejected_reply l h)))) = Some 0"
  by (simp_all add: reply_message_def validate_rpc_reply_structure_def validate_rejected_def
      accepted_body_def denied_body_def
      create_auth_error_rejected_reply_def create_rpc_mismatch_rejected_reply_def)

lemma answer_ok:
  assumes "sessions_ok s" and "call_params call \<noteq> None \<or> call_proc call = 0"
  shows "\<exists>code body s'. answer pb call s = Some (code, body, s') \<and> sessions_ok s' \<and>
    validate_rpc_reply_structure (Some (reply_message x body)) = Some 0"
proof (cases "refusal call")
  case None
  with program_answers [OF None assms, of pb] show ?thesis by (auto simp: answer_def reply_structure)
next
  case (Some r)
  then have "validate_rpc_reply_structure (Some (reply_message x (denied_body r))) = Some 0"
    by (auto simp: refusal_def reply_structure split: if_splits option.splits)
  with Some assms(1) show ?thesis by (simp add: answer_def)
qed

section \<open>The common function of the two servers\<close>

definition answer_call ::
  "(reply_body \<Rightarrow> ('t, nat, nat) cprog) \<Rightarrow> (unit handler \<Rightarrow> ('t, nat, accepted_reply option) cprog) \<Rightarrow>
   codec \<Rightarrow> call_body \<Rightarrow> ('t, nat, 'a) cprog" where
  "answer_call send run pb call =
    (if rpcvers call \<noteq> 2 then
       cbind (send (denied_body (create_rpc_mismatch_rejected_reply 2 2)))
         (\<lambda>error_code. creturn (if error_code > 0 then 5 else 0))
     else
       (case (case credential_error (call_credential call) of
                None \<Rightarrow> verifier_error (call_verifier call) | Some st \<Rightarrow> Some st) of
          Some st \<Rightarrow> cbind (send (denied_body (create_auth_error_rejected_reply st))) (\<lambda>_. creturn 6)
        | None \<Rightarrow>
            cbind (cderef (call_credential call)) (\<lambda>cred.
            if flavor cred = AUTH_NONE \<and> call_proc call \<noteq> 0 then
              cbind (send (denied_body (create_auth_error_rejected_reply AUTH_TOOWEAK)))
                (\<lambda>error_code. creturn (if error_code > 0 then 1 else 0))
            else
              cbind (run (run_program pb call)) (\<lambda>a.
              cbind (send (accepted_body a)) (\<lambda>error_code.
              creturn (if error_code > 0 then 7 else 0))))))"

locale rpc_transport =
  fixes send :: "reply_body \<Rightarrow> ('t, nat, nat) cprog"
    and run :: "unit handler \<Rightarrow> ('t, nat, accepted_reply option) cprog"
    and server_of :: "'t \<Rightarrow> server"
    and set_server :: "server \<Rightarrow> 't \<Rightarrow> 't"
    and ready :: "'t \<Rightarrow> bool"
    and sent :: "'t \<Rightarrow> reply_body \<Rightarrow> 't \<Rightarrow> bool"
  assumes send_delivers: "ready t \<Longrightarrow>
      \<exists>t'. send body t = (Go 0, t') \<and> sent t body t' \<and> server_of t' = server_of t"
    and run_returns: "m (server_of t) = (Return a, s) \<Longrightarrow> run m t = (Go a, set_server s t)"
    and run_crashes: "\<forall>a. fst (m (server_of t)) \<noteq> Return a \<Longrightarrow> fst (run m t) = UB"
    and server_of_set: "server_of (set_server s t) = s"
    and ready_set: "ready (set_server s t) = ready t"
    and sent_set: "sent (set_server s t) body t' = sent t body t'"
begin

lemma answer_call_refused:
  assumes "ready t" and "refusal call = Some r"
  shows "\<exists>t'. answer_call send run pb call t = (Return (refusal_code call), t') \<and>
    sent t (denied_body r) t' \<and> server_of t' = server_of t"
  using send_delivers [OF assms(1), of "denied_body r"] assms(2)
  by (auto simp: refusal_def refusal_code_def answer_call_def control_defs split: if_splits option.splits)

lemma answer_call_served:
  assumes "ready t" and "refusal call = None" and "run_program pb call (server_of t) = (Return a, s)"
  shows "\<exists>t'. answer_call send run pb call t = (Return 0, t') \<and>
    sent t (accepted_body a) t' \<and> server_of t' = s"
proof -
  obtain cred where "call_credential call = Some cred" "rpcvers call = 2"
      "credential_error (Some cred) = None" "verifier_error (call_verifier call) = None"
      "\<not> (flavor cred = AUTH_NONE \<and> call_proc call \<noteq> 0)"
    using assms(2) by (cases "call_credential call")
      (auto simp: refusal_def credential_error_def split: if_splits option.splits)
  then show ?thesis
    using send_delivers [of "set_server s t" "accepted_body a"] assms(1)
    by (auto simp: answer_call_def control_defs run_returns [of "run_program pb call", OF assms(3)] ready_set sent_set
        server_of_set)
qed

theorem answer_call_refines:
  assumes "ready t" and "answer pb call (server_of t) = Some (code, body, s)"
  shows "\<exists>t'. answer_call send run pb call t = (Return code, t') \<and> sent t body t' \<and> server_of t' = s"
proof (cases "refusal call")
  case None
  then show ?thesis
    using answer_call_served [OF assms(1) None] assms(2)
    by (auto simp: answer_def split: prod.splits ctl.splits)
next
  case (Some r)
  then show ?thesis using answer_call_refused [OF assms(1) Some] assms(2) by (auto simp: answer_def)
qed

lemma answer_call_crashes:
  assumes "answer pb call (server_of t) = None"
  shows "fst (answer_call send run pb call t) = UB"
proof -
  have none: "refusal call = None" "\<forall>a. fst (run_program pb call (server_of t)) \<noteq> Return a"
    using assms by (auto simp: answer_def split: option.splits prod.splits ctl.splits)
  then have "fst (run (run_program pb call) t) = UB" by (intro run_crashes)
  then show ?thesis
    using none(1) by (cases "call_credential call") (auto simp: refusal_def answer_call_def control_defs
        credential_error_def split: if_splits option.splits prod.splits ctl.splits)
qed

end

text \<open>The size of a packed message fits in a \<open>size_t\<close>.\<close>

definition codec_bounded :: "codec \<Rightarrow> bool" where
  "codec_bounded pb \<longleftrightarrow> (\<forall>m. length (pack_rpc_msg pb m) < 2 ^ 64)"

end
