(* ===== verification/Rpc_Safety.thy ===== *)
theory Rpc_Safety
  imports Rpc_Answering
begin

text \<open>
  The TCP server answers every call with one record.  A call is either refused before any program sees
  it, and then the server keeps its state, or it is handed to its program and the accepted reply goes out.
\<close>

section \<open>Sending leaves the input alone\<close>

lemma send_bytes_loop_in: "conn_in (snd (send_bytes_loop buf sz k c)) = conn_in c"
proof (induction buf sz k c rule: send_bytes_loop.induct)
  case (1 buf sz k c)
  obtain b c' where t: "tcp_send (drop (unat k) buf) (sz - k) c = (b, c')" by fastforce
  then have "conn_in c' = conn_in c" by (auto simp: tcp_send_def split: list.splits send_event.splits)
  then show ?case using 1 t by (simp add: send_bytes_loop.simps [of buf sz k c])
qed

lemma send_fragments_frame:
  assumes "\<And>buf n c. f (snd (send buf n c)) = f c"
  shows "f (snd (send_fragments send data sz k c)) = f c"
  using assms
proof (induction send data sz k c rule: send_fragments.induct)
  case (1 send data sz k c)
  obtain e1 c1 where 1: "send (be_bytes (fragment_header_of (sz - k))) 4 c = (e1, c1)" by fastforce
  obtain e2 c2 where 2: "send (drop (unat k) data) (fragment_size_of (sz - k)) c1 = (e2, c2)" by fastforce
  have "f c1 = f c" "f c2 = f c" using "1.prems" 1 2 by (metis snd_conv)+
  then show ?case
    using "1.IH" [OF _ refl refl 1 [symmetric] _ 2 [symmetric]] "1.prems" 1 2
    by (simp add: send_fragments.simps [of send data sz k c] Let_def)
qed

lemma send_rm_record_in: "conn_in (snd (send_rm_record_tcp data n c)) = conn_in c"
  unfolding send_rm_record_tcp_def
  by (rule send_fragments_frame) (simp add: send_bytes_tcp_def send_bytes_loop_in)

section \<open>Sending a reply\<close>

text \<open>What sending a reply does to the connection.\<close>

definition replied :: "codec \<Rightarrow> tcp_thread \<Rightarrow> reply_body \<Rightarrow> tcp_thread \<Rightarrow> bool" where
  "replied pb t body t' \<longleftrightarrow>
    conn_out (th_conn t') =
      conn_out (th_conn t) @ rm_encode (pack_rpc_msg pb (reply_message (th_xid t) body)) \<and>
    th_xid t' = th_xid t + 1 \<and> sends_progress (th_conn t') \<and>
    conn_in (th_conn t') = conn_in (th_conn t)"

lemma send_reply_ok:
  assumes "codec_bounded pb" and "sends_progress (th_conn t)"
  shows "\<exists>t'. send_rpc_reply_body_tcp pb body t = (Go 0, t') \<and> replied pb t body t' \<and>
    th_server t' = th_server t"
proof -
  let ?buf = "pack_rpc_msg pb \<lparr>xid = th_xid t, mtype = REPLY, rpc_body = Rpc_Rbody (Some body)\<rparr>"
  have n: "unat (of_nat (length ?buf) :: u64) = length ?buf"
    using assms(1) by (simp add: codec_bounded_def unat_of_nat)
  obtain c' where c': "send_rm_record_tcp ?buf (of_nat (length ?buf)) (th_conn t) = (0, c')"
    "sends_progress c'" "conn_out c' = conn_out (th_conn t) @ rm_encode ?buf"
    using tcp_sender.send_fragments_encodes [OF assms(2) _ n, of 0] by (auto simp: send_rm_record_tcp_def)
  moreover have "conn_in c' = conn_in (th_conn t)"
    using send_rm_record_in [of ?buf "of_nat (length ?buf)" "th_conn t"] c'(1) by simp
  ultimately show ?thesis
    by (simp add: send_rpc_reply_body_tcp_def generate_rpc_xid_def replied_def reply_message_def)
qed

section \<open>The TCP server implements the specification\<close>

interpretation tcp_transport: rpc_transport "send_rpc_reply_body_tcp pb" on_server th_server
  "\<lambda>s t. t\<lparr>th_server := s\<rparr>" "\<lambda>t. codec_bounded pb \<and> sends_progress (th_conn t)" "replied pb" for pb
proof
  show "codec_bounded pb \<and> sends_progress (th_conn t) \<Longrightarrow> \<exists>t'. send_rpc_reply_body_tcp pb body t = (Go 0, t') \<and>
      replied pb t body t' \<and> th_server t' = th_server t" for t body
    using send_reply_ok by blast
  show "m (th_server t) = (Return a, s) \<Longrightarrow> on_server m t = (Go a, t\<lparr>th_server := s\<rparr>)" for m t a s
    by (simp add: on_server_def)
  show "\<forall>a. fst (m (th_server t)) \<noteq> Return a \<Longrightarrow> fst (on_server m t) = UB" for m t
    by (auto simp: on_server_def split: prod.splits ctl.splits)
qed (simp_all add: replied_def)

lemma reply_to_call_answer: "reply_to_call pb call = answer_call (send_rpc_reply_body_tcp pb) on_server pb call"
proof -
  have "cbind (cbind m (\<lambda>e. cgo (f e))) g = cbind m (\<lambda>e. g (f e))" for m :: "('s, 'r, 'a) cprog" and f g
    by (simp add: cbind_assoc)
  then show ?thesis
    unfolding reply_to_call_def answer_call_def validate_credential_and_verifier_tcp_def run_program_def
      send_auth_error_rejected_reply_tcp_def send_rpc_rejected_reply_message_tcp_def
      send_rpc_accepted_reply_message_tcp_def denied_body_def accepted_body_def
    by (auto simp: cbind_assoc split: option.splits intro!: arg_cong2 [where f = cbind])
qed

lemma refused_call:
  assumes "codec_bounded pb" and "sends_progress (th_conn t)" and "refusal call = Some r"
  shows "\<exists>code t'. reply_to_call pb call t = (Return code, t') \<and> replied pb t (denied_body r) t' \<and>
    th_server t' = th_server t"
  using tcp_transport.answer_call_refused [of pb t call r pb] assms by (auto simp: reply_to_call_answer)

lemma call_answered:
  assumes "codec_bounded pb" and "sends_progress (th_conn t)" and "sessions_ok (th_server t)"
    and "call_params call \<noteq> None \<or> call_proc call = 0"
  shows "\<exists>code t' body. reply_to_call pb call t = (Return code, t') \<and> replied pb t body t' \<and>
    validate_rpc_reply_structure (Some (reply_message (th_xid t) body)) = Some 0 \<and>
    sessions_ok (th_server t')"
  using answer_ok [OF assms(3,4), of pb "th_xid t"] tcp_transport.answer_call_refines [of pb t pb call] assms(1,2)
  by (fastforce simp: reply_to_call_answer)

section \<open>From the record to the reply\<close>

lemma process_single_rpc_call:
  assumes "arrived (conn_in (th_conn t)) = rm_encode buf @ rest" and "healthy (conn_in (th_conn t))"
    and "buf \<noteq> []" and "length buf < 2 ^ 64"
    and "unpack_rpc_msg pb buf = Some \<lparr>xid = x, mtype = CALL, rpc_body = Rpc_Cbody (Some call)\<rparr>"
  shows "\<exists>es. process_single_rpc_tcp pb t =
      reply_to_call pb call (t\<lparr>th_conn := (th_conn t)\<lparr>conn_in := es\<rparr>\<rparr>) \<and>
    arrived es = rest \<and> healthy es"
proof -
  from receive_fragments_decodes [OF assms(2,1,3), of 0 "[]" None "conn_junk (th_conn t)"] assms(4)
  obtain es where "receive_fragments (conn_junk (th_conn t)) None 0 (conn_in (th_conn t)) = (Some buf, es)"
    "healthy es" "arrived es = rest" by auto
  then show ?thesis
    using assms(5)
    by (auto simp: process_single_rpc_tcp_def receive_record_def receive_rm_record_tcp_def cbind_def
        deserialize_rpc_msg_def)
qed


text \<open>A call of LOOKUP by the caller of the examples, with transaction identifier 77.\<close>

definition ex_call :: "opaque_auth option \<Rightarrow> call_body" where
  "ex_call cred =
    \<lparr>rpcvers = 2, call_prog = 10003, call_vers = 2, call_proc = 4, call_credential = cred,
     call_verifier = ex_verf, call_params = ex_params ''nfs/DirOpArgs''\<rparr>"

definition ex_rpc_codec :: "opaque_auth option \<Rightarrow> codec" where
  "ex_rpc_codec cred = ex_codec\<lparr>unpack_rpc_msg :=
    (\<lambda>_. Some \<lparr>xid = 77, mtype = CALL, rpc_body = Rpc_Cbody (Some (ex_call cred))\<rparr>)\<rparr>"

definition ex_thread :: tcp_thread where
  "ex_thread =
    \<lparr>th_server = ex_server,
     th_conn = ex_conn [Takes 3] [Arrives [0x80, 0, 0], Arrives [2, 5, 6, 9]], th_xid = 1\<rparr>"

lemmas ex_thread_defs = ex_thread_def ex_conn_def ex_rpc_codec_def ex_call_def


text \<open>
  C26: A refused call has no effect.  A call with the wrong RPC version, with a credential or verifier
  that fails validation, or with AUTH_NONE for a procedure other than NULL is answered by the rejection
  for that reason, and the server (files, cache, sessions, mount list) is exactly as before.
\<close>

theorem refused_call_no_effect:
  assumes "codec_bounded pb" and "sends_progress (th_conn t)" and "refusal call = Some r"
  shows "\<exists>code t'. reply_to_call pb call t = (Return code, t') \<and> th_server t' = th_server t \<and>
    conn_out (th_conn t') = conn_out (th_conn t) @ rm_encode (pack_rpc_msg pb (reply_message (th_xid t) (denied_body r)))"
  using refused_call [OF assms] by (auto simp: replied_def)

theorem refused_call_no_effect_witness:
  "\<exists>code t'. reply_to_call ex_codec (ex_call ex_verf) ex_thread = (Return code, t') \<and>
    th_server t' = th_server ex_thread \<and>
    conn_out (th_conn t') = conn_out (th_conn ex_thread) @ rm_encode (pack_rpc_msg ex_codec
      (reply_message (th_xid ex_thread) (denied_body (create_auth_error_rejected_reply AUTH_TOOWEAK))))"
  by (rule refused_call_no_effect)
    (simp_all add: codec_bounded_def sends_progress_def ex_thread_defs ex_defs refusal_def
      credential_error_def verifier_error_def create_auth_none_opaque_auth_def)


end
