(* ===== verification/Quic_Server_Safety.thy ===== *)
theory Quic_Server_Safety
  imports Quic_Server Quic_Receiving Rpc_Safety
begin

text \<open>
  The QUIC server implements the same specification \<open>answer\<close> as the TCP server.  A record that is complete
  after a readable event is answered on the same stream, and the receiving context of the stream is gone
  afterwards; the contexts of the other streams are left alone.
\<close>

section \<open>Sending a reply\<close>

definition replied_quic ::
  "codec \<Rightarrow> ('q \<Rightarrow> bytes) \<Rightarrow> ('q \<Rightarrow> bool) \<Rightarrow> 'q quic_state \<Rightarrow> reply_body \<Rightarrow> 'q quic_state \<Rightarrow> bool" where
  "replied_quic pb written open_stream t body t' \<longleftrightarrow>
    written (qs_net t') = written (qs_net t) @ rm_encode (pack_rpc_msg pb (reply_message (qs_xid t) body)) \<and>
    qs_xid t' = qs_xid t + 1 \<and> open_stream (qs_net t') \<and> qs_contexts t' = qs_contexts t"

lemma send_reply_quic_ok:
  assumes "codec_bounded pb" and "takes_writes lib conn sid written open_stream" and "open_stream (qs_net t)"
  shows "\<exists>t'. send_rpc_reply_body_quic pb lib conn sid body t = (Go 0, t') \<and>
    replied_quic pb written open_stream t body t' \<and> qs_server t' = qs_server t"
proof -
  let ?buf = "pack_rpc_msg pb \<lparr>xid = qs_xid t, mtype = REPLY, rpc_body = Rpc_Rbody (Some body)\<rparr>"
  have "length ?buf < 2 ^ 64" using assms(1) by (simp add: codec_bounded_def)
  then show ?thesis
    using send_rm_record_quic_ok [OF assms(2,3), of ?buf]
    by (auto simp: send_rpc_reply_body_quic_def generate_rpc_xid_def replied_quic_def reply_message_def)
qed

interpretation quic_transport: rpc_transport "send_rpc_reply_body_quic pb lib conn sid" on_quic_server qs_server
  "\<lambda>s t. t\<lparr>qs_server := s\<rparr>"
  "\<lambda>t. codec_bounded pb \<and> takes_writes lib conn sid written open_stream \<and> open_stream (qs_net t)"
  "replied_quic pb written open_stream" for pb lib conn sid written open_stream
proof
  show "codec_bounded pb \<and> takes_writes lib conn sid written open_stream \<and> open_stream (qs_net t) \<Longrightarrow>
      \<exists>t'. send_rpc_reply_body_quic pb lib conn sid body t = (Go 0, t') \<and>
        replied_quic pb written open_stream t body t' \<and> qs_server t' = qs_server t" for t body
    using send_reply_quic_ok by blast
  show "m (qs_server t) = (Return a, s) \<Longrightarrow> on_quic_server m t = (Go a, t\<lparr>qs_server := s\<rparr>)" for m t a s
    by (simp add: on_quic_server_def)
  show "\<forall>a. fst (m (qs_server t)) \<noteq> Return a \<Longrightarrow> fst (on_quic_server m t) = UB" for m t
    by (auto simp: on_quic_server_def split: prod.splits ctl.splits)
qed (simp_all add: replied_quic_def)

lemma reply_to_call_quic_answer:
  "reply_to_call_quic pb lib conn sid call =
    answer_call (send_rpc_reply_body_quic pb lib conn sid) on_quic_server pb call"
  unfolding reply_to_call_quic_def answer_call_def validate_credential_and_verifier_quic_def run_program_def
    send_auth_error_rejected_reply_quic_def send_rpc_rejected_reply_message_quic_def
    send_rpc_accepted_reply_message_quic_def denied_body_def accepted_body_def
  by (auto simp: cbind_assoc split: option.splits intro!: arg_cong2 [where f = cbind])

section \<open>The two servers agree\<close>

text \<open>
  C4: The transport does not matter.  Given the same call, the same server state and the same counter,
  the TCP server and the QUIC server return the same code, send the same bytes and end in the same state of
  the files, the cache, the sessions and the mount list.
\<close>

theorem tcp_and_quic_agree:
  assumes "codec_bounded pb" and "sends_progress (th_conn t)"
    and "takes_writes lib conn sid written open_stream" and "open_stream (qs_net u)"
    and "sessions_ok (th_server t)" and "qs_server u = th_server t" and "qs_xid u = th_xid t"
    and "call_params call \<noteq> None \<or> call_proc call = 0"
  shows "\<exists>code t' u' reply. reply_to_call pb call t = (Return code, t') \<and>
    (reply_to_call_quic pb lib conn sid call :: ('q, nat, unit) quic_prog) u = (Return code, u') \<and>
    qs_server u' = th_server t' \<and> conn_out (th_conn t') = conn_out (th_conn t) @ reply \<and>
    written (qs_net u') = written (qs_net u) @ reply"
proof -
  obtain code body s' where a: "answer pb call (th_server t) = Some (code, body, s')"
    using answer_ok [OF assms(5,8)] by blast
  obtain t' where "reply_to_call pb call t = (Return code, t')" "replied pb t body t'" "th_server t' = s'"
    using tcp_transport.answer_call_refines [of pb t pb call] assms(1,2) a by (auto simp: reply_to_call_answer)
  moreover obtain u' where
    "(reply_to_call_quic pb lib conn sid call :: ('q, nat, unit) quic_prog) u = (Return code, u')"
    "replied_quic pb written open_stream u body u'" "qs_server u' = s'"
    using quic_transport.answer_call_refines [of pb lib conn sid written open_stream u pb call] assms(1,3,4,6) a
    by (auto simp: reply_to_call_quic_answer)
  ultimately show ?thesis using assms(7) by (auto simp: replied_def replied_quic_def)
qed

section \<open>Stream events\<close>

text \<open>There is at most one context per stream.\<close>

definition contexts_distinct :: "rm_context list \<Rightarrow> bool" where
  "contexts_distinct contexts \<longleftrightarrow> distinct (map context_key contexts)"

text \<open>What has arrived of the record on a stream.\<close>

definition stream_holds :: "(nat \<Rightarrow> byte) \<Rightarrow> nat \<Rightarrow> u64 \<Rightarrow> bytes \<Rightarrow> rm_context list \<Rightarrow> bool" where
  "stream_holds junk conn sid bs contexts \<longleftrightarrow>
    (case get_rm_receiving_context conn sid contexts of
       None \<Rightarrow> bs = []
     | Some c \<Rightarrow> receiving junk bs c)"

lemma get_context_key: "get_rm_receiving_context conn sid contexts = Some c \<Longrightarrow> context_key c = (conn, sid)"
  using rm_contexts.get_key [of "(conn, sid)" contexts c] by simp

text \<open>The context the event works on, and the list it is in.\<close>

lemma context_for_event:
  assumes "stream_holds junk conn sid bs contexts" and "contexts_distinct contexts"
    and "contexts' = (if find_rm_receiving_context conn sid contexts > 0
                      then snd (add_new_rm_receiving_context conn sid contexts) else contexts)"
  shows "\<exists>c. get_rm_receiving_context conn sid contexts' = Some c \<and> receiving junk bs c \<and>
    context_key c = (conn, sid) \<and> contexts_distinct contexts' \<and>
    filter (\<lambda>c. context_key c \<noteq> (conn, sid)) contexts' = filter (\<lambda>c. context_key c \<noteq> (conn, sid)) contexts"
proof (cases "get_rm_receiving_context conn sid contexts")
  case None
  then have "bs = []" "\<forall>c \<in> set contexts. context_key c \<noteq> (conn, sid)"
    using assms(1) by (simp_all add: stream_holds_def) (simp add: get_rm_receiving_context_find find_None_conv)
  moreover have "context_key (create_rm_receiving_context conn sid) = (conn, sid)"
    by (simp add: context_key_def create_rm_receiving_context_def)
  ultimately show ?thesis
    using None assms(2,3) receiving_created [of junk conn sid]
    by (auto simp: find_rm_receiving_context_get add_new_rm_receiving_context_def contexts_distinct_def
        context_key_def)
next
  case (Some c)
  then show ?thesis
    using assms get_context_key [OF Some] by (auto simp: stream_holds_def find_rm_receiving_context_get)
qed

lemma update_first_replaces:
  assumes "\<And>x. P x \<longleftrightarrow> key x = key e"
  shows "map key (update_first P (\<lambda>_. e) xs) = map key xs"
    and "filter (\<lambda>x. key x \<noteq> key e) (update_first P (\<lambda>_. e) xs) = filter (\<lambda>x. key x \<noteq> key e) xs"
    and "List.find P xs \<noteq> None \<Longrightarrow> List.find P (update_first P (\<lambda>_. e) xs) = Some e"
  using assms by (induction xs) auto

lemma put_context:
  assumes "contexts_distinct contexts" and "get_rm_receiving_context conn sid contexts \<noteq> None"
    and "context_key c = (conn, sid)"
  shows "get_rm_receiving_context conn sid (put_rm_receiving_context c contexts) = Some c"
    and "contexts_distinct (put_rm_receiving_context c contexts)"
    and "filter (\<lambda>c. context_key c \<noteq> (conn, sid)) (put_rm_receiving_context c contexts) =
      filter (\<lambda>c. context_key c \<noteq> (conn, sid)) contexts"
  using assms update_first_replaces [of "\<lambda>c. context_key c = (conn, sid)" context_key c contexts]
  by (simp_all add: contexts_distinct_def put_rm_receiving_context_def get_rm_receiving_context_find)

lemma readable_event:
  assumes "stream_holds junk conn sid bs (qs_contexts t)" and "contexts_distinct (qs_contexts t)"
    and "delivers lib conn sid (qs_net t) chunks net" and "drained lib conn sid net net'" and "chunks \<noteq> []"
    and "bs @ concat chunks @ later = rm_encode data" and "data \<noteq> []" and "length data < 2 ^ 64"
  shows "\<exists>c contexts. get_rm_receiving_context conn sid contexts = Some c \<and> contexts_distinct contexts \<and>
    filter (\<lambda>c. context_key c \<noteq> (conn, sid)) contexts =
      filter (\<lambda>c. context_key c \<noteq> (conn, sid)) (qs_contexts t) \<and>
    (if later = [] then holds_record c data else receiving junk (bs @ concat chunks) c) \<and>
    server_on_stream_readable pb lib junk conn sid t =
      (let t' = t\<lparr>qs_net := if later = [] then net else net', qs_contexts := contexts\<rparr>
       in if later = [] then
            (cbind (ccall (handle_client_quic pb lib (accumulated_payloads c) (accumulated_payloads_size c)
                      conn sid)) (\<lambda>_.
             cbind (cget qs_contexts) (\<lambda>contexts.
             cbind (cderef (remove_rm_receiving_context conn sid contexts)) (\<lambda>(_, contexts).
             cbind (cmodify (qs_contexts_update (\<lambda>_. contexts))) (\<lambda>_. creturn ()))))) t'
          else (Return (), t'))"
proof -
  define contexts where "contexts = (if find_rm_receiving_context conn sid (qs_contexts t) > 0
    then snd (add_new_rm_receiving_context conn sid (qs_contexts t)) else qs_contexts t)"
  from context_for_event [OF assms(1,2) contexts_def] obtain c where
    c: "get_rm_receiving_context conn sid contexts = Some c" "receiving junk bs c"
      "context_key c = (conn, sid)" "contexts_distinct contexts"
      "filter (\<lambda>c. context_key c \<noteq> (conn, sid)) contexts =
        filter (\<lambda>c. context_key c \<noteq> (conn, sid)) (qs_contexts t)" by blast
  have k: "quic_connection c = conn" "stream_id c = sid" using c(3) by (simp_all add: context_key_def)
  obtain c' where c': "receive_available_bytes_quic lib junk c (qs_net t) =
      Some (Return 0, c', if later = [] then net else net')" "context_key c' = (conn, sid)"
    "if later = [] then holds_record c' data else receiving junk (bs @ concat chunks) c'"
  proof (cases "later = []")
    case True
    with receive_rest [OF c(2), of lib "qs_net t" chunks net data] k assms c(3) that show ?thesis by auto
  next
    case False
    with receive_part [OF c(2), of lib "qs_net t" chunks net later data] k assms c(3) obtain c1 where
      "receiving junk (bs @ concat chunks) c1" "context_key c1 = (conn, sid)"
      "receive_available_bytes_quic lib junk c (qs_net t) = receive_available_bytes_quic lib junk c1 net"
      by auto
    with False read_drained [of lib c1 net net' junk] assms(4) that show ?thesis by (auto simp: context_key_def)
  qed
  have "record_fully_received c' \<longleftrightarrow> later = []"
    using c'(3) by (auto simp: holds_record_def receiving_def split: if_splits)
  then show ?thesis
    using c c' put_context [OF c(4) _ c'(2)]
    by (intro exI [of _ c'] exI [of _ "put_rm_receiving_context c' contexts"])
      (auto simp: server_on_stream_readable_def Let_def simp flip: contexts_def)
qed

lemma handle_call:
  assumes "holds_record c buf"
    and "unpack_rpc_msg pb buf = Some \<lparr>xid = x, mtype = CALL, rpc_body = Rpc_Cbody (Some call)\<rparr>"
  shows "handle_client_quic pb lib (accumulated_payloads c) (accumulated_payloads_size c) conn sid =
    reply_to_call_quic pb lib conn sid call"
  using assms by (simp add: handle_client_quic_def holds_record_def deserialize_rpc_msg_def)


text \<open>
  C34: An incomplete call waits.  When a readable event brings some more of a record but not its end, the
  server remembers exactly what has arrived, sends nothing and changes nothing else.
\<close>

theorem quic_incomplete_call_waits:
  assumes "stream_holds junk conn sid bs (qs_contexts t)" and "contexts_distinct (qs_contexts t)"
    and "delivers lib conn sid (qs_net t) chunks net" and "drained lib conn sid net net'" and "chunks \<noteq> []"
    and "bs @ concat chunks @ later = rm_encode buf" and "later \<noteq> []" and "buf \<noteq> []" and "length buf < 2 ^ 64"
  shows "\<exists>contexts. server_on_stream_readable pb lib junk conn sid t =
      (Return (), t\<lparr>qs_net := net', qs_contexts := contexts\<rparr>) \<and>
    stream_holds junk conn sid (bs @ concat chunks) contexts \<and> contexts_distinct contexts \<and>
    filter (\<lambda>c. context_key c \<noteq> (conn, sid)) contexts =
      filter (\<lambda>c. context_key c \<noteq> (conn, sid)) (qs_contexts t)"
proof -
  obtain c contexts where "get_rm_receiving_context conn sid contexts = Some c" "contexts_distinct contexts"
    "filter (\<lambda>c. context_key c \<noteq> (conn, sid)) contexts =
      filter (\<lambda>c. context_key c \<noteq> (conn, sid)) (qs_contexts t)" "receiving junk (bs @ concat chunks) c"
    "server_on_stream_readable pb lib junk conn sid t =
      (Return (), t\<lparr>qs_net := net', qs_contexts := contexts\<rparr>)"
    using readable_event [OF assms(1-6,8,9), of pb] assms(7) by (auto simp: Let_def)
  then show ?thesis by (auto simp: stream_holds_def)
qed

definition ex_quic_state :: "bytes list \<Rightarrow> (bytes list \<times> bytes) quic_state" where
  "ex_quic_state chunks = \<lparr>qs_server = ex_server, qs_net = (chunks, []), qs_xid = 1, qs_contexts = []\<rparr>"

lemmas ex_quic_defs = ex_quic_state_def ex_thread_defs ex_defs codec_bounded_def sends_progress_def
  sessions_ok_def named_def stream_holds_def contexts_distinct_def

theorem tcp_and_quic_agree_witness:
  "\<exists>code t' u' reply. reply_to_call (ex_rpc_codec (ex_cred 1000)) (ex_call (ex_cred 1000)) ex_thread =
      (Return code, t') \<and>
    (reply_to_call_quic (ex_rpc_codec (ex_cred 1000)) ex_lib 1 4 (ex_call (ex_cred 1000))
       :: (bytes list \<times> bytes, nat, unit) quic_prog) (ex_quic_state []) = (Return code, u') \<and>
    qs_server u' = th_server t' \<and> conn_out (th_conn t') = [9] @ reply \<and> snd (qs_net u') = [] @ reply"
  using tcp_and_quic_agree [OF _ _ ex_takes_writes, of "ex_rpc_codec (ex_cred 1000)" ex_thread
      "ex_quic_state []" "ex_call (ex_cred 1000)" 1 4]
  by (simp add: ex_quic_defs)


theorem quic_incomplete_call_waits_witness:
  "\<exists>contexts. server_on_stream_readable ex_codec ex_lib (\<lambda>_. 7) 1 4 (ex_quic_state [[0x80, 0, 0], [2, 5]]) =
      (Return (), (ex_quic_state [])\<lparr>qs_contexts := contexts\<rparr>) \<and>
    stream_holds (\<lambda>_. 7) 1 4 [0x80, 0, 0, 2, 5] contexts"
  using quic_incomplete_call_waits [where t = "ex_quic_state [[0x80, 0, 0], [2, 5]]" and junk = "\<lambda>_. 7"
      and conn = 1 and sid = 4 and lib = ex_lib and net = "([], [])" and net' = "([], [])" and bs = "[]"
      and chunks = "[[0x80, 0, 0], [2, 5]]" and later = "[6]" and buf = "[5, 6]" and pb = ex_codec]
  by (auto simp: ex_quic_state_def ex_receive_defs stream_holds_def contexts_distinct_def)

end
