(* ===== verification/Rpc_Client.thy ===== *)
theory Rpc_Client
  imports Rpc_Messages Record_Marking
begin

text \<open>
  The client side of RPC: the connection context (\<open>rpc_connection_context.h\<close>), a call over TCP
  (\<open>tcp_rpc_client.c\<close>), and the switch by which every procedure of the clients picks a transport.

  The clients are written against \<open>'c remote\<close>: the protocol of the context and the two functions
  \<open>invoke_rpc_remote_tcp\<close> and \<open>invoke_rpc_remote_quic\<close> on a state \<open>'c\<close>.  \<open>tcp_remote\<close> is its instance
  for a context with a TCP connection.
\<close>

section \<open>Connection contexts\<close>

datatype transport_protocol = TRANSPORT_PROTOCOL_TCP | TRANSPORT_PROTOCOL_QUIC
  | TRANSPORT_PROTOCOL_UNNAMED int

text \<open>\<open>tcp_rpc_client_socket_fd\<close> is a pointer to the descriptor of a connected socket.\<close>

record tcp_client =
  tcp_rpc_client_socket_fd :: "tcp_conn option"

record 't rpc_connection_context =
  server_ipv4_addr :: string
  server_port :: u16
  ctx_credential :: "opaque_auth option"
  ctx_verifier :: "opaque_auth option"
  ctx_transport_protocol :: transport_protocol
  transport_connection :: "'t option"

text \<open>The call message that both transports build from a context.\<close>

definition create_call_body ::
  "opaque_auth option \<Rightarrow> opaque_auth option \<Rightarrow> u32 \<Rightarrow> u32 \<Rightarrow> u32 \<Rightarrow> any_msg \<Rightarrow> call_body" where
  "create_call_body cred verf program_number program_version procedure_number parameters =
    \<lparr>rpcvers = 2, call_prog = program_number, call_vers = program_version,
     call_proc = procedure_number, call_credential = cred, call_verifier = verf,
     call_params = Some parameters\<rparr>"

definition call_message :: "u32 \<Rightarrow> call_body \<Rightarrow> rpc_msg" where
  "call_message x call = \<lparr>xid = x, mtype = CALL, rpc_body = Rpc_Cbody (Some call)\<rparr>"

section \<open>Calls over TCP\<close>

text \<open>
  A process with one context (\<^term>\<open>None\<close> for \<open>NULL\<close>).  The mutex of the connection is held from the
  first byte of the call to the last byte of the reply, so that a call is one step of the connection.
\<close>

record tcp_caller =
  tc_context :: "tcp_client option rpc_connection_context option"
  tc_xid :: u32

text \<open>The socket that a context leads to, and storing its state back.\<close>

definition tcp_socket :: "tcp_client option rpc_connection_context option \<Rightarrow> tcp_conn option" where
  "tcp_socket ctx =
    (case ctx of None \<Rightarrow> None | Some c \<Rightarrow>
      (case transport_connection c of None \<Rightarrow> None | Some tcp_client \<Rightarrow>
        (case tcp_client of None \<Rightarrow> None | Some k \<Rightarrow> tcp_rpc_client_socket_fd k)))"

definition set_tcp_socket :: "tcp_conn \<Rightarrow> tcp_caller \<Rightarrow> tcp_caller" where
  "set_tcp_socket conn t =
    t\<lparr>tc_context := map_option (\<lambda>c. c\<lparr>transport_connection :=
        Some (Some \<lparr>tcp_rpc_client_socket_fd = Some conn\<rparr>)\<rparr>) (tc_context t)\<rparr>"

definition execute_rpc_call_tcp ::
  "codec \<Rightarrow> rpc_msg option \<Rightarrow> (tcp_caller, rpc_msg option, rpc_msg option) cprog" where
  "execute_rpc_call_tcp pb call_rpc_msg =
    cbind (cget (\<lambda>t. tcp_socket (tc_context t))) (\<lambda>socket.
    cbind (csome socket None) (\<lambda>conn.
    cbind (csome call_rpc_msg None) (\<lambda>msg.
      let rpc_msg_buffer = pack_rpc_msg pb msg
      in case send_rm_record_tcp rpc_msg_buffer (of_nat (length rpc_msg_buffer)) conn of
           (error_code, conn') \<Rightarrow>
             if error_code > 0 then cbind (cmodify (set_tcp_socket conn')) (\<lambda>_. creturn None)
             else
               (case receive_rm_record_tcp conn' of
                  (reply_rpc_msg_buffer, conn'') \<Rightarrow>
                    cbind (cmodify (set_tcp_socket conn'')) (\<lambda>_.
                    cbind (csome reply_rpc_msg_buffer None) (\<lambda>buffer.
                    creturn (deserialize_rpc_msg pb buffer)))))))"

definition invoke_rpc_remote_tcp ::
  "codec \<Rightarrow> u32 \<Rightarrow> u32 \<Rightarrow> u32 \<Rightarrow> any_msg \<Rightarrow> (tcp_caller, rpc_msg option, rpc_msg option) cprog" where
  "invoke_rpc_remote_tcp pb program_number program_version procedure_number parameters =
    cbind (cget tc_context) (\<lambda>ctx.
    cbind (csome ctx None) (\<lambda>c.
    cbind (cget (\<lambda>t. generate_rpc_xid (tc_xid t))) (\<lambda>(new_xid, counter).
    cbind (cmodify (tc_xid_update (\<lambda>_. counter))) (\<lambda>_.
    execute_rpc_call_tcp pb (Some (call_message new_xid
      (create_call_body (ctx_credential c) (ctx_verifier c) program_number program_version
         procedure_number parameters)))))))"

section \<open>The choice of a transport\<close>

record 'c remote =
  remote_protocol :: "'c \<Rightarrow> transport_protocol option"
  remote_tcp :: "u32 \<Rightarrow> u32 \<Rightarrow> u32 \<Rightarrow> any_msg \<Rightarrow> ('c, rpc_msg option, rpc_msg option) cprog"
  remote_quic :: "u32 \<Rightarrow> u32 \<Rightarrow> u32 \<Rightarrow> any_msg \<Rightarrow> bool \<Rightarrow> ('c, rpc_msg option, rpc_msg option) cprog"

text \<open>The switch at the start of every procedure; reading the protocol of a \<open>NULL\<close> context is undefined.\<close>

definition invoke_rpc_remote ::
  "'c remote \<Rightarrow> u32 \<Rightarrow> u32 \<Rightarrow> u32 \<Rightarrow> any_msg \<Rightarrow> ('c, 'r, rpc_msg option) cprog" where
  "invoke_rpc_remote rc program_number program_version procedure_number parameters =
    cbind (cget (remote_protocol rc)) (\<lambda>p.
    cbind (cderef p) (\<lambda>transport_protocol.
    ccall (case transport_protocol of
             TRANSPORT_PROTOCOL_TCP \<Rightarrow>
               remote_tcp rc program_number program_version procedure_number parameters
           | TRANSPORT_PROTOCOL_QUIC \<Rightarrow>
               remote_quic rc program_number program_version procedure_number parameters True
           | TRANSPORT_PROTOCOL_UNNAMED _ \<Rightarrow>
               remote_tcp rc program_number program_version procedure_number parameters)))"

text \<open>A process whose context has a TCP connection never reaches the QUIC branch.\<close>

definition tcp_remote :: "codec \<Rightarrow> tcp_caller remote" where
  "tcp_remote pb =
    \<lparr>remote_protocol = (\<lambda>t. map_option ctx_transport_protocol (tc_context t)),
     remote_tcp = invoke_rpc_remote_tcp pb,
     remote_quic = (\<lambda>_ _ _ _ _. cub)\<rparr>"

end
