(* ===== verification/Nfs_Client.thy ===== *)
theory Nfs_Client
  imports Rpc_Client
begin

text \<open>
  The procedures of the NFS client (\<open>nfs_client.c\<close>) and of the Mount client (\<open>mount_client.c\<close>).  A
  procedure returns the C function's non-zero code, or goes on with the result that the C function
  stores through its last argument when it returns 0: a positive code comes from the validation of the
  reply, -1 to -3 from the results in it.

  \<open>client_codec\<close> holds the functions of protobuf-c that only clients call.
\<close>

record client_codec =
  pack_fhandle :: "fhandle \<Rightarrow> bytes"
  pack_sattr_args :: "sattr_args \<Rightarrow> bytes"
  pack_dir_op_args :: "dir_op_args \<Rightarrow> bytes"
  pack_read_args :: "read_args \<Rightarrow> bytes"
  pack_write_args :: "write_args \<Rightarrow> bytes"
  pack_create_args :: "create_args \<Rightarrow> bytes"
  pack_rename_args :: "rename_args \<Rightarrow> bytes"
  pack_link_args :: "link_args \<Rightarrow> bytes"
  pack_symlink_args :: "symlink_args \<Rightarrow> bytes"
  pack_readdir_args :: "readdir_args \<Rightarrow> bytes"
  pack_dir_path :: "path_msg \<Rightarrow> bytes"
  unpack_attr_stat :: "bytes \<Rightarrow> attr_stat option"
  unpack_dir_op_res :: "bytes \<Rightarrow> dir_op_res option"
  unpack_read_link_res :: "bytes \<Rightarrow> read_link_res option"
  unpack_read_res :: "bytes \<Rightarrow> read_res option"
  unpack_nfs_stat :: "bytes \<Rightarrow> nfs_stat option"
  unpack_read_dir_res :: "bytes \<Rightarrow> read_dir_res option"
  unpack_stat_fs_res :: "bytes \<Rightarrow> stat_fs_res option"
  unpack_fh_status :: "bytes \<Rightarrow> fh_status option"

section \<open>What the procedures share\<close>

text \<open>\<open>rpc_reply->rbody->areply\<close>; \<^term>\<open>None\<close> when one of the pointers is \<open>NULL\<close> or is not the member
  of the union that the reply has.\<close>

definition accepted_reply_of :: "rpc_msg option \<Rightarrow> accepted_reply option" where
  "accepted_reply_of rpc_reply =
    (case rpc_reply of
       None \<Rightarrow> None
     | Some m \<Rightarrow>
         (case rpc_body m of
            Rpc_Rbody (Some b) \<Rightarrow> (case rbody_reply b of Reply_Areply a \<Rightarrow> a | _ \<Rightarrow> None)
          | _ \<Rightarrow> None))"

definition procedure_results :: "accepted_reply \<Rightarrow> any_msg option" where
  "procedure_results a = (case areply_data a of Reply_Results r \<Rightarrow> r | _ \<Rightarrow> None)"

definition unpack_results :: "string \<Rightarrow> (bytes \<Rightarrow> 'a option) \<Rightarrow> any_msg option \<Rightarrow> ('c, int, 'a) cprog" where
  "unpack_results results_type unpack results =
    cbind (csome results (-1)) (\<lambda>any.
    cbind (cguard (type_url any = Some results_type) (-2)) (\<lambda>_.
    csome (unpack (any_value any)) (-3)))"

text \<open>A call with one argument, and the checks on its reply.\<close>

definition call_procedure ::
  "'c remote \<Rightarrow> u32 \<Rightarrow> u32 \<Rightarrow> string \<Rightarrow> bytes \<Rightarrow> string \<Rightarrow> (bytes \<Rightarrow> 'a option) \<Rightarrow> ('c, int, 'a) cprog" where
  "call_procedure rc program procedure args_type args_buffer results_type unpack =
    cbind (invoke_rpc_remote rc program 2 procedure
      \<lparr>type_url = Some args_type, any_value = args_buffer\<rparr>) (\<lambda>rpc_reply.
    cbind (cderef (validate_successful_accepted_reply rpc_reply)) (\<lambda>error_code.
    cbind (cguard (error_code = 0) (int error_code)) (\<lambda>_.
    cbind (cderef (accepted_reply_of rpc_reply)) (\<lambda>accepted_reply.
    unpack_results results_type unpack (procedure_results accepted_reply)))))"

text \<open>
  The NULL procedures look into the accepted reply before they look at the validation code.  Their
  parameters are an empty \<open>Any\<close>, whose \<open>type_url\<close> is the empty string of protobuf-c.
\<close>

definition call_null_procedure :: "'c remote \<Rightarrow> u32 \<Rightarrow> string \<Rightarrow> ('c, int, unit) cprog" where
  "call_null_procedure rc program results_type =
    cbind (invoke_rpc_remote rc program 2 0 \<lparr>type_url = Some '''', any_value = []\<rparr>) (\<lambda>rpc_reply.
    cbind (cderef (validate_successful_accepted_reply rpc_reply)) (\<lambda>error_code.
    cbind (cderef (accepted_reply_of rpc_reply)) (\<lambda>accepted_reply.
    cbind (cguard (error_code = 0) (int error_code)) (\<lambda>_.
    cbind (csome (procedure_results accepted_reply) (-1)) (\<lambda>any.
    cguard (type_url any = Some results_type) (-2))))))"

section \<open>NFS procedures\<close>

definition nfs_procedure_0_do_nothing :: "'c remote \<Rightarrow> ('c, int, unit) cprog" where
  "nfs_procedure_0_do_nothing rc = call_null_procedure rc NFS_RPC_PROGRAM_NUMBER ''nfs/None''"

definition nfs_procedure_1_get_file_attributes ::
  "'c remote \<Rightarrow> client_codec \<Rightarrow> fhandle \<Rightarrow> ('c, int, attr_stat) cprog" where
  "nfs_procedure_1_get_file_attributes rc cb fhandle =
    call_procedure rc NFS_RPC_PROGRAM_NUMBER 1 ''nfs/FHandle'' (pack_fhandle cb fhandle)
      ''nfs/AttrStat'' (unpack_attr_stat cb)"

definition nfs_procedure_2_set_file_attributes ::
  "'c remote \<Rightarrow> client_codec \<Rightarrow> sattr_args \<Rightarrow> ('c, int, attr_stat) cprog" where
  "nfs_procedure_2_set_file_attributes rc cb sattrargs =
    call_procedure rc NFS_RPC_PROGRAM_NUMBER 2 ''nfs/SAttrArgs'' (pack_sattr_args cb sattrargs)
      ''nfs/AttrStat'' (unpack_attr_stat cb)"

definition nfs_procedure_4_look_up_file_name ::
  "'c remote \<Rightarrow> client_codec \<Rightarrow> dir_op_args \<Rightarrow> ('c, int, dir_op_res) cprog" where
  "nfs_procedure_4_look_up_file_name rc cb diropargs =
    call_procedure rc NFS_RPC_PROGRAM_NUMBER 4 ''nfs/DirOpArgs'' (pack_dir_op_args cb diropargs)
      ''nfs/DirOpRes'' (unpack_dir_op_res cb)"

definition nfs_procedure_5_read_from_symbolic_link ::
  "'c remote \<Rightarrow> client_codec \<Rightarrow> fhandle \<Rightarrow> ('c, int, read_link_res) cprog" where
  "nfs_procedure_5_read_from_symbolic_link rc cb fhandle =
    call_procedure rc NFS_RPC_PROGRAM_NUMBER 5 ''nfs/FHandle'' (pack_fhandle cb fhandle)
      ''nfs/ReadLinkRes'' (unpack_read_link_res cb)"

definition nfs_procedure_6_read_from_file ::
  "'c remote \<Rightarrow> client_codec \<Rightarrow> read_args \<Rightarrow> ('c, int, read_res) cprog" where
  "nfs_procedure_6_read_from_file rc cb readargs =
    call_procedure rc NFS_RPC_PROGRAM_NUMBER 6 ''nfs/ReadArgs'' (pack_read_args cb readargs)
      ''nfs/ReadRes'' (unpack_read_res cb)"

definition nfs_procedure_8_write_to_file ::
  "'c remote \<Rightarrow> client_codec \<Rightarrow> write_args \<Rightarrow> ('c, int, attr_stat) cprog" where
  "nfs_procedure_8_write_to_file rc cb writeargs =
    call_procedure rc NFS_RPC_PROGRAM_NUMBER 8 ''nfs/WriteArgs'' (pack_write_args cb writeargs)
      ''nfs/AttrStat'' (unpack_attr_stat cb)"

definition nfs_procedure_9_create_file ::
  "'c remote \<Rightarrow> client_codec \<Rightarrow> create_args \<Rightarrow> ('c, int, dir_op_res) cprog" where
  "nfs_procedure_9_create_file rc cb createargs =
    call_procedure rc NFS_RPC_PROGRAM_NUMBER 9 ''nfs/CreateArgs'' (pack_create_args cb createargs)
      ''nfs/DirOpRes'' (unpack_dir_op_res cb)"

definition nfs_procedure_10_remove_file ::
  "'c remote \<Rightarrow> client_codec \<Rightarrow> dir_op_args \<Rightarrow> ('c, int, nfs_stat) cprog" where
  "nfs_procedure_10_remove_file rc cb diropargs =
    call_procedure rc NFS_RPC_PROGRAM_NUMBER 10 ''nfs/DirOpArgs'' (pack_dir_op_args cb diropargs)
      ''nfs/NfsStat'' (unpack_nfs_stat cb)"

definition nfs_procedure_11_rename_file ::
  "'c remote \<Rightarrow> client_codec \<Rightarrow> rename_args \<Rightarrow> ('c, int, nfs_stat) cprog" where
  "nfs_procedure_11_rename_file rc cb renameargs =
    call_procedure rc NFS_RPC_PROGRAM_NUMBER 11 ''nfs/RenameArgs'' (pack_rename_args cb renameargs)
      ''nfs/NfsStat'' (unpack_nfs_stat cb)"

definition nfs_procedure_12_create_link_to_file ::
  "'c remote \<Rightarrow> client_codec \<Rightarrow> link_args \<Rightarrow> ('c, int, nfs_stat) cprog" where
  "nfs_procedure_12_create_link_to_file rc cb linkargs =
    call_procedure rc NFS_RPC_PROGRAM_NUMBER 12 ''nfs/LinkArgs'' (pack_link_args cb linkargs)
      ''nfs/NfsStat'' (unpack_nfs_stat cb)"

definition nfs_procedure_13_create_symbolic_link ::
  "'c remote \<Rightarrow> client_codec \<Rightarrow> symlink_args \<Rightarrow> ('c, int, nfs_stat) cprog" where
  "nfs_procedure_13_create_symbolic_link rc cb symlinkargs =
    call_procedure rc NFS_RPC_PROGRAM_NUMBER 13 ''nfs/SymLinkArgs'' (pack_symlink_args cb symlinkargs)
      ''nfs/NfsStat'' (unpack_nfs_stat cb)"

definition nfs_procedure_14_create_directory ::
  "'c remote \<Rightarrow> client_codec \<Rightarrow> create_args \<Rightarrow> ('c, int, dir_op_res) cprog" where
  "nfs_procedure_14_create_directory rc cb createargs =
    call_procedure rc NFS_RPC_PROGRAM_NUMBER 14 ''nfs/CreateArgs'' (pack_create_args cb createargs)
      ''nfs/DirOpRes'' (unpack_dir_op_res cb)"

definition nfs_procedure_15_remove_directory ::
  "'c remote \<Rightarrow> client_codec \<Rightarrow> dir_op_args \<Rightarrow> ('c, int, nfs_stat) cprog" where
  "nfs_procedure_15_remove_directory rc cb diropargs =
    call_procedure rc NFS_RPC_PROGRAM_NUMBER 15 ''nfs/DirOpArgs'' (pack_dir_op_args cb diropargs)
      ''nfs/NfsStat'' (unpack_nfs_stat cb)"

definition nfs_procedure_16_read_from_directory ::
  "'c remote \<Rightarrow> client_codec \<Rightarrow> readdir_args \<Rightarrow> ('c, int, read_dir_res) cprog" where
  "nfs_procedure_16_read_from_directory rc cb readdirargs =
    call_procedure rc NFS_RPC_PROGRAM_NUMBER 16 ''nfs/ReadDirArgs'' (pack_readdir_args cb readdirargs)
      ''nfs/ReadDirRes'' (unpack_read_dir_res cb)"

definition nfs_procedure_17_get_filesystem_attributes ::
  "'c remote \<Rightarrow> client_codec \<Rightarrow> fhandle \<Rightarrow> ('c, int, stat_fs_res) cprog" where
  "nfs_procedure_17_get_filesystem_attributes rc cb fhandle =
    call_procedure rc NFS_RPC_PROGRAM_NUMBER 17 ''nfs/FHandle'' (pack_fhandle cb fhandle)
      ''nfs/StatFsRes'' (unpack_stat_fs_res cb)"

section \<open>Mount procedures\<close>

definition mount_procedure_0_do_nothing :: "'c remote \<Rightarrow> ('c, int, unit) cprog" where
  "mount_procedure_0_do_nothing rc = call_null_procedure rc MOUNT_RPC_PROGRAM_NUMBER ''mount/None''"

definition mount_procedure_1_add_mount_entry ::
  "'c remote \<Rightarrow> client_codec \<Rightarrow> path_msg \<Rightarrow> ('c, int, fh_status) cprog" where
  "mount_procedure_1_add_mount_entry rc cb dirpath =
    call_procedure rc MOUNT_RPC_PROGRAM_NUMBER 1 ''mount/DirPath'' (pack_dir_path cb dirpath)
      ''mount/FhStatus'' (unpack_fh_status cb)"

lemmas nfs_procedure_defs = nfs_procedure_1_get_file_attributes_def
  nfs_procedure_2_set_file_attributes_def nfs_procedure_4_look_up_file_name_def
  nfs_procedure_5_read_from_symbolic_link_def nfs_procedure_6_read_from_file_def
  nfs_procedure_8_write_to_file_def nfs_procedure_9_create_file_def nfs_procedure_10_remove_file_def
  nfs_procedure_11_rename_file_def nfs_procedure_12_create_link_to_file_def
  nfs_procedure_13_create_symbolic_link_def nfs_procedure_14_create_directory_def
  nfs_procedure_15_remove_directory_def nfs_procedure_16_read_from_directory_def
  nfs_procedure_17_get_filesystem_attributes_def mount_procedure_1_add_mount_entry_def

end
