(* ===== verification/Client_Server.thy ===== *)
theory Client_Server
  imports Rpc_Safety Nfs_Client
begin

text \<open>
  A client and a server joined by a TCP connection.  \<open>client_view\<close> is the specification of a procedure of
  the clients: what it makes of the reply that the server sent.
\<close>

section \<open>What a client makes of a reply\<close>

definition client_view :: "string \<Rightarrow> (bytes \<Rightarrow> 'a option) \<Rightarrow> reply_body \<Rightarrow> int + 'a" where
  "client_view results_type unpack body =
    (case rbody_reply body of
       Reply_Areply (Some a) \<Rightarrow>
         if areply_stat a = SUCCESS then
           (case procedure_results a of
              None \<Rightarrow> Inl (-1)
            | Some any \<Rightarrow>
                if type_url any \<noteq> Some results_type then Inl (-2)
                else (case unpack (any_value any) of None \<Rightarrow> Inl (-3) | Some x \<Rightarrow> Inr x))
         else Inl (if areply_stat a = PROG_MISMATCH then 4 else 5)
     | Reply_Rreply (Some r) \<Rightarrow> Inl (if rreply_stat r = RPC_MISMATCH then 2 else 3)
     | _ \<Rightarrow> Inl 1)"

definition ctl_of_sum :: "'r + 'a \<Rightarrow> ('r, 'a) ctl" where
  "ctl_of_sum x = (case x of Inl r \<Rightarrow> Return r | Inr a \<Rightarrow> Go a)"

lemma structure_cases:
  assumes "validate_rpc_reply_structure (Some (reply_message x body)) = Some 0"
  obtains r where "rbody_reply body = Reply_Rreply (Some r)"
  | a where "rbody_reply body = Reply_Areply (Some a)" "validate_accepted a = 0"
  using assms
  by (auto simp: validate_rpc_reply_structure_def reply_message_def
      split: if_splits reply_case.splits option.splits)

lemma validated_code:
  assumes "validate_rpc_reply_structure (Some (reply_message x body)) = Some 0"
  shows "validate_successful_accepted_reply (Some (reply_message x body)) =
    (case rbody_reply body of
       Reply_Rreply (Some r) \<Rightarrow> Some (if rreply_stat r = RPC_MISMATCH then 2 else 3)
     | Reply_Areply (Some a) \<Rightarrow>
         Some (if areply_stat a = SUCCESS then 0 else if areply_stat a = PROG_MISMATCH then 4 else 5)
     | _ \<Rightarrow> None)"
  using assms by (simp add: validate_successful_accepted_reply_def)
    (simp add: reply_message_def)

text \<open>
  What a client needs of its transport: while a reply is on its way (\<open>awaits\<close>), a call goes out and
  that reply comes back; \<open>called\<close> relates the states before and after.
\<close>

locale remote_call =
  fixes rc :: "'c remote"
    and awaits :: "u32 \<Rightarrow> u32 \<Rightarrow> any_msg \<Rightarrow> 'c \<Rightarrow> u32 \<Rightarrow> reply_body \<Rightarrow> bool"
    and called :: "u32 \<Rightarrow> u32 \<Rightarrow> any_msg \<Rightarrow> 'c \<Rightarrow> 'c \<Rightarrow> bool"
  assumes invoke_answered: "awaits program procedure params c x body \<Longrightarrow>
    \<exists>c'. (invoke_rpc_remote rc program 2 procedure params :: ('c, int, rpc_msg option) cprog) c =
      (Go (Some (reply_message x body)), c') \<and> called program procedure params c c'"
begin

lemma call_procedure_view:
  assumes "awaits program procedure \<lparr>type_url = Some args_type, any_value = buf\<rparr> c x body"
    and "validate_rpc_reply_structure (Some (reply_message x body)) = Some 0"
  shows "\<exists>c'. call_procedure rc program procedure args_type buf results_type unpack c =
    (ctl_of_sum (client_view results_type unpack body), c') \<and>
    called program procedure \<lparr>type_url = Some args_type, any_value = buf\<rparr> c c'"
proof -
  obtain c' where c': "(invoke_rpc_remote rc program 2 procedure
        \<lparr>type_url = Some args_type, any_value = buf\<rparr> :: ('c, int, rpc_msg option) cprog) c =
      (Go (Some (reply_message x body)), c')"
    "called program procedure \<lparr>type_url = Some args_type, any_value = buf\<rparr> c c'"
    using invoke_answered [OF assms(1)] by blast
  from assms(2) have "call_procedure rc program procedure args_type buf results_type unpack c =
    (ctl_of_sum (client_view results_type unpack body), c')"
  proof (cases rule: structure_cases)
    case (1 r)
    then show ?thesis
      using c'(1) validated_code [OF assms(2)]
      by (simp add: call_procedure_def cbind_def cderef_def cgo_def cguard_def creturn_def
          ctl_of_sum_def client_view_def)
  next
    case (2 a)
    then have "accepted_reply_of (Some (reply_message x body)) = Some a"
      by (simp add: accepted_reply_of_def reply_message_def)
    then show ?thesis
      using 2 c'(1) validated_code [OF assms(2)]
      by (simp add: call_procedure_def cbind_def cderef_def cgo_def cguard_def creturn_def csome_def
          ctl_of_sum_def client_view_def unpack_results_def split: option.splits)
  qed
  with c'(2) show ?thesis by blast
qed

lemma null_procedure_crash:
  assumes "awaits program 0 \<lparr>type_url = Some [], any_value = []\<rparr> c x (denied_body r)"
  shows "fst (call_null_procedure rc program results_type c) = UB"
proof -
  obtain c' where "(invoke_rpc_remote rc program 2 0 \<lparr>type_url = Some [], any_value = []\<rparr>
      :: ('c, int, rpc_msg option) cprog) c = (Go (Some (reply_message x (denied_body r))), c')"
    using invoke_answered [OF assms] by blast
  then show ?thesis
    by (simp add: call_null_procedure_def cbind_def cderef_def cgo_def cub_def accepted_reply_of_def
        reply_message_def denied_body_def split: option.splits)
qed

end

section \<open>A client next to its server\<close>

text \<open>
  \<open>direct_remote\<close> takes the transport out of the picture: the answer of the server, as its specification
  gives it, is the reply that the client gets.
\<close>

definition direct_invoke ::
  "codec \<Rightarrow> opaque_auth option \<Rightarrow> opaque_auth option \<Rightarrow> u32 \<Rightarrow> u32 \<Rightarrow> u32 \<Rightarrow> any_msg \<Rightarrow>
   (server, rpc_msg option, rpc_msg option) cprog" where
  "direct_invoke pb cred verf program version procedure params = (\<lambda>s.
    (case answer pb (create_call_body cred verf program version procedure params) s of
       None \<Rightarrow> (UB, s)
     | Some (code, body, s') \<Rightarrow> (Return (Some (reply_message 0 body)), s')))"

definition direct_remote :: "codec \<Rightarrow> opaque_auth option \<Rightarrow> opaque_auth option \<Rightarrow> server remote" where
  "direct_remote pb cred verf =
    \<lparr>remote_protocol = (\<lambda>_. Some TRANSPORT_PROTOCOL_TCP),
     remote_tcp = direct_invoke pb cred verf,
     remote_quic = (\<lambda>program version procedure params _. direct_invoke pb cred verf program version procedure params)\<rparr>"

interpretation direct_call: remote_call "direct_remote pb cred verf"
    "\<lambda>program procedure params s x body. x = 0 \<and>
      (\<exists>code s'. answer pb (create_call_body cred verf program 2 procedure params) s = Some (code, body, s'))"
    "\<lambda>program procedure params s s'.
      \<exists>code body. answer pb (create_call_body cred verf program 2 procedure params) s = Some (code, body, s')"
  for pb cred verf
  by unfold_locales (auto simp: invoke_rpc_remote_def direct_remote_def direct_invoke_def control_defs)

lemma wrapped_structure:
  "validate_rpc_reply_structure (Some (reply_message x (accepted_body (Some
    (wrap_procedure_results_in_successful_accepted_reply results url))))) = Some 0"
  by (rule reply_structure) (simp add: validate_accepted_def validate_reply_verifier_def
      wrap_procedure_results_in_successful_accepted_reply_def create_auth_none_opaque_auth_def)

text \<open>A procedure whose program answers with packed results goes on with what they unpack to.\<close>

lemma direct_served:
  assumes "refusal (create_call_body cred verf program 2 procedure \<lparr>type_url = Some args_type, any_value = buf\<rparr>) = None"
    and "run_program pb (create_call_body cred verf program 2 procedure \<lparr>type_url = Some args_type, any_value = buf\<rparr>) s =
      (Return (Some (wrap_procedure_results_in_successful_accepted_reply results results_type)), s')"
    and "unpack results = Some r"
  shows "call_procedure (direct_remote pb cred verf) program procedure args_type buf results_type unpack s = (Go r, s')"
proof -
  let ?body = "accepted_body (Some (wrap_procedure_results_in_successful_accepted_reply results results_type))"
  have a: "answer pb (create_call_body cred verf program 2 procedure \<lparr>type_url = Some args_type, any_value = buf\<rparr>) s =
      Some (0, ?body, s')" using assms(1,2) by (simp add: answer_def)
  have "client_view results_type unpack ?body = Inr r"
    using assms(3) by (simp add: client_view_def accepted_body_def procedure_results_def
        wrap_procedure_results_in_successful_accepted_reply_def)
  then show ?thesis
    using direct_call.call_procedure_view [of 0 pb cred verf program procedure args_type buf s ?body results_type unpack] a
      wrapped_structure by (auto simp: ctl_of_sum_def)
qed

section \<open>A client with a TCP connection\<close>

text \<open>The round trip of the serialisation library, for one message.\<close>

definition carried :: "codec \<Rightarrow> rpc_msg \<Rightarrow> bool" where
  "carried pb m \<longleftrightarrow> pack_rpc_msg pb m \<noteq> [] \<and> unpack_rpc_msg pb (pack_rpc_msg pb m) = Some m"

definition tcp_awaits :: "codec \<Rightarrow> bytes \<Rightarrow> tcp_caller \<Rightarrow> u32 \<Rightarrow> reply_body \<Rightarrow> bool" where
  "tcp_awaits pb rest t x body \<longleftrightarrow>
    map_option ctx_transport_protocol (tc_context t) = Some TRANSPORT_PROTOCOL_TCP \<and>
    codec_bounded pb \<and> carried pb (reply_message x body) \<and>
    (case tcp_socket (tc_context t) of
       None \<Rightarrow> False
     | Some conn \<Rightarrow> sends_progress conn \<and> healthy (conn_in conn) \<and>
         arrived (conn_in conn) = rm_encode (pack_rpc_msg pb (reply_message x body)) @ rest)"

text \<open>The call that a context makes, and what making it does to the connection.\<close>

definition call_of :: "tcp_caller \<Rightarrow> u32 \<Rightarrow> u32 \<Rightarrow> any_msg \<Rightarrow> call_body" where
  "call_of t program procedure params =
    (case tc_context t of
       None \<Rightarrow> create_call_body None None program 2 procedure params
     | Some c \<Rightarrow> create_call_body (ctx_credential c) (ctx_verifier c) program 2 procedure params)"

definition tcp_called :: "codec \<Rightarrow> bytes \<Rightarrow> u32 \<Rightarrow> u32 \<Rightarrow> any_msg \<Rightarrow> tcp_caller \<Rightarrow> tcp_caller \<Rightarrow> bool" where
  "tcp_called pb rest program procedure params t t' \<longleftrightarrow>
    (\<exists>conn conn'. tcp_socket (tc_context t) = Some conn \<and> tcp_socket (tc_context t') = Some conn' \<and>
      conn_out conn' = conn_out conn @
        rm_encode (pack_rpc_msg pb (call_message (tc_xid t) (call_of t program procedure params))) \<and>
      arrived (conn_in conn') = rest \<and> healthy (conn_in conn') \<and> sends_progress conn' \<and>
      tc_xid t' = tc_xid t + 1)"

lemma send_record_ok:
  assumes "codec_bounded pb" and "sends_progress conn"
  shows "\<exists>conn'. send_rm_record_tcp (pack_rpc_msg pb m) (of_nat (length (pack_rpc_msg pb m))) conn = (0, conn') \<and>
    sends_progress conn' \<and> conn_out conn' = conn_out conn @ rm_encode (pack_rpc_msg pb m) \<and>
    conn_in conn' = conn_in conn"
proof -
  let ?buf = "pack_rpc_msg pb m"
  have n: "unat (of_nat (length ?buf) :: u64) = length ?buf"
    using assms(1) by (simp add: codec_bounded_def unat_of_nat)
  obtain c' where "send_rm_record_tcp ?buf (of_nat (length ?buf)) conn = (0, c')"
    "sends_progress c'" "conn_out c' = conn_out conn @ rm_encode ?buf"
    using tcp_sender.send_fragments_encodes [OF assms(2) _ n, of 0] by (auto simp: send_rm_record_tcp_def)
  moreover from this have "conn_in c' = conn_in conn"
    using send_rm_record_in [of ?buf "of_nat (length ?buf)" conn] by simp
  ultimately show ?thesis by blast
qed

lemma receive_record_ok:
  assumes "codec_bounded pb" and "carried pb m" and "healthy (conn_in conn)"
    and "arrived (conn_in conn) = rm_encode (pack_rpc_msg pb m) @ rest"
  shows "\<exists>conn'. receive_rm_record_tcp conn = (Some (pack_rpc_msg pb m), conn') \<and>
    healthy (conn_in conn') \<and> arrived (conn_in conn') = rest \<and> conn_out conn' = conn_out conn \<and>
    conn_sends conn' = conn_sends conn"
  using receive_fragments_decodes [OF assms(3,4), of 0 "[]" None "conn_junk conn"] assms(1,2)
  by (fastforce simp: receive_rm_record_tcp_def carried_def codec_bounded_def)

lemma tcp_socket_set:
  "tc_context t \<noteq> None \<Longrightarrow> tcp_socket (tc_context (set_tcp_socket conn t)) = Some conn"
  by (auto simp: tcp_socket_def set_tcp_socket_def)

lemma invoke_tcp_answered:
  assumes "tcp_awaits pb rest t x body"
  shows "\<exists>t'. (invoke_rpc_remote (tcp_remote pb) program 2 procedure params :: (tcp_caller, int, rpc_msg option) cprog) t =
      (Go (Some (reply_message x body)), t') \<and> tcp_called pb rest program procedure params t t'"
proof -
  let ?msg = "call_message (tc_xid t) (call_of t program procedure params)"
  obtain ctx conn where a: "tc_context t = Some ctx" "ctx_transport_protocol ctx = TRANSPORT_PROTOCOL_TCP"
      "tcp_socket (tc_context t) = Some conn" "sends_progress conn" "healthy (conn_in conn)"
      "arrived (conn_in conn) = rm_encode (pack_rpc_msg pb (reply_message x body)) @ rest"
      "codec_bounded pb" "carried pb (reply_message x body)"
    using assms by (auto simp: tcp_awaits_def split: option.splits)
  obtain c1 where c1: "send_rm_record_tcp (pack_rpc_msg pb ?msg) (of_nat (length (pack_rpc_msg pb ?msg))) conn = (0, c1)"
    "sends_progress c1" "conn_out c1 = conn_out conn @ rm_encode (pack_rpc_msg pb ?msg)" "conn_in c1 = conn_in conn"
    using send_record_ok [OF a(7,4)] by blast
  obtain c2 where c2: "receive_rm_record_tcp c1 = (Some (pack_rpc_msg pb (reply_message x body)), c2)"
    "healthy (conn_in c2)" "arrived (conn_in c2) = rest" "conn_out c2 = conn_out c1" "conn_sends c2 = conn_sends c1"
    using receive_record_ok [OF a(7,8), of c1 rest] a(5,6) c1(4) by auto
  let ?t = "set_tcp_socket c2 (t\<lparr>tc_xid := tc_xid t + 1\<rparr>)"
  have "invoke_rpc_remote_tcp pb program 2 procedure params t = (Return (Some (reply_message x body)), ?t)"
    using a c1(1) c2(1)
    by (simp add: invoke_rpc_remote_tcp_def execute_rpc_call_tcp_def control_defs generate_rpc_xid_def
        call_of_def deserialize_rpc_msg_def carried_def)
  moreover have "tcp_called pb rest program procedure params t ?t"
    using a c1 c2 tcp_socket_set [of "t\<lparr>tc_xid := tc_xid t + 1\<rparr>" c2]
    by (simp add: tcp_called_def sends_progress_def set_tcp_socket_def)
  ultimately show ?thesis
    using a(1,2) by (simp add: invoke_rpc_remote_def tcp_remote_def control_defs)
qed

interpretation tcp_call: remote_call "tcp_remote pb" "\<lambda>_ _ _. tcp_awaits pb rest" "tcp_called pb rest" for pb rest
  by unfold_locales (rule invoke_tcp_answered)


section \<open>A client and a server\<close>

lemma server_answers:
  assumes "arrived (conn_in (th_conn s)) = rm_encode (pack_rpc_msg pb (call_message x call)) @ rest"
    and "healthy (conn_in (th_conn s))" and "sends_progress (th_conn s)"
    and "codec_bounded pb" and "carried pb (call_message x call)"
    and "answer pb call (th_server s) = Some (code, body, srv)"
  shows "\<exists>s'. process_single_rpc_tcp pb s = (Return code, s') \<and> th_server s' = srv \<and>
    conn_out (th_conn s') =
      conn_out (th_conn s) @ rm_encode (pack_rpc_msg pb (reply_message (th_xid s) body)) \<and>
    arrived (conn_in (th_conn s')) = rest"
proof -
  have "pack_rpc_msg pb (call_message x call) \<noteq> []" "length (pack_rpc_msg pb (call_message x call)) < 2 ^ 64"
    and "unpack_rpc_msg pb (pack_rpc_msg pb (call_message x call)) =
      Some \<lparr>xid = x, mtype = CALL, rpc_body = Rpc_Cbody (Some call)\<rparr>"
    using assms(4,5) by (auto simp: carried_def codec_bounded_def call_message_def)
  from process_single_rpc_call [OF assms(1,2) this] obtain es where es:
    "process_single_rpc_tcp pb s = reply_to_call pb call (s\<lparr>th_conn := (th_conn s)\<lparr>conn_in := es\<rparr>\<rparr>)"
    "arrived es = rest" by blast
  let ?s = "s\<lparr>th_conn := (th_conn s)\<lparr>conn_in := es\<rparr>\<rparr>"
  have "codec_bounded pb \<and> sends_progress (th_conn ?s)" "answer pb call (th_server ?s) = Some (code, body, srv)"
    using assms(3,4,6) by (simp_all add: sends_progress_def)
  from tcp_transport.answer_call_refines [OF this] show ?thesis
    using es by (auto simp: reply_to_call_answer replied_def)
qed

text \<open>
  A client and a server share a connection: the record of the call is what the server reads next, and
  the record of the reply is what the client reads next, in whatever pieces they arrive.
\<close>

definition linked :: "codec \<Rightarrow> tcp_caller \<Rightarrow> tcp_thread \<Rightarrow> call_body \<Rightarrow> reply_body \<Rightarrow> bool" where
  "linked pb t s call body \<longleftrightarrow>
    arrived (conn_in (th_conn s)) = rm_encode (pack_rpc_msg pb (call_message (tc_xid t) call)) \<and>
    healthy (conn_in (th_conn s)) \<and> sends_progress (th_conn s) \<and>
    carried pb (call_message (tc_xid t) call) \<and> tcp_awaits pb [] t (th_xid s) body"

text \<open>
  C2: A remote call, end to end.  If the server's answer to a call of the client is \<open>body\<close> (in the
  specification), then the server sends that answer and changes its state accordingly, and the procedure
  of the client ends with exactly what the client makes of \<open>body\<close>: the unpacked results, or the code for
  the refusal.  The only assumption on the serialisation library is that the two messages survive packing
  and unpacking.
\<close>

theorem remote_call_end_to_end:
  assumes "call = call_of t program procedure \<lparr>type_url = Some args_type, any_value = buf\<rparr>"
    and "linked pb t s call body" and "sessions_ok (th_server s)"
    and "answer pb call (th_server s) = Some (code, body, srv)"
  shows "\<exists>s' t'. process_single_rpc_tcp pb s = (Return code, s') \<and> th_server s' = srv \<and>
    conn_out (th_conn s') =
      conn_out (th_conn s) @ rm_encode (pack_rpc_msg pb (reply_message (th_xid s) body)) \<and>
    call_procedure (tcp_remote pb) program procedure args_type buf results_type unpack t =
      (ctl_of_sum (client_view results_type unpack body), t') \<and>
    tcp_called pb [] program procedure \<lparr>type_url = Some args_type, any_value = buf\<rparr> t t'"
proof -
  have l: "arrived (conn_in (th_conn s)) = rm_encode (pack_rpc_msg pb (call_message (tc_xid t) call)) @ []"
    "healthy (conn_in (th_conn s))" "sends_progress (th_conn s)" "carried pb (call_message (tc_xid t) call)"
    "tcp_awaits pb [] t (th_xid s) body" "codec_bounded pb"
    using assms(2) by (simp_all add: linked_def tcp_awaits_def)
  have "call_params call \<noteq> None"
    using assms(1) by (simp add: call_of_def create_call_body_def split: option.splits)
  then have "validate_rpc_reply_structure (Some (reply_message (th_xid s) body)) = Some 0"
    using answer_ok [OF assms(3), of call pb "th_xid s"] assms(4) by auto
  from tcp_call.call_procedure_view [OF l(5) this] server_answers [OF l(1-3,6,4) assms(4)]
  show ?thesis by blast
qed

section \<open>GETATTR through the network\<close>

lemma getattr_serves:
  assumes "get_absolute_path_from_inode_number ino (inode_cache srv) = Some path"
    and "sys_lstat path (server_os srv) = (Inr st, os')"
    and "unpack_fhandle pb buf = Some \<lparr>fhandle_nfs_filehandle = Some \<lparr>inode_number = ino, fh_timestamp = ts\<rparr>\<rparr>"
    and "valid_auth_sys cred"
  shows "serve_nfs_procedure_1_get_file_attributes pb cred verf
      (Some \<lparr>type_url = Some ''nfs/FHandle'', any_value = buf\<rparr>) srv =
    (Return (Some (wrap_procedure_results_in_successful_accepted_reply
       (pack_attr_stat pb (ok_result (fattr_of_stat st))) ''nfs/AttrStat'')), srv\<lparr>server_os := os'\<rparr>)"
proof -
  obtain a where "cred = Some \<lparr>flavor = AUTH_SYS, auth_body = Auth_Body_Auth_Sys (Some a)\<rparr>"
    using valid_auth_sysE [OF assms(4)] by blast
  then show ?thesis
    using assms(1-3)
    by (simp add: serve_nfs_procedure_1_get_file_attributes_def decode_params_def decode_fhandle_def
        not_null_def path_of_inode_def permission_gate_def check_path_def on_os_def auth_sys_of_def
        check_getattr_proc_permissions_def attributes_of_def get_attributes_def reply_def control_defs)
qed

lemma getattr_answer:
  assumes "get_absolute_path_from_inode_number ino (inode_cache srv) = Some path"
    and "sys_lstat path (server_os srv) = (Inr st, os')"
    and "unpack_fhandle pb buf = Some \<lparr>fhandle_nfs_filehandle = Some \<lparr>inode_number = ino, fh_timestamp = ts\<rparr>\<rparr>"
    and "call = call_of t NFS_RPC_PROGRAM_NUMBER 1 \<lparr>type_url = Some ''nfs/FHandle'', any_value = buf\<rparr>"
    and "refusal call = None"
  shows "answer pb call srv = Some (0, accepted_body (Some
      (wrap_procedure_results_in_successful_accepted_reply
        (pack_attr_stat pb (ok_result (fattr_of_stat st))) ''nfs/AttrStat'')), srv\<lparr>server_os := os'\<rparr>)"
proof -
  have p: "call_prog call = NFS_RPC_PROGRAM_NUMBER" "call_vers call = 2" "call_proc call = 1"
    "call_params call = Some \<lparr>type_url = Some ''nfs/FHandle'', any_value = buf\<rparr>"
    by (auto simp: assms(4) call_of_def create_call_body_def split: option.splits)
  then have "valid_auth_sys (call_credential call)" using unrefused_credential [OF assms(5)] by simp
  from getattr_serves [OF assms(1-3) this] show ?thesis
    using assms(5) p by (simp add: answer_def run_program_def forward_rpc_call_to_program_def call_nfs_def)
qed


section \<open>An example\<close>

text \<open>A client with a connection on which the record \<open>[2]\<close> arrives, and the call it makes.\<close>

definition ex_client :: tcp_caller where
  "ex_client =
    \<lparr>tc_context = Some
       \<lparr>server_ipv4_addr = ''192.168.100.1'', server_port = 3000, ctx_credential = ex_cred 1000,
        ctx_verifier = ex_verf, ctx_transport_protocol = TRANSPORT_PROTOCOL_TCP,
        transport_connection = Some (Some \<lparr>tcp_rpc_client_socket_fd =
          Some (ex_conn [Takes 2] [Arrives [0x80, 0], Arrives [0, 1, 2]])\<rparr>)\<rparr>,
     tc_xid = 7\<rparr>"

definition ex_getattr_call :: call_body where
  "ex_getattr_call = create_call_body (ex_cred 1000) ex_verf NFS_RPC_PROGRAM_NUMBER 2 1
    \<lparr>type_url = Some ''nfs/FHandle'', any_value = []\<rparr>"

definition ex_getattr_body :: reply_body where
  "ex_getattr_body = accepted_body (Some
    (wrap_procedure_results_in_successful_accepted_reply [0] ''nfs/AttrStat''))"

text \<open>A library that packs calls to \<open>[1]\<close> and replies to \<open>[2]\<close>.\<close>

definition ex_link_codec :: codec where
  "ex_link_codec = ex_codec
    \<lparr>pack_rpc_msg := (\<lambda>m. if mtype m = CALL then [1] else [2]),
     unpack_rpc_msg := (\<lambda>b. if b = [1] then Some (call_message 7 ex_getattr_call)
                            else Some (reply_message 1 ex_getattr_body))\<rparr>"

definition ex_served :: tcp_thread where
  "ex_served = \<lparr>th_server = ex_server, th_conn = ex_conn [] [Arrives [0x80, 0, 0, 1, 1]], th_xid = 1\<rparr>"

lemmas ex_link_defs = ex_client_def ex_getattr_call_def ex_getattr_body_def ex_link_codec_def
  ex_served_def ex_conn_def

definition ex_stat :: stat_t where
  "ex_stat = stat_of ex_os 4 (ex_inode (Regular [1, 2, 3]) 0x1A4 1000 1)"

lemma ex_linked: "linked ex_link_codec ex_client ex_served ex_getattr_call ex_getattr_body"
proof -
  have "rm_encode [k] = [0x80, 0, 0, 1, k]" for k by (simp add: rm_encode.simps [of "[k]"] be_bytes_def)
  moreover have "carried ex_link_codec (call_message 7 ex_getattr_call)"
    and "carried ex_link_codec (reply_message 1 ex_getattr_body)"
    by (simp_all add: carried_def ex_link_codec_def call_message_def reply_message_def)
  ultimately show ?thesis
    by (simp add: linked_def tcp_awaits_def ex_link_defs call_message_def reply_message_def healthy_def
        sends_progress_def codec_bounded_def tcp_socket_def)
qed

lemma ex_lstat: "sys_lstat ''/d/f'' ex_os = (Inr ex_stat, ex_os)"
  by (simp add: handler_eval ex_stat_def)

lemma ex_unrefused: "refusal ex_getattr_call = None"
  by (simp add: refusal_def ex_getattr_call_def create_call_body_def credential_error_def verifier_error_def
      ex_defs create_auth_none_opaque_auth_def)

lemma ex_sessions: "sessions_ok (th_server ex_served)"
  by (simp add: ex_served_def ex_server_def sessions_ok_def named_def)

theorem remote_call_end_to_end_witness:
  "\<exists>s' t'. process_single_rpc_tcp ex_link_codec ex_served = (Return 0, s') \<and>
    call_procedure (tcp_remote ex_link_codec) NFS_RPC_PROGRAM_NUMBER 1 ''nfs/FHandle'' []
      ''nfs/AttrStat'' Some ex_client = (Go [0], t')"
proof -
  have call: "ex_getattr_call = call_of ex_client NFS_RPC_PROGRAM_NUMBER 1
      \<lparr>type_url = Some ''nfs/FHandle'', any_value = []\<rparr>"
    by (simp add: call_of_def ex_getattr_call_def ex_client_def)
  have "answer ex_link_codec ex_getattr_call (th_server ex_served) =
      Some (0, accepted_body (Some (wrap_procedure_results_in_successful_accepted_reply
        (pack_attr_stat ex_link_codec (ok_result (fattr_of_stat ex_stat))) ''nfs/AttrStat'')),
        (th_server ex_served)\<lparr>server_os := ex_os\<rparr>)"
    by (rule getattr_answer [OF _ _ _ call ex_unrefused, of 4 _ "''/d/f''" _ _ _ 100])
      (simp_all add: ex_served_def ex_server_def ex_lstat ex_link_codec_def ex_codec_def ex_fhandle_def)
  moreover have "pack_attr_stat ex_link_codec (ok_result (fattr_of_stat ex_stat)) = [0]"
    by (simp add: ex_link_codec_def ex_codec_def ex_status_def ok_result_def)
  ultimately have "answer ex_link_codec ex_getattr_call (th_server ex_served) =
      Some (0, ex_getattr_body, (th_server ex_served)\<lparr>server_os := ex_os\<rparr>)"
    by (simp add: ex_getattr_body_def)
  from remote_call_end_to_end [OF call ex_linked ex_sessions this, of "''nfs/AttrStat''" Some]
  show ?thesis
    by (auto simp: ctl_of_sum_def client_view_def ex_getattr_body_def accepted_body_def procedure_results_def
        wrap_procedure_results_in_successful_accepted_reply_def)
qed

definition ex_client_codec :: client_codec where
  "ex_client_codec =
    \<lparr>pack_fhandle = (\<lambda>_. []), pack_sattr_args = (\<lambda>_. []), pack_dir_op_args = (\<lambda>_. []),
     pack_read_args = (\<lambda>_. []), pack_write_args = (\<lambda>_. []), pack_create_args = (\<lambda>_. []),
     pack_rename_args = (\<lambda>_. []), pack_link_args = (\<lambda>_. []), pack_symlink_args = (\<lambda>_. []),
     pack_readdir_args = (\<lambda>_. []), pack_dir_path = (\<lambda>_. []),
     unpack_attr_stat = (\<lambda>_. Some (ok_result (fattr_of_stat ex_stat))),
     unpack_dir_op_res = (\<lambda>_. None), unpack_read_link_res = (\<lambda>_. None), unpack_read_res = (\<lambda>_. None),
     unpack_nfs_stat = (\<lambda>_. Some NFS_OK), unpack_read_dir_res = (\<lambda>_. None),
     unpack_stat_fs_res = (\<lambda>_. None), unpack_fh_status = (\<lambda>_. None)\<rparr>"


section \<open>The server goes away\<close>

lemma lost_call:
  assumes "tc_context t = Some c" and "ctx_transport_protocol c = TRANSPORT_PROTOCOL_TCP"
    and "tcp_socket (Some c) = Some conn" and "conn_in conn = []"
    and "codec_bounded pb" and "sends_progress conn"
  shows "\<exists>t'. (invoke_rpc_remote (tcp_remote pb) program 2 procedure params :: (tcp_caller, int, rpc_msg option) cprog) t =
    (Go None, t')"
proof -
  let ?m = "call_message (tc_xid t) (create_call_body (ctx_credential c) (ctx_verifier c) program 2 procedure params)"
  obtain c1 where "send_rm_record_tcp (pack_rpc_msg pb ?m) (of_nat (length (pack_rpc_msg pb ?m))) conn = (0, c1)"
    "conn_in c1 = []"
    using send_record_ok [OF assms(5,6), of ?m] assms(4) by auto
  then show ?thesis
    using assms(1-3)
    by (simp add: invoke_rpc_remote_def tcp_remote_def invoke_rpc_remote_tcp_def execute_rpc_call_tcp_def
        generate_rpc_xid_def control_defs receive_rm_record_tcp_def receive_fragments.simps [of _ None 0 "[]"]
        receive_bytes_tcp_def receive_bytes_loop.simps [of _ 0 _ "[]"])
qed


definition ex_lost :: "tcp_client option rpc_connection_context" where
  "ex_lost = \<lparr>server_ipv4_addr = ''192.168.100.1'', server_port = 3000, ctx_credential = ex_cred 1000,
    ctx_verifier = ex_verf, ctx_transport_protocol = TRANSPORT_PROTOCOL_TCP,
    transport_connection = Some (Some \<lparr>tcp_rpc_client_socket_fd = Some (ex_conn [] [])\<rparr>)\<rparr>"


end
