(* ===== verification/Server_Facts.thy ===== *)
theory Server_Facts
  imports Rpc_Answering Server_Frames
begin

text \<open>
  What the procedures do when nothing fails: LOOKUP finds the entry of a directory, GETATTR describes an
  inode, READ returns a slice of a file and WRITE replaces one.  The lemmas speak about inodes rather than
  paths; the cache gives the path that leads to an inode.
\<close>

section \<open>Paths and inodes\<close>

lemma walk_snoc:
  assumes "walk fs rt False k cur cs = Inr d" and "symlink_target fs d = None"
  shows "walk fs rt False k cur (cs @ [n]) = lookup_entry fs d n"
  using assms
proof (induction fs rt False k cur cs rule: walk.induct)
  case (1 fs rt k cur)
  then show ?case by (auto split: sum.splits option.splits)
next
  case (2 fs rt k cur c cs)
  show ?case
  proof (cases "lookup_entry fs cur c")
    case (Inl e)
    then show ?thesis using 2 by simp
  next
    case (Inr i)
    show ?thesis
    proof (cases "symlink_target fs i")
      case None
      then show ?thesis using 2 Inr by simp
    next
      case (Some t)
      then have "cs \<noteq> []" using 2(3,4) Inr by auto
      then obtain k' where "k = Suc k'" "t \<noteq> []" using 2(3) Inr Some
        by (cases k) (auto split: if_splits)
      then show ?thesis using 2 Inr Some \<open>cs \<noteq> []\<close> by (simp split: if_splits)
    qed
  qed
qed

lemma walk_follow:
  assumes "walk fs rt False k cur cs = Inr d" and "symlink_target fs d = None"
  shows "walk fs rt True k cur cs = Inr d"
  using assms
proof (induction fs rt False k cur cs rule: walk.induct)
  case (2 fs rt k cur c cs)
  show ?case
  proof (cases "lookup_entry fs cur c")
    case (Inl e)
    then show ?thesis using 2 by simp
  next
    case (Inr i)
    show ?thesis
    proof (cases "symlink_target fs i")
      case None
      then show ?thesis using 2 Inr by simp
    next
      case (Some t)
      then have "cs \<noteq> []" using 2(3,4) Inr by auto
      then obtain k' where "k = Suc k'" "t \<noteq> []" using 2(3) Inr Some
        by (cases k) (auto split: if_splits)
      then show ?thesis using 2 Inr Some \<open>cs \<noteq> []\<close> by (simp split: if_splits)
    qed
  qed
qed simp

text \<open>A path without a slash behind its last component.\<close>

definition clean_path :: "string \<Rightarrow> bool" where
  "clean_path p \<longleftrightarrow> p \<noteq> [] \<and> path_components p = raw_components p"

lemma raw_components_child:
  assumes "n \<noteq> []" and "CHR ''/'' \<notin> set n"
  shows "raw_components (p @ ''/'' @ n) = raw_components p @ [n]"
  using assms split_on_append [of "CHR ''/''" p n] by (simp add: raw_components_def)

lemma clean_child:
  assumes "p \<noteq> []" and "n \<noteq> []" and "CHR ''/'' \<notin> set n"
  shows "clean_path (p @ ''/'' @ n)" and "path_components (p @ ''/'' @ n) = raw_components p @ [n]"
proof -
  have "last n \<noteq> CHR ''/''" using assms(2,3) last_in_set by metis
  then have "last (p @ ''/'' @ n) \<noteq> CHR ''/''" using assms(2) by simp
  then show "path_components (p @ ''/'' @ n) = raw_components p @ [n]"
    using raw_components_child [OF assms(2,3), of p] by (simp add: path_components_def Let_def)
  then show "clean_path (p @ ''/'' @ n)"
    using raw_components_child [OF assms(2,3), of p] assms by (simp add: clean_path_def)
qed

lemma start_dir_child: "p \<noteq> [] \<Longrightarrow> start_dir os (p @ q) = start_dir os p"
  by (simp add: start_dir_def is_absolute_def)

lemma resolve_child:
  assumes "resolve os False p = Inr d" and "symlink_target (os_inodes os) d = None" and "clean_path p"
    and "n \<noteq> []" and "CHR ''/'' \<notin> set n" and "length p + length n + 1 < PATH_MAX"
  shows "resolve os False (p @ ''/'' @ n) = lookup_entry (os_inodes os) d n"
proof -
  have p: "p \<noteq> []" "path_components p = raw_components p" using assms(3) by (auto simp: clean_path_def)
  have "walk (os_inodes os) (os_root os) False MAXSYMLINKS (start_dir os p) (raw_components p) = Inr d"
    using assms(1) p by (simp add: resolve_def split: if_splits)
  from walk_snoc [OF this assms(2), of n] show ?thesis
    using clean_child(2) [OF p(1) assms(4,5)] start_dir_child [OF p(1)] p assms(6)
    by (simp add: resolve_def)
qed

lemma resolve_follow:
  assumes "resolve os False p = Inr d" and "symlink_target (os_inodes os) d = None"
  shows "resolve os True p = Inr d"
  using assms walk_follow by (auto simp: resolve_def split: if_splits)

section \<open>A server at work\<close>

text \<open>
  No system call is going to fail, and the cached paths lead to their inodes; \<open>k\<close> bounds the length of
  these paths.
\<close>

definition serving :: "nat \<Rightarrow> server \<Rightarrow> bool" where
  "serving k s \<longleftrightarrow>
    os_faults (server_os s) = [] \<and> sessions_ok s \<and> cache_consistent s \<and>
    (\<forall>m \<in> set (inode_cache s). clean_path (absolute_path m) \<and> length (absolute_path m) \<le> k)"

definition cached :: "server \<Rightarrow> ino_t \<Rightarrow> bool" where
  "cached s i \<longleftrightarrow> i \<in> mapping_ino ` set (inode_cache s)"

definition root_credential :: "opaque_auth option \<Rightarrow> bool" where
  "root_credential cred \<longleftrightarrow> credential_error cred = None \<and>
    (\<exists>a. cred = Some \<lparr>flavor = AUTH_SYS, auth_body = Auth_Body_Auth_Sys (Some a)\<rparr> \<and> auth_uid a = 0)"

lemma root_credentialE:
  assumes "root_credential cred"
  obtains a where "cred = Some \<lparr>flavor = AUTH_SYS, auth_body = Auth_Body_Auth_Sys (Some a)\<rparr>" "auth_uid a = 0"
  using assms by (auto simp: root_credential_def)

lemma servingD:
  assumes "serving k s"
  shows "os_faults (server_os s) = []" and "sessions_ok s" and "cache_consistent s"
  using assms by (simp_all add: serving_def)

lemma serving_mono: "serving k s \<Longrightarrow> k \<le> k' \<Longrightarrow> serving k' s"
  by (fastforce simp: serving_def)

lemma cachedE:
  assumes "cached s i" and "serving k s"
  obtains p where "get_absolute_path_from_inode_number i (inode_cache s) = Some p"
    and "resolve (server_os s) False p = Inr i" and "clean_path p" and "length p \<le> k"
proof -
  obtain m where m: "List.find (\<lambda>m. mapping_ino m = i) (inode_cache s) = Some m"
    using assms(1) find_None_conv [of "\<lambda>m. mapping_ino m = i" "inode_cache s"]
    by (cases "List.find (\<lambda>m. mapping_ino m = i) (inode_cache s)") (auto simp: cached_def)
  from find_SomeD [OF m] show thesis
    using assms(2) m by (intro that [of "absolute_path m"])
      (auto simp: get_path_conv serving_def cache_consistent_def)
qed

text \<open>Attributes, the type and the permission of a path that leads to an inode.\<close>

lemma lstat_resolved:
  assumes "os_faults os = []" and "resolve os False p = Inr i" and "os_inodes os i = Some nd"
  shows "sys_lstat p os = (Inr (stat_of os i nd), os)"
  using assms by (simp add: sys_lstat_def os_lstat_def)

lemma st_ino_stat_of [simp]: "st_ino (stat_of os i nd) = i"
  by (simp add: stat_of_def)

lemma attributes_of_resolved:
  assumes "os_faults (server_os s) = []" and "resolve (server_os s) False p = Inr i"
    and "os_inodes (server_os s) i = Some nd"
  shows "attributes_of p s = (Go (fattr_of_stat (stat_of (server_os s) i nd)), s)"
  using lstat_resolved [OF assms] by (simp add: attributes_of_def on_os_def get_attributes_def control_defs)

lemma type_of_resolved:
  assumes "os_faults (server_os s) = []" and "resolve (server_os s) False p = Inr i"
    and "os_inodes (server_os s) i = Some nd"
  shows "type_of p s = (Go (content_ftype (i_content nd)), s)"
  using attributes_of_resolved [OF assms]
  by (simp add: type_of_def cbind_def cderef_def cgo_def fattr_of_stat_def)

lemma path_of_cached:
  assumes "get_absolute_path_from_inode_number i (inode_cache s) = Some p"
  shows "path_of_inode fail i s = (Go p, s)"
  using assms by (simp add: path_of_inode_def control_defs)

lemma root_gate:
  assumes "root_credential cred"
    and "\<And>uid gid os. uid = 0 \<Longrightarrow> check path uid gid os = (0, os)"
  shows "permission_gate fail cred (check_path check path) s = (Go (), s)"
  using assms by (elim root_credentialE)
    (simp add: permission_gate_def auth_sys_of_def check_path_def on_os_def control_defs)

lemmas root_checks = proc_permission_defs check_root_user_def

section \<open>LOOKUP\<close>

text \<open>The handle of a file that exists: the one in the cache, or a new one that goes into the cache.\<close>

lemma lookup_filehandle_runs:
  assumes "serving k s" and "resolve (server_os s) False p = Inr i" and "os_inodes (server_os s) i = Some nd"
    and "clean_path p" and "k \<le> k'" and "length p \<le> k'"
  shows "\<exists>fh s'. lookup_filehandle p i s = (Go fh, s') \<and> inode_number fh = i \<and> serving k' s' \<and>
    cached s' i \<and> server_os s' = server_os s \<and> (\<forall>j. cached s j \<longrightarrow> cached s' j)"
proof (cases "List.find (\<lambda>m. mapping_ino m = i) (inode_cache s)")
  case None
  let ?fh = "\<lparr>inode_number = i, fh_timestamp = tv_sec (os_clock (server_os s))\<rparr>"
  let ?s = "s\<lparr>inode_cache := \<lparr>nfs_fh = ?fh, absolute_path = p\<rparr> # inode_cache s\<rparr>"
  have "lookup_filehandle p i s = (Go ?fh, ?s)"
    using None lstat_resolved [OF servingD(1) [OF assms(1)] assms(2,3)]
    by (simp add: lookup_filehandle_def make_filehandle_def create_nfs_filehandle_def get_inode_number_def
        get_fh_conv add_inode_mapping_def control_defs Let_def)
  moreover have "serving k' ?s"
    using assms by (auto simp: serving_def cache_consistent_def sessions_ok_def)
  ultimately show ?thesis by (intro exI [of _ ?fh] exI [of _ ?s]) (simp add: cached_def)
next
  case (Some m)
  then have "mapping_ino m = i" "m \<in> set (inode_cache s)" using find_SomeD by force+
  then show ?thesis
    using Some serving_mono [OF assms(1,5)]
    by (auto simp: lookup_filehandle_def get_fh_conv control_defs cached_def)
qed

text \<open>What LOOKUP answers, given the entry of the directory.\<close>

definition lookup_reply :: "codec \<Rightarrow> nfs_filehandle \<Rightarrow> stat_t \<Rightarrow> accepted_reply" where
  "lookup_reply pb fh st = wrap_procedure_results_in_successful_accepted_reply
    (pack_dir_op_res pb (ok_result \<lparr>diropok_file = Some \<lparr>fhandle_nfs_filehandle = Some fh\<rparr>,
       diropok_attributes = Some (fattr_of_stat st)\<rparr>)) ''nfs/DirOpRes''"

lemma directory_path_cached:
  assumes "serving k s" and "get_absolute_path_from_inode_number d (inode_cache s) = Some p"
    and "resolve (server_os s) False p = Inr d" and "dir_entries (os_inodes (server_os s)) d = Inr es"
  shows "directory_path fail d s = (Go p, s)"
proof -
  obtain nd where "os_inodes (server_os s) d = Some nd" "i_content nd = Directory es"
    using assms(4) by (auto simp: dir_entries_def split: option.splits content.splits)
  then show ?thesis
    using path_of_cached [OF assms(2)] type_of_resolved [OF servingD(1) [OF assms(1)] assms(3)]
    by (simp add: directory_path_def cbind_def cgo_def)
qed

lemma entries_no_symlink: "dir_entries fs d = Inr es \<Longrightarrow> symlink_target fs d = None"
  by (auto simp: dir_entries_def symlink_target_def split: option.splits content.splits)

lemma lookup_entry_inode: "lookup_entry fs d n = Inr i \<Longrightarrow> fs i \<noteq> None"
  by (auto simp: lookup_entry_def split: sum.splits if_splits option.splits)

lemma lookup_runs:
  assumes "serving k s" and "cached s d" and "dir_entries (os_inodes (server_os s)) d = Inr es"
    and "n \<noteq> []" and "CHR ''/'' \<notin> set n" and "k + length n + 1 < PATH_MAX"
    and "unpack_dir_op_args pb buf = Some
      \<lparr>dirop_dir = Some \<lparr>fhandle_nfs_filehandle = Some dh\<rparr>, dirop_name = Some (Some n)\<rparr>"
    and "inode_number dh = d" and "root_credential cred"
  shows "\<exists>r s'. serve_nfs_procedure_4_look_up_file_name pb cred verf
      (Some \<lparr>type_url = Some ''nfs/DirOpArgs'', any_value = buf\<rparr>) s = (Return (Some r), s') \<and>
    serving (k + length n + 1) s' \<and> server_os s' = server_os s \<and> (\<forall>j. cached s j \<longrightarrow> cached s' j) \<and>
    (case lookup_entry (os_inodes (server_os s)) d n of
       Inr i \<Rightarrow> cached s' i \<and> (\<exists>fh nd. inode_number fh = i \<and> os_inodes (server_os s) i = Some nd \<and>
         r = lookup_reply pb fh (stat_of (server_os s) i nd))
     | Inl e \<Rightarrow> if e = ENOENT
         then r = wrap_procedure_results_in_successful_accepted_reply
           (pack_dir_op_res pb (error_result NFSERR_NOENT)) ''nfs/DirOpRes''
         else Some r = create_system_error_accepted_reply)"
proof -
  obtain p where p: "get_absolute_path_from_inode_number d (inode_cache s) = Some p"
    "resolve (server_os s) False p = Inr d" "clean_path p" "length p \<le> k"
    using cachedE [OF assms(2,1)] by blast
  let ?q = "p @ ''/'' @ n"
  have q: "resolve (server_os s) False ?q = lookup_entry (os_inodes (server_os s)) d n"
    using resolve_child [OF p(2) entries_no_symlink [OF assms(3)] p(3) assms(4,5)] p(4) assms(6) by simp
  have dir: "decode_params ''nfs/DirOpArgs'' (unpack_dir_op_args pb)
        (Some \<lparr>type_url = Some ''nfs/DirOpArgs'', any_value = buf\<rparr>) s =
      (Go \<lparr>dirop_dir = Some \<lparr>fhandle_nfs_filehandle = Some dh\<rparr>, dirop_name = Some (Some n)\<rparr>, s)"
    "decode_dir_op (Some \<lparr>dirop_dir = Some \<lparr>fhandle_nfs_filehandle = Some dh\<rparr>, dirop_name = Some (Some n)\<rparr>) s =
      (Go (d, n), s)"
    "directory_path fail d s = (Go p, s)" for fail
    using assms(7,8) directory_path_cached [OF assms(1) p(1,2) assms(3)]
    by (simp_all add: decode_params_def decode_dir_op_def decode_fhandle_def not_null_def control_defs)
  note f = servingD(1) [OF assms(1)]
  have mono: "serving (k + length n + 1) s" using serving_mono [OF assms(1)] by simp
  show ?thesis
  proof (cases "lookup_entry (os_inodes (server_os s)) d n")
    case (Inl e)
    then have "existing_path fail p n s = (if e = ENOENT then fail NFSERR_NOENT s else system_error s)" for fail
      using q f by (simp add: existing_path_def get_file_absolute_path_def on_os_def sys_lstat_def os_lstat_def
          control_defs Let_def)
    then show ?thesis
      using Inl dir mono by (simp add: serve_nfs_procedure_4_look_up_file_name_def cbind_def fail_dir_op_res_def
          reply_ptr_def reply_def default_case_defs creturn_def system_error_def create_system_error_accepted_reply_def
          create_default_case_accepted_reply_def)
  next
    case (Inr i)
    obtain nd where nd: "os_inodes (server_os s) i = Some nd" using lookup_entry_inode [OF Inr] by blast
    note res = q [unfolded Inr]
    have e: "existing_path fail p n s = (Go (?q, stat_of (server_os s) i nd), s)" for fail
      using lstat_resolved [OF f res nd]
      by (simp add: existing_path_def get_file_absolute_path_def on_os_def control_defs Let_def)
    have g: "permission_gate fail cred (check_path check_lookup_proc_permissions p) s = (Go (), s)" for fail
      by (rule root_gate [OF assms(9)]) (simp add: root_checks)
    have "p \<noteq> []" using p(3) by (simp add: clean_path_def)
    note clean = clean_child(1) [OF this assms(4,5)]
    have len: "k \<le> k + length n + 1" "length ?q \<le> k + length n + 1" using p(4) by simp_all
    obtain fh s' where s': "lookup_filehandle ?q i s = (Go fh, s')" "inode_number fh = i"
      "serving (k + length n + 1) s'" "cached s' i" "server_os s' = server_os s"
      "\<forall>j. cached s j \<longrightarrow> cached s' j"
      using lookup_filehandle_runs [OF assms(1) res nd clean len] by blast
    have a: "get_attributes ?q (server_os s') = (Inr (fattr_of_stat (stat_of (server_os s) i nd)), server_os s')"
      using lstat_resolved [OF f res nd] s'(5) by (simp add: get_attributes_def)
    have "serve_nfs_procedure_4_look_up_file_name pb cred verf
        (Some \<lparr>type_url = Some ''nfs/DirOpArgs'', any_value = buf\<rparr>) s =
      (Return (Some (lookup_reply pb fh (stat_of (server_os s) i nd))), s')"
      using dir e g s'(1) a by (simp add: serve_nfs_procedure_4_look_up_file_name_def cbind_def
          reply_dir_op_ok_def reply_def creturn_def lookup_reply_def on_os_def)
    moreover have "\<exists>fh' nd'. inode_number fh' = i \<and> os_inodes (server_os s) i = Some nd' \<and>
        lookup_reply pb fh (stat_of (server_os s) i nd) = lookup_reply pb fh' (stat_of (server_os s) i nd')"
      using s'(2) nd by blast
    ultimately show ?thesis using s'(3-6) Inr by (intro exI conjI) simp_all
  qed
qed

section \<open>READ and WRITE\<close>

lemma write_at_append:
  "write_at (off + length a) b (write_at off a d) = write_at off (a @ b) d"
  by (auto simp: write_at_def min_def not_le ac_simps)

lemma content_write_append:
  "content_write (off + length a) b (content_write off a c) = content_write off (a @ b) c"
  by (cases c) (simp_all add: write_at_append)

lemma file_write_append:
  "file_write i (off + length a) b (file_write i off a os) = file_write i off (a @ b) os"
  by (auto simp: file_write_def upd_inode_def touched_def map_content_def content_write_append split: option.splits)

text \<open>A regular file, and the state after a write to it.\<close>

definition holds_file :: "os \<Rightarrow> ino_t \<Rightarrow> bytes \<Rightarrow> bool" where
  "holds_file os i d \<longleftrightarrow> (\<exists>nd. os_inodes os i = Some nd \<and> i_content nd = Regular d)"

lemma holds_file_no_symlink: "holds_file os i d \<Longrightarrow> symlink_target (os_inodes os) i = None"
  by (auto simp: holds_file_def symlink_target_def)

lemma holds_file_write: "holds_file os i d \<Longrightarrow> holds_file (file_write i off new os) i (write_at off new d)"
  by (auto simp: holds_file_def file_write_def upd_inode_def write_at_def)

lemma file_write_fields [simp]:
  "os_faults (file_write i off new os) = os_faults os" "os_bufsize (file_write i off new os) = os_bufsize os"
  "os_clock (file_write i off new os) = os_clock os"
  by (simp_all add: file_write_def upd_inode_def split: option.splits)

lemma kernel_write_runs:
  assumes "os_faults os = []" and "holds_file os i d"
  shows "kernel_write i off new os =
    ((length new, None), file_write i off new os)"
  using assms by (auto simp: kernel_write_def next_fault_def file_bytes_def holds_file_def file_write_def)

lemma write_to_file_runs:
  assumes "os_faults os = []" and "resolve os True p = Inr i" and "holds_file os i d"
  shows "write_to_file (Some p) off data os = (0, file_write i off data os)"
proof -
  let ?n = "direct_part os (length data)"
  let ?os = "file_write i off (take ?n data) os"
  have n: "?n \<le> length data" by (simp add: direct_part_def)
  have "sys_fopen_update p os = (Inr i, os)"
    using assms by (auto simp: sys_fopen_update_def holds_file_def dir_entries_def)
  moreover have "sys_fseek os = (Inr (), os)" using assms(1) by (simp add: sys_fseek_def)
  moreover have "sys_fwrite i off data os = ((length data, None), ?os)"
    using kernel_write_runs [OF assms(1,3)] by (simp add: sys_fwrite_def)
  moreover have "sys_fclose i off data ?os = (None, file_write i (off + ?n) (drop ?n data) ?os)"
    using kernel_write_runs [OF _ holds_file_write [OF assms(3)]] assms(1)
    by (simp add: sys_fclose_def direct_part_def)
  ultimately show ?thesis
    using file_write_append [of i off "take ?n data" "drop ?n data" os] n
    by (simp add: write_to_file_def min_absorb2)
qed

lemma read_from_file_runs:
  assumes "os_faults os = []" and "resolve os True p = Inr i" and "holds_file os i d"
  shows "read_from_file (Some p) off n os = (Inr (take n (drop off d)), os)"
  using assms by (auto simp: read_from_file_def sys_fopen_read_def sys_fseek_def sys_fread_def next_fault_def
      file_bytes_def holds_file_def)

lemma decode_fhandle_some:
  "decode_fhandle (Some \<lparr>fhandle_nfs_filehandle = Some h\<rparr>) s = (Go (inode_number h), s)"
  by (simp add: decode_fhandle_def not_null_def control_defs)

lemma decode_params_some:
  "unpack buf = Some args \<Longrightarrow>
    decode_params url unpack (Some \<lparr>type_url = Some url, any_value = buf\<rparr>) s = (Go args, s)"
  by (simp add: decode_params_def control_defs)

lemma getattr_runs:
  assumes "serving k s" and "cached s (inode_number h)" and "os_inodes (server_os s) (inode_number h) = Some nd"
    and "unpack_fhandle pb buf = Some \<lparr>fhandle_nfs_filehandle = Some h\<rparr>" and "root_credential cred"
  shows "serve_nfs_procedure_1_get_file_attributes pb cred verf
      (Some \<lparr>type_url = Some ''nfs/FHandle'', any_value = buf\<rparr>) s =
    (Return (Some (wrap_procedure_results_in_successful_accepted_reply (pack_attr_stat pb
       (ok_result (fattr_of_stat (stat_of (server_os s) (inode_number h) nd)))) ''nfs/AttrStat'')), s)"
proof -
  obtain p where p: "get_absolute_path_from_inode_number (inode_number h) (inode_cache s) = Some p"
    "resolve (server_os s) False p = Inr (inode_number h)" using cachedE [OF assms(2,1)] by blast
  have "permission_gate fail cred (check_path check_getattr_proc_permissions p) s = (Go (), s)" for fail
    by (rule root_gate [OF assms(5)]) (simp add: root_checks)
  then show ?thesis
    using path_of_cached [OF p(1)] attributes_of_resolved [OF servingD(1) [OF assms(1)] p(2) assms(3)]
      decode_params_some [where unpack = "unpack_fhandle pb", OF assms(4)]
    by (simp add: serve_nfs_procedure_1_get_file_attributes_def cbind_def decode_fhandle_some reply_def creturn_def)
qed

lemma read_runs:
  assumes "serving k s" and "cached s (inode_number h)" and "os_inodes (server_os s) (inode_number h) = Some nd"
    and "i_content nd = Regular d"
    and "unpack_read_args pb buf = Some \<lparr>readargs_file = Some \<lparr>fhandle_nfs_filehandle = Some h\<rparr>,
      readargs_offset = off, readargs_count = n\<rparr>" and "root_credential cred"
  shows "serve_nfs_procedure_6_read_from_file pb cred verf
      (Some \<lparr>type_url = Some ''nfs/ReadArgs'', any_value = buf\<rparr>) s =
    (Return (Some (wrap_procedure_results_in_successful_accepted_reply (pack_read_res pb
       (ok_result \<lparr>readres_attributes = Some (fattr_of_stat (stat_of (server_os s) (inode_number h) nd)),
          readres_nfsdata = Data (take (min (unat n) NFS_MAXDATA) (drop (unat off) d))\<rparr>)) ''nfs/ReadRes'')), s)"
proof -
  note f = servingD(1) [OF assms(1)]
  obtain p where p: "get_absolute_path_from_inode_number (inode_number h) (inode_cache s) = Some p"
    "resolve (server_os s) False p = Inr (inode_number h)" using cachedE [OF assms(2,1)] by blast
  have reg: "holds_file (server_os s) (inode_number h) d" using assms(3,4) by (simp add: holds_file_def)
  have "permission_gate fail cred (check_path check_read_proc_permissions p) s = (Go (), s)" for fail
    by (rule root_gate [OF assms(6)]) (simp add: root_checks)
  then show ?thesis
    using path_of_cached [OF p(1)] attributes_of_resolved [OF f p(2) assms(3)] type_of_resolved [OF f p(2) assms(3)]
      read_from_file_runs [OF f resolve_follow [OF p(2) holds_file_no_symlink [OF reg]] reg] assms(4)
      decode_params_some [where unpack = "unpack_read_args pb", OF assms(5)]
    by (simp add: serve_nfs_procedure_6_read_from_file_def cbind_def decode_fhandle_some reply_def creturn_def
        on_os_def Let_def min_def)
qed

lemma serving_file_write:
  assumes "serving k s"
  shows "serving k (s\<lparr>server_os := file_write i off new (server_os s)\<rparr>)"
  using assms cache_consistent_grows [OF servingD(3) [OF assms] file_write_grows, of i off new]
  by (simp add: serving_def sessions_ok_def)

lemma write_runs:
  assumes "serving k s" and "cached s (inode_number h)" and "holds_file (server_os s) (inode_number h) d"
    and "unpack_write_args pb buf = Some \<lparr>writeargs_file = Some \<lparr>fhandle_nfs_filehandle = Some h\<rparr>,
      writeargs_offset = off, writeargs_nfsdata = Data new\<rparr>"
    and "length new \<le> NFS_MAXDATA" and "root_credential cred"
  shows "\<exists>st. serve_nfs_procedure_8_write_to_file pb cred verf
      (Some \<lparr>type_url = Some ''nfs/WriteArgs'', any_value = buf\<rparr>) s =
    (Return (Some (wrap_procedure_results_in_successful_accepted_reply (pack_attr_stat pb
       (ok_result (fattr_of_stat st))) ''nfs/AttrStat'')),
     s\<lparr>server_os := file_write (inode_number h) (unat off) new (server_os s)\<rparr>)"
proof -
  note f = servingD(1) [OF assms(1)]
  let ?i = "inode_number h"
  let ?s = "s\<lparr>server_os := file_write ?i (unat off) new (server_os s)\<rparr>"
  obtain p where p: "get_absolute_path_from_inode_number ?i (inode_cache s) = Some p"
    "resolve (server_os s) False p = Inr ?i" using cachedE [OF assms(2,1)] by blast
  obtain nd where nd: "os_inodes (server_os s) ?i = Some nd" "i_content nd = Regular d"
    using assms(3) by (auto simp: holds_file_def)
  have "m \<in> set (inode_cache s) \<Longrightarrow> absolute_path m = p \<Longrightarrow> mapping_ino m = ?i" for m
    using servingD(3) [OF assms(1)] p(2) by (auto simp: cache_consistent_def)
  then have p': "resolve (server_os ?s) False p = Inr ?i"
    using get_path_in [OF p(1)] servingD(3) [OF serving_file_write [OF assms(1)]]
    by (fastforce simp: cache_consistent_def)
  obtain nd' where nd': "os_inodes (server_os ?s) ?i = Some nd'"
    using holds_file_write [OF assms(3)] by (auto simp: holds_file_def)
  have "permission_gate fail cred (check_path check_write_proc_permissions p) s = (Go (), s)" for fail
    by (rule root_gate [OF assms(6)]) (simp add: root_checks)
  then show ?thesis
    using path_of_cached [OF p(1)] type_of_resolved [OF f p(2) nd(1)] nd(2) assms(5)
      write_to_file_runs [OF f resolve_follow [OF p(2) holds_file_no_symlink [OF assms(3)]] assms(3)]
      attributes_of_resolved [OF _ p' nd'] f
      decode_params_some [where unpack = "unpack_write_args pb", OF assms(4)]
    by (intro exI [of _ "stat_of (server_os ?s) ?i nd'"])
      (simp add: serve_nfs_procedure_8_write_to_file_def cbind_def decode_fhandle_some reply_def creturn_def
        on_os_def write_data_def cgo_def)
qed

end
