(* ===== verification/Fuse_Client.thy ===== *)
theory Fuse_Client
  imports Nfs_Client Posix Inode_Cache
begin

text \<open>
  The FUSE file system: path resolution (\<open>path_resolution.c\<close>), mounting (\<open>nfs_fuse.c\<close>) and the handlers
  (\<open>src/fuse/handlers\<close>).  Every handler starts a thread that runs a \<open>blocking_\<close> function and waits for
  it.  A \<open>blocking_\<close> function returns the code it leaves in \<open>callback_data->error_code\<close>, or goes on with
  what it leaves in the buffers of its caller when that code is 0.

  All handlers but one look at the status of the result after they have freed it when the status is
  neither NFS_OK nor NFSERR_ACCES: the model has no behaviour there (\<open>cub\<close>).
\<close>

section \<open>Error numbers\<close>

fun errno_code :: "errno \<Rightarrow> int" where
  "errno_code EPERM = 1" | "errno_code ENOENT = 2" | "errno_code EIO = 5" | "errno_code ENXIO = 6"
| "errno_code ENOMEM = 12" | "errno_code EACCES = 13" | "errno_code EBUSY = 16" | "errno_code EEXIST = 17"
| "errno_code EXDEV = 18" | "errno_code ENODEV = 19" | "errno_code ENOTDIR = 20" | "errno_code EISDIR = 21"
| "errno_code EINVAL = 22" | "errno_code EFBIG = 27" | "errno_code ENOSPC = 28" | "errno_code EROFS = 30"
| "errno_code EMLINK = 31" | "errno_code ENAMETOOLONG = 36" | "errno_code ENOTEMPTY = 39"
| "errno_code ELOOP = 40" | "errno_code ESTALE = 116" | "errno_code EDQUOT = 122"

fun map_nfs_error :: "nfs_stat \<Rightarrow> int" where
  "map_nfs_error NFS_OK = 0"
| "map_nfs_error NFSERR_PERM = - errno_code EPERM"
| "map_nfs_error NFSERR_NOENT = - errno_code ENOENT"
| "map_nfs_error NFSERR_IO = - errno_code EIO"
| "map_nfs_error NFSERR_NXIO = errno_code ENXIO"
| "map_nfs_error NFSERR_ACCES = - errno_code EACCES"
| "map_nfs_error NFSERR_EXIST = - errno_code EEXIST"
| "map_nfs_error NFSERR_NODEV = - errno_code ENODEV"
| "map_nfs_error NFSERR_NOTDIR = - errno_code ENOTDIR"
| "map_nfs_error NFSERR_ISDIR = - errno_code EISDIR"
| "map_nfs_error NFSERR_FBIG = - errno_code EFBIG"
| "map_nfs_error NFSERR_NOSPC = - errno_code ENOSPC"
| "map_nfs_error NFSERR_ROFS = - errno_code EROFS"
| "map_nfs_error NFSERR_NAMETOOLONG = - errno_code ENAMETOOLONG"
| "map_nfs_error NFSERR_NOTEMPTY = - errno_code ENOTEMPTY"
| "map_nfs_error NFSERR_DQUOT = - errno_code EDQUOT"
| "map_nfs_error NFSERR_STALE = - errno_code ESTALE"
| "map_nfs_error NFSERR_WFLUSH = - errno_code EIO"
| "map_nfs_error (NFS_STAT_UNNAMED _) = - errno_code EIO"

section \<open>The globals of the process\<close>

text \<open>
  The context is part of the state \<open>'c\<close>; its credential, which never changes, stands here, as do the
  serialisation library and the root handle that mounting stored.
\<close>

record 'c fuse =
  fuse_remote :: "'c remote"
  fuse_codec :: client_codec
  fuse_credential :: "opaque_auth option"
  filesystem_root_fhandle :: "fhandle option"

type_synonym ('c, 'a) blocking = "('c, int, 'a) cprog"

section \<open>Resolving a path\<close>

text \<open>\<open>strtok_r\<close> with the separator \<open>/\<close> gives the non-empty parts between slashes.\<close>

definition pathname_components :: "string \<Rightarrow> string list" where
  "pathname_components path = filter (\<lambda>c. c \<noteq> []) (split_on CHR ''/'' path)"

text \<open>The body of a result with status NFS_OK, a member of a union.\<close>

definition result_ok :: "'a nfs_result \<Rightarrow> ('c, 'r, 'a) cprog" where
  "result_ok r = (case result_body r of Body_Ok (Some x) \<Rightarrow> cgo x | _ \<Rightarrow> cub)"

definition lookup_component ::
  "'c fuse \<Rightarrow> fhandle \<Rightarrow> string \<Rightarrow> ('c, int, fhandle \<times> ftype) cprog" where
  "lookup_component f curr_fhandle component =
    cbind (ctry (nfs_procedure_4_look_up_file_name (fuse_remote f) (fuse_codec f)
      \<lparr>dirop_dir = Some curr_fhandle, dirop_name = Some (Some component)\<rparr>)) (\<lambda>res.
    case res of
      Inl status \<Rightarrow> creturn (errno_code EIO)
    | Inr diropres \<Rightarrow>
        cbind (cderef (validate_nfs_dir_op_res (Some diropres))) (\<lambda>invalid.
        cbind (cguard (invalid = 0) (errno_code EIO)) (\<lambda>_.
        cbind (cderef (nfs_status diropres)) (\<lambda>stat.
        if stat = NFSERR_ACCES then creturn (errno_code EACCES)
        else if stat \<noteq> NFS_OK then creturn (errno_code ENOENT)
        else
          cbind (result_ok diropres) (\<lambda>diropok.
          cbind (cderef (diropok_attributes diropok)) (\<lambda>attributes.
          cbind (cderef (fattr_nfs_ftype attributes)) (\<lambda>curr_ftype.
          cbind (cderef (diropok_file diropok)) (\<lambda>file.
          cbind (cderef (fhandle_nfs_filehandle file)) (\<lambda>nfs_filehandle.
          cgo (\<lparr>fhandle_nfs_filehandle = Some (deep_copy_nfs_filehandle nfs_filehandle)\<rparr>, curr_ftype))))))))))"

fun resolve_components ::
  "'c fuse \<Rightarrow> string list \<Rightarrow> fhandle \<Rightarrow> ftype \<Rightarrow> ('c, int, fhandle \<times> ftype) cprog" where
  "resolve_components f [] curr_fhandle curr_ftype = cgo (curr_fhandle, curr_ftype)"
| "resolve_components f (component # rest) curr_fhandle curr_ftype =
    (if curr_ftype \<noteq> NFDIR then creturn (errno_code ENOTDIR)
     else cbind (lookup_component f curr_fhandle component) (\<lambda>(fhandle, ftype).
       resolve_components f rest fhandle ftype))"

text \<open>The error code of the C function is returned; it is positive.\<close>

definition resolve_absolute_path ::
  "'c fuse \<Rightarrow> string option \<Rightarrow> ('c, int, fhandle \<times> ftype) cprog" where
  "resolve_absolute_path f path =
    cbind (cget (remote_protocol (fuse_remote f))) (\<lambda>context.
    cbind (csome context (errno_code EINVAL)) (\<lambda>_.
    cbind (csome (filesystem_root_fhandle f) (errno_code EINVAL)) (\<lambda>root.
    cbind (csome path (errno_code EINVAL)) (\<lambda>path.
    cbind (cguard (path \<noteq> [] \<and> hd path = CHR ''/'') (errno_code EINVAL)) (\<lambda>_.
    cbind (resolve_components f (pathname_components path) root NFDIR) (\<lambda>(fhandle, ftype).
    cbind (cderef (fhandle_nfs_filehandle fhandle)) (\<lambda>nfs_filehandle.
    cgo (\<lparr>fhandle_nfs_filehandle = Some (deep_copy_nfs_filehandle nfs_filehandle)\<rparr>, ftype))))))))"

section \<open>What the handlers share\<close>

text \<open>The start of every \<open>blocking_\<close> function.\<close>

definition resolve_or_fail :: "'c fuse \<Rightarrow> string \<Rightarrow> ('c, fhandle \<times> ftype) blocking" where
  "resolve_or_fail f path =
    cbind (ctry (resolve_absolute_path f (Some path))) (\<lambda>r.
    case r of Inl error_code \<Rightarrow> creturn (- error_code) | Inr file \<Rightarrow> cgo file)"

text \<open>
  A procedure and the checks on its result.  The handlers differ in what they do on an error: map the
  status (\<open>blocking_readdir\<close>), free the result and then read the status in it, or, in \<open>blocking_read\<close>,
  free an object that is on the stack of the caller.
\<close>

datatype on_error = Mapped | Mapped_After_Free | Frees_Stack

definition check_status :: "on_error \<Rightarrow> nfs_stat \<Rightarrow> ('c, unit) blocking" where
  "check_status mode stat =
    (if stat = NFS_OK then cgo ()
     else if mode = Frees_Stack then cub
     else if stat = NFSERR_ACCES then creturn (- errno_code EACCES)
     else if mode = Mapped_After_Free then cub
     else creturn (map_nfs_error stat))"

definition io_error :: "on_error \<Rightarrow> ('c, 'a) blocking" where
  "io_error mode = (if mode = Frees_Stack then cub else creturn (- errno_code EIO))"

definition call_and_check :: "on_error \<Rightarrow> ('a nfs_result option \<Rightarrow> nat option) \<Rightarrow>
    ('c, int, 'a nfs_result) cprog \<Rightarrow> ('c, 'a) blocking" where
  "call_and_check mode validate procedure =
    cbind (ctry procedure) (\<lambda>res.
    case res of
      Inl status \<Rightarrow> io_error mode
    | Inr result \<Rightarrow>
        cbind (cderef (validate (Some result))) (\<lambda>invalid.
        if invalid > 0 then io_error mode
        else
          cbind (cderef (nfs_status result)) (\<lambda>stat.
          cbind (check_status mode stat) (\<lambda>_. result_ok result))))"

definition call_and_check_stat :: "('c, int, nfs_stat) cprog \<Rightarrow> ('c, unit) blocking" where
  "call_and_check_stat procedure =
    cbind (ctry procedure) (\<lambda>res.
    case res of
      Inl status \<Rightarrow> io_error Mapped_After_Free
    | Inr nfsstat \<Rightarrow>
        if validate_nfs_nfs_stat (Some nfsstat) > 0 then io_error Mapped_After_Free
        else check_status Mapped_After_Free nfsstat)"

text \<open>
  The thread of a handler: when it cannot be created the handler returns -EIO, otherwise it waits for
  the \<open>blocking_\<close> function to finish.
\<close>

definition run_blocking :: "bool \<Rightarrow> ('c, 'a) blocking \<Rightarrow> ('c, 'r, int + 'a) cprog" where
  "run_blocking created blocking =
    (if created then ctry blocking else cgo (Inl (- errno_code EIO)))"

text \<open>The \<open>int\<close> that a handler returns.\<close>

definition result_code :: "int + 'a \<Rightarrow> int" where
  "result_code r = (case r of Inl e \<Rightarrow> e | Inr _ \<Rightarrow> 0)"

text \<open>A number of bytes, a \<open>size_t\<close>, as the \<open>int\<close> that FUSE expects.\<close>

definition result_count :: "int + bytes \<Rightarrow> int" where
  "result_count r = (case r of Inl e \<Rightarrow> e | Inr bs \<Rightarrow> sint (of_nat (length bs) :: 32 word))"

section \<open>\<open>dirname\<close> and \<open>basename\<close>\<close>

definition strip_trailing_slashes :: "string \<Rightarrow> string" where
  "strip_trailing_slashes p = rev (dropWhile (\<lambda>c. c = CHR ''/'') (rev p))"

definition dirname :: "string \<Rightarrow> string" where
  "dirname p =
    (if CHR ''/'' \<notin> set p then ''.''
     else if strip_trailing_slashes p = [] then ''/''
     else
       (let q = strip_trailing_slashes p in
        if CHR ''/'' \<notin> set q then ''.''
        else
          (let d = strip_trailing_slashes (rev (dropWhile (\<lambda>c. c \<noteq> CHR ''/'') (rev q)))
           in if d = [] then ''/'' else d)))"

definition basename :: "string \<Rightarrow> string" where
  "basename p =
    (if p = [] then ''.''
     else if strip_trailing_slashes p = [] then ''/''
     else rev (takeWhile (\<lambda>c. c \<noteq> CHR ''/'') (rev (strip_trailing_slashes p))))"

definition containing_directory :: "string \<Rightarrow> string" where
  "containing_directory path = (if dirname path = ''.'' then ''/'' else dirname path)"

end
