(* ===== verification/Fuse_Handlers.thy ===== *)
theory Fuse_Handlers
  imports Fuse_Client
begin

text \<open>
  The FUSE handlers for attributes, directories and data, one section per file of \<open>src/fuse/handlers\<close>.  In
  each section the \<open>blocking_\<close> function comes first, then the handler that libfuse calls; the first
  argument of a handler says whether its thread could be created.

  The loops of READ and READDIR go on until the server says that there is nothing more, so they need not
  end: they are partial functions with \<^term>\<open>None\<close> for a loop that runs forever, and a handler that waits
  for such a loop has no result.
\<close>

definition or_wait :: "('c \<Rightarrow> (('r, 'a) ctl \<times> 'c) option) \<Rightarrow> ('c, 'r, 'a) cprog" where
  "or_wait m = (\<lambda>c. case m c of None \<Rightarrow> (UB, c) | Some r \<Rightarrow> r)"

section \<open>\<open>fuse_getattr.c\<close>\<close>

definition stat_of_fattr :: "fattr \<Rightarrow> ('c, 'r, stat_t) cprog" where
  "stat_of_fattr a =
    cbind (cderef (fattr_atime a)) (\<lambda>atime.
    cbind (cderef (fattr_mtime a)) (\<lambda>mtime.
    cbind (cderef (fattr_ctime a)) (\<lambda>ctime.
    cgo \<lparr>st_dev = fattr_fsid a, st_ino = fattr_fileid a, st_mode = fattr_mode a,
         st_nlink = fattr_nlink a, st_uid = fattr_uid a, st_gid = fattr_gid a, st_rdev = fattr_rdev a,
         st_size = fattr_size a, st_blksize = fattr_blocksize a, st_blocks = fattr_blocks a,
         st_atim = \<lparr>tv_sec = seconds atime, tv_nsec = useconds atime\<rparr>,
         st_mtim = \<lparr>tv_sec = seconds mtime, tv_nsec = useconds mtime\<rparr>,
         st_ctim = \<lparr>tv_sec = seconds ctime, tv_nsec = useconds ctime\<rparr>\<rparr>)))"

definition blocking_getattr :: "'c fuse \<Rightarrow> string \<Rightarrow> ('c, stat_t) blocking" where
  "blocking_getattr f path =
    cbind (resolve_or_fail f path) (\<lambda>(file_fhandle, file_type).
    cbind (call_and_check Mapped_After_Free validate_nfs_attr_stat
      (nfs_procedure_1_get_file_attributes (fuse_remote f) (fuse_codec f) file_fhandle))
    stat_of_fattr)"

definition nfs_getattr :: "bool \<Rightarrow> 'c fuse \<Rightarrow> string \<Rightarrow> ('c, unit, int \<times> stat_t option) cprog" where
  "nfs_getattr created f path =
    cbind (run_blocking created (blocking_getattr f path)) (\<lambda>r.
    cgo (result_code r, case r of Inl _ \<Rightarrow> None | Inr st \<Rightarrow> Some st))"

section \<open>\<open>fuse_readdir.c\<close>\<close>

abbreviation READDIR_BYTES_PER_RPC :: u32 where "READDIR_BYTES_PER_RPC \<equiv> 500"

fun collect_entries :: "directory_entry list \<Rightarrow> string list \<times> u64 \<Rightarrow> (string list \<times> u64) option" where
  "collect_entries [] (names, offset_cookie) = Some (names, offset_cookie)"
| "collect_entries (e # es) (names, offset_cookie) =
    (case entry_name e of
       Some (Some filename) \<Rightarrow>
         (case entry_cookie e of
            Some cookie \<Rightarrow> collect_entries es (names @ [filename], cookie)
          | None \<Rightarrow> None)
     | _ \<Rightarrow> None)"

definition readdir_rpc ::
  "'c fuse \<Rightarrow> fhandle \<Rightarrow> string list \<times> u64 \<Rightarrow> ('c, (string list \<times> u64) \<times> bool) blocking" where
  "readdir_rpc f file_fhandle = (\<lambda>(names, offset_cookie).
    cbind (call_and_check Mapped validate_nfs_read_dir_res
      (nfs_procedure_16_read_from_directory (fuse_remote f) (fuse_codec f)
        \<lparr>readdirargs_dir = Some file_fhandle, readdirargs_cookie = Some offset_cookie,
         readdirargs_count = READDIR_BYTES_PER_RPC\<rparr>)) (\<lambda>readdirok.
    cbind (cderef (collect_entries (readdirok_entries readdirok) (names, offset_cookie))) (\<lambda>collected.
    cgo (collected, readdirok_eof readdirok))))"

partial_function (option) readdir_loop ::
  "'c fuse \<Rightarrow> fhandle \<Rightarrow> string list \<times> u64 \<Rightarrow> 'c \<Rightarrow> ((int, string list) ctl \<times> 'c) option" where
  "readdir_loop f file_fhandle collected c =
    (case readdir_rpc f file_fhandle collected c of
       (UB, c') \<Rightarrow> Some (UB, c')
     | (Return e, c') \<Rightarrow> Some (Return e, c')
     | (Go (collected', eof), c') \<Rightarrow>
         if eof then Some (Go (fst collected'), c') else readdir_loop f file_fhandle collected' c')"

definition blocking_readdir :: "'c fuse \<Rightarrow> string \<Rightarrow> ('c, string list) blocking" where
  "blocking_readdir f path =
    cbind (resolve_or_fail f path) (\<lambda>(file_fhandle, file_type).
    or_wait (readdir_loop f file_fhandle ([], 0)))"

text \<open>The names that are handed to the filler of libfuse, in order.\<close>

definition nfs_readdir :: "bool \<Rightarrow> 'c fuse \<Rightarrow> string \<Rightarrow> ('c, unit, int \<times> string list) cprog" where
  "nfs_readdir created f path =
    cbind (run_blocking created (blocking_readdir f path)) (\<lambda>r.
    cgo (result_code r, case r of Inl _ \<Rightarrow> [] | Inr names \<Rightarrow> names))"

section \<open>\<open>fuse_read.c\<close>\<close>

abbreviation READ_BYTES_PER_RPC :: u64 where "READ_BYTES_PER_RPC \<equiv> 5000"

definition nfsdata_bytes :: "binary_data \<Rightarrow> bytes" where
  "nfsdata_bytes d = (case d of Null_Data len \<Rightarrow> [] | Data bs \<Rightarrow> bs)"

text \<open>\<open>acc\<close> is what the buffer of the caller holds so far; \<open>bytes_read\<close> is its length.\<close>

definition read_rpc ::
  "'c fuse \<Rightarrow> fhandle \<Rightarrow> u64 \<Rightarrow> u64 \<Rightarrow> bytes \<Rightarrow> ('c, bytes \<times> u64) blocking" where
  "read_rpc f file_fhandle offset bytes_to_read acc =
    (let bytes_read = of_nat (length acc) :: u64;
         bytes_left_to_read = bytes_to_read - bytes_read
     in cbind (call_and_check Frees_Stack validate_nfs_read_res
          (nfs_procedure_6_read_from_file (fuse_remote f) (fuse_codec f)
            \<lparr>readargs_file = Some file_fhandle, readargs_offset = ucast (offset + bytes_read),
             readargs_count = (if bytes_left_to_read < READ_BYTES_PER_RPC then ucast bytes_left_to_read
                               else ucast READ_BYTES_PER_RPC)\<rparr>)) (\<lambda>readresbody.
        cbind (cderef (readres_attributes readresbody)) (\<lambda>attributes.
        cgo (acc @ take (unat bytes_left_to_read) (nfsdata_bytes (readres_nfsdata readresbody)),
             fattr_size attributes))))"

partial_function (option) read_loop ::
  "'c fuse \<Rightarrow> fhandle \<Rightarrow> u64 \<Rightarrow> u64 \<Rightarrow> bytes \<Rightarrow> 'c \<Rightarrow> ((int, bytes) ctl \<times> 'c) option" where
  "read_loop f file_fhandle offset bytes_to_read acc c =
    (case read_rpc f file_fhandle offset bytes_to_read acc c of
       (UB, c') \<Rightarrow> Some (UB, c')
     | (Return e, c') \<Rightarrow> Some (Return e, c')
     | (Go (acc', file_size), c') \<Rightarrow>
         if of_nat (length acc') < bytes_to_read \<and> offset + of_nat (length acc') < file_size
         then read_loop f file_fhandle offset bytes_to_read acc' c'
         else Some (Go acc', c'))"

definition blocking_read :: "'c fuse \<Rightarrow> string \<Rightarrow> u64 \<Rightarrow> u64 \<Rightarrow> ('c, bytes) blocking" where
  "blocking_read f path bytes_to_read offset =
    cbind (resolve_or_fail f path) (\<lambda>(file_fhandle, file_type).
    or_wait (read_loop f file_fhandle offset bytes_to_read []))"

definition nfs_read ::
  "bool \<Rightarrow> 'c fuse \<Rightarrow> string \<Rightarrow> u64 \<Rightarrow> u64 \<Rightarrow> ('c, unit, int \<times> bytes) cprog" where
  "nfs_read created f path sz offset =
    cbind (run_blocking created (blocking_read f path sz offset)) (\<lambda>r.
    cgo (result_count r, case r of Inl _ \<Rightarrow> [] | Inr bs \<Rightarrow> bs))"

section \<open>\<open>fuse_write.c\<close>\<close>

abbreviation WRITE_BYTES_PER_RPC :: u64 where "WRITE_BYTES_PER_RPC \<equiv> 5000"

definition write_length :: "u64 \<Rightarrow> u64" where
  "write_length bytes_left_to_write =
    (if bytes_left_to_write < WRITE_BYTES_PER_RPC then bytes_left_to_write else WRITE_BYTES_PER_RPC)"

definition write_rpc :: "'c fuse \<Rightarrow> fhandle \<Rightarrow> bytes \<Rightarrow> u64 \<Rightarrow> u64 \<Rightarrow> u64 \<Rightarrow> ('c, fattr) blocking" where
  "write_rpc f file_fhandle buffer buffer_size offset bytes_written =
    call_and_check Mapped_After_Free validate_nfs_attr_stat
      (nfs_procedure_8_write_to_file (fuse_remote f) (fuse_codec f)
        \<lparr>writeargs_file = Some file_fhandle, writeargs_offset = ucast (offset + bytes_written),
         writeargs_nfsdata = Data (take (unat (write_length (buffer_size - bytes_written)))
           (drop (unat bytes_written) buffer))\<rparr>)"

lemma write_advance:
  assumes "written < sz"
  shows "unat (written + write_length (sz - written)) = unat written + unat (write_length (sz - written))"
    and "unat (write_length (sz - written)) = min 5000 (unat sz - unat written)"
proof -
  have lt: "unat written < unat sz" using assms by (simp add: word_less_nat_alt)
  have "unat (sz - written) = unat sz - unat written" using assms by (simp add: unat_sub less_imp_le)
  then show l: "unat (write_length (sz - written)) = min 5000 (unat sz - unat written)"
    by (simp add: write_length_def word_less_nat_alt)
  have "unat sz < 2 ^ 64" using unsigned_less [of sz] by simp
  then have "unat written + unat (write_length (sz - written)) < 2 ^ 64" using l lt by simp
  then show "unat (written + write_length (sz - written)) = unat written + unat (write_length (sz - written))"
    by (simp add: unat_word_ariths)
qed

function write_loop ::
  "'c fuse \<Rightarrow> fhandle \<Rightarrow> bytes \<Rightarrow> u64 \<Rightarrow> u64 \<Rightarrow> u64 \<Rightarrow> ('c, u64) blocking" where
  "write_loop f file_fhandle buffer buffer_size offset bytes_written =
    (if bytes_written < buffer_size then
       cbind (write_rpc f file_fhandle buffer buffer_size offset bytes_written) (\<lambda>_.
       write_loop f file_fhandle buffer buffer_size offset
         (bytes_written + write_length (buffer_size - bytes_written)))
     else cgo bytes_written)"
  by pat_completeness auto
termination
  by (relation "measure (\<lambda>(f, fh, buf, sz, off, written). unat sz - unat written)")
     (auto simp: write_advance word_less_nat_alt)

declare write_loop.simps [simp del]

definition blocking_write :: "'c fuse \<Rightarrow> string \<Rightarrow> bytes \<Rightarrow> u64 \<Rightarrow> u64 \<Rightarrow> ('c, u64) blocking" where
  "blocking_write f path buffer buffer_size offset =
    cbind (resolve_or_fail f path) (\<lambda>(file_fhandle, file_type).
    write_loop f file_fhandle buffer buffer_size offset 0)"

definition nfs_write ::
  "bool \<Rightarrow> 'c fuse \<Rightarrow> string \<Rightarrow> bytes \<Rightarrow> u64 \<Rightarrow> u64 \<Rightarrow> ('c, unit, int) cprog" where
  "nfs_write created f path buffer sz offset =
    cbind (run_blocking created (blocking_write f path buffer sz offset)) (\<lambda>r.
    cgo (case r of Inl e \<Rightarrow> e | Inr bytes_written \<Rightarrow> sint (ucast bytes_written :: 32 word)))"

end
