(* ===== verification/Fuse_Facts.thy ===== *)
theory Fuse_Facts
  imports Client_Server Server_Facts Fuse_Handlers
begin

text \<open>
  The FUSE file system on top of a server: its path resolution finds the file that the directories of the
  server name, \<open>getattr\<close> reports what \<open>lstat\<close> reports on the server, and \<open>read\<close> and \<open>write\<close> transfer any
  number of bytes although one RPC carries at most 5000.

  The server is next to the client (\<open>direct_remote\<close>).  The caller is root, no system call of the server
  fails, and the messages survive serialisation (\<open>wire\<close>).
\<close>

section \<open>Serialisation\<close>

text \<open>
  What is assumed of the serialisation library: the messages of these procedures survive packing and
  unpacking.  Strings of C hold no zero, and an empty \<open>bytes\<close> field is unpacked to a \<open>NULL\<close> pointer.
\<close>

definition wire :: "codec \<Rightarrow> client_codec \<Rightarrow> bool" where
  "wire pb cb \<longleftrightarrow>
    (\<forall>h. let m = \<lparr>fhandle_nfs_filehandle = Some h\<rparr> in unpack_fhandle pb (pack_fhandle cb m) = Some m) \<and>
    (\<forall>h n. CHR 0x00 \<notin> set n \<longrightarrow>
      (let m = \<lparr>dirop_dir = Some \<lparr>fhandle_nfs_filehandle = Some h\<rparr>, dirop_name = Some (Some n)\<rparr>
       in unpack_dir_op_args pb (pack_dir_op_args cb m) = Some m)) \<and>
    (\<forall>h off n. let m = \<lparr>readargs_file = Some \<lparr>fhandle_nfs_filehandle = Some h\<rparr>, readargs_offset = off,
         readargs_count = n\<rparr> in unpack_read_args pb (pack_read_args cb m) = Some m) \<and>
    (\<forall>h off new. new \<noteq> [] \<longrightarrow>
      (let m = \<lparr>writeargs_file = Some \<lparr>fhandle_nfs_filehandle = Some h\<rparr>, writeargs_offset = off,
         writeargs_nfsdata = Data new\<rparr> in unpack_write_args pb (pack_write_args cb m) = Some m)) \<and>
    (\<forall>st. let m = ok_result (fattr_of_stat st) in unpack_attr_stat cb (pack_attr_stat pb m) = Some m) \<and>
    (\<forall>h st. let m = ok_result \<lparr>diropok_file = Some \<lparr>fhandle_nfs_filehandle = Some h\<rparr>,
         diropok_attributes = Some (fattr_of_stat st)\<rparr> in unpack_dir_op_res cb (pack_dir_op_res pb m) = Some m) \<and>
    unpack_dir_op_res cb (pack_dir_op_res pb (error_result NFSERR_NOENT)) = Some (error_result NFSERR_NOENT) \<and>
    (\<forall>st d. unpack_read_res cb (pack_read_res pb
         (ok_result \<lparr>readres_attributes = Some (fattr_of_stat st), readres_nfsdata = Data d\<rparr>)) =
       Some (ok_result \<lparr>readres_attributes = Some (fattr_of_stat st),
         readres_nfsdata = (if d = [] then Null_Data 0 else Data d)\<rparr>))"

lemma wireD:
  assumes "wire pb cb"
  shows "unpack_fhandle pb (pack_fhandle cb \<lparr>fhandle_nfs_filehandle = Some h\<rparr>) =
      Some \<lparr>fhandle_nfs_filehandle = Some h\<rparr>"
    and "CHR 0x00 \<notin> set n \<Longrightarrow> unpack_dir_op_args pb (pack_dir_op_args cb
      \<lparr>dirop_dir = Some \<lparr>fhandle_nfs_filehandle = Some h\<rparr>, dirop_name = Some (Some n)\<rparr>) =
      Some \<lparr>dirop_dir = Some \<lparr>fhandle_nfs_filehandle = Some h\<rparr>, dirop_name = Some (Some n)\<rparr>"
    and "unpack_read_args pb (pack_read_args cb \<lparr>readargs_file = Some \<lparr>fhandle_nfs_filehandle = Some h\<rparr>,
        readargs_offset = off, readargs_count = c\<rparr>) =
      Some \<lparr>readargs_file = Some \<lparr>fhandle_nfs_filehandle = Some h\<rparr>, readargs_offset = off, readargs_count = c\<rparr>"
    and "new \<noteq> [] \<Longrightarrow> unpack_write_args pb (pack_write_args cb
        \<lparr>writeargs_file = Some \<lparr>fhandle_nfs_filehandle = Some h\<rparr>, writeargs_offset = off,
         writeargs_nfsdata = Data new\<rparr>) =
      Some \<lparr>writeargs_file = Some \<lparr>fhandle_nfs_filehandle = Some h\<rparr>, writeargs_offset = off,
         writeargs_nfsdata = Data new\<rparr>"
    and "unpack_attr_stat cb (pack_attr_stat pb (ok_result (fattr_of_stat st))) = Some (ok_result (fattr_of_stat st))"
    and "unpack_dir_op_res cb (pack_dir_op_res pb (ok_result
        \<lparr>diropok_file = Some \<lparr>fhandle_nfs_filehandle = Some h\<rparr>, diropok_attributes = Some (fattr_of_stat st)\<rparr>)) =
      Some (ok_result \<lparr>diropok_file = Some \<lparr>fhandle_nfs_filehandle = Some h\<rparr>,
        diropok_attributes = Some (fattr_of_stat st)\<rparr>)"
    and "unpack_dir_op_res cb (pack_dir_op_res pb (error_result NFSERR_NOENT)) = Some (error_result NFSERR_NOENT)"
    and "unpack_read_res cb (pack_read_res pb
         (ok_result \<lparr>readres_attributes = Some (fattr_of_stat st), readres_nfsdata = Data d\<rparr>)) =
       Some (ok_result \<lparr>readres_attributes = Some (fattr_of_stat st),
         readres_nfsdata = (if d = [] then Null_Data 0 else Data d)\<rparr>)"
  using assms unfolding wire_def Let_def by blast+

text \<open>The process of a caller with a server next to it.\<close>

definition fuse_over ::
  "codec \<Rightarrow> client_codec \<Rightarrow> opaque_auth option \<Rightarrow> opaque_auth option \<Rightarrow> nfs_filehandle \<Rightarrow> server fuse" where
  "fuse_over pb cb cred verf root =
    \<lparr>fuse_remote = direct_remote pb cred verf, fuse_codec = cb, fuse_credential = cred,
     filesystem_root_fhandle = Some \<lparr>fhandle_nfs_filehandle = Some root\<rparr>\<rparr>"

lemma fuse_over_simps [simp]:
  "fuse_remote (fuse_over pb cb cred verf root) = direct_remote pb cred verf"
  "fuse_codec (fuse_over pb cb cred verf root) = cb"
  "filesystem_root_fhandle (fuse_over pb cb cred verf root) = Some \<lparr>fhandle_nfs_filehandle = Some root\<rparr>"
  by (simp_all add: fuse_over_def)

lemma root_unrefused:
  assumes "root_credential cred" and "verifier_error verf = None"
  shows "refusal (create_call_body cred verf program 2 procedure params) = None"
  using assms by (auto simp: refusal_def create_call_body_def root_credential_def)

lemma direct_failed:
  assumes "refusal (create_call_body cred verf program 2 procedure \<lparr>type_url = Some args_type, any_value = buf\<rparr>) = None"
    and "run_program pb (create_call_body cred verf program 2 procedure \<lparr>type_url = Some args_type, any_value = buf\<rparr>) s =
      (Return create_system_error_accepted_reply, s')"
  shows "call_procedure (direct_remote pb cred verf) program procedure args_type buf results_type unpack s =
    (Return 5, s')"
proof -
  obtain a where a: "create_system_error_accepted_reply = Some a" "areply_stat a = SYSTEM_ERR" "validate_accepted a = 0"
    by (simp add: create_system_error_accepted_reply_def create_default_case_accepted_reply_def validate_accepted_def
        validate_reply_verifier_def create_auth_none_opaque_auth_def)
  have "answer pb (create_call_body cred verf program 2 procedure \<lparr>type_url = Some args_type, any_value = buf\<rparr>) s =
      Some (0, accepted_body (Some a), s')" using assms a(1) by (simp add: answer_def)
  moreover have "client_view results_type unpack (accepted_body (Some a)) = Inl 5"
    using a(2) by (simp add: client_view_def accepted_body_def)
  ultimately show ?thesis
    using direct_call.call_procedure_view [of 0 pb cred verf program procedure args_type buf s
        "accepted_body (Some a)" results_type unpack] reply_structure(1) [OF a(3)] by (auto simp: ctl_of_sum_def)
qed

section \<open>Path resolution\<close>

text \<open>The specification: the entries of directories lead from the root to the file, and every failure other than a missing entry is an I/O error.\<close>

definition lookup_spec :: "inodes \<Rightarrow> ino_t \<Rightarrow> string \<Rightarrow> errno + ino_t" where
  "lookup_spec fs i c =
    (case lookup_entry fs i c of Inl e \<Rightarrow> Inl (if e = ENOENT then ENOENT else EIO) | Inr j \<Rightarrow> Inr j)"

fun resolve_spec :: "inodes \<Rightarrow> ino_t \<Rightarrow> string list \<Rightarrow> errno + ino_t" where
  "resolve_spec fs i [] = Inr i"
| "resolve_spec fs i (c # cs) =
    (case dir_entries fs i of
       Inl _ \<Rightarrow> Inl ENOTDIR
     | Inr _ \<Rightarrow>
         (case lookup_spec fs i c of Inl e \<Rightarrow> Inl e | Inr j \<Rightarrow> resolve_spec fs j cs))"

lemma validate_fattr_of_stat [simp]: "validate_nfs_fattr (Some (fattr_of_stat st)) = 0"
  by (simp add: validate_nfs_fattr_def fattr_of_stat_def)

text \<open>How a resolution ends, and what it leaves of the server.\<close>

definition resolves ::
  "nat \<Rightarrow> server \<Rightarrow> errno + ino_t \<Rightarrow> (int, fhandle \<times> ftype) ctl \<times> server \<Rightarrow> bool" where
  "resolves k s outcome r \<longleftrightarrow>
    serving k (snd r) \<and> server_os (snd r) = server_os s \<and> (\<forall>j. cached s j \<longrightarrow> cached (snd r) j) \<and>
    (case outcome of
       Inl e \<Rightarrow> fst r = Return (errno_code e)
     | Inr i \<Rightarrow> cached (snd r) i \<and>
         (\<exists>fh nd. inode_number fh = i \<and> os_inodes (server_os s) i = Some nd \<and>
           fst r = Go (\<lparr>fhandle_nfs_filehandle = Some fh\<rparr>, content_ftype (i_content nd))))"

lemma resolves_trans:
  assumes "server_os s1 = server_os s" and "\<forall>j. cached s j \<longrightarrow> cached s1 j" and "resolves k s1 outcome r"
  shows "resolves k s outcome r"
  using assms by (auto simp: resolves_def split: sum.splits)

lemma lookup_component_runs:
  assumes "wire pb cb" and "root_credential cred" and "verifier_error verf = None"
    and "serving k s" and "cached s (inode_number dh)"
    and "dir_entries (os_inodes (server_os s)) (inode_number dh) = Inr es"
    and "n \<noteq> []" and "CHR ''/'' \<notin> set n" and "CHR 0x00 \<notin> set n" and "k + length n + 1 < PATH_MAX"
  shows "resolves (k + length n + 1) s (lookup_spec (os_inodes (server_os s)) (inode_number dh) n)
    (lookup_component (fuse_over pb cb cred verf root) \<lparr>fhandle_nfs_filehandle = Some dh\<rparr> n s)"
proof -
  let ?args = "\<lparr>dirop_dir = Some \<lparr>fhandle_nfs_filehandle = Some dh\<rparr>, dirop_name = Some (Some n)\<rparr>"
  let ?buf = "pack_dir_op_args cb ?args"
  let ?any = "\<lparr>type_url = Some ''nfs/DirOpArgs'', any_value = ?buf\<rparr>"
  let ?call = "create_call_body cred verf NFS_RPC_PROGRAM_NUMBER 2 4 ?any"
  obtain r s' where r: "serve_nfs_procedure_4_look_up_file_name pb cred verf (Some ?any) s = (Return (Some r), s')"
    "serving (k + length n + 1) s'" "server_os s' = server_os s" "\<forall>j. cached s j \<longrightarrow> cached s' j"
    "case lookup_entry (os_inodes (server_os s)) (inode_number dh) n of
       Inr i \<Rightarrow> cached s' i \<and> (\<exists>fh nd. inode_number fh = i \<and> os_inodes (server_os s) i = Some nd \<and>
         r = lookup_reply pb fh (stat_of (server_os s) i nd))
     | Inl e \<Rightarrow> if e = ENOENT
         then r = wrap_procedure_results_in_successful_accepted_reply
           (pack_dir_op_res pb (error_result NFSERR_NOENT)) ''nfs/DirOpRes''
         else Some r = create_system_error_accepted_reply"
    using lookup_runs [OF assms(4,5,6,7,8,10) wireD(2) [OF assms(1,9)] refl assms(2)] by blast
  note no = root_unrefused [OF assms(2,3)]
  have run: "run_program pb ?call s = (Return (Some r), s')"
    using r(1) by (simp add: run_program_def create_call_body_def forward_rpc_call_to_program_def call_nfs_def)
  show ?thesis
  proof (cases "lookup_entry (os_inodes (server_os s)) (inode_number dh) n")
    case (Inl e)
    show ?thesis
    proof (cases "e = ENOENT")
      case True
      then have "nfs_procedure_4_look_up_file_name (direct_remote pb cred verf) cb ?args s =
          (Go (error_result NFSERR_NOENT), s')"
        unfolding nfs_procedure_4_look_up_file_name_def
        using direct_served [where unpack = "unpack_dir_op_res cb", OF no _ wireD(7) [OF assms(1)]] run r(5) Inl by simp
      then show ?thesis
        using r(2-4) Inl True by (simp add: resolves_def lookup_spec_def lookup_component_def ctry_def control_defs
            validate_nfs_dir_op_res_def validate_result_def error_result_def)
    next
      case False
      then have "run_program pb ?call s = (Return create_system_error_accepted_reply, s')"
        using run r(5) Inl by simp
      from direct_failed [OF no this] have
        "nfs_procedure_4_look_up_file_name (direct_remote pb cred verf) cb ?args s = (Return 5, s')"
        by (simp add: nfs_procedure_4_look_up_file_name_def)
      then show ?thesis
        using r(2-4) Inl False by (simp add: resolves_def lookup_spec_def lookup_component_def ctry_def control_defs)
    qed
  next
    case (Inr i)
    with r(5) obtain fh nd where nd: "inode_number fh = i" "os_inodes (server_os s) i = Some nd"
      "r = lookup_reply pb fh (stat_of (server_os s) i nd)" "cached s' i" by auto
    have "nfs_procedure_4_look_up_file_name (direct_remote pb cred verf) cb ?args s =
        (Go (ok_result \<lparr>diropok_file = Some \<lparr>fhandle_nfs_filehandle = Some fh\<rparr>,
           diropok_attributes = Some (fattr_of_stat (stat_of (server_os s) i nd))\<rparr>), s')"
      unfolding nfs_procedure_4_look_up_file_name_def
      using direct_served [where unpack = "unpack_dir_op_res cb", OF no _ wireD(6) [OF assms(1)]] run nd(3) by (simp add: lookup_reply_def)
    then have "lookup_component (fuse_over pb cb cred verf root) \<lparr>fhandle_nfs_filehandle = Some dh\<rparr> n s =
        (Go (\<lparr>fhandle_nfs_filehandle = Some fh\<rparr>, content_ftype (i_content nd)), s')"
      by (simp add: lookup_component_def ctry_def control_defs validate_nfs_dir_op_res_def validate_result_def
          validate_nfs_dir_op_ok_def validate_nfs_fhandle_def ok_result_def result_ok_def fattr_of_stat_def
          validate_nfs_fattr_def)
    with r(2-4) Inr nd show ?thesis by (auto simp: resolves_def lookup_spec_def)
  qed
qed

definition names_length :: "string list \<Rightarrow> nat" where
  "names_length cs = sum_list (map (\<lambda>c. length c + 1) cs)"

definition good_name :: "string \<Rightarrow> bool" where
  "good_name n \<longleftrightarrow> n \<noteq> [] \<and> CHR ''/'' \<notin> set n \<and> CHR 0x00 \<notin> set n"

lemma split_on_length: "sum_list (map (\<lambda>c. length c + 1) (split_on x p)) = length p + 1"
proof (induction p)
  case (Cons y p)
  then show ?case by (cases "split_on x p") auto
qed simp

lemma split_on_set: "c \<in> set (split_on x p) \<Longrightarrow> set c \<subseteq> set p - {x}"
proof (induction p arbitrary: c)
  case (Cons y p)
  then show ?case by (cases "split_on x p") (fastforce split: if_splits)+
qed simp

lemma components_good:
  assumes "CHR 0x00 \<notin> set path"
  shows "\<forall>c \<in> set (pathname_components path). good_name c"
  using assms split_on_set [of _ "CHR ''/''" path] by (fastforce simp: pathname_components_def good_name_def)

lemma components_length:
  assumes "path \<noteq> []" and "hd path = CHR ''/''"
  shows "names_length (pathname_components path) \<le> length path"
proof -
  obtain p where p: "path = CHR ''/'' # p" using assms by (cases path) auto
  have "sum_list (map (\<lambda>c. length c + 1) (filter (\<lambda>c. c \<noteq> []) xs)) \<le> sum_list (map (\<lambda>c. length c + 1) xs)"
    for xs :: "string list" by (induction xs) auto
  from this [of "split_on (CHR ''/'') p"] show ?thesis
    using split_on_length [of "CHR ''/''" p] p by (simp add: names_length_def pathname_components_def)
qed

lemma content_ftype_dir:
  assumes "fs i = Some nd"
  shows "content_ftype (i_content nd) = NFDIR \<longleftrightarrow> (\<exists>es. dir_entries fs i = Inr es)"
  using assms by (cases "i_content nd") (auto simp: dir_entries_def)

lemma resolve_components_runs:
  assumes "wire pb cb" and "root_credential cred" and "verifier_error verf = None"
    and "serving k s" and "cached s (inode_number h)" and "os_inodes (server_os s) (inode_number h) = Some nd"
    and "\<forall>c \<in> set cs. good_name c" and "k + names_length cs < PATH_MAX"
  shows "resolves (k + names_length cs) s (resolve_spec (os_inodes (server_os s)) (inode_number h) cs)
    (resolve_components (fuse_over pb cb cred verf root) cs \<lparr>fhandle_nfs_filehandle = Some h\<rparr>
      (content_ftype (i_content nd)) s)"
  using assms(4-8)
proof (induction cs arbitrary: k s h nd)
  case Nil
  then show ?case by (auto simp: resolves_def cgo_def names_length_def)
next
  case (Cons c cs)
  show ?case
  proof (cases "dir_entries (os_inodes (server_os s)) (inode_number h)")
    case (Inl e)
    have "serving (k + names_length (c # cs)) s" by (rule serving_mono [OF Cons.prems(1)]) simp
    then show ?thesis
      using content_ftype_dir [of "os_inodes (server_os s)", OF Cons.prems(3)] Inl
      by (simp add: resolves_def creturn_def)
  next
    case (Inr es)
    note dir = Inr
    then have ft: "content_ftype (i_content nd) = NFDIR"
      using content_ftype_dir [of "os_inodes (server_os s)", OF Cons.prems(3)] by simp
    let ?r = "lookup_component (fuse_over pb cb cred verf root) \<lparr>fhandle_nfs_filehandle = Some h\<rparr> c s"
    let ?k = "k + length c + 1"
    have c: "c \<noteq> []" "CHR ''/'' \<notin> set c" "CHR 0x00 \<notin> set c" "?k < PATH_MAX"
      and len: "?k + names_length cs = k + names_length (c # cs)"
      using Cons.prems(4,5) by (auto simp: good_name_def names_length_def)
    have r: "resolves ?k s (lookup_spec (os_inodes (server_os s)) (inode_number h) c) ?r"
      by (rule lookup_component_runs [OF assms(1-3) Cons.prems(1,2) dir c])
    obtain o1 s1 where s1: "?r = (o1, s1)" by fastforce
    show ?thesis
    proof (cases "lookup_spec (os_inodes (server_os s)) (inode_number h) c")
      case (Inl e)
      then show ?thesis
        using r s1 dir ft serving_mono [of ?k s1 "k + names_length (c # cs)"] len
        by (simp add: resolves_def cbind_def)
    next
      case (Inr i)
      then obtain fh nd1 where i: "cached s1 (inode_number fh)" "os_inodes (server_os s) (inode_number fh) = Some nd1"
        "inode_number fh = i" "o1 = Go (\<lparr>fhandle_nfs_filehandle = Some fh\<rparr>, content_ftype (i_content nd1))"
        "serving ?k s1" "server_os s1 = server_os s" "\<forall>j. cached s j \<longrightarrow> cached s1 j"
        using r s1 by (auto simp: resolves_def)
      have "resolves (?k + names_length cs) s1 (resolve_spec (os_inodes (server_os s1)) (inode_number fh) cs)
          (resolve_components (fuse_over pb cb cred verf root) cs \<lparr>fhandle_nfs_filehandle = Some fh\<rparr>
            (content_ftype (i_content nd1)) s1)"
        by (rule Cons.IH [OF i(5,1)]) (use i(2,6) Cons.prems(4,5) len in \<open>simp_all\<close>)
      from resolves_trans [OF i(6,7) this [unfolded len]] show ?thesis
        using Inr i dir ft s1 by (simp add: cbind_def)
    qed
  qed
qed

lemma resolve_path_runs:
  assumes "wire pb cb" and "root_credential cred" and "verifier_error verf = None"
    and "serving k s" and "cached s (inode_number root)"
    and "dir_entries (os_inodes (server_os s)) (inode_number root) = Inr es"
    and "path \<noteq> []" and "hd path = CHR ''/''" and "CHR 0x00 \<notin> set path" and "k + length path < PATH_MAX"
  shows "resolves (k + length path) s
    (resolve_spec (os_inodes (server_os s)) (inode_number root) (pathname_components path))
    (resolve_absolute_path (fuse_over pb cb cred verf root) (Some path) s)"
proof -
  obtain nd where nd: "os_inodes (server_os s) (inode_number root) = Some nd" "content_ftype (i_content nd) = NFDIR"
    using assms(6) by (auto simp: dir_entries_def split: option.splits content.splits)
  let ?cs = "pathname_components path"
  let ?r = "resolve_components (fuse_over pb cb cred verf root) ?cs \<lparr>fhandle_nfs_filehandle = Some root\<rparr> NFDIR s"
  note len = components_length [OF assms(7,8)]
  have r: "resolves (k + names_length ?cs) s (resolve_spec (os_inodes (server_os s)) (inode_number root) ?cs) ?r"
    using resolve_components_runs [OF assms(1-5) nd(1) components_good [OF assms(9)], of root] len assms(10) nd(2)
    by simp
  obtain o1 s1 where s1: "?r = (o1, s1)" by fastforce
  have "serving (k + length path) s1"
    using r s1 len serving_mono [of "k + names_length ?cs" s1 "k + length path"] by (simp add: resolves_def)
  then show ?thesis
    using r s1 assms(7,8) by (auto simp: resolves_def resolve_absolute_path_def control_defs direct_remote_def
        split: sum.splits)
qed

section \<open>Handlers on a resolved file\<close>

text \<open>The hypotheses of a handler on one path, in one predicate.\<close>

definition mounted :: "codec \<Rightarrow> client_codec \<Rightarrow> opaque_auth option \<Rightarrow> opaque_auth option \<Rightarrow>
    nfs_filehandle \<Rightarrow> nat \<Rightarrow> server \<Rightarrow> string \<Rightarrow> bool" where
  "mounted pb cb cred verf root k s path \<longleftrightarrow>
    wire pb cb \<and> root_credential cred \<and> verifier_error verf = None \<and> serving k s \<and>
    cached s (inode_number root) \<and> (\<exists>es. dir_entries (os_inodes (server_os s)) (inode_number root) = Inr es) \<and>
    path \<noteq> [] \<and> hd path = CHR ''/'' \<and> CHR 0x00 \<notin> set path \<and> k + length path < PATH_MAX"

abbreviation fuse_spec :: "nfs_filehandle \<Rightarrow> server \<Rightarrow> string \<Rightarrow> errno + ino_t" where
  "fuse_spec root s path \<equiv> resolve_spec (os_inodes (server_os s)) (inode_number root) (pathname_components path)"

lemma mounted_resolves:
  assumes "mounted pb cb cred verf root k s path"
  shows "resolves (k + length path) s (fuse_spec root s path)
    (resolve_absolute_path (fuse_over pb cb cred verf root) (Some path) s)"
  using assms by (auto simp: mounted_def intro: resolve_path_runs)

lemma mounted_fails:
  assumes "mounted pb cb cred verf root k s path" and "fuse_spec root s path = Inl e"
  shows "\<exists>s'. resolve_or_fail (fuse_over pb cb cred verf root) path s = (Return (- errno_code e), s') \<and>
    server_os s' = server_os s"
  using mounted_resolves [OF assms(1)] assms(2)
  by (cases "resolve_absolute_path (fuse_over pb cb cred verf root) (Some path) s")
    (auto simp: resolves_def resolve_or_fail_def ctry_def control_defs)

lemma mounted_finds:
  assumes "mounted pb cb cred verf root k s path" and "fuse_spec root s path = Inr i"
  obtains fh nd s' where "inode_number fh = i" and "os_inodes (server_os s) i = Some nd"
    and "resolve_or_fail (fuse_over pb cb cred verf root) path s =
      (Go (\<lparr>fhandle_nfs_filehandle = Some fh\<rparr>, content_ftype (i_content nd)), s')"
    and "serving (k + length path) s'" and "cached s' i" and "server_os s' = server_os s"
    and "\<forall>j. cached s j \<longrightarrow> cached s' j"
proof -
  obtain o1 s1 where s1: "resolve_absolute_path (fuse_over pb cb cred verf root) (Some path) s = (o1, s1)"
    by fastforce
  then show thesis
    using mounted_resolves [OF assms(1)] assms(2)
    by (auto simp: resolves_def resolve_or_fail_def ctry_def control_defs intro: that)
qed

lemma served:
  assumes "mounted pb cb cred verf root k s path"
    and "run_program pb (create_call_body cred verf NFS_RPC_PROGRAM_NUMBER 2 procedure
        \<lparr>type_url = Some args_type, any_value = buf\<rparr>) t =
      (Return (Some (wrap_procedure_results_in_successful_accepted_reply results results_type)), t')"
    and "unpack results = Some r"
  shows "call_procedure (direct_remote pb cred verf) NFS_RPC_PROGRAM_NUMBER procedure args_type buf
    results_type unpack t = (Go r, t')"
  using assms by (intro direct_served) (auto simp: mounted_def intro: root_unrefused)

lemma stat_of_fattr_of_stat: "stat_of_fattr (fattr_of_stat st) = cgo st"
proof -
  have "\<lparr>tv_sec = tv_sec t, tv_nsec = tv_nsec t\<rparr> = t" for t :: timespec by simp
  note time = this
  show ?thesis by (cases st) (simp add: stat_of_fattr_def fattr_of_stat_def cderef_def time)
qed

section \<open>Reading\<close>

lemma unat_add_small: "unat a + m < 2 ^ 64 \<Longrightarrow> unat (a + of_nat m :: u64) = unat a + m"
proof -
  assume a: "unat a + m < 2 ^ 64"
  then have "unat (of_nat m :: u64) = m" by (simp add: unat_of_nat)
  with a show ?thesis by (simp add: unat_word_ariths)
qed

lemma unat_of_nat_small: "m < 2 ^ 64 \<Longrightarrow> unat (of_nat m :: u64) = m"
  by (simp add: unat_of_nat)

lemma unat_ucast_small: "unat (a :: u64) < 2 ^ 32 \<Longrightarrow> unat (ucast a :: u32) = unat a"
  by (simp add: unsigned_ucast_eq take_bit_nat_eq_self)

lemma validate_read:
  "validate_nfs_read_res (Some (ok_result \<lparr>readres_attributes = Some (fattr_of_stat st),
    readres_nfsdata = (if d = [] then Null_Data 0 else Data d)\<rparr>)) = Some 0"
  by (simp add: validate_nfs_read_res_def validate_result_def ok_result_def validate_read_res_body_def)

lemma read_data_bytes:
  "nfsdata_bytes (readres_nfsdata \<lparr>readres_attributes = a,
    readres_nfsdata = (if d = [] then Null_Data 0 else Data d)\<rparr>) = d"
  by (simp add: nfsdata_bytes_def)

text \<open>One READ brings the next bytes of the file.\<close>

text \<open>One call; \<open>at\<close> is the offset that the 32 bits of the call hold.\<close>

lemma read_rpc_at:
  assumes "mounted pb cb cred verf root k s path" and "serving k' t" and "cached t (inode_number fh)"
    and "os_inodes (server_os t) (inode_number fh) = Some nd" and "i_content nd = Regular d"
    and "length acc \<le> unat n" and "at + unat n < 2 ^ 32"
    and off: "unat (ucast (offset + of_nat (length acc)) :: u32) = at + length acc"
  shows "read_rpc (fuse_over pb cb cred verf root) \<lparr>fhandle_nfs_filehandle = Some fh\<rparr> offset n acc t =
    (Go (acc @ take (min (unat n - length acc) 5000) (drop (at + length acc) d),
         of_nat (length d)), t)"
proof -
  let ?left = "n - of_nat (length acc)"
  let ?count = "if ?left < READ_BYTES_PER_RPC then ucast ?left else ucast READ_BYTES_PER_RPC :: u32"
  let ?args = "\<lparr>readargs_file = Some \<lparr>fhandle_nfs_filehandle = Some fh\<rparr>,
    readargs_offset = ucast (offset + of_nat (length acc)), readargs_count = ?count\<rparr>"
  let ?data = "take (min (unat n - length acc) 5000) (drop (at + length acc) d)"
  have m: "wire pb cb" "root_credential cred" using assms(1) by (simp_all add: mounted_def)
  have "unat n < 2 ^ 64" using unsigned_less [of n] by simp
  then have acc: "length acc < 2 ^ 64" using assms(6) by simp
  then have left: "unat ?left = unat n - length acc"
    using assms(6) by (simp add: unat_sub word_le_nat_alt unat_of_nat_small)
  have count: "min (unat ?count) NFS_MAXDATA = min (unat n - length acc) 5000"
    using left assms(7) by (auto simp: word_less_nat_alt unat_ucast_small)
  let ?r = "\<lparr>readres_attributes = Some (fattr_of_stat (stat_of (server_os t) (inode_number fh) nd)),
      readres_nfsdata = (if ?data = [] then Null_Data 0 else Data ?data)\<rparr>"
  have "nfs_procedure_6_read_from_file (direct_remote pb cred verf) cb ?args t = (Go (ok_result ?r), t)"
    unfolding nfs_procedure_6_read_from_file_def
    by (rule served [OF assms(1), where unpack = "unpack_read_res cb", OF _ wireD(8) [OF m(1)]])
      (use read_runs [OF assms(2-5) wireD(3) [OF m(1)] m(2)] off count in
        \<open>simp add: run_program_def create_call_body_def forward_rpc_call_to_program_def call_nfs_def\<close>)
  moreover have "validate_nfs_read_res (Some (ok_result ?r)) = Some 0" by (rule validate_read)
  moreover have "nfsdata_bytes (readres_nfsdata ?r) = ?data" by (rule read_data_bytes)
  moreover have "fattr_size (fattr_of_stat (stat_of (server_os t) (inode_number fh) nd)) = of_nat (length d)"
    using assms(5) by (simp add: fattr_of_stat_def stat_of_def)
  moreover have "take (unat ?left) ?data = ?data" using left by simp
  ultimately show ?thesis
    by (simp add: read_rpc_def Let_def call_and_check_def ctry_def control_defs check_status_def ok_result_def
        result_ok_def)
qed

lemma read_rpc_runs:
  assumes "mounted pb cb cred verf root k s path" and "serving k' t" and "cached t (inode_number fh)"
    and "os_inodes (server_os t) (inode_number fh) = Some nd" and "i_content nd = Regular d"
    and "length acc \<le> unat n" and "unat offset + unat n < 2 ^ 32"
  shows "read_rpc (fuse_over pb cb cred verf root) \<lparr>fhandle_nfs_filehandle = Some fh\<rparr> offset n acc t =
    (Go (acc @ take (min (unat n - length acc) 5000) (drop (unat offset + length acc) d),
         of_nat (length d)), t)"
  using assms(6,7) by (intro read_rpc_at [OF assms]) (simp add: unat_ucast_small unat_add_small)

lemma read_everything:
  assumes "xs = take (length xs) (drop k d)" and "length xs \<le> n" and "\<not> (length xs < n \<and> k + length xs < length d)"
  shows "xs = take n (drop k d)"
proof (cases "length xs = n")
  case False
  then have "length (drop k d) \<le> length xs" using assms(2,3) by simp
  then show ?thesis using assms(1,2) by simp
qed (use assms(1) in simp)

lemma loop_tests:
  assumes "m \<le> unat n" and "unat (offset :: u64) + unat n < 2 ^ 32" and "l < 2 ^ 64"
  shows "of_nat m < (n :: u64) \<longleftrightarrow> m < unat n" and "offset + of_nat m < of_nat l \<longleftrightarrow> unat offset + m < l"
proof -
  have "m < 2 ^ 64" "unat offset + m < 2 ^ 64" using assms(1,2) by simp_all
  then show "of_nat m < (n :: u64) \<longleftrightarrow> m < unat n" "offset + of_nat m < of_nat l \<longleftrightarrow> unat offset + m < l"
    using assms(3) by (simp_all add: word_less_nat_alt unat_of_nat_small unat_add_small)
qed

text \<open>The loop ends, and the buffer holds the part of the file that was asked for.\<close>

lemma read_loop_runs:
  assumes "mounted pb cb cred verf root k s path" and "serving k' t" and "cached t (inode_number fh)"
    and "os_inodes (server_os t) (inode_number fh) = Some nd" and "i_content nd = Regular d"
    and "length d < 2 ^ 64" and "unat offset + unat n < 2 ^ 32"
    and "acc = take (length acc) (drop (unat offset) d)" and "length acc \<le> unat n"
  shows "read_loop (fuse_over pb cb cred verf root) \<lparr>fhandle_nfs_filehandle = Some fh\<rparr> offset n acc t =
    Some (Go (take (unat n) (drop (unat offset) d)), t)"
  using assms(8,9)
proof (induction "length d - (unat offset + length acc)" arbitrary: acc rule: less_induct)
  case less
  let ?new = "take (min (unat n - length acc) 5000) (drop (unat offset + length acc) d)"
  let ?acc = "acc @ ?new"
  have eq: "?acc = take (length acc + min (unat n - length acc) 5000) (drop (unat offset) d)"
    using less.prems(1) by (simp add: take_add add.commute)
  then have acc': "?acc = take (length ?acc) (drop (unat offset) d)" by (simp add: eq min_def)
  have acc'': "length ?acc \<le> unat n" using less.prems(2) by simp
  note acc' = acc' acc''
  note more = loop_tests [OF acc'(2) assms(7,6)]
  note step = read_rpc_runs [OF assms(1-5) less.prems(2) assms(7)]
  show ?case
  proof (cases "length ?acc < unat n \<and> unat offset + length ?acc < length d")
    case True
    then have "length d - (unat offset + length ?acc) < length d - (unat offset + length acc)"
      using less.prems(2) by auto
    from less.hyps [OF this acc'] show ?thesis
      using True more step by (subst read_loop.simps) simp
  next
    case False
    from read_everything [OF acc' False] show ?thesis using False more step by (subst read_loop.simps) auto
  qed
qed

lemma sint_of_nat_small: "m < 2 ^ 31 \<Longrightarrow> sint (of_nat m :: 32 word) = int m"
  by (simp add: signed_of_nat signed_take_bit_int_eq_self)

lemma result_count_small: "length bs < 2 ^ 31 \<Longrightarrow> result_count (Inr bs) = int (length bs)"
  by (simp add: result_count_def sint_of_nat_small)

lemma nfs_read_runs:
  assumes "mounted pb cb cred verf root k s path" and "fuse_spec root s path = Inr i"
    and "holds_file (server_os s) i d" and "length d < 2 ^ 64"
    and "unat offset + unat n < 2 ^ 32" and "unat n < 2 ^ 31"
  shows "\<exists>s'. nfs_read True (fuse_over pb cb cred verf root) path n offset s =
      (Go (int (min (unat n) (length d - unat offset)), take (unat n) (drop (unat offset) d)), s') \<and>
    server_os s' = server_os s"
proof -
  obtain fh nd s' where s': "inode_number fh = i" "os_inodes (server_os s) i = Some nd"
    "resolve_or_fail (fuse_over pb cb cred verf root) path s =
      (Go (\<lparr>fhandle_nfs_filehandle = Some fh\<rparr>, content_ftype (i_content nd)), s')"
    "serving (k + length path) s'" "cached s' i" "server_os s' = server_os s"
    using mounted_finds [OF assms(1,2)] by blast
  have d: "i_content nd = Regular d" using assms(3) s'(2) by (simp add: holds_file_def)
  let ?bs = "take (unat n) (drop (unat offset) d)"
  have "read_loop (fuse_over pb cb cred verf root) \<lparr>fhandle_nfs_filehandle = Some fh\<rparr> offset n [] s' =
      Some (Go ?bs, s')"
    using read_loop_runs [OF assms(1) s'(4) _ _ d assms(4,5), of fh "[]"] s'(1,2,5,6) by simp
  moreover have "result_count (Inr ?bs) = int (min (unat n) (length d - unat offset))"
    using result_count_small [of ?bs] assms(6) by (simp add: min.commute)
  ultimately show ?thesis
    using s'(3,6) by (simp add: nfs_read_def run_blocking_def blocking_read_def or_wait_def ctry_def control_defs)
qed

text \<open>An offset of 4 GiB or more loses its upper half on the way to the server.\<close>

lemma unat_ucast_wrap: "unat (a :: u64) = 2 ^ 32 + m \<Longrightarrow> m < 2 ^ 32 \<Longrightarrow> unat (ucast a :: u32) = m"
  by (simp add: unsigned_ucast_eq take_bit_eq_mod)

lemma nfs_read_wraps:
  assumes "mounted pb cb cred verf root k s path" and "fuse_spec root s path = Inr i"
    and "holds_file (server_os s) i d" and "length d < 2 ^ 64"
    and "unat offset = 2 ^ 32 + at" and "at + unat n < 2 ^ 32" and "unat n \<le> 5000" and "length d \<le> unat offset"
  shows "\<exists>s'. nfs_read True (fuse_over pb cb cred verf root) path n offset s =
      (Go (int (min (unat n) (length d - at)), take (unat n) (drop at d)), s') \<and>
    server_os s' = server_os s"
proof -
  obtain fh nd s' where s': "inode_number fh = i" "os_inodes (server_os s) i = Some nd"
    "resolve_or_fail (fuse_over pb cb cred verf root) path s =
      (Go (\<lparr>fhandle_nfs_filehandle = Some fh\<rparr>, content_ftype (i_content nd)), s')"
    "serving (k + length path) s'" "cached s' i" "server_os s' = server_os s"
    using mounted_finds [OF assms(1,2)] by blast
  have d: "i_content nd = Regular d" using assms(3) s'(2) by (simp add: holds_file_def)
  let ?bs = "take (unat n) (drop at d)"
  have "unat (ucast (offset + of_nat (length ([] :: bytes))) :: u32) = at + length ([] :: bytes)"
    using unat_ucast_wrap [OF assms(5)] assms(6) by simp
  from read_rpc_at [OF assms(1) s'(4) _ _ d _ assms(6) this, of fh] s'(1,2,5,6) assms(7)
  have "read_rpc (fuse_over pb cb cred verf root) \<lparr>fhandle_nfs_filehandle = Some fh\<rparr> offset n [] s' =
      (Go (?bs, of_nat (length d)), s')" by (simp add: min_def)
  moreover have "\<not> offset + of_nat (length ?bs) < of_nat (length d)"
  proof -
    have "unat offset + length ?bs < 2 ^ 64" using assms(5-7) by simp
    then show ?thesis
      using assms(4,8) unat_add_small [of offset "length ?bs"] by (simp add: word_less_nat_alt unat_of_nat_small)
  qed
  ultimately have "read_loop (fuse_over pb cb cred verf root) \<lparr>fhandle_nfs_filehandle = Some fh\<rparr> offset n [] s' =
      Some (Go ?bs, s')" by (subst read_loop.simps) simp
  moreover have "result_count (Inr ?bs) = int (min (unat n) (length d - at))"
    using result_count_small [of ?bs] assms(7) by (simp add: min.commute)
  ultimately show ?thesis
    using s'(3,6) by (simp add: nfs_read_def run_blocking_def blocking_read_def or_wait_def ctry_def control_defs)
qed

section \<open>Writing\<close>

lemma write_loop_runs:
  assumes "mounted pb cb cred verf root k s path" and "serving k' t" and "cached t (inode_number fh)"
    and "holds_file (server_os t) (inode_number fh) d"
    and "unat sz = length buf" and "unat offset + length buf < 2 ^ 32" and "unat w \<le> length buf"
  shows "write_loop (fuse_over pb cb cred verf root) \<lparr>fhandle_nfs_filehandle = Some fh\<rparr> buf sz offset w
      (t\<lparr>server_os := file_write (inode_number fh) (unat offset) (take (unat w) buf) (server_os t)\<rparr>) =
    (Go sz, t\<lparr>server_os := file_write (inode_number fh) (unat offset) buf (server_os t)\<rparr>)"
  using assms(7)
proof (induction "length buf - unat w" arbitrary: w rule: less_induct)
  case less
  let ?f = "fuse_over pb cb cred verf root" and ?i = "inode_number fh"
  let ?t = "\<lambda>bs. t\<lparr>server_os := file_write ?i (unat offset) bs (server_os t)\<rparr>"
  show ?case
  proof (cases "w < sz")
    case True
    let ?len = "write_length (sz - w)" and ?new = "take (unat (write_length (sz - w))) (drop (unat w) buf)"
    note adv = write_advance [OF True]
    have lt: "unat w < length buf" using True assms(5) by (simp add: word_less_nat_alt)
    have m: "wire pb cb" "root_credential cred" using assms(1) by (simp_all add: mounted_def)
    have new: "?new \<noteq> []" "length ?new \<le> NFS_MAXDATA" using lt adv(2) assms(5) by simp_all
    have off: "unat (ucast (offset + w) :: u32) = unat offset + unat w"
      using assms(6) less.prems unat_add_small [of offset "unat w"] by (simp add: unat_ucast_small)
    have srv: "serving k' (?t (take (unat w) buf))" by (rule serving_file_write [OF assms(2)])
    have ca: "cached (?t (take (unat w) buf)) ?i" using assms(3) by (simp add: cached_def)
    have hold: "holds_file (server_os (?t (take (unat w) buf))) ?i (write_at (unat offset) (take (unat w) buf) d)"
      using holds_file_write [OF assms(4)] by simp
    obtain st where st: "serve_nfs_procedure_8_write_to_file pb cred verf
        (Some \<lparr>type_url = Some ''nfs/WriteArgs'', any_value = pack_write_args cb
          \<lparr>writeargs_file = Some \<lparr>fhandle_nfs_filehandle = Some fh\<rparr>, writeargs_offset = ucast (offset + w),
           writeargs_nfsdata = Data ?new\<rparr>\<rparr>) (?t (take (unat w) buf)) =
      (Return (Some (wrap_procedure_results_in_successful_accepted_reply (pack_attr_stat pb
         (ok_result (fattr_of_stat st))) ''nfs/AttrStat'')), ?t (take (unat w + unat ?len) buf))"
      using write_runs [where verf = verf, OF srv ca hold
          wireD(4) [where off = "ucast (offset + w)", OF m(1) new(1)] new(2) m(2)] off
        file_write_append [of ?i "unat offset" "take (unat w) buf" ?new "server_os t"] less.prems
      by (auto simp: min_absorb2 take_add)
    have "nfs_procedure_8_write_to_file (direct_remote pb cred verf) cb
          \<lparr>writeargs_file = Some \<lparr>fhandle_nfs_filehandle = Some fh\<rparr>, writeargs_offset = ucast (offset + w),
           writeargs_nfsdata = Data ?new\<rparr> (?t (take (unat w) buf)) =
        (Go (ok_result (fattr_of_stat st)), ?t (take (unat w + unat ?len) buf))"
      unfolding nfs_procedure_8_write_to_file_def
      by (rule served [OF assms(1), where unpack = "unpack_attr_stat cb", OF _ wireD(5) [OF m(1)]])
        (use st in \<open>simp add: run_program_def create_call_body_def forward_rpc_call_to_program_def call_nfs_def\<close>)
    then have "write_rpc ?f \<lparr>fhandle_nfs_filehandle = Some fh\<rparr> buf sz offset w (?t (take (unat w) buf)) =
        (Go (fattr_of_stat st), ?t (take (unat (w + ?len)) buf))"
      using adv(1) by (simp add: write_rpc_def call_and_check_def ctry_def control_defs validate_nfs_attr_stat_def
          validate_result_def ok_result_def check_status_def result_ok_def)
    moreover have "length buf - unat (w + ?len) < length buf - unat w" "unat (w + ?len) \<le> length buf"
      using adv lt assms(5) by simp_all
    ultimately show ?thesis
      using less.hyps True by (simp add: write_loop.simps [of _ _ _ _ _ w] cbind_def)
  next
    case False
    then have "sz = w" using assms(5) less.prems by (simp add: word_less_nat_alt word_unat_eq_iff)
    then show ?thesis using assms(5) by (subst write_loop.simps) (simp add: cgo_def)
  qed
qed

lemma nfs_write_runs:
  assumes "mounted pb cb cred verf root k s path" and "fuse_spec root s path = Inr i"
    and "holds_file (server_os s) i d" and "unat sz = length buf" and "unat offset + length buf < 2 ^ 32"
    and "length buf < 2 ^ 31"
  shows "\<exists>s'. nfs_write True (fuse_over pb cb cred verf root) path buf sz offset s = (Go (int (length buf)), s') \<and>
    server_os s' = file_write i (unat offset) buf (server_os s) \<and> serving (k + length path) s' \<and>
    (\<forall>j. cached s j \<longrightarrow> cached s' j)"
proof -
  obtain fh nd s' where s': "inode_number fh = i" "os_inodes (server_os s) i = Some nd"
    "resolve_or_fail (fuse_over pb cb cred verf root) path s =
      (Go (\<lparr>fhandle_nfs_filehandle = Some fh\<rparr>, content_ftype (i_content nd)), s')"
    "serving (k + length path) s'" "cached s' i" "server_os s' = server_os s" "\<forall>j. cached s j \<longrightarrow> cached s' j"
    using mounted_finds [OF assms(1,2)] by blast
  let ?s = "s'\<lparr>server_os := file_write i (unat offset) buf (server_os s)\<rparr>"
  have "s'\<lparr>server_os := file_write i (unat offset) [] (server_os s)\<rparr> = s'"
    using s'(6) by (cases s') (simp add: file_write_def)
  then have "write_loop (fuse_over pb cb cred verf root) \<lparr>fhandle_nfs_filehandle = Some fh\<rparr> buf sz offset 0 s' =
      (Go sz, ?s)"
    using write_loop_runs [OF assms(1) s'(4), of fh d sz buf offset 0] assms(3-5) s'(1,5,6) by simp
  moreover have "ucast sz = (of_nat (length buf) :: 32 word)" by (simp flip: assms(4))
  moreover have "sint (of_nat (length buf) :: 32 word) = int (length buf)"
    using assms(6) by (rule sint_of_nat_small)
  ultimately have "nfs_write True (fuse_over pb cb cred verf root) path buf sz offset s = (Go (int (length buf)), ?s)"
    using s'(3) by (simp add: nfs_write_def run_blocking_def blocking_write_def ctry_def control_defs)
  moreover have "serving (k + length path) ?s" using serving_file_write [OF s'(4), of i "unat offset" buf] s'(6) by simp
  ultimately show ?thesis using s'(7) by (intro exI [of _ ?s]) (simp add: cached_def)
qed

text \<open>A write to a regular file changes no directory.\<close>

lemma entries_file_write:
  assumes "holds_file os i d"
  shows "dir_entries (os_inodes (file_write i off new os)) = dir_entries (os_inodes os)"
  using assms by (auto simp: file_write_def upd_inode_def dir_entries_def holds_file_def fun_eq_iff)

lemma lookup_spec_file_write:
  assumes "holds_file os i d"
  shows "lookup_spec (os_inodes (file_write i off new os)) = lookup_spec (os_inodes os)"
proof -
  have "os_inodes (file_write i off new os) j = None \<longleftrightarrow> os_inodes os j = None" for j
    using assms by (auto simp: file_write_def upd_inode_def holds_file_def split: if_splits)
  then have "lookup_entry (os_inodes (file_write i off new os)) j c = lookup_entry (os_inodes os) j c" for j c
    by (auto simp: lookup_entry_def entries_file_write [OF assms] split: sum.splits option.splits)
  then show ?thesis by (simp add: lookup_spec_def fun_eq_iff)
qed

lemma resolve_spec_file_write:
  assumes "holds_file os i d"
  shows "resolve_spec (os_inodes (file_write i off new os)) j cs = resolve_spec (os_inodes os) j cs"
  by (induction cs arbitrary: j)
    (auto simp: entries_file_write [OF assms] lookup_spec_file_write [OF assms] split: sum.splits)

end
