(* ===== verification/Wire_Example.thy ===== *)
theory Wire_Example
  imports Fuse_Facts Safety
begin

text \<open>
  A serialisation library to evaluate the FUSE file system with: numbers go out in network byte order,
  strings and data at the end of their message.  It satisfies \<open>wire\<close>.
\<close>

section \<open>Numbers\<close>

definition enc64 :: "u64 \<Rightarrow> bytes" where
  "enc64 w = be_bytes (ucast (drop_bit 32 w)) @ be_bytes (ucast w)"

definition dec64 :: "bytes \<Rightarrow> u64" where
  "dec64 bs = push_bit 32 (ucast (be_word bs)) OR ucast (be_word (drop 4 bs))"

lemma be_word_append: "be_word (be_bytes w @ rest) = w"
proof -
  have "be_word (be_bytes w @ rest) = be_word (be_bytes w)" by (simp add: be_word_def be_bytes_def)
  then show ?thesis by simp
qed

lemma dec64_enc64 [simp]: "dec64 (enc64 w @ rest) = w"
proof -
  have "push_bit 32 (ucast (ucast (drop_bit 32 w) :: u32)) OR ucast (ucast w :: u32) = w"
    by (intro bit_word_eqI) (auto simp: bit_simps)
  then show ?thesis by (simp add: dec64_def enc64_def be_word_append)
qed

lemma length_enc64 [simp]: "length (enc64 w) = 8"
  by (simp add: enc64_def)

definition enc_words :: "u64 list \<Rightarrow> bytes" where
  "enc_words ws = concat (map enc64 ws)"

fun dec_words :: "nat \<Rightarrow> bytes \<Rightarrow> u64 list" where
  "dec_words 0 bs = []"
| "dec_words (Suc n) bs = dec64 bs # dec_words n (drop 8 bs)"

lemma dec_enc_words: "n = length ws \<Longrightarrow> dec_words n (enc_words ws @ rest) = ws"
  by (induction ws arbitrary: n) (auto simp: enc_words_def)

lemma length_enc_words [simp]: "length (enc_words ws) = 8 * length ws"
  by (induction ws) (simp_all add: enc_words_def)

section \<open>Messages\<close>

definition enc_handle :: "fhandle option \<Rightarrow> bytes" where
  "enc_handle fh =
    (case fh of
       Some m \<Rightarrow> (case fhandle_nfs_filehandle m of
                     Some h \<Rightarrow> enc_words [inode_number h, fh_timestamp h] | None \<Rightarrow> [])
     | None \<Rightarrow> [])"

definition dec_handle :: "bytes \<Rightarrow> fhandle" where
  "dec_handle bs = \<lparr>fhandle_nfs_filehandle =
    Some \<lparr>inode_number = dec_words 2 bs ! 0, fh_timestamp = dec_words 2 bs ! 1\<rparr>\<rparr>"

lemma handle_round_trip:
  "dec_handle (enc_handle (Some \<lparr>fhandle_nfs_filehandle = Some h\<rparr>) @ rest) = \<lparr>fhandle_nfs_filehandle = Some h\<rparr>"
  "length (enc_handle (Some \<lparr>fhandle_nfs_filehandle = Some h\<rparr>)) = 16"
  using dec_enc_words [of 2 "[inode_number h, fh_timestamp h]" rest]
  by (simp_all add: enc_handle_def dec_handle_def)

definition enc_string :: "string \<Rightarrow> bytes" where
  "enc_string n = map (\<lambda>c. of_nat (of_char c)) n"

definition dec_string :: "bytes \<Rightarrow> string" where
  "dec_string bs = map (\<lambda>b. char_of (unat b)) bs"

lemma string_round_trip [simp]: "dec_string (enc_string n) = n"
  by (induction n) (simp_all add: enc_string_def dec_string_def unat_of_nat)

definition enc_time :: "timeval option \<Rightarrow> u64 list" where
  "enc_time t = (case t of Some v \<Rightarrow> [seconds v, useconds v] | None \<Rightarrow> [0, 0])"

definition enc_fattr :: "fattr \<Rightarrow> bytes" where
  "enc_fattr a = enc_words ([fattr_fsid a, fattr_fileid a, ucast (fattr_mode a), fattr_nlink a,
    ucast (fattr_uid a), ucast (fattr_gid a), fattr_rdev a, fattr_size a, fattr_blocksize a, fattr_blocks a] @
    enc_time (fattr_atime a) @ enc_time (fattr_mtime a) @ enc_time (fattr_ctime a))"

definition dec_fattr :: "bytes \<Rightarrow> fattr" where
  "dec_fattr bs = (let w = dec_words 16 bs in fattr_of_stat
    \<lparr>st_dev = w ! 0, st_ino = w ! 1, st_mode = ucast (w ! 2), st_nlink = w ! 3, st_uid = ucast (w ! 4),
     st_gid = ucast (w ! 5), st_rdev = w ! 6, st_size = w ! 7, st_blksize = w ! 8, st_blocks = w ! 9,
     st_atim = \<lparr>tv_sec = w ! 10, tv_nsec = w ! 11\<rparr>, st_mtim = \<lparr>tv_sec = w ! 12, tv_nsec = w ! 13\<rparr>,
     st_ctim = \<lparr>tv_sec = w ! 14, tv_nsec = w ! 15\<rparr>\<rparr>)"

lemma ucast_back: "ucast (ucast (w :: u32) :: u64) = w"
  by (intro bit_word_eqI) (auto simp: bit_simps)

lemma fattr_round_trip:
  "dec_fattr (enc_fattr (fattr_of_stat st) @ rest) = fattr_of_stat st"
  "length (enc_fattr (fattr_of_stat st)) = 128"
proof -
  let ?ws = "[st_dev st, st_ino st, ucast (st_mode st), st_nlink st, ucast (st_uid st), ucast (st_gid st),
    st_rdev st, st_size st, st_blksize st, st_blocks st, tv_sec (st_atim st), tv_nsec (st_atim st),
    tv_sec (st_mtim st), tv_nsec (st_mtim st), tv_sec (st_ctim st), tv_nsec (st_ctim st)]"
  have e: "enc_fattr (fattr_of_stat st) = enc_words ?ws" by (simp add: enc_fattr_def fattr_of_stat_def enc_time_def)
  then show "length (enc_fattr (fattr_of_stat st)) = 128" by simp
  have "dec_words 16 (enc_words ?ws @ rest) = ?ws" by (rule dec_enc_words) simp
  then show "dec_fattr (enc_fattr (fattr_of_stat st) @ rest) = fattr_of_stat st"
    unfolding e dec_fattr_def Let_def by (simp add: fattr_of_stat_def ucast_back)
qed

section \<open>The library\<close>

definition ok_body :: "'a nfs_result \<Rightarrow> 'a option" where
  "ok_body r = (case result_body r of Body_Ok x \<Rightarrow> x | _ \<Rightarrow> None)"

definition wire_codec :: codec where
  "wire_codec = ex_codec
    \<lparr>unpack_fhandle := (\<lambda>bs. Some (dec_handle bs)),
     unpack_dir_op_args := (\<lambda>bs. Some
       \<lparr>dirop_dir = Some (dec_handle bs), dirop_name = Some (Some (dec_string (drop 16 bs)))\<rparr>),
     unpack_read_args := (\<lambda>bs. Some
       \<lparr>readargs_file = Some (dec_handle bs), readargs_offset = be_word (drop 16 bs),
        readargs_count = be_word (drop 20 bs)\<rparr>),
     unpack_write_args := (\<lambda>bs. Some
       \<lparr>writeargs_file = Some (dec_handle bs), writeargs_offset = be_word (drop 16 bs),
        writeargs_nfsdata = Data (drop 20 bs)\<rparr>),
     pack_attr_stat := (\<lambda>r. case ok_body r of Some a \<Rightarrow> enc_fattr a | None \<Rightarrow> []),
     pack_dir_op_res := (\<lambda>r. case ok_body r of
         Some d \<Rightarrow> 0 # enc_handle (diropok_file d) @
           (case diropok_attributes d of Some a \<Rightarrow> enc_fattr a | None \<Rightarrow> [])
       | None \<Rightarrow> [1]),
     pack_read_res := (\<lambda>r. case ok_body r of
         Some b \<Rightarrow> (case readres_attributes b of Some a \<Rightarrow> enc_fattr a | None \<Rightarrow> []) @
           nfsdata_bytes (readres_nfsdata b)
       | None \<Rightarrow> [])\<rparr>"

definition wire_client :: client_codec where
  "wire_client = ex_client_codec
    \<lparr>pack_fhandle := (\<lambda>m. enc_handle (Some m)),
     pack_dir_op_args := (\<lambda>m. enc_handle (dirop_dir m) @
       (case dirop_name m of Some (Some n) \<Rightarrow> enc_string n | _ \<Rightarrow> [])),
     pack_read_args := (\<lambda>m. enc_handle (readargs_file m) @ be_bytes (readargs_offset m) @
       be_bytes (readargs_count m)),
     pack_write_args := (\<lambda>m. enc_handle (writeargs_file m) @ be_bytes (writeargs_offset m) @
       nfsdata_bytes (writeargs_nfsdata m)),
     unpack_attr_stat := (\<lambda>bs. Some (ok_result (dec_fattr bs))),
     unpack_dir_op_res := (\<lambda>bs. Some (if bs = [1] then error_result NFSERR_NOENT
       else ok_result \<lparr>diropok_file = Some (dec_handle (tl bs)),
              diropok_attributes = Some (dec_fattr (drop 17 bs))\<rparr>)),
     unpack_read_res := (\<lambda>bs. Some (ok_result \<lparr>readres_attributes = Some (dec_fattr bs),
       readres_nfsdata = (if drop 128 bs = [] then Null_Data 0 else Data (drop 128 bs))\<rparr>))\<rparr>"

lemmas wire_defs = wire_codec_def wire_client_def ok_body_def ok_result_def error_result_def nfsdata_bytes_def

lemma wire_example: "wire wire_codec wire_client"
proof -
  note h = handle_round_trip handle_round_trip(1) [where rest = "[]", simplified]
  note a = fattr_round_trip fattr_round_trip(1) [where rest = "[]", simplified]
  have w: "be_word (be_bytes (n :: u32)) = n" for n by simp
  show ?thesis
    unfolding wire_def Let_def
    by (intro conjI allI impI) (simp_all add: wire_defs h a be_word_append)
qed

end
