(* ===== verification/Fuse_Changes.thy ===== *)
theory Fuse_Changes
  imports Fuse_Client "HOL-Library.Signed_Division"
begin

text \<open>
  The FUSE handlers that change names and attributes, with \<open>readlink\<close> and \<open>open\<close>, one section per file of
  \<open>src/fuse/handlers\<close>, and the mounting of the remote file system (\<open>nfs_fuse.c\<close>).
\<close>

section \<open>\<open>fuse_readlink.c\<close>\<close>

text \<open>
  The string in the buffer of \<open>max_bytes_to_read\<close> bytes after \<open>strncpy\<close> and the terminating zero.  With a
  size of 0 the zero is written before the buffer.
\<close>

definition blocking_readlink :: "'c fuse \<Rightarrow> string \<Rightarrow> u64 \<Rightarrow> ('c, string) blocking" where
  "blocking_readlink f path max_bytes_to_read =
    cbind (resolve_or_fail f path) (\<lambda>(file_fhandle, file_type).
    cbind (call_and_check Mapped_After_Free validate_nfs_read_link_res
      (nfs_procedure_5_read_from_symbolic_link (fuse_remote f) (fuse_codec f) file_fhandle)) (\<lambda>data.
    cbind (cderef data) (\<lambda>target.
    if max_bytes_to_read = 0 then cub else cgo (take (unat max_bytes_to_read - 1) target))))"

definition nfs_readlink :: "bool \<Rightarrow> 'c fuse \<Rightarrow> string \<Rightarrow> u64 \<Rightarrow> ('c, unit, int \<times> string option) cprog" where
  "nfs_readlink created f path sz =
    cbind (run_blocking created (blocking_readlink f path sz)) (\<lambda>r.
    cgo (result_code r, case r of Inl _ \<Rightarrow> None | Inr target \<Rightarrow> Some target))"

section \<open>\<open>fuse_open.c\<close>\<close>

abbreviation O_TRUNC :: u32 where "O_TRUNC \<equiv> 0x200"

definition no_time :: timeval where
  "no_time = \<lparr>seconds = -1, useconds = -1\<rparr>"

text \<open>The \<open>SAttr\<close> that leaves everything but the size, or the time stamps, alone.\<close>

definition size_sattr :: "u64 \<Rightarrow> sattr" where
  "size_sattr new_size =
    \<lparr>sattr_mode = -1, sattr_uid = -1, sattr_gid = -1, sattr_size = new_size,
     sattr_atime = Some no_time, sattr_mtime = Some no_time\<rparr>"

definition set_attributes :: "'c fuse \<Rightarrow> fhandle \<Rightarrow> sattr \<Rightarrow> ('c, fattr) blocking" where
  "set_attributes f file_fhandle sattr =
    call_and_check Mapped_After_Free validate_nfs_attr_stat
      (nfs_procedure_2_set_file_attributes (fuse_remote f) (fuse_codec f)
        \<lparr>sattrargs_file = Some file_fhandle, sattrargs_attributes = Some sattr\<rparr>)"

definition blocking_open :: "'c fuse \<Rightarrow> string \<Rightarrow> u32 \<Rightarrow> ('c, unit) blocking" where
  "blocking_open f path flags =
    cbind (resolve_or_fail f path) (\<lambda>(file_fhandle, file_type).
    cbind (cguard (file_type = NFREG) (- errno_code EISDIR)) (\<lambda>_.
    if flags AND O_TRUNC \<noteq> 0
    then cbind (set_attributes f file_fhandle (size_sattr 0)) (\<lambda>_. cgo ())
    else cgo ()))"

definition nfs_open :: "bool \<Rightarrow> 'c fuse \<Rightarrow> string \<Rightarrow> u32 \<Rightarrow> ('c, unit, int) cprog" where
  "nfs_open created f path flags =
    cbind (run_blocking created (blocking_open f path flags)) (\<lambda>r. cgo (result_code r))"

section \<open>\<open>fuse_truncate.c\<close>\<close>

definition blocking_truncate :: "'c fuse \<Rightarrow> string \<Rightarrow> u64 \<Rightarrow> ('c, unit) blocking" where
  "blocking_truncate f path new_file_size =
    cbind (ctry (resolve_absolute_path f (Some path))) (\<lambda>r.
    case r of
      Inl error_code \<Rightarrow> creturn (- errno_code ENOENT)
    | Inr (file_fhandle, file_type) \<Rightarrow>
        cbind (set_attributes f file_fhandle (size_sattr new_file_size)) (\<lambda>_. cgo ()))"

definition nfs_truncate :: "bool \<Rightarrow> 'c fuse \<Rightarrow> string \<Rightarrow> u64 \<Rightarrow> ('c, unit, int) cprog" where
  "nfs_truncate created f path sz =
    cbind (run_blocking created (blocking_truncate f path sz)) (\<lambda>r. cgo (result_code r))"

section \<open>\<open>fuse_utimens.c\<close>\<close>

abbreviation UTIME_NOW :: u64 where "UTIME_NOW \<equiv> 0x3FFFFFFF"
abbreviation UTIME_OMIT :: u64 where "UTIME_OMIT \<equiv> 0x3FFFFFFE"

text \<open>\<open>now\<close> is what \<open>clock_gettime\<close> gives, where it is asked.  The division is that of a signed \<open>long\<close>.\<close>

definition time_to_send :: "timespec \<Rightarrow> timespec \<Rightarrow> timeval" where
  "time_to_send now t =
    (if tv_sec t = UTIME_OMIT \<or> tv_nsec t = UTIME_OMIT then no_time
     else if tv_nsec t = UTIME_NOW then \<lparr>seconds = tv_sec now, useconds = of_int (sint (tv_nsec now) sdiv 1000)\<rparr>
     else \<lparr>seconds = tv_sec t, useconds = of_int (sint (tv_nsec t) sdiv 1000)\<rparr>)"

definition blocking_utimens ::
  "'c fuse \<Rightarrow> timespec \<times> timespec \<Rightarrow> string \<Rightarrow> timespec \<Rightarrow> timespec \<Rightarrow> ('c, unit) blocking" where
  "blocking_utimens f clock path atime mtime =
    cbind (resolve_or_fail f path) (\<lambda>(file_fhandle, file_type).
    cbind (set_attributes f file_fhandle
      \<lparr>sattr_mode = -1, sattr_uid = -1, sattr_gid = -1, sattr_size = -1,
       sattr_atime = Some (time_to_send (fst clock) atime),
       sattr_mtime = Some (time_to_send (snd clock) mtime)\<rparr>) (\<lambda>_. cgo ()))"

definition nfs_utimens ::
  "bool \<Rightarrow> 'c fuse \<Rightarrow> timespec \<times> timespec \<Rightarrow> string \<Rightarrow> timespec \<Rightarrow> timespec \<Rightarrow> ('c, unit, int) cprog" where
  "nfs_utimens created f clock path atime mtime =
    cbind (run_blocking created (blocking_utimens f clock path atime mtime)) (\<lambda>r. cgo (result_code r))"

section \<open>\<open>fuse_mkdir.c\<close> and \<open>fuse_mknod.c\<close>\<close>

text \<open>\<open>rpc_connection_context->credential->auth_sys\<close>, a member of a union.\<close>

definition credential_auth_sys :: "'c fuse \<Rightarrow> ('c, 'r, auth_sys_params) cprog" where
  "credential_auth_sys f =
    cbind (cderef (fuse_credential f)) (\<lambda>cred.
    case auth_body cred of Auth_Body_Auth_Sys (Some a) \<Rightarrow> cgo a | _ \<Rightarrow> cub)"

definition new_file_args :: "fhandle \<Rightarrow> string \<Rightarrow> mode_t \<Rightarrow> auth_sys_params \<Rightarrow> create_args" where
  "new_file_args directory filename mode auth_sys =
    \<lparr>createargs_where = Some \<lparr>dirop_dir = Some directory, dirop_name = Some (Some filename)\<rparr>,
     createargs_attributes = Some
       \<lparr>sattr_mode = mode, sattr_uid = auth_uid auth_sys, sattr_gid = auth_gid auth_sys,
        sattr_size = -1, sattr_atime = Some no_time, sattr_mtime = Some no_time\<rparr>\<rparr>"

definition blocking_mkdir :: "'c fuse \<Rightarrow> string \<Rightarrow> string \<Rightarrow> mode_t \<Rightarrow> ('c, unit) blocking" where
  "blocking_mkdir f containing_directory_path new_directory_name mode =
    cbind (resolve_or_fail f containing_directory_path) (\<lambda>(directory, file_type).
    cbind (credential_auth_sys f) (\<lambda>auth_sys.
    cbind (call_and_check Mapped_After_Free validate_nfs_dir_op_res
      (nfs_procedure_14_create_directory (fuse_remote f) (fuse_codec f)
        (new_file_args directory new_directory_name mode auth_sys))) (\<lambda>_. cgo ())))"

definition nfs_mkdir :: "bool \<Rightarrow> 'c fuse \<Rightarrow> string \<Rightarrow> mode_t \<Rightarrow> ('c, unit, int) cprog" where
  "nfs_mkdir created f path mode =
    cbind (run_blocking created (blocking_mkdir f (containing_directory path) (basename path) mode))
      (\<lambda>r. cgo (result_code r))"

definition blocking_mknod :: "'c fuse \<Rightarrow> string \<Rightarrow> string \<Rightarrow> mode_t \<Rightarrow> u64 \<Rightarrow> ('c, unit) blocking" where
  "blocking_mknod f containing_directory_path new_file_name mode rdev =
    cbind (resolve_or_fail f containing_directory_path) (\<lambda>(directory, file_type).
    cbind (credential_auth_sys f) (\<lambda>auth_sys.
    cbind (call_and_check Mapped_After_Free validate_nfs_dir_op_res
      (nfs_procedure_9_create_file (fuse_remote f) (fuse_codec f)
        (new_file_args directory new_file_name mode auth_sys))) (\<lambda>_. cgo ())))"

definition nfs_mknod :: "bool \<Rightarrow> 'c fuse \<Rightarrow> string \<Rightarrow> mode_t \<Rightarrow> u64 \<Rightarrow> ('c, unit, int) cprog" where
  "nfs_mknod created f path mode rdev =
    cbind (run_blocking created (blocking_mknod f (containing_directory path) (basename path) mode rdev))
      (\<lambda>r. cgo (result_code r))"

section \<open>\<open>fuse_link.c\<close> and \<open>fuse_symlink.c\<close>\<close>

definition blocking_link :: "'c fuse \<Rightarrow> string \<Rightarrow> string \<Rightarrow> string \<Rightarrow> ('c, unit) blocking" where
  "blocking_link f target_path containing_directory_path link_name =
    cbind (resolve_or_fail f containing_directory_path) (\<lambda>(directory, directory_type).
    cbind (resolve_or_fail f target_path) (\<lambda>(target, target_type).
    call_and_check_stat (nfs_procedure_12_create_link_to_file (fuse_remote f) (fuse_codec f)
      \<lparr>linkargs_from = Some target,
       linkargs_to = Some \<lparr>dirop_dir = Some directory, dirop_name = Some (Some link_name)\<rparr>\<rparr>)))"

definition nfs_link :: "bool \<Rightarrow> 'c fuse \<Rightarrow> string \<Rightarrow> string \<Rightarrow> ('c, unit, int) cprog" where
  "nfs_link created f target_path link_path =
    cbind (run_blocking created
      (blocking_link f target_path (containing_directory link_path) (basename link_path)))
      (\<lambda>r. cgo (result_code r))"

definition blocking_symlink :: "'c fuse \<Rightarrow> string \<Rightarrow> string \<Rightarrow> string \<Rightarrow> ('c, unit) blocking" where
  "blocking_symlink f target_path containing_directory_path symlink_name =
    cbind (resolve_or_fail f containing_directory_path) (\<lambda>(directory, file_type).
    call_and_check_stat (nfs_procedure_13_create_symbolic_link (fuse_remote f) (fuse_codec f)
      \<lparr>symlinkargs_from = Some \<lparr>dirop_dir = Some directory, dirop_name = Some (Some symlink_name)\<rparr>,
       symlinkargs_to = Some (Some target_path), symlinkargs_attributes = Some (size_sattr (-1))\<rparr>))"

definition nfs_symlink :: "bool \<Rightarrow> 'c fuse \<Rightarrow> string \<Rightarrow> string \<Rightarrow> ('c, unit, int) cprog" where
  "nfs_symlink created f target_path link_path =
    cbind (run_blocking created
      (blocking_symlink f target_path (containing_directory link_path) (basename link_path)))
      (\<lambda>r. cgo (result_code r))"

section \<open>\<open>fuse_rename.c\<close>\<close>

definition blocking_rename :: "'c fuse \<Rightarrow> string \<Rightarrow> string \<Rightarrow> string \<Rightarrow> string \<Rightarrow> ('c, unit) blocking" where
  "blocking_rename f old_directory_path old_file_name new_directory_path new_file_name =
    cbind (resolve_or_fail f old_directory_path) (\<lambda>(old_directory, old_type).
    cbind (resolve_or_fail f new_directory_path) (\<lambda>(new_directory, new_type).
    call_and_check_stat (nfs_procedure_11_rename_file (fuse_remote f) (fuse_codec f)
      \<lparr>renameargs_from = Some \<lparr>dirop_dir = Some old_directory, dirop_name = Some (Some old_file_name)\<rparr>,
       renameargs_to = Some \<lparr>dirop_dir = Some new_directory, dirop_name = Some (Some new_file_name)\<rparr>\<rparr>)))"

text \<open>The flags of \<open>renameat2\<close> are not looked at.\<close>

definition nfs_rename :: "bool \<Rightarrow> 'c fuse \<Rightarrow> string \<Rightarrow> string \<Rightarrow> u32 \<Rightarrow> ('c, unit, int) cprog" where
  "nfs_rename created f from to flags =
    cbind (run_blocking created (blocking_rename f (containing_directory from) (basename from)
        (containing_directory to) (basename to)))
      (\<lambda>r. cgo (result_code r))"

section \<open>\<open>fuse_rmdir.c\<close> and \<open>fuse_unlink.c\<close>\<close>

definition blocking_rmdir :: "'c fuse \<Rightarrow> string \<Rightarrow> string \<Rightarrow> ('c, unit) blocking" where
  "blocking_rmdir f containing_directory_path directory_name =
    cbind (resolve_or_fail f containing_directory_path) (\<lambda>(directory, file_type).
    call_and_check_stat (nfs_procedure_15_remove_directory (fuse_remote f) (fuse_codec f)
      \<lparr>dirop_dir = Some directory, dirop_name = Some (Some directory_name)\<rparr>))"

definition nfs_rmdir :: "bool \<Rightarrow> 'c fuse \<Rightarrow> string \<Rightarrow> ('c, unit, int) cprog" where
  "nfs_rmdir created f path =
    cbind (run_blocking created (blocking_rmdir f (containing_directory path) (basename path)))
      (\<lambda>r. cgo (result_code r))"

definition blocking_unlink :: "'c fuse \<Rightarrow> string \<Rightarrow> string \<Rightarrow> ('c, unit) blocking" where
  "blocking_unlink f containing_directory_path file_name =
    cbind (resolve_or_fail f containing_directory_path) (\<lambda>(directory, file_type).
    call_and_check_stat (nfs_procedure_10_remove_file (fuse_remote f) (fuse_codec f)
      \<lparr>dirop_dir = Some directory, dirop_name = Some (Some file_name)\<rparr>))"

definition nfs_unlink :: "bool \<Rightarrow> 'c fuse \<Rightarrow> string \<Rightarrow> ('c, unit, int) cprog" where
  "nfs_unlink created f path =
    cbind (run_blocking created (blocking_unlink f (containing_directory path) (basename path)))
      (\<lambda>r. cgo (result_code r))"

section \<open>Mounting\<close>

text \<open>
  \<open>rc\<close> is the remote of the context that was created (it has no protocol when that failed).  The function
  returns 1 on every failure and goes on with the root handle that it stores in a global.
\<close>

definition mount_remote_filesystem :: "'c remote \<Rightarrow> client_codec \<Rightarrow> string \<Rightarrow> ('c, nat, fhandle) cprog" where
  "mount_remote_filesystem rc cb remote_absolute_path =
    cbind (cget (remote_protocol rc)) (\<lambda>context.
    cbind (csome context 1) (\<lambda>_.
    cbind (ctry (mount_procedure_1_add_mount_entry rc cb (Some remote_absolute_path))) (\<lambda>res.
    case res of
      Inl status \<Rightarrow> creturn 1
    | Inr fhstatus \<Rightarrow>
        cbind (cguard (validate_mount_fh_status (Some fhstatus) = 0) 1) (\<lambda>_.
        cbind (cderef (mnt_status fhstatus)) (\<lambda>stat.
        cbind (cguard (stat = MNT_OK) 1) (\<lambda>_.
        cbind (case fhstatus_body fhstatus of Body_Ok (Some d) \<Rightarrow> cgo d | _ \<Rightarrow> cub) (\<lambda>directory.
        cbind (cderef (fhandle_nfs_filehandle directory)) (\<lambda>nfs_filehandle.
        cgo \<lparr>fhandle_nfs_filehandle = Some (deep_copy_nfs_filehandle nfs_filehandle)\<rparr>))))))))"

end
