(* ===== verification/Fuse_Properties.thy ===== *)
theory Fuse_Properties
  imports Wire_Example Fuse_Changes
begin

text \<open>
  What the FUSE file system promises its users, on top of a server (\<open>fuse_over\<close>): paths lead where the
  directories of the server lead, \<open>getattr\<close> is a remote \<open>lstat\<close>, and \<open>read\<close> and \<open>write\<close> move any number of
  bytes.
\<close>

section \<open>An example\<close>

definition ex_root_fh :: nfs_filehandle where
  "ex_root_fh = \<lparr>inode_number = 3, fh_timestamp = 100\<rparr>"

definition ex_fuse :: "server fuse" where
  "ex_fuse = fuse_over wire_codec wire_client (ex_cred 0) ex_verf ex_root_fh"

lemma ex_root: "root_credential (ex_cred 0)" "verifier_error ex_verf = None"
  by (simp_all add: root_credential_def ex_defs credential_error_def verifier_error_def create_auth_none_opaque_auth_def)

lemma ex_serving: "serving 4 ex_server"
  using ex_server_consistent
  by (simp add: serving_def sessions_ok_def named_def clean_path_def path_defs ex_server_def ex_os_def)

lemma ex_root_dir: "dir_entries (os_inodes (server_os ex_server)) (inode_number ex_root_fh) =
    Inr [(''.'', 3), (''..'', 2), (''f'', 4), (''s'', 6)]"
  by (simp add: ex_root_fh_def dir_entries_def ex_defs)

lemma ex_cached: "cached ex_server (inode_number ex_root_fh)"
  by (simp add: cached_def ex_server_def ex_root_fh_def)

lemma ex_mounted: "mounted wire_codec wire_client (ex_cred 0) ex_verf ex_root_fh 4 ex_server ''/f''"
  using wire_example ex_root ex_serving ex_cached ex_root_dir by (simp add: mounted_def)

lemma ex_spec: "fuse_spec ex_root_fh ex_server ''/f'' = Inr 4"
  by (simp add: ex_root_fh_def lookup_spec_def pathname_components_def ex_defs path_defs)

lemma ex_holds: "holds_file (server_os ex_server) 4 [1, 2, 3]"
  by (simp add: holds_file_def ex_defs)

section \<open>What the file system promises\<close>











section \<open>Errors\<close>

text \<open>A server that gives every call the same answer.\<close>

definition ex_failing :: "unit fuse" where
  "ex_failing =
    \<lparr>fuse_remote = \<lparr>remote_protocol = (\<lambda>_. Some TRANSPORT_PROTOCOL_TCP),
       remote_tcp = (\<lambda>_ _ _ _. creturn (Some (reply_message 0 (accepted_body
         (Some (wrap_procedure_results_in_successful_accepted_reply [] ''nfs/NfsStat'')))))),
       remote_quic = (\<lambda>_ _ _ _ _. cub)\<rparr>,
     fuse_codec = ex_client_codec\<lparr>unpack_nfs_stat := (\<lambda>_. Some NFSERR_NOTEMPTY)\<rparr>,
     fuse_credential = None, filesystem_root_fhandle = Some (ex_fhandle 3)\<rparr>"



end
