(* ===== verification/Allocation_Queue.thy ===== *)
theory Allocation_Queue
  imports Control
begin

text \<open>
  The queue of \<open>stream_allocation.c\<close>: calls of the QUIC client that wait for a stream.  It is a doubly
  linked list on the heap, from the \<open>back\<close>, where entries are pushed, along \<open>next\<close> to the \<open>front\<close>, where
  they are popped.  The heap of entries is a map from addresses; an entry names the address of a stream
  context.

  \<open>queue_holds\<close> relates the pointers to the list of the contexts, the oldest first.  The locale
  \<open>fifo_queue\<close> is the contract, and its interpretation shows that the pointer operations meet it.
\<close>

record queue_entry =
  entry_context :: nat
  entry_next :: "nat option"
  entry_prev :: "nat option"

record stream_allocation_queue =
  queue_entries :: "nat \<rightharpoonup> queue_entry"
  queue_back :: "nat option"
  queue_front :: "nat option"
  queue_heap :: nat

text \<open>\<open>queue_heap\<close> is the next address that \<open>malloc\<close> gives out.\<close>

definition empty_queue :: stream_allocation_queue where
  "empty_queue = \<lparr>queue_entries = Map.empty, queue_back = None, queue_front = None, queue_heap = 0\<rparr>"

definition set_entry :: "nat \<Rightarrow> queue_entry \<Rightarrow> stream_allocation_queue \<Rightarrow> stream_allocation_queue" where
  "set_entry a e q = q\<lparr>queue_entries := (queue_entries q)(a \<mapsto> e)\<rparr>"

definition entry_at :: "nat \<Rightarrow> (stream_allocation_queue, 'r, queue_entry) cprog" where
  "entry_at a = cbind (cget (\<lambda>q. queue_entries q a)) cderef"

definition push_to_stream_allocation_queue :: "nat \<Rightarrow> (stream_allocation_queue, nat, nat) cprog" where
  "push_to_stream_allocation_queue stream_context =
    cbind (cget queue_heap) (\<lambda>new_entry.
    cbind (cget queue_back) (\<lambda>back.
    cbind (cmodify (\<lambda>q. set_entry new_entry
      \<lparr>entry_context = stream_context, entry_next = back, entry_prev = None\<rparr> (q\<lparr>queue_heap := new_entry + 1\<rparr>))) (\<lambda>_.
    cbind (case back of
             None \<Rightarrow> cgo ()
           | Some b \<Rightarrow> cbind (entry_at b) (\<lambda>e. cmodify (set_entry b (e\<lparr>entry_prev := Some new_entry\<rparr>)))) (\<lambda>_.
    cbind (cmodify (queue_back_update (\<lambda>_. Some new_entry))) (\<lambda>_.
    cbind (cget queue_front) (\<lambda>front.
    cbind (if front = None then cmodify (queue_front_update (\<lambda>_. Some new_entry)) else cgo ()) (\<lambda>_.
    cgo 0)))))))"

definition pop_from_stream_allocation_queue :: "(stream_allocation_queue, nat, nat) cprog" where
  "pop_from_stream_allocation_queue =
    cbind (cget queue_front) (\<lambda>front.
    cbind (csome front 2) (\<lambda>first.
    cbind (entry_at first) (\<lambda>e.
    cbind (case entry_prev e of
             Some prev \<Rightarrow>
               cbind (entry_at prev) (\<lambda>p.
               cbind (cmodify (set_entry prev (p\<lparr>entry_next := None\<rparr>))) (\<lambda>_.
               cmodify (queue_front_update (\<lambda>_. Some prev))))
           | None \<Rightarrow>
               cbind (cmodify (queue_front_update (\<lambda>_. None))) (\<lambda>_.
               cmodify (queue_back_update (\<lambda>_. None)))) (\<lambda>_.
    cbind (cmodify (queue_entries_update (\<lambda>h. h(first := None)))) (\<lambda>_.
    cgo 0)))))"

text \<open>The entries are freed along \<open>next\<close>; a pointer to a freed entry is not followed.\<close>

partial_function (option) free_stream_allocation_queue ::
  "nat option \<Rightarrow> stream_allocation_queue \<Rightarrow> ((unit, unit) ctl \<times> stream_allocation_queue) option" where
  "free_stream_allocation_queue current q =
    (case current of
       None \<Rightarrow> Some (Go (), q)
     | Some a \<Rightarrow>
         (case queue_entries q a of
            None \<Rightarrow> Some (UB, q)
          | Some e \<Rightarrow> free_stream_allocation_queue (entry_next e) (q\<lparr>queue_entries := (queue_entries q)(a := None)\<rparr>)))"

section \<open>The contract\<close>

locale fifo_queue =
  fixes holds :: "'s \<Rightarrow> 'a list \<Rightarrow> bool"
    and push :: "'a \<Rightarrow> ('s, nat, nat) cprog"
    and pop :: "('s, nat, nat) cprog"
  assumes push_back: "holds s xs \<Longrightarrow> \<exists>s'. push x s = (Go 0, s') \<and> holds s' (xs @ [x])"
    and pop_front: "holds s (x # xs) \<Longrightarrow> \<exists>s'. pop s = (Go 0, s') \<and> holds s' xs"
    and pop_empty: "holds s [] \<Longrightarrow> pop s = (Return 2, s)"
begin

fun push_all :: "'a list \<Rightarrow> 's \<Rightarrow> 's" where
  "push_all [] s = s"
| "push_all (x # xs) s = push_all xs (snd (push x s))"

fun pop_times :: "nat \<Rightarrow> 's \<Rightarrow> 's" where
  "pop_times 0 s = s"
| "pop_times (Suc n) s = pop_times n (snd (pop s))"

lemma holds_push_all: "holds s xs \<Longrightarrow> holds (push_all ys s) (xs @ ys)"
proof (induction ys arbitrary: s xs)
  case (Cons y ys)
  from push_back [OF Cons.prems, of y] Cons.IH [of "snd (push y s)" "xs @ [y]"] show ?case by auto
qed simp

lemma holds_pop_times: "holds s xs \<Longrightarrow> n \<le> length xs \<Longrightarrow> holds (pop_times n s) (drop n xs)"
proof (induction n arbitrary: s xs)
  case (Suc n)
  then obtain x ys where xs: "xs = x # ys" by (cases xs) auto
  from pop_front [of s x ys] Suc.prems xs Suc.IH [of "snd (pop s)" ys] show ?case by auto
qed simp

lemma fifo: "holds s xs \<Longrightarrow> n \<le> length xs + length ys \<Longrightarrow>
    holds (pop_times n (push_all ys s)) (drop n (xs @ ys))"
  using holds_pop_times [OF holds_push_all, of s xs n ys] by simp

end

section \<open>The pointers\<close>

text \<open>\<open>segment h p xs\<close>: the entries \<open>xs\<close>, with their addresses, from the back on; \<open>p\<close> comes before the first.\<close>

fun segment :: "(nat \<rightharpoonup> queue_entry) \<Rightarrow> nat option \<Rightarrow> (nat \<times> nat) list \<Rightarrow> bool" where
  "segment h p [] \<longleftrightarrow> True"
| "segment h p ((a, c) # xs) \<longleftrightarrow>
    h a = Some \<lparr>entry_context = c, entry_next = (case xs of [] \<Rightarrow> None | (b, _) # _ \<Rightarrow> Some b), entry_prev = p\<rparr> \<and>
    segment h (Some a) xs"

definition first_address :: "(nat \<times> nat) list \<Rightarrow> nat option" where
  "first_address xs = (case xs of [] \<Rightarrow> None | (a, _) # _ \<Rightarrow> Some a)"

definition last_address :: "nat option \<Rightarrow> (nat \<times> nat) list \<Rightarrow> nat option" where
  "last_address p xs = (if xs = [] then p else Some (fst (last xs)))"

definition linked_entries :: "stream_allocation_queue \<Rightarrow> (nat \<times> nat) list \<Rightarrow> bool" where
  "linked_entries q xs \<longleftrightarrow>
    segment (queue_entries q) None xs \<and> distinct (map fst xs) \<and> (\<forall>a \<in> fst ` set xs. a < queue_heap q) \<and>
    dom (queue_entries q) = fst ` set xs \<and>
    queue_back q = first_address xs \<and> queue_front q = last_address None xs"

definition queue_holds :: "stream_allocation_queue \<Rightarrow> nat list \<Rightarrow> bool" where
  "queue_holds q cs \<longleftrightarrow> (\<exists>xs. linked_entries q xs \<and> cs = rev (map snd xs))"

lemma segment_frame: "segment h p xs \<Longrightarrow> a \<notin> fst ` set xs \<Longrightarrow> segment (h(a := v)) p xs"
  by (induction h p xs rule: segment.induct) auto

lemma segment_last:
  "segment h p (xs @ [(a, c)]) \<Longrightarrow>
    h a = Some \<lparr>entry_context = c, entry_next = None, entry_prev = last_address p xs\<rparr>"
  by (induction h p xs rule: segment.induct) (auto simp: last_address_def)

text \<open>Cutting the last entry off: the one before it has no next entry then.\<close>

lemma segment_cut:
  assumes "segment h p (xs @ [(b, d), (a, c)])" and "distinct (map fst (xs @ [(b, d), (a, c)]))"
  shows "\<exists>e. h b = Some e \<and> segment ((h(b \<mapsto> e\<lparr>entry_next := None\<rparr>))(a := None)) p (xs @ [(b, d)])"
  using assms
proof (induction xs arbitrary: p)
  case (Cons x xs)
  obtain a' c' where x: "x = (a', c')" by force
  from Cons.prems have seg: "segment h (Some a') (xs @ [(b, d), (a, c)])"
    "distinct (map fst (xs @ [(b, d), (a, c)]))" "a' \<noteq> b" "a' \<noteq> a" by (auto simp: x)
  have "(case xs @ [(b, d), (a, c)] of [] \<Rightarrow> None | (b, _) # _ \<Rightarrow> Some b) =
      (case xs @ [(b, d)] of [] \<Rightarrow> None | (b, _) # _ \<Rightarrow> Some b)" by (cases xs) auto
  with Cons.IH [OF seg(1,2)] Cons.prems(1) seg(3,4) show ?case by (simp add: x)
qed simp

lemma push_linked:
  assumes "linked_entries q xs"
  shows "\<exists>q'. push_to_stream_allocation_queue c q = (Go 0, q') \<and> linked_entries q' ((queue_heap q, c) # xs)"
proof (cases xs)
  case Nil
  with assms show ?thesis
    by (auto simp: push_to_stream_allocation_queue_def linked_entries_def first_address_def last_address_def
        set_entry_def control_defs)
next
  case (Cons x ys)
  obtain b d where x: "x = (b, d)" by force
  let ?new = "queue_heap q" and ?h = "queue_entries q"
  let ?e = "\<lparr>entry_context = d, entry_next = first_address ys, entry_prev = Some (queue_heap q)\<rparr>"
  let ?h' = "?h(?new \<mapsto> \<lparr>entry_context = c, entry_next = Some b, entry_prev = None\<rparr>, b \<mapsto> ?e)"
  let ?q = "q\<lparr>queue_entries := ?h', queue_heap := ?new + 1, queue_back := Some ?new\<rparr>"
  have seg: "segment ?h (Some b) ys" and b: "?h b = Some \<lparr>entry_context = d, entry_next = first_address ys, entry_prev = None\<rparr>"
    and ne: "?new \<noteq> b" "?new \<notin> fst ` set ys" "b \<notin> fst ` set ys"
    using assms by (auto simp: linked_entries_def first_address_def Cons x)
  have "segment ?h' None ((?new, c) # xs)"
    using segment_frame [OF segment_frame [OF seg ne(2)] ne(3)] ne(1) by (simp add: Cons x first_address_def)
  moreover have "distinct (map fst ((?new, c) # xs))" "\<forall>a \<in> fst ` set ((?new, c) # xs). a < ?new + 1"
    "dom ?h' = fst ` set ((?new, c) # xs)" "queue_front q = last_address None ((?new, c) # xs)"
    using assms ne by (auto simp: linked_entries_def last_address_def Cons x)
  ultimately have "linked_entries ?q ((?new, c) # xs)"
    by (simp add: linked_entries_def first_address_def [of "(_, _) # _"])
  moreover have "push_to_stream_allocation_queue c q = (Go 0, ?q)"
    using assms b ne(1)
    by (simp add: push_to_stream_allocation_queue_def entry_at_def linked_entries_def first_address_def
        last_address_def set_entry_def control_defs Cons x)
  ultimately show ?thesis by blast
qed

lemma pop_linked:
  assumes "linked_entries q (xs @ [(a, c)])"
  shows "\<exists>q'. pop_from_stream_allocation_queue q = (Go 0, q') \<and> linked_entries q' xs"
proof (cases xs rule: rev_cases)
  case Nil
  then have "dom (queue_entries q) = {a}" using assms by (simp add: linked_entries_def)
  then have "(queue_entries q)(a := None) = Map.empty" by (auto simp: fun_eq_iff dom_def)
  then show ?thesis
    using assms Nil by (simp add: pop_from_stream_allocation_queue_def entry_at_def linked_entries_def
        first_address_def last_address_def control_defs)
next
  case (snoc ys y)
  obtain b d where y: "y = (b, d)" by force
  let ?h = "queue_entries q"
  have seg: "segment ?h None (ys @ [(b, d), (a, c)])" "distinct (map fst (ys @ [(b, d), (a, c)]))"
    using assms by (simp_all add: linked_entries_def snoc y)
  from segment_cut [OF this] obtain e where e: "?h b = Some e"
    "segment ((?h(b \<mapsto> e\<lparr>entry_next := None\<rparr>))(a := None)) None (ys @ [(b, d)])" by blast
  let ?q = "q\<lparr>queue_entries := (?h(b \<mapsto> e\<lparr>entry_next := None\<rparr>))(a := None), queue_front := Some b\<rparr>"
  have a: "?h a = Some \<lparr>entry_context = c, entry_next = None, entry_prev = Some b\<rparr>"
    using segment_last [of ?h None "ys @ [(b, d)]" a c] seg(1) by (simp add: last_address_def)
  have "first_address (ys @ [(b, d), (a, c)]) = first_address (ys @ [(b, d)])"
    by (cases ys) (simp_all add: first_address_def)
  then have "linked_entries ?q xs"
    using assms e seg(2) by (auto simp: linked_entries_def snoc y last_address_def)
  moreover have "pop_from_stream_allocation_queue q = (Go 0, ?q)"
    using assms e(1) a
    by (simp add: pop_from_stream_allocation_queue_def entry_at_def linked_entries_def last_address_def
        set_entry_def control_defs)
  ultimately show ?thesis by blast
qed

interpretation allocation_fifo: fifo_queue queue_holds push_to_stream_allocation_queue pop_from_stream_allocation_queue
proof
  fix q cs c
  assume "queue_holds q cs"
  then obtain xs where "linked_entries q xs" "cs = rev (map snd xs)" by (auto simp: queue_holds_def)
  then show "\<exists>q'. push_to_stream_allocation_queue c q = (Go 0, q') \<and> queue_holds q' (cs @ [c])"
    using push_linked [of q xs c] by (fastforce simp: queue_holds_def)
next
  fix q c cs
  assume "queue_holds q (c # cs)"
  then obtain xs where xs: "linked_entries q xs" "c # cs = rev (map snd xs)" by (auto simp: queue_holds_def)
  then obtain ys a where "xs = ys @ [(a, c)]" by (cases xs rule: rev_cases) auto
  then show "\<exists>q'. pop_from_stream_allocation_queue q = (Go 0, q') \<and> queue_holds q' cs"
    using pop_linked [of q ys a c] xs by (fastforce simp: queue_holds_def)
next
  fix q
  assume "queue_holds q []"
  then show "pop_from_stream_allocation_queue q = (Return 2, q)"
    by (auto simp: queue_holds_def linked_entries_def last_address_def pop_from_stream_allocation_queue_def control_defs)
qed

lemma free_segment:
  assumes "segment (queue_entries q) p xs" and "distinct (map fst xs)"
  shows "free_stream_allocation_queue (first_address xs) q =
    Some (Go (), q\<lparr>queue_entries := (\<lambda>a. if a \<in> fst ` set xs then None else queue_entries q a)\<rparr>)"
  using assms
proof (induction xs arbitrary: q p)
  case Nil
  show ?case by (subst free_stream_allocation_queue.simps) (simp add: first_address_def)
next
  case (Cons x xs)
  obtain a c where x: "x = (a, c)" by force
  let ?q = "q\<lparr>queue_entries := (queue_entries q)(a := None)\<rparr>"
  have seg: "segment (queue_entries ?q) (Some a) xs" "distinct (map fst xs)"
    using Cons.prems segment_frame by (auto simp: x)
  have "free_stream_allocation_queue (first_address (x # xs)) q = free_stream_allocation_queue (first_address xs) ?q"
    using Cons.prems by (subst free_stream_allocation_queue.simps) (simp add: x first_address_def)
  also have "\<dots> = Some (Go (), ?q\<lparr>queue_entries := (\<lambda>b. if b \<in> fst ` set xs then None else queue_entries ?q b)\<rparr>)"
    by (rule Cons.IH [OF seg])
  also have "(\<lambda>b. if b \<in> fst ` set xs then None else queue_entries ?q b) =
      (\<lambda>b. if b \<in> fst ` set (x # xs) then None else queue_entries q b)" by (auto simp: x)
  finally show ?case by simp
qed

lemma free_holds:
  assumes "queue_holds q cs"
  shows "free_stream_allocation_queue (queue_back q) q = Some (Go (), q\<lparr>queue_entries := Map.empty\<rparr>)"
proof -
  obtain xs where xs: "linked_entries q xs" using assms by (auto simp: queue_holds_def)
  then have "(\<lambda>a. if a \<in> fst ` set xs then None else queue_entries q a) = Map.empty"
    by (auto simp: linked_entries_def fun_eq_iff dom_def)
  then show ?thesis using free_segment [of q None xs] xs by (simp add: linked_entries_def)
qed

lemma empty_queue_holds: "queue_holds empty_queue []"
  by (auto simp: queue_holds_def linked_entries_def empty_queue_def first_address_def last_address_def)

text \<open>
  C20: The queue of waiting calls is first in, first out.  Whatever the pointers are, pushing appends to the
  list of contexts that they stand for, popping takes its first element off and fails on the empty list,
  and freeing the queue frees every entry once.  No operation follows a dangling pointer.
\<close>

theorem allocation_queue_is_fifo:
  assumes "queue_holds q cs"
  shows "(\<exists>q'. push_to_stream_allocation_queue c q = (Go 0, q') \<and> queue_holds q' (cs @ [c])) \<and>
    (case cs of
       [] \<Rightarrow> pop_from_stream_allocation_queue q = (Return 2, q)
     | d # ds \<Rightarrow> \<exists>q'. pop_from_stream_allocation_queue q = (Go 0, q') \<and> queue_holds q' ds) \<and>
    free_stream_allocation_queue (queue_back q) q = Some (Go (), q\<lparr>queue_entries := Map.empty\<rparr>)"
  using allocation_fifo.push_back [OF assms] allocation_fifo.pop_front [of q] allocation_fifo.pop_empty [of q]
    free_holds [OF assms] assms
  by (cases cs) simp_all

theorem allocation_queue_is_fifo_witness:
  "\<exists>q. queue_holds q [7, 8] \<and> (\<exists>q'. pop_from_stream_allocation_queue q = (Go 0, q') \<and> queue_holds q' [8])"
proof -
  obtain q where "queue_holds q [7, 8]"
    using allocation_fifo.holds_push_all [OF empty_queue_holds, of "[7, 8]"] by auto
  with allocation_queue_is_fifo [OF this] show ?thesis by auto
qed

end
