(* ===== verification/Quic_Streams.thy ===== *)
theory Quic_Streams
  imports Allocation_Queue Quic_Record_Marking
begin

text \<open>
  The streams of the QUIC client and the contexts of its calls (\<open>streams.c\<close>, \<open>client_stream_context.c\<close>
  and \<open>stream_allocation.c\<close>).

  Streams and contexts are objects on the heap that the calling threads, the event loop thread and several
  lists point to.  They live in maps from addresses; a pointer to an object that has been freed leads
  nowhere, and following it is undefined.  Failed allocations are left out.
\<close>

abbreviation MAX_STREAMS_PER_CONNECTION :: nat where "MAX_STREAMS_PER_CONNECTION \<equiv> 10"

record stream =
  stream_number :: u64
  stream_in_use :: bool

text \<open>
  \<open>stream_allocator_lock\<close> is set while the event loop thread holds that mutex, \<open>reply_cond\<close> while a thread
  sleeps on that condition variable.
\<close>

record stream_context =
  use_auxiliary_stream :: bool
  allocated_stream :: "nat option"
  stream_allocation_finished :: bool
  successfully_allocated_stream :: bool
  stream_allocator_lock :: bool
  call_rpc_msg_buffer :: bytes
  rm_receiving_context :: "rm_context option"
  attempted_call_rpc_msg_send :: bool
  call_rpc_msg_successfully_sent :: bool
  reply_rpc_msg_successfully_received :: bool
  finished :: bool
  reply_cond :: bool

text \<open>
  The client of one connection.  \<open>auxiliary_streams\<close> is the list of pointers of the pool.  The mutex of the
  list of contexts is set while the event loop thread holds it; \<open>established_cond\<close> is set while a thread
  sleeps until the connection is established.
\<close>

record 'q quic_client =
  client_connection :: nat
  connection_established :: bool
  established_cond :: bool
  connection_closed :: bool
  event_loop_running :: bool
  main_stream :: "nat option"
  auxiliary_streams :: "nat option list"
  streams :: "nat \<rightharpoonup> stream"
  next_stream :: nat
  allocation_queue :: stream_allocation_queue
  stream_contexts :: "nat list"
  contexts :: "nat \<rightharpoonup> stream_context"
  next_context :: nat
  stream_contexts_list_lock :: bool
  quic_net :: 'q

type_synonym ('q, 'r, 'a) client_prog = "('q quic_client, 'r, 'a) cprog"

section \<open>Pointers\<close>

definition stream_at :: "nat \<Rightarrow> ('q, 'r, stream) client_prog" where
  "stream_at p = cbind (cget (\<lambda>c. streams c p)) cderef"

definition set_stream :: "nat \<Rightarrow> stream \<Rightarrow> 'q quic_client \<Rightarrow> 'q quic_client" where
  "set_stream p s c = c\<lparr>streams := (streams c)(p \<mapsto> s)\<rparr>"

definition context_at :: "nat \<Rightarrow> ('q, 'r, stream_context) client_prog" where
  "context_at p = cbind (cget (\<lambda>c. contexts c p)) cderef"

definition set_context :: "nat \<Rightarrow> stream_context \<Rightarrow> 'q quic_client \<Rightarrow> 'q quic_client" where
  "set_context p x c = c\<lparr>contexts := (contexts c)(p \<mapsto> x)\<rparr>"

definition update_context :: "nat \<Rightarrow> (stream_context \<Rightarrow> stream_context) \<Rightarrow> ('q, 'r, unit) client_prog" where
  "update_context p f = cbind (context_at p) (\<lambda>x. cmodify (set_context p (f x)))"

definition mark_stream :: "nat \<Rightarrow> bool \<Rightarrow> ('q, 'r, unit) client_prog" where
  "mark_stream p b = cbind (stream_at p) (\<lambda>s. cmodify (set_stream p (s\<lparr>stream_in_use := b\<rparr>)))"

section \<open>\<open>streams.c\<close>\<close>

definition create_new_stream :: "'q tquic \<Rightarrow> ('q, 'r, nat option) client_prog" where
  "create_new_stream lib = (\<lambda>c.
    (case quic_stream_bidi_new lib (client_connection c) 0 True (quic_net c) of
       (error_code, number, q) \<Rightarrow>
         if error_code \<noteq> 0 then (Go None, c\<lparr>quic_net := q\<rparr>)
         else (Go (Some (next_stream c)),
           set_stream (next_stream c) \<lparr>stream_number = number, stream_in_use = False\<rparr>
             (c\<lparr>quic_net := q, next_stream := next_stream c + 1\<rparr>))))"

text \<open>The search for a free stream; it returns the stream, or goes on with the number of streams.\<close>

fun scan_auxiliary_streams :: "nat option list \<Rightarrow> nat \<Rightarrow> ('q, nat option, nat) client_prog" where
  "scan_auxiliary_streams [] number_of_streams = cgo number_of_streams"
| "scan_auxiliary_streams (entry # rest) number_of_streams =
    (case entry of
       None \<Rightarrow> creturn None
     | Some p \<Rightarrow>
         cbind (stream_at p) (\<lambda>s.
         if \<not> stream_in_use s then cbind (mark_stream p True) (\<lambda>_. creturn (Some p))
         else scan_auxiliary_streams rest (number_of_streams + 1)))"

definition get_available_auxiliary_stream :: "'q tquic \<Rightarrow> ('q, nat option, nat option) client_prog" where
  "get_available_auxiliary_stream lib =
    cbind (cget auxiliary_streams) (\<lambda>head.
    cbind (scan_auxiliary_streams head 0) (\<lambda>number_of_streams.
    cbind (cguard (number_of_streams \<noteq> MAX_STREAMS_PER_CONNECTION) None) (\<lambda>_.
    cbind (create_new_stream lib) (\<lambda>new_stream.
    cbind (csome new_stream None) (\<lambda>p.
    cbind (mark_stream p True) (\<lambda>_.
    cbind (cmodify (auxiliary_streams_update ((#) (Some p)))) (\<lambda>_.
    cgo (Some p))))))))"

fun free_streams_list :: "nat option list \<Rightarrow> ('q, 'r, unit) client_prog" where
  "free_streams_list [] = cgo ()"
| "free_streams_list (entry # rest) =
    cbind (case entry of
             None \<Rightarrow> cgo ()
           | Some p \<Rightarrow> cbind (stream_at p) (\<lambda>_. cmodify (streams_update (\<lambda>h. h(p := None))))) (\<lambda>_.
    free_streams_list rest)"

section \<open>\<open>client_stream_context.c\<close>\<close>

definition new_stream_context :: "bytes \<Rightarrow> bool \<Rightarrow> stream_context" where
  "new_stream_context rpc_msg_buffer use_auxiliary =
    \<lparr>use_auxiliary_stream = use_auxiliary, allocated_stream = None, stream_allocation_finished = False,
     successfully_allocated_stream = False, stream_allocator_lock = False,
     call_rpc_msg_buffer = rpc_msg_buffer, rm_receiving_context = None,
     attempted_call_rpc_msg_send = False, call_rpc_msg_successfully_sent = False,
     reply_rpc_msg_successfully_received = False, finished = False, reply_cond = False\<rparr>"

definition create_client_stream_context :: "bytes \<Rightarrow> bool \<Rightarrow> ('q, 'r, nat) client_prog" where
  "create_client_stream_context rpc_msg_buffer use_auxiliary =
    cbind (cget next_context) (\<lambda>p.
    cbind (cmodify (\<lambda>c. set_context p (new_stream_context rpc_msg_buffer use_auxiliary)
      (c\<lparr>next_context := p + 1\<rparr>))) (\<lambda>_. cgo p))"

definition free_stream_context :: "nat option \<Rightarrow> ('q, 'r, unit) client_prog" where
  "free_stream_context p =
    (case p of
       None \<Rightarrow> cgo ()
     | Some p \<Rightarrow> cbind (context_at p) (\<lambda>_. cmodify (contexts_update (\<lambda>h. h(p := None)))))"

definition add_stream_context :: "nat option \<Rightarrow> ('q, 'r, nat) client_prog" where
  "add_stream_context p =
    (case p of
       None \<Rightarrow> cgo 1
     | Some p \<Rightarrow> cbind (cmodify (stream_contexts_update ((#) p))) (\<lambda>_. cgo 0))"

text \<open>The number of the stream of a context, if it has one.\<close>

definition context_stream_number :: "nat \<Rightarrow> ('q, 'r, u64 option) client_prog" where
  "context_stream_number p =
    cbind (context_at p) (\<lambda>x.
    case allocated_stream x of
      None \<Rightarrow> cgo None
    | Some s \<Rightarrow> cbind (stream_at s) (\<lambda>s. cgo (Some (stream_number s))))"

fun find_stream_context :: "nat list \<Rightarrow> u64 \<Rightarrow> ('q, 'r, nat option) client_prog" where
  "find_stream_context [] sid = cgo None"
| "find_stream_context (p # rest) sid =
    cbind (context_stream_number p) (\<lambda>n.
    case n of
      None \<Rightarrow> cgo None
    | Some n \<Rightarrow> if n = sid then cgo (Some p) else find_stream_context rest sid)"

text \<open>\<open>before\<close> are the entries that the loop has passed; the last of them is \<open>prev\<close>.\<close>

fun remove_from_contexts :: "u64 \<Rightarrow> nat list \<Rightarrow> nat list \<Rightarrow> ('q, nat, nat) client_prog" where
  "remove_from_contexts sid before [] = cgo 0"
| "remove_from_contexts sid before (p # rest) =
    cbind (context_stream_number p) (\<lambda>n.
    cbind (csome n 5) (\<lambda>n.
    if n = sid then
      cbind (cderef (if before = [] then None else Some ())) (\<lambda>_.
      cbind (cmodify (stream_contexts_update (\<lambda>_. before @ rest))) (\<lambda>_.
      cbind (free_stream_context (Some p)) (\<lambda>_. cgo 0)))
    else remove_from_contexts sid (before @ [p]) rest))"

definition remove_stream_context :: "u64 \<Rightarrow> ('q, nat, nat) client_prog" where
  "remove_stream_context sid =
    cbind (cget stream_contexts) (\<lambda>head.
    case head of
      [] \<Rightarrow> creturn 0
    | first # rest \<Rightarrow>
        cbind (context_stream_number first) (\<lambda>n.
        cbind (csome n 3) (\<lambda>n.
        if n = sid then
          cbind (cmodify (stream_contexts_update (\<lambda>_. rest))) (\<lambda>_.
          cbind (free_stream_context (Some first)) (\<lambda>_. creturn 0))
        else remove_from_contexts sid [] head)))"

text \<open>The loop tests a variable of its own, which no other thread changes.\<close>

partial_function (option) free_stream_contexts_list :: "nat list \<Rightarrow> 'q quic_client \<Rightarrow> 'q quic_client option" where
  "free_stream_contexts_list head c = (if head \<noteq> [] then free_stream_contexts_list head c else Some c)"

section \<open>\<open>stream_allocation.c\<close>\<close>

definition on_queue :: "(stream_allocation_queue, 'r, 'a) cprog \<Rightarrow> ('q, 'r, 'a) client_prog" where
  "on_queue m = (\<lambda>c. case m (allocation_queue c) of (r, q) \<Rightarrow> (r, c\<lparr>allocation_queue := q\<rparr>))"

definition want_write :: "'q tquic \<Rightarrow> nat \<Rightarrow> bool \<Rightarrow> ('q, 'r, unit) client_prog" where
  "want_write lib p want =
    cbind (stream_at p) (\<lambda>s.
    cmodify (\<lambda>c. c\<lparr>quic_net := quic_stream_wantwrite lib (client_connection c) (stream_number s) want (quic_net c)\<rparr>))"

text \<open>On both failures the function returns with the mutex of the context locked.\<close>

definition allocation_failed :: "nat \<Rightarrow> nat \<Rightarrow> ('q, nat, 'a) client_prog" where
  "allocation_failed p code =
    cbind (update_context p (\<lambda>x. x\<lparr>successfully_allocated_stream := False, stream_allocation_finished := True\<rparr>))
      (\<lambda>_. creturn code)"

definition allocate_stream :: "'q tquic \<Rightarrow> nat \<Rightarrow> ('q, nat, nat) client_prog" where
  "allocate_stream lib p =
    cbind (update_context p (stream_allocator_lock_update (\<lambda>_. True))) (\<lambda>_.
    cbind (context_at p) (\<lambda>stream_context.
    cbind (if use_auxiliary_stream stream_context then
             cbind (ccall (get_available_auxiliary_stream lib)) (\<lambda>stream.
             case stream of None \<Rightarrow> allocation_failed p 1 | Some s \<Rightarrow> cgo s)
           else
             cbind (cget main_stream) (\<lambda>stream.
             case stream of None \<Rightarrow> allocation_failed p 2 | Some s \<Rightarrow> cgo s)) (\<lambda>quic_stream.
    cbind (want_write lib quic_stream True) (\<lambda>_.
    cbind (update_context p (\<lambda>x. x\<lparr>allocated_stream := Some quic_stream, successfully_allocated_stream := True,
      stream_allocation_finished := True, stream_allocator_lock := False\<rparr>)) (\<lambda>_.
    cgo 0)))))"

text \<open>
  The loop of the callback serves the queue from its front and pops what it has served; it goes on with
  the entry behind.
\<close>

definition serve_entry :: "'q tquic \<Rightarrow> nat \<Rightarrow> ('q, unit, nat option) client_prog" where
  "serve_entry lib a =
    cbind (on_queue (entry_at a)) (\<lambda>entry.
    cbind (ccall (allocate_stream lib (entry_context entry))) (\<lambda>_.
    cbind (on_queue (entry_at a)) (\<lambda>entry.
    cbind (ccall (on_queue pop_from_stream_allocation_queue)) (\<lambda>error_code.
    if error_code > 0 then creturn () else cgo (entry_prev entry)))))"

partial_function (option) serve_allocation_queue ::
  "'q tquic \<Rightarrow> nat option \<Rightarrow> 'q quic_client \<Rightarrow> ((unit, unit) ctl \<times> 'q quic_client) option" where
  "serve_allocation_queue lib current c =
    (case current of
       None \<Rightarrow> Some (Go (), c)
     | Some a \<Rightarrow>
         (case serve_entry lib a c of
            (UB, c') \<Rightarrow> Some (UB, c')
          | (Return r, c') \<Rightarrow> Some (Return r, c')
          | (Go prev, c') \<Rightarrow> serve_allocation_queue lib prev c'))"

definition async_stream_allocator_callback ::
  "'q tquic \<Rightarrow> 'q quic_client \<Rightarrow> ((unit, unit) ctl \<times> 'q quic_client) option" where
  "async_stream_allocator_callback lib c = serve_allocation_queue lib (queue_front (allocation_queue c)) c"

end
