(* ===== verification/Quic_Client.thy ===== *)
theory Quic_Client
  imports Quic_Streams Rpc_Client
begin

text \<open>
  \<open>quic_rpc_client.c\<close>: the callbacks that the event loop thread runs, and a call, which runs in a thread of
  its own and shares the client with the event loop thread and with other calls.

  The first part has the functions.  A call waits three times: for the connection, for a stream and for the
  reply.  The code between two waits is one definition each, and \<open>execute_rpc_call_quic\<close> puts them together.
  The second part is the step relation of a process with any number of calls: the threads take turns, at
  the granularity of the mutexes of the code.
\<close>

section \<open>Callbacks\<close>

text \<open>
  \<open>kill_event_loop_thread\<close> is called by callbacks, that is by the event loop thread itself.  It cancels the
  thread and joins it; \<open>pthread_join\<close> is a cancellation point, so the thread ends there, with the mutexes it
  holds.  The \<open>Return\<close> of a callback stands for that, as for a plain \<open>return\<close>.
\<close>

definition kill_event_loop_thread :: "('q, unit, 'a) client_prog" where
  "kill_event_loop_thread = cbind (cmodify (event_loop_running_update (\<lambda>_. False))) (\<lambda>_. creturn ())"

definition lock_contexts :: "bool \<Rightarrow> ('q, 'r, unit) client_prog" where
  "lock_contexts b = cmodify (stream_contexts_list_lock_update (\<lambda>_. b))"

definition client_on_conn_created :: "nat \<Rightarrow> ('q, unit, unit) client_prog" where
  "client_on_conn_created conn = cmodify (client_connection_update (\<lambda>_. conn))"

text \<open>The signal wakes a thread that sleeps on the condition variable, if there is one.\<close>

definition signal_established :: "('q, unit, unit) client_prog" where
  "signal_established = cmodify (\<lambda>c. c\<lparr>connection_established := True, established_cond := False\<rparr>)"

definition client_on_conn_established :: "'q tquic \<Rightarrow> ('q, unit, unit) client_prog" where
  "client_on_conn_established lib =
    cbind (create_new_stream lib) (\<lambda>main.
    case main of
      None \<Rightarrow> signal_established
    | Some s \<Rightarrow>
        cbind (cmodify (main_stream_update (\<lambda>_. Some s))) (\<lambda>_.
        cbind (want_write lib s False) (\<lambda>_. signal_established)))"

definition client_on_conn_closed :: "('q, unit, unit) client_prog" where
  "client_on_conn_closed = cmodify (connection_closed_update (\<lambda>_. True))"

definition async_shutdown_loop_callback :: "('q, unit, unit) client_prog" where
  "async_shutdown_loop_callback = cmodify (event_loop_running_update (\<lambda>_. False))"

text \<open>What the receiver does to the receiving context of a call and to the library.\<close>

definition receive_reply :: "'q tquic \<Rightarrow> (nat \<Rightarrow> byte) \<Rightarrow> nat \<Rightarrow> rm_context \<Rightarrow> ('q, unit, nat \<times> rm_context) client_prog" where
  "receive_reply lib junk p context = (\<lambda>c.
    (case receive_available_bytes_quic lib junk context (quic_net c) of
       None \<Rightarrow> (UB, c)
     | Some (Return error_code, context', q) \<Rightarrow>
         (cbind (update_context p (rm_receiving_context_update (\<lambda>_. Some context')))
           (\<lambda>_. cgo (error_code, context'))) (c\<lparr>quic_net := q\<rparr>)
     | Some (_, _, q) \<Rightarrow> (UB, c\<lparr>quic_net := q\<rparr>)))"

definition client_on_stream_readable ::
  "'q tquic \<Rightarrow> (nat \<Rightarrow> byte) \<Rightarrow> nat \<Rightarrow> u64 \<Rightarrow> ('q, unit, unit) client_prog" where
  "client_on_stream_readable lib junk conn sid =
    cbind (lock_contexts True) (\<lambda>_.
    cbind (cget stream_contexts) (\<lambda>head.
    cbind (find_stream_context head sid) (\<lambda>found.
    case found of
      None \<Rightarrow> lock_contexts False
    | Some p \<Rightarrow>
        cbind (context_at p) (\<lambda>stream_context.
        cbind (receive_reply lib junk p
          (case rm_receiving_context stream_context of
             None \<Rightarrow> create_rm_receiving_context conn sid | Some context \<Rightarrow> context)) (\<lambda>(error_code, context).
        if error_code > 0 then
          cbind (update_context p (\<lambda>x. x\<lparr>reply_rpc_msg_successfully_received := False, finished := True\<rparr>)) (\<lambda>_.
          kill_event_loop_thread)
        else
          cbind (if record_fully_received context then
                   update_context p (\<lambda>x. x\<lparr>reply_rpc_msg_successfully_received := True, finished := True,
                     reply_cond := False\<rparr>)
                 else cgo ()) (\<lambda>_.
          lock_contexts False))))))"

text \<open>Sending; a send that never returns has no result, like one whose behaviour is undefined.\<close>

definition send_call :: "'q tquic \<Rightarrow> nat \<Rightarrow> u64 \<Rightarrow> bytes \<Rightarrow> ('q, unit, nat) client_prog" where
  "send_call lib conn sid buffer = (\<lambda>c.
    (case send_rm_record_quic lib conn sid buffer (of_nat (length buffer)) (quic_net c) of
       None \<Rightarrow> (UB, c)
     | Some (error_code, q) \<Rightarrow> (Go error_code, c\<lparr>quic_net := q\<rparr>)))"

definition client_on_stream_writable :: "'q tquic \<Rightarrow> nat \<Rightarrow> u64 \<Rightarrow> ('q, unit, unit) client_prog" where
  "client_on_stream_writable lib conn sid =
    cbind (lock_contexts True) (\<lambda>_.
    cbind (cget stream_contexts) (\<lambda>head.
    cbind (find_stream_context head sid) (\<lambda>found.
    case found of
      None \<Rightarrow> lock_contexts False
    | Some p \<Rightarrow>
        cbind (context_at p) (\<lambda>stream_context.
        cbind (context_stream_number p) (\<lambda>number.
        if number \<noteq> Some sid then
          cbind (update_context p (\<lambda>x. x\<lparr>finished := True, call_rpc_msg_successfully_sent := False\<rparr>)) (\<lambda>_.
          kill_event_loop_thread)
        else if attempted_call_rpc_msg_send stream_context then lock_contexts False
        else
          cbind (send_call lib conn sid (call_rpc_msg_buffer stream_context)) (\<lambda>error_code.
          cbind (update_context p (\<lambda>x. x\<lparr>attempted_call_rpc_msg_send := True,
            call_rpc_msg_successfully_sent := (error_code = 0)\<rparr>)) (\<lambda>_.
          cbind (cmodify (\<lambda>c. c\<lparr>quic_net := quic_stream_wantwrite lib conn sid False (quic_net c)\<rparr>)) (\<lambda>_.
          if error_code \<noteq> 0 then kill_event_loop_thread else lock_contexts False))))))))"

section \<open>A call\<close>

text \<open>
  \<open>wait_for_connection_establishment\<close> starts the event loop thread unless the connection is established;
  \<open>created\<close> says whether \<open>pthread_create\<close> succeeds.  It goes on when the call has to wait.
\<close>

definition start_event_loop :: "bool \<Rightarrow> ('q, nat, unit) client_prog" where
  "start_event_loop created =
    cbind (cget connection_established) (\<lambda>established.
    cbind (cguard (\<not> established) 0) (\<lambda>_.
    cbind (cguard created 2) (\<lambda>_.
    cmodify (event_loop_running_update (\<lambda>_. True)))))"

definition after_establishment :: "('q, 'r, nat) client_prog" where
  "after_establishment = cbind (cget main_stream) (\<lambda>main. cgo (if main = None then 3 else 0))"

text \<open>The context of the call is created and pushed to the queue.\<close>

definition request_stream :: "bytes \<Rightarrow> bool \<Rightarrow> ('q, 'r, nat) client_prog" where
  "request_stream rpc_msg_buffer use_auxiliary =
    cbind (create_client_stream_context rpc_msg_buffer use_auxiliary) (\<lambda>p.
    cbind (ccall (on_queue (push_to_stream_allocation_queue p))) (\<lambda>_. cgo p))"

text \<open>The allocation is over, and the mutex of the context is free.\<close>

definition stream_ready :: "nat \<Rightarrow> 'q quic_client \<Rightarrow> bool" where
  "stream_ready p c \<longleftrightarrow>
    (case contexts c p of None \<Rightarrow> False | Some x \<Rightarrow> stream_allocation_finished x \<and> \<not> stream_allocator_lock x)"

definition register_call :: "nat \<Rightarrow> ('q, rpc_msg option, unit) client_prog" where
  "register_call p =
    cbind (context_at p) (\<lambda>stream_context.
    if \<not> successfully_allocated_stream stream_context
    then cbind (free_stream_context (Some p)) (\<lambda>_. creturn None)
    else
      cbind (add_stream_context (Some p)) (\<lambda>error_code.
      if error_code \<noteq> 0 then cbind (free_stream_context (Some p)) (\<lambda>_. creturn None) else cgo ()))"

text \<open>What \<open>wait_for_rpc_reply\<close> returns once the call is finished, and the reply.\<close>

definition wait_for_rpc_reply_code :: "stream_context \<Rightarrow> nat" where
  "wait_for_rpc_reply_code x =
    (if \<not> call_rpc_msg_successfully_sent x then 2
     else if \<not> reply_rpc_msg_successfully_received x then 3
     else 0)"

definition reply_of_call :: "codec \<Rightarrow> nat \<Rightarrow> ('q, 'r, rpc_msg option) client_prog" where
  "reply_of_call pb p =
    cbind (context_at p) (\<lambda>stream_context.
    if wait_for_rpc_reply_code stream_context \<noteq> 0 then cgo None
    else
      cbind (cderef (rm_receiving_context stream_context)) (\<lambda>context.
      case accumulated_payloads context of
        None \<Rightarrow> cgo (deserialize_rpc_msg pb [])
      | Some payloads \<Rightarrow>
          cgo (deserialize_rpc_msg pb (take (unat (accumulated_payloads_size context)) payloads))))"

text \<open>The end of a call: the context leaves the list and is freed, then the stream is free.\<close>

definition unregister_call :: "nat \<Rightarrow> ('q, 'r, nat) client_prog" where
  "unregister_call p =
    cbind (context_at p) (\<lambda>stream_context.
    cbind (cderef (allocated_stream stream_context)) (\<lambda>s.
    cbind (stream_at s) (\<lambda>stream.
    cbind (ccall (remove_stream_context (stream_number stream))) (\<lambda>_. cgo s))))"

definition release_stream :: "nat \<Rightarrow> ('q, 'r, unit) client_prog" where
  "release_stream s = mark_stream s False"

text \<open>
  The whole call.  \<open>wait p\<close> is what happens to the client, by the work of the event loop thread and of other
  calls, until a thread that waits for the condition \<open>p\<close> goes on.
\<close>

definition execute_rpc_call_quic ::
  "codec \<Rightarrow> bool \<Rightarrow> (('q quic_client \<Rightarrow> bool) \<Rightarrow> ('q, rpc_msg option, unit) client_prog) \<Rightarrow>
   rpc_msg option \<Rightarrow> bool \<Rightarrow> ('q, rpc_msg option, rpc_msg option) client_prog" where
  "execute_rpc_call_quic pb created wait call_rpc_msg use_auxiliary =
    cbind (csome call_rpc_msg None) (\<lambda>msg.
    cbind (ctry (start_event_loop created)) (\<lambda>started.
    cbind (case started of
             Inl error_code \<Rightarrow> cguard (error_code = 0) None
           | Inr _ \<Rightarrow>
               cbind (wait connection_established) (\<lambda>_.
               cbind after_establishment (\<lambda>error_code. cguard (error_code = 0) None))) (\<lambda>_.
    cbind (request_stream (pack_rpc_msg pb msg) use_auxiliary) (\<lambda>p.
    cbind (wait (stream_ready p)) (\<lambda>_.
    cbind (register_call p) (\<lambda>_.
    cbind (wait (\<lambda>c. case contexts c p of None \<Rightarrow> False | Some x \<Rightarrow> finished x)) (\<lambda>_.
    cbind (reply_of_call pb p) (\<lambda>ret.
    cbind (unregister_call p) (\<lambda>s.
    cbind (release_stream s) (\<lambda>_.
    creturn ret))))))))))"

text \<open>A process with one context; \<^term>\<open>None\<close> stands for \<open>NULL\<close>.\<close>

record 'q quic_caller =
  qc_context :: "'q quic_client option rpc_connection_context option"
  qc_xid :: u32

definition quic_client_of :: "'q quic_client option rpc_connection_context option \<Rightarrow> 'q quic_client option" where
  "quic_client_of ctx =
    (case ctx of None \<Rightarrow> None | Some k \<Rightarrow>
      (case transport_connection k of None \<Rightarrow> None | Some quic_client \<Rightarrow> quic_client))"

definition set_quic_client :: "'q quic_client \<Rightarrow> 'q quic_caller \<Rightarrow> 'q quic_caller" where
  "set_quic_client client t =
    t\<lparr>qc_context := map_option (\<lambda>k. k\<lparr>transport_connection := Some (Some client)\<rparr>) (qc_context t)\<rparr>"

definition on_client :: "('q, 'r, 'a) client_prog \<Rightarrow> 'r \<Rightarrow> ('q quic_caller, 'r, 'a) cprog" where
  "on_client m null = (\<lambda>t.
    (case quic_client_of (qc_context t) of
       None \<Rightarrow> (Return null, t)
     | Some c \<Rightarrow> (case m c of (r, c') \<Rightarrow> (r, set_quic_client c' t))))"

definition invoke_rpc_remote_quic ::
  "codec \<Rightarrow> bool \<Rightarrow> (('q quic_client \<Rightarrow> bool) \<Rightarrow> ('q, rpc_msg option, unit) client_prog) \<Rightarrow>
   u32 \<Rightarrow> u32 \<Rightarrow> u32 \<Rightarrow> any_msg \<Rightarrow> bool \<Rightarrow> ('q quic_caller, rpc_msg option, rpc_msg option) cprog" where
  "invoke_rpc_remote_quic pb created wait program_number program_version procedure_number parameters use_auxiliary =
    cbind (cget qc_context) (\<lambda>ctx.
    cbind (csome ctx None) (\<lambda>k.
    cbind (cget (\<lambda>t. generate_rpc_xid (qc_xid t))) (\<lambda>(new_xid, counter).
    cbind (cmodify (qc_xid_update (\<lambda>_. counter))) (\<lambda>_.
    on_client (execute_rpc_call_quic pb created wait (Some (call_message new_xid
      (create_call_body (ctx_credential k) (ctx_verifier k) program_number program_version
         procedure_number parameters))) use_auxiliary) None))))"

definition quic_remote ::
  "codec \<Rightarrow> bool \<Rightarrow> (('q quic_client \<Rightarrow> bool) \<Rightarrow> ('q, rpc_msg option, unit) client_prog) \<Rightarrow> 'q quic_caller remote" where
  "quic_remote pb created wait =
    \<lparr>remote_protocol = (\<lambda>t. map_option ctx_transport_protocol (qc_context t)),
     remote_tcp = (\<lambda>_ _ _ _. cub),
     remote_quic = invoke_rpc_remote_quic pb created wait\<rparr>"

end
