(* ===== verification/Quic_Calls.thy ===== *)
theory Quic_Calls
  imports Quic_Client
begin

text \<open>
  A process with any number of calls over one QUIC connection: its threads as a step relation.

  A state is the shared client and the list of the calling threads, each at one of its points.  A step runs
  the code of one thread between two points at which it can be interrupted: a calling thread stops where it
  takes a mutex or waits on a condition variable, the event loop thread between two callbacks.  A thread
  that waits on a condition variable tests its condition, goes to sleep in a second step (\<open>Blocking\<close>), and is
  woken by a signal; a signal that comes between the two steps is lost, for the code sets \<open>finished\<close> and
  signals without the mutex of the waiting thread.  The parameter \<open>spurious\<close> allows sleeping threads to wake
  up by themselves, as POSIX does.

  Every procedure of the clients asks for an auxiliary stream, and so do the calls here.  The first call
  starts the event loop thread; a second call before the connection is established, which would start a
  second thread, is left out.
\<close>

datatype waiting = Testing | Blocking | Asleep

datatype caller =
    Calling bytes
  | Establishing waiting bytes
  | Allocating nat
  | Awaiting waiting nat
  | Unregistering nat "rpc_msg option"
  | Releasing nat "rpc_msg option"
  | Returned "rpc_msg option"

text \<open>What the process does not control: the two libraries, fresh memory and the network.\<close>

record 'q quic_env =
  env_codec :: codec
  env_lib :: "'q tquic"
  env_junk :: "nat \<Rightarrow> byte"
  env_net :: "'q \<Rightarrow> 'q \<Rightarrow> bool"

definition initial_client :: "nat \<Rightarrow> 'q \<Rightarrow> 'q quic_client" where
  "initial_client conn q =
    \<lparr>client_connection = conn, connection_established = False, established_cond = False,
     connection_closed = False, event_loop_running = False, main_stream = None, auxiliary_streams = [],
     streams = Map.empty, next_stream = 0, allocation_queue = empty_queue, stream_contexts = [],
     contexts = Map.empty, next_context = 0, stream_contexts_list_lock = False, quic_net = q\<rparr>"

type_synonym 'q quic_system = "'q quic_client \<times> caller list"

abbreviation caller_at :: "caller list \<Rightarrow> nat \<Rightarrow> caller \<Rightarrow> bool" where
  "caller_at ts i t \<equiv> i < length ts \<and> ts ! i = t"

text \<open>The steps of the calling threads.\<close>

inductive call_step :: "codec \<Rightarrow> bool \<Rightarrow> 'q quic_system \<Rightarrow> 'q quic_system \<Rightarrow> bool"
  for pb :: codec and spurious :: bool where
  start_call: "call_step pb spurious (c, ts) (c, ts @ [Calling m])"
| call_established: "\<lbrakk>caller_at ts i (Calling m); start_event_loop created c = (Return 0, c');
    (request_stream m True :: ('q, unit, nat) client_prog) c' = (Go p, c'')\<rbrakk> \<Longrightarrow>
    call_step pb spurious (c, ts) (c'', ts[i := Allocating p])"
| call_starts_loop: "\<lbrakk>caller_at ts i (Calling m); \<not> event_loop_running c;
    start_event_loop True c = (Go (), c')\<rbrakk> \<Longrightarrow>
    call_step pb spurious (c, ts) (c', ts[i := Establishing Testing m])"
| call_no_loop: "\<lbrakk>caller_at ts i (Calling m); start_event_loop False c = (Return 2, c')\<rbrakk> \<Longrightarrow>
    call_step pb spurious (c, ts) (c', ts[i := Returned None])"
| established_yes: "\<lbrakk>caller_at ts i (Establishing Testing m); connection_established c;
    (after_establishment :: ('q, unit, nat) client_prog) c = (Go 0, c');
    (request_stream m True :: ('q, unit, nat) client_prog) c' = (Go p, c'')\<rbrakk> \<Longrightarrow>
    call_step pb spurious (c, ts) (c'', ts[i := Allocating p])"
| established_fails: "\<lbrakk>caller_at ts i (Establishing Testing m); connection_established c;
    (after_establishment :: ('q, unit, nat) client_prog) c = (Go e, c'); e \<noteq> 0\<rbrakk> \<Longrightarrow>
    call_step pb spurious (c, ts) (c', ts[i := Returned None])"
| established_no: "\<lbrakk>caller_at ts i (Establishing Testing m); \<not> connection_established c\<rbrakk> \<Longrightarrow>
    call_step pb spurious (c, ts) (c, ts[i := Establishing Blocking m])"
| established_sleep: "\<lbrakk>caller_at ts i (Establishing Blocking m)\<rbrakk> \<Longrightarrow>
    call_step pb spurious (c, ts) (c\<lparr>established_cond := True\<rparr>, ts[i := Establishing Asleep m])"
| established_wake: "\<lbrakk>caller_at ts i (Establishing Asleep m); \<not> established_cond c \<or> spurious\<rbrakk> \<Longrightarrow>
    call_step pb spurious (c, ts) (c\<lparr>established_cond := False\<rparr>, ts[i := Establishing Testing m])"
| stream_allocated: "\<lbrakk>caller_at ts i (Allocating p); stream_ready p c; \<not> stream_contexts_list_lock c;
    register_call p c = (Go (), c')\<rbrakk> \<Longrightarrow>
    call_step pb spurious (c, ts) (c', ts[i := Awaiting Testing p])"
| stream_refused: "\<lbrakk>caller_at ts i (Allocating p); stream_ready p c; register_call p c = (Return r, c')\<rbrakk> \<Longrightarrow>
    call_step pb spurious (c, ts) (c', ts[i := Returned r])"
| reply_yes: "\<lbrakk>caller_at ts i (Awaiting Testing p); contexts c p = Some x; finished x;
    (reply_of_call pb p :: ('q, unit, rpc_msg option) client_prog) c = (Go r, c')\<rbrakk> \<Longrightarrow>
    call_step pb spurious (c, ts) (c', ts[i := Unregistering p r])"
| reply_no: "\<lbrakk>caller_at ts i (Awaiting Testing p); contexts c p = Some x; \<not> finished x\<rbrakk> \<Longrightarrow>
    call_step pb spurious (c, ts) (c, ts[i := Awaiting Blocking p])"
| reply_sleep: "\<lbrakk>caller_at ts i (Awaiting Blocking p); contexts c p = Some x\<rbrakk> \<Longrightarrow>
    call_step pb spurious (c, ts) (set_context p (x\<lparr>reply_cond := True\<rparr>) c, ts[i := Awaiting Asleep p])"
| reply_wake: "\<lbrakk>caller_at ts i (Awaiting Asleep p); contexts c p = Some x; \<not> reply_cond x \<or> spurious\<rbrakk> \<Longrightarrow>
    call_step pb spurious (c, ts) (set_context p (x\<lparr>reply_cond := False\<rparr>) c, ts[i := Awaiting Testing p])"
| unregister: "\<lbrakk>caller_at ts i (Unregistering p r); \<not> stream_contexts_list_lock c;
    (unregister_call p :: ('q, unit, nat) client_prog) c = (Go s, c')\<rbrakk> \<Longrightarrow>
    call_step pb spurious (c, ts) (c', ts[i := Releasing s r])"
| release: "\<lbrakk>caller_at ts i (Releasing s r); (release_stream s :: ('q, unit, unit) client_prog) c = (Go (), c')\<rbrakk> \<Longrightarrow>
    call_step pb spurious (c, ts) (c', ts[i := Returned r])"

text \<open>The steps of the event loop thread, and of the network.\<close>

inductive loop_step :: "'q quic_env \<Rightarrow> 'q quic_client \<Rightarrow> 'q quic_client \<Rightarrow> bool" for e :: "'q quic_env" where
  allocator: "\<lbrakk>event_loop_running c; async_stream_allocator_callback (env_lib e) c = Some (r, c'); r \<noteq> UB\<rbrakk> \<Longrightarrow>
    loop_step e c c'"
| readable: "\<lbrakk>event_loop_running c; \<not> stream_contexts_list_lock c;
    client_on_stream_readable (env_lib e) (env_junk e) (client_connection c) sid c = (r, c'); r \<noteq> UB\<rbrakk> \<Longrightarrow>
    loop_step e c c'"
| writable: "\<lbrakk>event_loop_running c; \<not> stream_contexts_list_lock c;
    client_on_stream_writable (env_lib e) (client_connection c) sid c = (r, c'); r \<noteq> UB\<rbrakk> \<Longrightarrow>
    loop_step e c c'"
| established: "\<lbrakk>event_loop_running c; \<not> connection_established c;
    client_on_conn_established (env_lib e) c = (r, c'); r \<noteq> UB\<rbrakk> \<Longrightarrow> loop_step e c c'"
| closed: "\<lbrakk>event_loop_running c; client_on_conn_closed c = (r, c')\<rbrakk> \<Longrightarrow> loop_step e c c'"
| shutdown: "\<lbrakk>event_loop_running c; connection_closed c; async_shutdown_loop_callback c = (r, c')\<rbrakk> \<Longrightarrow>
    loop_step e c c'"
| network: "env_net e (quic_net c) q \<Longrightarrow> loop_step e c (c\<lparr>quic_net := q\<rparr>)"

inductive quic_step :: "'q quic_env \<Rightarrow> bool \<Rightarrow> 'q quic_system \<Rightarrow> 'q quic_system \<Rightarrow> bool" for e spurious where
  by_caller: "call_step (env_codec e) spurious s s' \<Longrightarrow> quic_step e spurious s s'"
| by_loop: "loop_step e c c' \<Longrightarrow> quic_step e spurious (c, ts) (c', ts)"

definition reachable_calls :: "'q quic_env \<Rightarrow> bool \<Rightarrow> 'q quic_system \<Rightarrow> bool" where
  "reachable_calls e spurious s \<longleftrightarrow> (\<exists>conn q. (quic_step e spurious)\<^sup>*\<^sup>* (initial_client conn q, []) s)"

end
