(* ===== verification/Quic_Calls_Safety.thy ===== *)
theory Quic_Calls_Safety
  imports Quic_Calls
begin

text \<open>
  What holds in every reachable state of the calls over a QUIC connection, however the threads take turns.
  The library must number its streams uniquely (\<open>numbers_streams\<close>).
\<close>

section \<open>The part of the client that the callbacks for data keep\<close>

record context_core =
  core_auxiliary :: bool
  core_stream :: "nat option"
  core_finished :: bool
  core_success :: bool
  core_lock :: bool

definition core_of :: "stream_context \<Rightarrow> context_core" where
  "core_of x = \<lparr>core_auxiliary = use_auxiliary_stream x, core_stream = allocated_stream x, core_finished = stream_allocation_finished x,
    core_success = successfully_allocated_stream x, core_lock = stream_allocator_lock x\<rparr>"

definition core :: "'q quic_client \<Rightarrow> nat \<Rightarrow> context_core option" where
  "core c p = map_option core_of (contexts c p)"

text \<open>\<open>opened q\<close> are the numbers of the streams that the library has given out.\<close>

definition same_calls :: "('q \<Rightarrow> u64 set) \<Rightarrow> 'q quic_client \<Rightarrow> 'q quic_client \<Rightarrow> bool" where
  "same_calls opened c c' \<longleftrightarrow>
    core c' = core c \<and> next_context c' = next_context c \<and> streams c' = streams c \<and>
    next_stream c' = next_stream c \<and> auxiliary_streams c' = auxiliary_streams c \<and>
    allocation_queue c' = allocation_queue c \<and> stream_contexts c' = stream_contexts c \<and>
    opened (quic_net c) \<subseteq> opened (quic_net c')"

interpretation call_frame: frame_relation "same_calls opened"
  by unfold_locales (auto simp: same_calls_def)

definition numbers_streams :: "'q tquic \<Rightarrow> ('q \<Rightarrow> 'q \<Rightarrow> bool) \<Rightarrow> ('q \<Rightarrow> u64 set) \<Rightarrow> bool" where
  "numbers_streams lib net opened \<longleftrightarrow>
    (\<forall>conn sid bs fin q. opened q \<subseteq> opened (snd (quic_stream_write lib conn sid bs fin q))) \<and>
    (\<forall>conn sid n q. opened q \<subseteq> opened (snd (snd (quic_stream_read lib conn sid n q)))) \<and>
    (\<forall>conn sid want q. opened q \<subseteq> opened (quic_stream_wantwrite lib conn sid want q)) \<and>
    (\<forall>q q'. net q q' \<longrightarrow> opened q \<subseteq> opened q') \<and>
    (\<forall>conn flags open_now q. case quic_stream_bidi_new lib conn flags open_now q of (e, sid, q') \<Rightarrow>
      opened q \<subseteq> opened q' \<and> (e = 0 \<longrightarrow> sid \<in> opened q' \<and> sid \<notin> opened q))"

lemma numbers_streamsD:
  assumes "numbers_streams lib net opened"
  shows "quic_stream_write lib conn sid bs fin q = (n, q') \<Longrightarrow> opened q \<subseteq> opened q'"
    and "quic_stream_read lib conn sid k q = (n, bs', q') \<Longrightarrow> opened q \<subseteq> opened q'"
    and "opened q \<subseteq> opened (quic_stream_wantwrite lib conn sid want q)"
    and "net q q' \<Longrightarrow> opened q \<subseteq> opened q'"
    and "quic_stream_bidi_new lib conn flags open_now q = (e, sid, q') \<Longrightarrow> opened q \<subseteq> opened q'"
    and "quic_stream_bidi_new lib conn flags open_now q = (0, sid, q') \<Longrightarrow> sid \<in> opened q' \<and> sid \<notin> opened q"
proof -
  note D = assms [unfolded numbers_streams_def]
  have D1: "opened q \<subseteq> opened (snd (quic_stream_write lib conn sid bs fin q))"
    by (rule D [THEN conjunct1, rule_format])
  have D2: "opened q \<subseteq> opened (snd (snd (quic_stream_read lib conn sid k q)))"
    by (rule D [THEN conjunct2, THEN conjunct1, rule_format])
  have D5: "case quic_stream_bidi_new lib conn flags open_now q of (e, sid, q') \<Rightarrow>
      opened q \<subseteq> opened q' \<and> (e = 0 \<longrightarrow> sid \<in> opened q' \<and> sid \<notin> opened q)"
    by (rule D [THEN conjunct2, THEN conjunct2, THEN conjunct2, THEN conjunct2, THEN spec, THEN spec, THEN spec, THEN spec])
  show "quic_stream_write lib conn sid bs fin q = (n, q') \<Longrightarrow> opened q \<subseteq> opened q'"
    using D1 by simp
  show "quic_stream_read lib conn sid k q = (n, bs', q') \<Longrightarrow> opened q \<subseteq> opened q'"
    using D2 by simp
  show "opened q \<subseteq> opened (quic_stream_wantwrite lib conn sid want q)"
    by (rule D [THEN conjunct2, THEN conjunct2, THEN conjunct1, rule_format])
  show "net q q' \<Longrightarrow> opened q \<subseteq> opened q'"
    by (rule D [THEN conjunct2, THEN conjunct2, THEN conjunct2, THEN conjunct1, rule_format])
  show "quic_stream_bidi_new lib conn flags open_now q = (e, sid, q') \<Longrightarrow> opened q \<subseteq> opened q'"
    using D5 by simp
  show "quic_stream_bidi_new lib conn flags open_now q = (0, sid, q') \<Longrightarrow> sid \<in> opened q' \<and> sid \<notin> opened q"
    using D5 by simp
qed

text \<open>Sending and receiving open no stream of the client, whether or not they succeed.\<close>

lemma send_loop_opened:
  assumes "send_bytes_quic_loop lib conn sid bs n k q = Some y" and "numbers_streams lib net opened"
  shows "opened q \<subseteq> opened (snd y)"
proof -
  have "numbers_streams lib net opened \<longrightarrow> opened q \<subseteq> opened (snd y)"
  proof (rule send_bytes_quic_loop.raw_induct [OF _ assms(1),
      where P = "\<lambda>lib conn sid bs n k q y. numbers_streams lib net opened \<longrightarrow> opened q \<subseteq> opened (snd y)"], rule impI)
    fix f lib conn sid bs n k q y
    assume IH: "\<And>lib conn sid bs n k q y. f lib conn sid bs n k q = Some y \<Longrightarrow>
        numbers_streams lib net opened \<longrightarrow> opened q \<subseteq> opened (snd y)"
      and step: "(if k < n then case quic_stream_write lib conn sid (take (unat (n - k)) (drop (unat k) bs)) False q of
        (sent, q') \<Rightarrow> if sent < 0 then Some (1, q') else if sent = 0 then Some (2, q')
          else f lib conn sid bs n (k + sent) q' else Some (0, q)) = Some y"
      and lib: "numbers_streams lib net opened"
    obtain sent q' where w: "quic_stream_write lib conn sid (take (unat (n - k)) (drop (unat k) bs)) False q = (sent, q')"
      by fastforce
    have "opened q \<subseteq> opened q'" by (rule numbers_streamsD(1) [OF lib w])
    moreover have "f lib conn sid bs n (k + sent) q' = Some y \<Longrightarrow> opened q' \<subseteq> opened (snd y)" using IH lib by blast
    ultimately show "opened q \<subseteq> opened (snd y)" using step w by (auto split: if_splits)
  qed
  with assms(2) show ?thesis by blast
qed

lemma send_fragments_relates:
  assumes "\<And>c. R c c" and "\<And>a b c. R a b \<Longrightarrow> R b c \<Longrightarrow> R a c" and "\<And>buf n c. R c (snd (send buf n c))"
  shows "R c (snd (send_fragments send data sz k c))"
  using assms(3)
proof (induction send data sz k c rule: send_fragments.induct)
  case (1 send data sz k c)
  obtain e1 c1 where 1: "send (be_bytes (fragment_header_of (sz - k))) 4 c = (e1, c1)" by fastforce
  obtain e2 c2 where 2: "send (drop (unat k) data) (fragment_size_of (sz - k)) c1 = (e2, c2)" by fastforce
  have R: "R c c1" "R c c2" using "1.prems" 1 2 assms(2) by (metis snd_conv)+
  show ?case
    using "1.IH" [OF _ refl refl 1 [symmetric] _ 2 [symmetric]] "1.prems" 1 2 R assms(1,2)
    by (simp add: send_fragments.simps [of send data sz k c] Let_def)
qed

definition opens_more :: "('q \<Rightarrow> u64 set) \<Rightarrow> 'q option \<Rightarrow> 'q option \<Rightarrow> bool" where
  "opens_more opened a b \<longleftrightarrow> (case b of None \<Rightarrow> True | Some y \<Rightarrow> \<exists>x. a = Some x \<and> opened x \<subseteq> opened y)"

lemma send_record_opened:
  assumes "numbers_streams lib net opened" and "send_rm_record_quic lib conn sid bs n q = Some (e, q')"
  shows "opened q \<subseteq> opened q'"
proof -
  have "opens_more opened (Some q) (snd (send_fragments (send_or_hang lib conn sid) bs n 0 (Some q)))"
  proof (rule send_fragments_relates [where R = "opens_more opened"])
    fix buf m b
    show "opens_more opened b (snd (send_or_hang lib conn sid buf m b))"
    proof (cases "b = None \<or> (\<exists>x. b = Some x \<and> send_bytes_quic lib conn sid buf m x = None)")
      case False
      then obtain x r y where x: "b = Some x" "send_bytes_quic lib conn sid buf m x = Some (r, y)" by force
      with send_loop_opened [OF _ assms(1), of conn sid buf m 0 x "(r, y)"] show ?thesis
        by (simp add: opens_more_def send_or_hang_def send_bytes_quic_def)
    qed (auto simp: opens_more_def send_or_hang_def)
  next
    fix a b c
    assume "opens_more opened a b" "opens_more opened b c"
    then show "opens_more opened a c" by (auto simp: opens_more_def split: option.splits)
  qed (simp add: opens_more_def split: option.splits)
  then show ?thesis
    using assms(2) by (auto simp: opens_more_def send_rm_record_quic_def split: prod.splits option.splits)
qed

lemma receive_opened:
  assumes "receive_available_bytes_quic lib junk x q = Some y" and "numbers_streams lib net opened"
  shows "opened q \<subseteq> opened (snd (snd y))"
proof -
  have "numbers_streams lib net opened \<longrightarrow> opened q \<subseteq> opened (snd (snd y))"
  proof (rule receive_available_bytes_quic.raw_induct [OF _ assms(1),
      where P = "\<lambda>lib junk x q y. numbers_streams lib net opened \<longrightarrow> opened q \<subseteq> opened (snd (snd y))"], rule impI)
    fix f lib junk x q y
    assume IH: "\<And>lib junk x q y. f lib junk x q = Some y \<Longrightarrow>
        numbers_streams lib net opened \<longrightarrow> opened q \<subseteq> opened (snd (snd y))"
      and step: "(case quic_stream_read lib (quic_connection x) (stream_id x) READ_BUF_SIZE q of
        (n, buf, q') \<Rightarrow> if sint n < 0 then Some (Return 0, x, q') else if n = 0 then Some (Return 2, x, q')
          else (case process_chunk junk (take (unat n) buf) x of None \<Rightarrow> None
            | Some (UB, x') \<Rightarrow> Some (UB, x', q') | Some (Return e, x') \<Rightarrow> Some (Return e, x', q')
            | Some (Go rest, x') \<Rightarrow> if record_fully_received x'
                then Some (Return (if rest \<noteq> [] then 4 else 0), x', q') else f lib junk x' q')) = Some y"
      and lib: "numbers_streams lib net opened"
    obtain n buf q' where r: "quic_stream_read lib (quic_connection x) (stream_id x) READ_BUF_SIZE q = (n, buf, q')"
      by (metis prod.exhaust)
    have "opened q \<subseteq> opened q'" by (rule numbers_streamsD(2) [OF lib r])
    moreover have "f lib junk x' q' = Some y \<Longrightarrow> opened q' \<subseteq> opened (snd (snd y))" for x' using IH lib by blast
    moreover have "snd (snd y) = q' \<or> (\<exists>x'. f lib junk x' q' = Some y)"
      using step r by (auto split: if_splits option.splits prod.splits ctl.splits)
    ultimately show "opened q \<subseteq> opened (snd (snd y))" by blast
  qed
  with assms(2) show ?thesis by blast
qed

section \<open>Data callbacks\<close>

lemma same_calls_set_context:
  "contexts c p = Some x \<Longrightarrow> core_of y = core_of x \<Longrightarrow> same_calls opened c (set_context p y c)"
  by (auto simp: same_calls_def core_def set_context_def fun_eq_iff)

lemma keeps_pointers [frame_intros]:
  "keeps (same_calls opened) (stream_at s)" "keeps (same_calls opened) (context_at p)"
  unfolding stream_at_def context_at_def
  by (intro call_frame.keeps_cbind call_frame.keeps_cget call_frame.keeps_cderef)+

lemma keeps_number [frame_intros]: "keeps (same_calls opened) (context_stream_number p)"
  unfolding context_stream_number_def
  by (intro call_frame.keeps_cbind keeps_pointers call_frame.keeps_case_option call_frame.keeps_cgo)

lemma keeps_find [frame_intros]: "keeps (same_calls opened) (find_stream_context ps sid)"
  by (induction ps) (auto intro!: call_frame.keeps_cbind call_frame.keeps_case_option call_frame.keeps_cgo
      call_frame.keeps_if keeps_number)

lemma keeps_update [frame_intros]:
  "(\<And>x. core_of (f x) = core_of x) \<Longrightarrow> keeps (same_calls opened) (update_context p f)"
  unfolding update_context_def keeps_def
  by (auto simp: context_at_def control_defs call_frame.frame_refl intro!: same_calls_set_context split: option.splits)

lemma keeps_flags [frame_intros]:
  "keeps (same_calls opened) (lock_contexts b)" "keeps (same_calls opened) (kill_event_loop_thread)"
  by (simp_all add: keeps_def lock_contexts_def kill_event_loop_thread_def control_defs same_calls_def core_def fun_eq_iff)

lemma same_calls_net: "opened (quic_net c) \<subseteq> opened q \<Longrightarrow> same_calls opened c (c\<lparr>quic_net := q\<rparr>)"
  by (simp add: same_calls_def core_def fun_eq_iff)

lemma keeps_receive [frame_intros]:
  fixes lib :: "'q tquic"
  assumes "numbers_streams lib net opened"
  shows "keeps (same_calls opened) (receive_reply lib junk p x)"
proof (rule keepsI)
  fix c
  show "same_calls opened c (snd (receive_reply lib junk p x c))"
  proof (cases "receive_available_bytes_quic lib junk x (quic_net c)")
    case None
    then show ?thesis by (simp add: receive_reply_def call_frame.frame_refl)
  next
    case (Some y)
    obtain r x' q where y: "y = (r, x', q)" by (metis prod.exhaust)
    have net: "same_calls opened c (c\<lparr>quic_net := q\<rparr>)"
      using receive_opened [OF Some assms] by (simp add: y same_calls_net)
    have "keeps (same_calls opened) (cbind (update_context p (rm_receiving_context_update (\<lambda>_. Some x')))
        (\<lambda>_. cgo (e, x')) :: ('q, unit, nat \<times> rm_context) client_prog)" for e
      by (intro call_frame.keeps_cbind keeps_update call_frame.keeps_cgo) (simp add: core_of_def)
    then show ?thesis
      using net Some unfolding keeps_def by (auto simp: y receive_reply_def split: ctl.splits
          intro: call_frame.frame_trans)
  qed
qed

lemma keeps_send [frame_intros]:
  assumes "numbers_streams lib net opened"
  shows "keeps (same_calls opened) (send_call lib conn sid bs)"
  using send_record_opened [OF assms]
  by (auto simp: keeps_def send_call_def call_frame.frame_refl same_calls_net split: option.splits)

lemma keeps_wantwrite [frame_intros]:
  assumes "numbers_streams lib net opened"
  shows "keeps (same_calls opened) (cmodify (\<lambda>c. c\<lparr>quic_net := quic_stream_wantwrite lib conn sid want (quic_net c)\<rparr>))"
    and "keeps (same_calls opened) (want_write lib p want)"
proof -
  show "keeps (same_calls opened) (cmodify (\<lambda>c. c\<lparr>quic_net := quic_stream_wantwrite lib conn sid want (quic_net c)\<rparr>))"
    for conn sid
    using numbers_streamsD(3) [OF assms] by (simp add: keeps_def control_defs same_calls_net)
  show "keeps (same_calls opened) (want_write lib p want)"
    unfolding want_write_def
    by (intro call_frame.keeps_cbind keeps_pointers)
      (use numbers_streamsD(3) [OF assms] in \<open>simp add: keeps_def control_defs same_calls_net\<close>)
qed

lemma keeps_data_callbacks:
  assumes "numbers_streams lib net opened"
  shows "keeps (same_calls opened) (client_on_stream_readable lib junk conn sid)"
    and "keeps (same_calls opened) (client_on_stream_writable lib conn sid)"
  unfolding client_on_stream_readable_def client_on_stream_writable_def
  by (intro call_frame.keeps_cbind call_frame.keeps_cget call_frame.keeps_case_option call_frame.keeps_case_prod
      call_frame.keeps_if call_frame.keeps_cgo keeps_flags keeps_find keeps_pointers keeps_number
      keeps_receive [OF assms] keeps_send [OF assms] keeps_wantwrite(1) [OF assms] keeps_update; simp add: core_of_def)+

end
