(* ===== verification/Quic_Call_Invariant.thy ===== *)
theory Quic_Call_Invariant
  imports Quic_Calls_Safety
begin

text \<open>
  The invariant of the calls over a QUIC connection: who points to which context, who holds which stream.
\<close>

section \<open>The invariant\<close>

fun caller_context :: "caller \<Rightarrow> nat option" where
  "caller_context (Allocating p) = Some p"
| "caller_context (Awaiting w p) = Some p"
| "caller_context (Unregistering p r) = Some p"
| "caller_context t = None"

fun registered :: "caller \<Rightarrow> nat option" where
  "registered (Awaiting w p) = Some p"
| "registered (Unregistering p r) = Some p"
| "registered t = None"

text \<open>The stream that a call holds, from its allocation to its release.\<close>

fun held :: "'q quic_client \<Rightarrow> caller \<Rightarrow> nat option" where
  "held c (Releasing s r) = Some s"
| "held c t = (case caller_context t of None \<Rightarrow> None | Some p \<Rightarrow>
    (case core c p of None \<Rightarrow> None | Some k \<Rightarrow> core_stream k))"

fun phase_ok :: "caller \<Rightarrow> context_core \<Rightarrow> bool" where
  "phase_ok (Allocating p) k \<longleftrightarrow> core_auxiliary k \<and>
    (core_stream k \<noteq> None \<longleftrightarrow> core_success k) \<and> (core_success k \<longrightarrow> core_finished k \<and> \<not> core_lock k) \<and>
    (core_finished k \<and> \<not> core_success k \<longrightarrow> core_lock k) \<and> (\<not> core_finished k \<longrightarrow> \<not> core_lock k)"
| "phase_ok t k \<longleftrightarrow> core_stream k \<noteq> None"

definition exclusive :: "('t \<Rightarrow> 'a option) \<Rightarrow> 't list \<Rightarrow> bool" where
  "exclusive f ts \<longleftrightarrow>
    (\<forall>i < length ts. \<forall>j < length ts. \<forall>a. f (ts ! i) = Some a \<longrightarrow> f (ts ! j) = Some a \<longrightarrow> i = j)"

definition pool_ok :: "'q quic_client \<Rightarrow> bool" where
  "pool_ok c \<longleftrightarrow>
    (\<exists>ps. auxiliary_streams c = map Some ps \<and> distinct ps \<and> length ps \<le> MAX_STREAMS_PER_CONNECTION \<and>
      set ps \<subseteq> dom (streams c)) \<and>
    (\<forall>s \<in> dom (streams c). s < next_stream c)"

definition numbers_ok :: "('q \<Rightarrow> u64 set) \<Rightarrow> 'q quic_client \<Rightarrow> bool" where
  "numbers_ok opened c \<longleftrightarrow>
    (\<forall>s x. streams c s = Some x \<longrightarrow> stream_number x \<in> opened (quic_net c)) \<and>
    (\<forall>s t x y. streams c s = Some x \<longrightarrow> streams c t = Some y \<longrightarrow> stream_number x = stream_number y \<longrightarrow> s = t)"

definition contexts_ok :: "'q quic_client \<Rightarrow> caller list \<Rightarrow> bool" where
  "contexts_ok c ts \<longleftrightarrow>
    (\<forall>p. core c p \<noteq> None \<longrightarrow> p < next_context c) \<and> exclusive caller_context ts \<and>
    (\<forall>t \<in> set ts. \<forall>p. caller_context t = Some p \<longrightarrow> (\<exists>k. core c p = Some k \<and> phase_ok t k))"

definition waits_for_stream :: "'q quic_client \<Rightarrow> caller \<Rightarrow> nat \<Rightarrow> bool" where
  "waits_for_stream c t p \<longleftrightarrow> t = Allocating p \<and> (\<exists>k. core c p = Some k \<and> \<not> core_finished k)"

definition queue_ok :: "'q quic_client \<Rightarrow> caller list \<Rightarrow> bool" where
  "queue_ok c ts \<longleftrightarrow>
    (\<exists>cs. queue_holds (allocation_queue c) cs \<and> distinct cs \<and> set cs = {p. \<exists>t \<in> set ts. waits_for_stream c t p})"

definition list_ok :: "'q quic_client \<Rightarrow> caller list \<Rightarrow> bool" where
  "list_ok c ts \<longleftrightarrow>
    distinct (stream_contexts c) \<and> set (stream_contexts c) = {p. \<exists>t \<in> set ts. registered t = Some p}"

definition streams_ok :: "'q quic_client \<Rightarrow> caller list \<Rightarrow> bool" where
  "streams_ok c ts \<longleftrightarrow>
    exclusive (held c) ts \<and>
    (\<forall>t \<in> set ts. \<forall>s. held c t = Some s \<longrightarrow>
      Some s \<in> set (auxiliary_streams c) \<and> (\<exists>x. streams c s = Some x \<and> stream_in_use x))"

definition calls_ok :: "('q \<Rightarrow> u64 set) \<Rightarrow> 'q quic_client \<Rightarrow> caller list \<Rightarrow> bool" where
  "calls_ok opened c ts \<longleftrightarrow>
    pool_ok c \<and> numbers_ok opened c \<and> contexts_ok c ts \<and> queue_ok c ts \<and> list_ok c ts \<and> streams_ok c ts"

lemmas calls_ok_defs = calls_ok_def pool_ok_def numbers_ok_def contexts_ok_def queue_ok_def list_ok_def streams_ok_def

section \<open>One caller and the others\<close>

definition others :: "'t list \<Rightarrow> nat \<Rightarrow> 't set" where
  "others ts i = {ts ! j | j. j < length ts \<and> j \<noteq> i}"

lemma set_others: "i < length ts \<Longrightarrow> set ts = insert (ts ! i) (others ts i)"
  by (auto simp: others_def in_set_conv_nth)

lemma set_others_update: "i < length ts \<Longrightarrow> set (ts[i := t]) = insert t (others ts i)"
  by (auto simp: others_def in_set_conv_nth nth_list_update) metis

lemma exclusive_others:
  "exclusive f ts \<Longrightarrow> i < length ts \<Longrightarrow> t \<in> others ts i \<Longrightarrow> f (ts ! i) = Some a \<Longrightarrow> f t \<noteq> Some a"
  by (auto simp: exclusive_def others_def)

lemma exclusive_update:
  assumes "exclusive f ts" and "i < length ts"
    and "\<And>u. u \<in> others ts i \<Longrightarrow> g u = f u" and "\<And>u a. u \<in> others ts i \<Longrightarrow> g t = Some a \<Longrightarrow> f u \<noteq> Some a"
  shows "exclusive g (ts[i := t])"
proof -
  have "g (ts ! j) = f (ts ! j)" if "j < length ts" "j \<noteq> i" for j using assms(3) that by (auto simp: others_def)
  moreover have "f (ts ! j) \<noteq> g t \<or> g t = None" if "j < length ts" "j \<noteq> i" for j
    using assms(4) that by (cases "g t") (auto simp: others_def)
  ultimately show ?thesis using assms(1,2) by (auto simp: exclusive_def nth_list_update)
qed

lemma exclusive_swap: "exclusive f ts \<Longrightarrow> i < length ts \<Longrightarrow> f t = f (ts ! i) \<Longrightarrow> exclusive f (ts[i := t])"
  by (auto simp: exclusive_def nth_list_update)

lemma exclusive_append: "exclusive f ts \<Longrightarrow> f t = None \<Longrightarrow> exclusive f (ts @ [t])"
  by (auto simp: exclusive_def nth_append less_Suc_eq)

text \<open>The invariant speaks of the part that the data callbacks keep.\<close>

lemma held_same: "core c' = core c \<Longrightarrow> held c' = held c"
  by (rule ext, rename_tac t, case_tac t) (simp_all split: option.splits)

lemma calls_ok_same:
  assumes "calls_ok opened c ts" and "same_calls opened c c'"
  shows "calls_ok opened c' ts"
proof -
  note s = assms(2) [unfolded same_calls_def] and ok = assms(1) [unfolded calls_ok_def]
  have "numbers_ok opened c'" using ok s by (auto simp: numbers_ok_def)
  moreover have "waits_for_stream c' = waits_for_stream c" using s by (simp add: waits_for_stream_def fun_eq_iff)
  moreover have "held c' = held c" using s by (intro held_same) simp
  ultimately show ?thesis
    using ok s by (simp add: calls_ok_def pool_ok_def contexts_ok_def queue_ok_def list_ok_def streams_ok_def)
qed

text \<open>A step of a caller that keeps its context and the client.\<close>

lemma calls_ok_caller:
  assumes "calls_ok opened c ts" and "i < length ts"
    and "caller_context t = caller_context (ts ! i)" and "registered t = registered (ts ! i)"
    and "held c t = held c (ts ! i)"
    and "\<And>k p. caller_context t = Some p \<Longrightarrow> phase_ok (ts ! i) k \<Longrightarrow> phase_ok t k"
    and "\<And>p. waits_for_stream c t p \<longleftrightarrow> waits_for_stream c (ts ! i) p"
  shows "calls_ok opened c (ts[i := t])"
proof -
  note s = set_others [OF assms(2)] set_others_update [OF assms(2), of t]
  note ok = assms(1) [unfolded calls_ok_def]
  have c: "exclusive caller_context (ts[i := t])" and h: "exclusive (held c) (ts[i := t])"
    using ok assms(2,3,5) by (auto simp: contexts_ok_def streams_ok_def intro: exclusive_swap)
  have "contexts_ok c (ts[i := t])" using ok assms(3,6) c by (auto simp: contexts_ok_def s)
  moreover have "queue_ok c (ts[i := t])" using ok assms(7) by (simp add: queue_ok_def s)
  moreover have "list_ok c (ts[i := t])" using ok assms(4) by (simp add: list_ok_def s)
  moreover have "streams_ok c (ts[i := t])" using ok assms(5) h by (auto simp: streams_ok_def s)
  ultimately show ?thesis using ok by (simp add: calls_ok_def)
qed

text \<open>A step of a caller that changes the client.\<close>

lemma held_core: "(\<And>p. caller_context t = Some p \<Longrightarrow> core c' p = core c p) \<Longrightarrow> held c' t = held c t"
  by (cases t) simp_all

lemma waits_core:
  "(\<And>p. caller_context t = Some p \<Longrightarrow> core c' p = core c p) \<Longrightarrow> waits_for_stream c' t p \<longleftrightarrow> waits_for_stream c t p"
  by (cases "t = Allocating p") (simp_all add: waits_for_stream_def)

lemma calls_ok_step:
  assumes "calls_ok opened c ts" and i: "i < length ts" and pool: "pool_ok c'" and numbers: "numbers_ok opened c'"
    and cores: "\<And>u p. u \<in> others ts i \<Longrightarrow> caller_context u = Some p \<Longrightarrow> core c' p = core c p"
    and bound: "\<And>p. core c' p \<noteq> None \<Longrightarrow> p < next_context c'"
    and own: "\<And>p. caller_context t = Some p \<Longrightarrow>
      (\<exists>k. core c' p = Some k \<and> phase_ok t k) \<and> (\<forall>u \<in> others ts i. caller_context u \<noteq> Some p)"
    and queue: "\<exists>cs. queue_holds (allocation_queue c') cs \<and> distinct cs \<and>
      set cs = {p. waits_for_stream c' t p \<or> (\<exists>u \<in> others ts i. waits_for_stream c u p)}"
    and listed: "distinct (stream_contexts c')"
      "set (stream_contexts c') = {p. registered t = Some p \<or> (\<exists>u \<in> others ts i. registered u = Some p)}"
    and others: "\<And>u s. u \<in> others ts i \<Longrightarrow> held c u = Some s \<Longrightarrow>
      Some s \<in> set (auxiliary_streams c') \<and> (\<exists>x. streams c' s = Some x \<and> stream_in_use x)"
    and mine: "\<And>s. held c' t = Some s \<Longrightarrow>
      Some s \<in> set (auxiliary_streams c') \<and> (\<exists>x. streams c' s = Some x \<and> stream_in_use x) \<and>
      (\<forall>u \<in> others ts i. held c u \<noteq> Some s)"
  shows "calls_ok opened c' (ts[i := t])"
proof -
  note s = set_others [OF i] set_others_update [OF i, of t]
  note ok = assms(1) [unfolded calls_ok_def]
  have same: "held c' u = held c u" "waits_for_stream c' u p \<longleftrightarrow> waits_for_stream c u p" if "u \<in> others ts i" for u p
    by (rule held_core [OF cores [OF that]] waits_core [OF cores [OF that]], assumption)+
  have "exclusive caller_context (ts[i := t])"
    using ok own by (intro exclusive_update [of caller_context ts, OF _ i]) (auto simp: contexts_ok_def)
  moreover have "\<exists>k. core c' p = Some k \<and> phase_ok u k" if "u \<in> others ts i" "caller_context u = Some p" for u p
    using ok cores [OF that] that by (auto simp: contexts_ok_def s)
  ultimately have "contexts_ok c' (ts[i := t])" using own bound by (auto simp: contexts_ok_def s)
  moreover have "queue_ok c' (ts[i := t])" using queue same(2) by (simp add: queue_ok_def s)
  moreover have "list_ok c' (ts[i := t])" using listed by (simp add: list_ok_def s)
  moreover have "exclusive (held c') (ts[i := t])"
    using ok mine same(1) by (intro exclusive_update [of "held c" ts, OF _ i]) (auto simp: streams_ok_def)
  then have "streams_ok c' (ts[i := t])" using others mine same(1) by (auto simp: streams_ok_def s)
  ultimately show ?thesis using pool numbers by (simp add: calls_ok_def)
qed

section \<open>The steps of a call\<close>

text \<open>What the invariant says of one caller.\<close>

lemma calls_okD:
  assumes "calls_ok opened c ts" and "i < length ts"
  shows "pool_ok c" and "numbers_ok opened c" and "core c p \<noteq> None \<Longrightarrow> p < next_context c"
    and "caller_context (ts ! i) = Some p \<Longrightarrow> \<exists>k. core c p = Some k \<and> phase_ok (ts ! i) k"
    and "u \<in> others ts i \<Longrightarrow> caller_context u = Some p \<Longrightarrow> \<exists>k. core c p = Some k \<and> phase_ok u k"
    and "u \<in> others ts i \<Longrightarrow> caller_context (ts ! i) = Some p \<Longrightarrow> caller_context u \<noteq> Some p"
    and "distinct (stream_contexts c)"
    and "set (stream_contexts c) = {p. registered (ts ! i) = Some p \<or> (\<exists>u \<in> others ts i. registered u = Some p)}"
    and "u = ts ! i \<or> u \<in> others ts i \<Longrightarrow> held c u = Some s \<Longrightarrow>
      Some s \<in> set (auxiliary_streams c) \<and> (\<exists>x. streams c s = Some x \<and> stream_in_use x)"
    and "u \<in> others ts i \<Longrightarrow> held c (ts ! i) = Some s \<Longrightarrow> held c u \<noteq> Some s"
proof -
  note s = set_others [OF assms(2)] and ok = assms(1) [unfolded calls_ok_def]
  show "pool_ok c" "numbers_ok opened c" "core c p \<noteq> None \<Longrightarrow> p < next_context c"
    "caller_context (ts ! i) = Some p \<Longrightarrow> \<exists>k. core c p = Some k \<and> phase_ok (ts ! i) k"
    "u \<in> others ts i \<Longrightarrow> caller_context u = Some p \<Longrightarrow> \<exists>k. core c p = Some k \<and> phase_ok u k"
    "distinct (stream_contexts c)"
    "set (stream_contexts c) = {p. registered (ts ! i) = Some p \<or> (\<exists>u \<in> others ts i. registered u = Some p)}"
    using ok by (simp_all add: contexts_ok_def list_ok_def s)
  show "u = ts ! i \<or> u \<in> others ts i \<Longrightarrow> held c u = Some s \<Longrightarrow>
      Some s \<in> set (auxiliary_streams c) \<and> (\<exists>x. streams c s = Some x \<and> stream_in_use x)"
    using ok by (auto simp: streams_ok_def s)
  show "u \<in> others ts i \<Longrightarrow> caller_context (ts ! i) = Some p \<Longrightarrow> caller_context u \<noteq> Some p"
    using ok exclusive_others [OF _ assms(2), of caller_context u p] by (simp add: contexts_ok_def)
  show "u \<in> others ts i \<Longrightarrow> held c (ts ! i) = Some s \<Longrightarrow> held c u \<noteq> Some s"
    using ok exclusive_others [OF _ assms(2), of "held c" u s] by (simp add: streams_ok_def)
qed

lemma calls_ok_queue:
  assumes "calls_ok opened c ts" and "i < length ts"
  obtains cs where "queue_holds (allocation_queue c) cs" and "distinct cs"
    and "set cs = {p. waits_for_stream c (ts ! i) p \<or> (\<exists>u \<in> others ts i. waits_for_stream c u p)}"
  using assms by (auto simp: calls_ok_def queue_ok_def set_others [OF assms(2)])

end
