(* ===== verification/Quic_Call_Steps.thy ===== *)
theory Quic_Call_Steps
  imports Quic_Call_Invariant
begin

text \<open>Every step keeps the invariant: first the steps of the calling threads, then those of the event loop.\<close>

section \<open>Asking for a stream\<close>

lemma request_runs:
  assumes "queue_holds (allocation_queue c) cs"
  shows "\<exists>q. (request_stream m a :: ('q, 'r, nat) client_prog) c = (Go (next_context c),
      c\<lparr>next_context := next_context c + 1, contexts := (contexts c)(next_context c \<mapsto> new_stream_context m a),
        allocation_queue := q\<rparr>) \<and> queue_holds q (cs @ [next_context c])"
  using allocation_fifo.push_back [OF assms, of "next_context c"]
  by (auto simp: request_stream_def create_client_stream_context_def on_queue_def set_context_def control_defs)

lemma core_new: "core_of (new_stream_context m a) =
    \<lparr>core_auxiliary = a, core_stream = None, core_finished = False, core_success = False, core_lock = False\<rparr>"
  by (simp add: core_of_def new_stream_context_def)

lemma request_ok:
  fixes c :: "'q quic_client"
  assumes "calls_ok opened c ts" and "i < length ts" and "caller_context (ts ! i) = None" and "registered (ts ! i) = None"
    and "(request_stream m True :: ('q, 'r, nat) client_prog) c = (Go p, c')"
  shows "calls_ok opened c' (ts[i := Allocating p])" and "core c r = Some k \<Longrightarrow> core c' r = Some k"
proof -
  obtain cs where cs: "queue_holds (allocation_queue c) cs" "distinct cs"
    "set cs = {p. waits_for_stream c (ts ! i) p \<or> (\<exists>u \<in> others ts i. waits_for_stream c u p)}"
    using calls_ok_queue [OF assms(1,2)] by blast
  let ?k = "\<lparr>core_auxiliary = True, core_stream = None, core_finished = False, core_success = False, core_lock = False\<rparr>"
  obtain q where c': "c' = c\<lparr>next_context := p + 1, contexts := (contexts c)(p \<mapsto> new_stream_context m True),
      allocation_queue := q\<rparr>" and p: "p = next_context c" and q: "queue_holds q (cs @ [p])"
    using request_runs [OF cs(1), of m True, where 'r = 'r] assms(5) by auto
  note D = calls_okD [OF assms(1,2)]
  have new: "core c p = None" using D(3) [of p] p by (cases "core c p") auto
  have core: "core c' = (core c)(p \<mapsto> ?k)" by (auto simp: c' core_def fun_eq_iff core_new)
  show "core c r = Some k \<Longrightarrow> core c' r = Some k" using new by (auto simp: core)
  have n: "next_context c' = p + 1" "allocation_queue c' = q" by (simp_all add: c')
  have fresh: "caller_context u \<noteq> Some p" if "u \<in> others ts i" for u using D(5) [OF that, of p] new by auto
  have wait: "\<not> waits_for_stream c (ts ! i) r" for r using assms(3) by (auto simp: waits_for_stream_def)
  have "\<not> waits_for_stream c u p" for u using new by (simp add: waits_for_stream_def)
  with cs(3) have "p \<notin> set cs" by auto
  then have queue: "distinct (cs @ [p])"
    "set (cs @ [p]) = {r. waits_for_stream c' (Allocating p) r \<or> (\<exists>u \<in> others ts i. waits_for_stream c u r)}"
    using cs(2,3) wait by (auto simp: waits_for_stream_def core)
  show "calls_ok opened c' (ts[i := Allocating p])"
  proof (rule calls_ok_step [OF assms(1,2)])
    show "pool_ok c'" "numbers_ok opened c'" using D(1,2) by (simp_all add: c' pool_ok_def numbers_ok_def)
    show "core c' r = core c r" if "u \<in> others ts i" "caller_context u = Some r" for u r
      using fresh [OF that(1)] that(2) by (auto simp: core)
    show "r < next_context c'" if "core c' r \<noteq> None" for r
      using D(3) [of r] that p by (cases "r = p") (auto simp: core n(1))
    show "\<exists>cs. queue_holds (allocation_queue c') cs \<and> distinct cs \<and>
        set cs = {r. waits_for_stream c' (Allocating p) r \<or> (\<exists>u \<in> others ts i. waits_for_stream c u r)}"
      using q queue by (intro exI [of _ "cs @ [p]"]) (simp add: n(2))
    show "distinct (stream_contexts c')" "set (stream_contexts c') =
        {r. registered (Allocating p) = Some r \<or> (\<exists>u \<in> others ts i. registered u = Some r)}"
      using D(7,8) assms(4) by (simp_all add: c')
    show "Some s \<in> set (auxiliary_streams c') \<and> (\<exists>x. streams c' s = Some x \<and> stream_in_use x)"
      if "u \<in> others ts i" "held c u = Some s" for u s using D(9) [of u s] that by (simp add: c')
  qed (use fresh in \<open>auto simp: core\<close>)
qed

section \<open>Registering, unregistering and releasing\<close>

lemma core_SomeD: "core c p = Some k \<Longrightarrow> \<exists>x. contexts c p = Some x \<and> core_of x = k"
  by (auto simp: core_def)

lemma register_ok:
  assumes "calls_ok opened c ts" and "caller_at ts i (Allocating p)" and "stream_ready p c"
  shows "register_call p c = (Go (), c\<lparr>stream_contexts := p # stream_contexts c\<rparr>)"
    and "calls_ok opened (c\<lparr>stream_contexts := p # stream_contexts c\<rparr>) (ts[i := Awaiting Testing p])"
proof -
  let ?c = "c\<lparr>stream_contexts := p # stream_contexts c\<rparr>"
  have i: "i < length ts" and t: "ts ! i = Allocating p" using assms(2) by simp_all
  note D = calls_okD [OF assms(1) i]
  obtain k x where k: "core c p = Some k" "phase_ok (Allocating p) k" "contexts c p = Some x" "core_of x = k"
    using D(4) [of p] t core_SomeD by fastforce
  have ready: "core_finished k" "core_success k" "core_stream k \<noteq> None"
    using assms(3) k by (auto simp: stream_ready_def core_of_def)
  then have "successfully_allocated_stream x" using k(4) by (auto simp: core_of_def)
  then show "register_call p c = (Go (), ?c)"
    using k(3) by (simp add: register_call_def context_at_def add_stream_context_def control_defs)
  have core: "core ?c = core c" by (simp add: core_def fun_eq_iff)
  have held: "held ?c (Awaiting Testing p) = held c (ts ! i)" using t core by simp
  obtain cs where cs: "queue_holds (allocation_queue c) cs" "distinct cs"
    "set cs = {p. waits_for_stream c (ts ! i) p \<or> (\<exists>u \<in> others ts i. waits_for_stream c u p)}"
    using calls_ok_queue [OF assms(1) i] by blast
  have own: "caller_context u \<noteq> Some p" if "u \<in> others ts i" for u using D(6) [OF that] t by simp
  have "registered u \<noteq> Some p" if "u \<in> others ts i" for u using own [OF that] by (cases u) auto
  then have fresh: "p \<notin> set (stream_contexts c)" using D(8) t by auto
  show "calls_ok opened ?c (ts[i := Awaiting Testing p])"
  proof (rule calls_ok_step [OF assms(1) i])
    show "pool_ok ?c" "numbers_ok opened ?c" using D(1,2) by (simp_all add: pool_ok_def numbers_ok_def)
    show "r < next_context ?c" if "core ?c r \<noteq> None" for r using D(3) that by (simp add: core)
    show "(\<exists>k. core ?c r = Some k \<and> phase_ok (Awaiting Testing p) k) \<and> (\<forall>u \<in> others ts i. caller_context u \<noteq> Some r)"
      if "caller_context (Awaiting Testing p) = Some r" for r
    proof -
      have r: "r = p" using that by simp
      show ?thesis unfolding r using k(1) ready own by (auto simp: core)
    qed
    show "\<exists>cs. queue_holds (allocation_queue ?c) cs \<and> distinct cs \<and>
        set cs = {r. waits_for_stream ?c (Awaiting Testing p) r \<or> (\<exists>u \<in> others ts i. waits_for_stream c u r)}"
    proof -
      have "\<not> waits_for_stream c (ts ! i) r" for r using k(1) ready by (auto simp: waits_for_stream_def t)
      with cs show ?thesis by (auto simp: waits_for_stream_def)
    qed
    show "distinct (stream_contexts ?c)" "set (stream_contexts ?c) =
        {r. registered (Awaiting Testing p) = Some r \<or> (\<exists>u \<in> others ts i. registered u = Some r)}"
      using D(7,8) t fresh by auto
    show "Some s \<in> set (auxiliary_streams ?c) \<and> (\<exists>x. streams ?c s = Some x \<and> stream_in_use x)"
      if "u \<in> others ts i" "held c u = Some s" for u s using D(9) [of u s] that by simp
    show "Some s \<in> set (auxiliary_streams ?c) \<and> (\<exists>x. streams ?c s = Some x \<and> stream_in_use x) \<and>
        (\<forall>u \<in> others ts i. held c u \<noteq> Some s)" if "held ?c (Awaiting Testing p) = Some s" for s
      using D(9) [of "ts ! i" s] D(10) that unfolding held by simp
  qed (simp add: core)
qed

text \<open>The search for a context by the number of its stream.\<close>

definition numbered :: "'q quic_client \<Rightarrow> (nat \<Rightarrow> u64) \<Rightarrow> nat set \<Rightarrow> bool" where
  "numbered c n ps \<longleftrightarrow>
    (\<forall>p \<in> ps. \<exists>x s y. contexts c p = Some x \<and> allocated_stream x = Some s \<and> streams c s = Some y \<and> stream_number y = n p)"

lemma number_runs:
  "numbered c n ps \<Longrightarrow> p \<in> ps \<Longrightarrow> context_stream_number p c = (Go (Some (n p)), c)"
  by (auto simp: numbered_def context_stream_number_def context_at_def stream_at_def control_defs)

lemma find_runs:
  assumes "numbered c n (set ps)" and "inj_on n (set ps)"
  shows "find_stream_context ps sid c = (Go (List.find (\<lambda>p. n p = sid) ps), c)"
  using assms
proof (induction ps)
  case (Cons p ps)
  note number = number_runs [OF Cons.prems(1), of p, simplified]
  have "numbered c n (set ps)" "inj_on n (set ps)" using Cons.prems by (auto simp: numbered_def)
  from Cons.IH [OF this] show ?case by (simp add: number control_defs)
qed (simp add: control_defs)

lemma free_context_runs: "contexts c p = Some x \<Longrightarrow>
    free_stream_context (Some p) c = (Go (), c\<lparr>contexts := (contexts c)(p := None)\<rparr>)"
  by (simp add: free_stream_context_def context_at_def control_defs)

lemma remove_from_runs:
  assumes "numbered c n (set (before @ rest))" and "inj_on n (set (before @ rest))" and "p \<in> set rest"
    and "p \<notin> set before" and "before \<noteq> [] \<or> hd rest \<noteq> p"
  shows "remove_from_contexts (n p) before rest c =
    (Go 0, c\<lparr>stream_contexts := before @ remove1 p rest, contexts := (contexts c)(p := None)\<rparr>)"
  using assms
proof (induction rest arbitrary: before)
  case (Cons q rest)
  note number = number_runs [OF Cons.prems(1), of q, simplified]
  show ?case
  proof (cases "q = p")
    case True
    obtain x where "contexts c p = Some x" using Cons.prems(1,3) by (fastforce simp: numbered_def)
    then have "contexts (c\<lparr>stream_contexts := before @ rest\<rparr>) p = Some x" by simp
    note free = free_context_runs [OF this]
    show ?thesis using True Cons.prems(5) by (simp add: number [unfolded True] free fun_upd_def control_defs)
  next
    case False
    have "n q \<noteq> n p"
    proof
      assume "n q = n p"
      with Cons.prems(2,3) have "q = p" by (auto simp: inj_on_def)
      with False show False by simp
    qed
    then have "remove_from_contexts (n p) before (q # rest) c = remove_from_contexts (n p) (before @ [q]) rest c"
      by (simp add: number control_defs)
    also have "\<dots> = (Go 0, c\<lparr>stream_contexts := (before @ [q]) @ remove1 p rest, contexts := (contexts c)(p := None)\<rparr>)"
      by (rule Cons.IH) (use Cons.prems False in \<open>simp_all\<close>)
    finally show ?thesis using False by (simp add: fun_upd_def del: remove_from_contexts.simps)
  qed
qed simp

lemma remove_runs:
  assumes "numbered c n (set (stream_contexts c))" and "inj_on n (set (stream_contexts c))" and "p \<in> set (stream_contexts c)"
  shows "ccall (remove_stream_context (n p)) c =
    (Go 0, c\<lparr>stream_contexts := remove1 p (stream_contexts c), contexts := (contexts c)(p := None)\<rparr>)"
proof -
  obtain q rest where list: "stream_contexts c = q # rest" using assms(3) by (cases "stream_contexts c") auto
  note number = number_runs [OF assms(1) [unfolded list], of q, simplified]
  show ?thesis
  proof (cases "q = p")
    case True
    obtain x where "contexts c p = Some x" using assms(1,3) by (fastforce simp: numbered_def)
    then have "contexts (c\<lparr>stream_contexts := rest\<rparr>) p = Some x" by simp
    note free = free_context_runs [OF this]
    show ?thesis
      using True by (simp add: remove_stream_context_def list number [unfolded True] free fun_upd_def control_defs)
  next
    case False
    then have "n q \<noteq> n p" using assms(2,3) by (auto simp: inj_on_def list)
    with remove_from_runs [of c n "[]" "q # rest" p] show ?thesis
      using assms False by (simp add: remove_stream_context_def list number control_defs)
  qed
qed

text \<open>In a good state every context of the list has its own stream, with its own number.\<close>

definition context_number :: "'q quic_client \<Rightarrow> nat \<Rightarrow> u64" where
  "context_number c p = stream_number (the (streams c (the (allocated_stream (the (contexts c p))))))"

lemma listed_caller:
  assumes "calls_ok opened c ts" and "p \<in> set (stream_contexts c)"
  obtains i x s y where "i < length ts" and "registered (ts ! i) = Some p" and "contexts c p = Some x"
    and "allocated_stream x = Some s" and "streams c s = Some y" and "stream_number y = context_number c p"
    and "held c (ts ! i) = Some s"
proof -
  obtain i where i: "i < length ts" "registered (ts ! i) = Some p"
    using assms by (auto simp: calls_ok_def list_ok_def in_set_conv_nth)
  then have ctx: "caller_context (ts ! i) = Some p" by (cases "ts ! i") auto
  obtain k where k: "core c p = Some k" "phase_ok (ts ! i) k" using calls_okD(4) [OF assms(1) i(1) ctx] by blast
  obtain s where s: "core_stream k = Some s" using k(2) i(2) by (cases "ts ! i") auto
  obtain x where x: "contexts c p = Some x" "core_of x = k" using core_SomeD [OF k(1)] by blast
  have al: "allocated_stream x = Some s" using x(2) s by (auto simp: core_of_def)
  have held: "held c (ts ! i) = Some s" using i(2) k(1) s by (cases "ts ! i") auto
  obtain y where y: "streams c s = Some y" using calls_okD(9) [OF assms(1) i(1), of "ts ! i" s] held by auto
  show thesis by (rule that [OF i x(1) al y _ held]) (simp add: context_number_def x(1) al y)
qed

lemma listed_numbered:
  assumes "calls_ok opened c ts"
  shows "numbered c (context_number c) (set (stream_contexts c))"
  unfolding numbered_def by (metis assms listed_caller)

lemma listed_inj:
  assumes "calls_ok opened c ts"
  shows "inj_on (context_number c) (set (stream_contexts c))"
proof (rule inj_onI)
  fix p q
  assume pq: "p \<in> set (stream_contexts c)" "q \<in> set (stream_contexts c)" "context_number c p = context_number c q"
  obtain i x s y where p: "i < length ts" "registered (ts ! i) = Some p" "contexts c p = Some x"
    "allocated_stream x = Some s" "streams c s = Some y" "stream_number y = context_number c p" "held c (ts ! i) = Some s"
    by (rule listed_caller [OF assms pq(1)])
  obtain j x' s' y' where q: "j < length ts" "registered (ts ! j) = Some q" "contexts c q = Some x'"
    "allocated_stream x' = Some s'" "streams c s' = Some y'" "stream_number y' = context_number c q" "held c (ts ! j) = Some s'"
    by (rule listed_caller [OF assms pq(2)])
  have "s = s'" using assms p(5,6) q(5,6) pq(3) by (auto simp: calls_ok_def numbers_ok_def)
  then have "i = j" using assms p(1,7) q(1,7) by (auto simp: calls_ok_def streams_ok_def exclusive_def)
  with p(2) q(2) show "p = q" by simp
qed

lemma unregister_ok:
  fixes c :: "'q quic_client"
  assumes "calls_ok opened c ts" and "caller_at ts i (Unregistering p r)"
  shows "\<exists>s c'. (unregister_call p :: ('q, 'r, nat) client_prog) c = (Go s, c') \<and>
    calls_ok opened c' (ts[i := Releasing s r]) \<and> core c' = (core c)(p := None)"
proof -
  have i: "i < length ts" and t: "ts ! i = Unregistering p r" using assms(2) by simp_all
  note D = calls_okD [OF assms(1) i]
  have listed: "p \<in> set (stream_contexts c)" using D(8) t by simp
  obtain j x s y where s: "j < length ts" "registered (ts ! j) = Some p" "contexts c p = Some x"
    "allocated_stream x = Some s" "streams c s = Some y" "stream_number y = context_number c p" "held c (ts ! j) = Some s"
    by (rule listed_caller [OF assms(1) listed])
  have held: "held c (ts ! i) = Some s" using s(3,4) t by (simp add: core_def core_of_def)
  let ?c = "c\<lparr>stream_contexts := remove1 p (stream_contexts c), contexts := (contexts c)(p := None)\<rparr>"
  note remove = remove_runs [OF listed_numbered [OF assms(1)] listed_inj [OF assms(1)] listed]
  have run: "(unregister_call p :: ('q, 'r, nat) client_prog) c = (Go s, ?c)"
    using s(3-5) by (simp add: unregister_call_def context_at_def stream_at_def s(6) remove cbind_def cget_def
        cderef_def cgo_def)
  have core: "core ?c = (core c)(p := None)" by (auto simp: core_def fun_eq_iff)
  have own: "caller_context u \<noteq> Some p" if "u \<in> others ts i" for u using D(6) [OF that] t by simp
  have reg: "registered u \<noteq> Some p" if "u \<in> others ts i" for u using own [OF that] by (cases u) auto
  obtain cs where cs: "queue_holds (allocation_queue c) cs" "distinct cs"
    "set cs = {p. waits_for_stream c (ts ! i) p \<or> (\<exists>u \<in> others ts i. waits_for_stream c u p)}"
    using calls_ok_queue [OF assms(1) i] by blast
  have "calls_ok opened ?c (ts[i := Releasing s r])"
  proof (rule calls_ok_step [OF assms(1) i])
    show "pool_ok ?c" "numbers_ok opened ?c" using D(1,2) by (simp_all add: pool_ok_def numbers_ok_def)
    show "core ?c q = core c q" if "u \<in> others ts i" "caller_context u = Some q" for u q
      using own [OF that(1)] that(2) by (auto simp: core)
    show "q < next_context ?c" if "core ?c q \<noteq> None" for q using D(3) [of q] that by (auto simp: core split: if_splits)
    show "\<exists>cs. queue_holds (allocation_queue ?c) cs \<and> distinct cs \<and>
        set cs = {q. waits_for_stream ?c (Releasing s r) q \<or> (\<exists>u \<in> others ts i. waits_for_stream c u q)}"
      using cs by (intro exI [of _ cs]) (simp add: waits_for_stream_def t)
    show "distinct (stream_contexts ?c)" "set (stream_contexts ?c) =
        {q. registered (Releasing s r) = Some q \<or> (\<exists>u \<in> others ts i. registered u = Some q)}"
      using D(7,8) t reg by auto
    show "Some s' \<in> set (auxiliary_streams ?c) \<and> (\<exists>x. streams ?c s' = Some x \<and> stream_in_use x)"
      if "u \<in> others ts i" "held c u = Some s'" for u s' using D(9) [of u s'] that by simp
    show "Some s' \<in> set (auxiliary_streams ?c) \<and> (\<exists>x. streams ?c s' = Some x \<and> stream_in_use x) \<and>
        (\<forall>u \<in> others ts i. held c u \<noteq> Some s')" if "held ?c (Releasing s r) = Some s'" for s'
      using D(9) [of "ts ! i" s'] D(10) [of _ s'] that held by simp
  qed simp
  with run core show ?thesis by blast
qed

lemma release_ok:
  fixes c :: "'q quic_client"
  assumes "calls_ok opened c ts" and "caller_at ts i (Releasing s r)"
  shows "\<exists>c'. (release_stream s :: ('q, 'r, unit) client_prog) c = (Go (), c') \<and>
    calls_ok opened c' (ts[i := Returned r]) \<and> core c' = core c"
proof -
  have i: "i < length ts" and t: "ts ! i = Releasing s r" using assms(2) by simp_all
  note D = calls_okD [OF assms(1) i]
  obtain x where x: "streams c s = Some x" using D(9) [of "ts ! i" s] t by auto
  let ?c = "c\<lparr>streams := (streams c)(s \<mapsto> x\<lparr>stream_in_use := False\<rparr>)\<rparr>"
  have run: "(release_stream s :: ('q, 'r, unit) client_prog) c = (Go (), ?c)"
    using x by (simp add: release_stream_def mark_stream_def stream_at_def set_stream_def control_defs)
  have core: "core ?c = core c" by (simp add: core_def fun_eq_iff)
  obtain cs where cs: "queue_holds (allocation_queue c) cs" "distinct cs"
    "set cs = {p. waits_for_stream c (ts ! i) p \<or> (\<exists>u \<in> others ts i. waits_for_stream c u p)}"
    using calls_ok_queue [OF assms(1) i] by blast
  have "calls_ok opened ?c (ts[i := Returned r])"
  proof (rule calls_ok_step [OF assms(1) i])
    show "pool_ok ?c" using D(1) x by (auto simp: pool_ok_def)
    show "numbers_ok opened ?c" using D(2) x by (auto simp: numbers_ok_def)
    show "q < next_context ?c" if "core ?c q \<noteq> None" for q using D(3) [of q] that by (simp add: core)
    show "\<exists>cs. queue_holds (allocation_queue ?c) cs \<and> distinct cs \<and>
        set cs = {q. waits_for_stream ?c (Returned r) q \<or> (\<exists>u \<in> others ts i. waits_for_stream c u q)}"
      using cs by (intro exI [of _ cs]) (simp add: waits_for_stream_def t)
    show "distinct (stream_contexts ?c)" "set (stream_contexts ?c) =
        {q. registered (Returned r) = Some q \<or> (\<exists>u \<in> others ts i. registered u = Some q)}"
      using D(7,8) t by auto
    show "Some s' \<in> set (auxiliary_streams ?c) \<and> (\<exists>x. streams ?c s' = Some x \<and> stream_in_use x)"
      if "u \<in> others ts i" "held c u = Some s'" for u s' using D(9) [of u s'] D(10) [of u s] that t by auto
  qed (simp_all add: core)
  with run core show ?thesis by blast
qed

end
