(* ===== verification/Quic_Call_Allocator.thy ===== *)
theory Quic_Call_Allocator
  imports Quic_Call_Steps
begin

text \<open>The allocator callback keeps the invariant: it serves the queue to its end, whether or not streams are free.\<close>

section \<open>A stream from the pool\<close>

definition marked :: "nat \<Rightarrow> bool \<Rightarrow> 'q quic_client \<Rightarrow> 'q quic_client" where
  "marked s b c = c\<lparr>streams := (streams c)(s := map_option (stream_in_use_update (\<lambda>_. b)) (streams c s))\<rparr>"

lemma mark_runs: "streams c s = Some x \<Longrightarrow> mark_stream s b c = (Go (), marked s b c)"
  by (simp add: mark_stream_def stream_at_def set_stream_def marked_def control_defs)

definition free_in_pool :: "'q quic_client \<Rightarrow> nat \<Rightarrow> bool" where
  "free_in_pool c s \<longleftrightarrow> (\<exists>x. streams c s = Some x \<and> \<not> stream_in_use x)"

lemma scan_runs:
  assumes "set ps \<subseteq> dom (streams c)"
  shows "scan_auxiliary_streams (map Some ps) n c =
    (case List.find (free_in_pool c) ps of
       None \<Rightarrow> (Go (n + length ps), c) | Some s \<Rightarrow> (Return (Some s), marked s True c))"
  using assms
proof (induction ps arbitrary: n)
  case (Cons p ps)
  then obtain x where x: "streams c p = Some x" by auto
  then show ?case
    using Cons by (simp add: free_in_pool_def stream_at_def mark_runs control_defs split: option.split)
qed (simp add: control_defs)

text \<open>What it means that the call has got the stream \<open>s\<close>, which nobody held.\<close>

definition acquired :: "('q \<Rightarrow> u64 set) \<Rightarrow> 'q quic_client \<Rightarrow> nat \<Rightarrow> 'q quic_client \<Rightarrow> bool" where
  "acquired opened c s c' \<longleftrightarrow>
    contexts c' = contexts c \<and> next_context c' = next_context c \<and> allocation_queue c' = allocation_queue c \<and>
    stream_contexts c' = stream_contexts c \<and> pool_ok c' \<and> numbers_ok opened c' \<and>
    set (auxiliary_streams c') = insert (Some s) (set (auxiliary_streams c)) \<and>
    (\<exists>x. streams c' s = Some x \<and> stream_in_use x) \<and> (\<forall>u. u \<noteq> s \<longrightarrow> streams c' u = streams c u) \<and>
    (Some s \<in> set (auxiliary_streams c) \<longrightarrow> free_in_pool c s)"

definition refused :: "('q \<Rightarrow> u64 set) \<Rightarrow> 'q quic_client \<Rightarrow> 'q quic_client \<Rightarrow> bool" where
  "refused opened c c' \<longleftrightarrow>
    (\<exists>q. opened (quic_net c) \<subseteq> opened q \<and> c' = c\<lparr>quic_net := q\<rparr>)"

lemma create_runs:
  fixes lib :: "'q tquic"
  assumes "numbers_streams lib net opened" and "pool_ok c" and "numbers_ok opened c"
  shows "(\<exists>c'. (create_new_stream lib :: ('q, 'r, nat option) client_prog) c = (Go None, c') \<and> refused opened c c') \<or>
    (\<exists>c' n q. (create_new_stream lib :: ('q, 'r, nat option) client_prog) c = (Go (Some (next_stream c)), c') \<and>
      c' = c\<lparr>quic_net := q, next_stream := next_stream c + 1,
        streams := (streams c)(next_stream c \<mapsto> \<lparr>stream_number = n, stream_in_use = False\<rparr>)\<rparr> \<and>
      pool_ok c' \<and> numbers_ok opened c' \<and> streams c (next_stream c) = None)"
proof -
  obtain e n q where new: "quic_stream_bidi_new lib (client_connection c) 0 True (quic_net c) = (e, n, q)"
    by (metis prod.exhaust)
  let ?c = "c\<lparr>quic_net := q, next_stream := next_stream c + 1,
    streams := (streams c)(next_stream c \<mapsto> \<lparr>stream_number = n, stream_in_use = False\<rparr>)\<rparr>"
  note grows = numbers_streamsD(5) [OF assms(1) new]
  show ?thesis
  proof (cases "e = 0")
    case True
    have fresh: "n \<in> opened q" "n \<notin> opened (quic_net c)" using numbers_streamsD(6) [OF assms(1)] new True by auto
    have none: "streams c (next_stream c) = None" using assms(2) by (auto simp: pool_ok_def)
    have "pool_ok ?c" using assms(2) by (fastforce simp: pool_ok_def less_Suc_eq)
    moreover have "numbers_ok opened ?c" using assms(3) fresh grows by (auto simp: numbers_ok_def)
    ultimately show ?thesis using True new none by (auto simp: create_new_stream_def set_stream_def)
  next
    case False
    then show ?thesis using new grows by (auto simp: create_new_stream_def refused_def)
  qed
qed

lemma marked_fields [simp]:
  "contexts (marked s b c) = contexts c" "next_context (marked s b c) = next_context c"
  "allocation_queue (marked s b c) = allocation_queue c" "stream_contexts (marked s b c) = stream_contexts c"
  "auxiliary_streams (marked s b c) = auxiliary_streams c" "quic_net (marked s b c) = quic_net c"
  "next_stream (marked s b c) = next_stream c" "dom (streams (marked s b c)) = dom (streams c)"
  by (auto simp: marked_def split: if_splits)

lemma streams_marked: "streams (marked s b c) u =
    (if u = s then map_option (stream_in_use_update (\<lambda>_. b)) (streams c s) else streams c u)"
  by (simp add: marked_def)

lemma marked_ok:
  assumes "pool_ok c" and "numbers_ok opened c"
  shows "pool_ok (marked s b c)" and "numbers_ok opened (marked s b c)"
  using assms by (simp add: pool_ok_def, auto simp: numbers_ok_def streams_marked split: if_splits)

lemma pool_exhausted:
  assumes "auxiliary_streams c = map Some ps" and "set ps \<subseteq> dom (streams c)" and "\<forall>s \<in> set ps. \<not> free_in_pool c s"
    and "length ps = MAX_STREAMS_PER_CONNECTION"
  shows "ccall (get_available_auxiliary_stream lib) c = (Go None, c)"
proof -
  have "List.find (free_in_pool c) ps = None" using assms(3) by (auto simp: find_None_iff)
  with scan_runs [OF assms(2), of 0] assms show ?thesis
    by (simp add: get_available_auxiliary_stream_def control_defs)
qed

lemma get_runs:
  fixes lib :: "'q tquic"
  assumes "numbers_streams lib net opened" and "pool_ok c" and "numbers_ok opened c"
  shows "\<exists>r c'. (ccall (get_available_auxiliary_stream lib) :: ('q, 'r, nat option) client_prog) c = (Go r, c') \<and>
    (case r of None \<Rightarrow> refused opened c c' | Some s \<Rightarrow> acquired opened c s c')"
proof -
  obtain ps where ps: "auxiliary_streams c = map Some ps" "distinct ps" "length ps \<le> MAX_STREAMS_PER_CONNECTION"
    "set ps \<subseteq> dom (streams c)" using assms(2) by (auto simp: pool_ok_def)
  note scan = scan_runs [OF ps(4), of 0]
  show ?thesis
  proof (cases "List.find (free_in_pool c) ps")
    case (Some s)
    then have s: "s \<in> set ps" "free_in_pool c s" by (auto simp: find_Some_iff)
    have "acquired opened c s (marked s True c)"
      using s ps(1) marked_ok [OF assms(2,3)] by (auto simp: acquired_def streams_marked free_in_pool_def)
    then show ?thesis
      using Some by (auto simp: get_available_auxiliary_stream_def ps(1) scan control_defs)
  next
    case None
    then have used: "\<forall>s \<in> set ps. \<not> free_in_pool c s" by (auto simp: find_None_iff)
    have refl: "refused opened c c" unfolding refused_def by (rule exI [of _ "quic_net c"]) simp
    show ?thesis
    proof (cases "length ps = MAX_STREAMS_PER_CONNECTION")
      case True
      with pool_exhausted [OF ps(1,4) used True] refl show ?thesis by fastforce
    next
      case False
      let ?s = "next_stream c"
      from create_runs [OF assms, where 'r = "nat option"] show ?thesis
      proof (elim disjE exE conjE)
        fix c'
        assume "(create_new_stream lib :: ('q, nat option, nat option) client_prog) c = (Go None, c')" "refused opened c c'"
        then show ?thesis
          using None False by (auto simp: get_available_auxiliary_stream_def ps(1) scan control_defs)
      next
        fix c' n q
        assume new: "(create_new_stream lib :: ('q, nat option, nat option) client_prog) c = (Go (Some ?s), c')" "pool_ok c'" "numbers_ok opened c'"
          "streams c ?s = None"
          and c': "c' = c\<lparr>quic_net := q, next_stream := ?s + 1,
            streams := (streams c)(?s \<mapsto> \<lparr>stream_number = n, stream_in_use = False\<rparr>)\<rparr>"
        let ?c = "(marked ?s True c')\<lparr>auxiliary_streams := Some ?s # auxiliary_streams c'\<rparr>"
        have s: "streams c' ?s = Some \<lparr>stream_number = n, stream_in_use = False\<rparr>" by (simp add: c')
        have "?s \<notin> set ps" using ps(4) new(4) by auto
        moreover have "set ps \<subseteq> dom (streams c')" "\<forall>s \<in> dom (streams c'). s < next_stream c'"
          using ps(4) new(2) by (auto simp: c' pool_ok_def)
        ultimately have "pool_ok ?c"
          unfolding pool_ok_def using ps False s by (intro conjI exI [of _ "?s # ps"]) (auto simp: c' domIff streams_marked)
        moreover have "numbers_ok opened ?c"
          using marked_ok(2) [OF new(2,3)] by (simp add: numbers_ok_def)
        ultimately have "acquired opened c ?s ?c"
          using \<open>?s \<notin> set ps\<close> s by (auto simp: acquired_def c' ps(1) streams_marked)
        moreover have "(ccall (get_available_auxiliary_stream lib) :: ('q, 'r, nat option) client_prog) c = (Go (Some ?s), ?c)"
          using None False new(1) by (simp add: get_available_auxiliary_stream_def ps(1) scan mark_runs [OF s] control_defs)
        ultimately show ?thesis by auto
      qed
    qed
  qed
qed

section \<open>One call of the queue\<close>

text \<open>The outcome for the context \<open>p\<close>: its core is \<open>k\<close> afterwards.\<close>

definition allocated :: "('q \<Rightarrow> u64 set) \<Rightarrow> 'q quic_client \<Rightarrow> nat \<Rightarrow> context_core \<Rightarrow> 'q quic_client \<Rightarrow> bool" where
  "allocated opened c p k c' \<longleftrightarrow>
    core c' = (core c)(p \<mapsto> k) \<and> next_context c' = next_context c \<and> allocation_queue c' = allocation_queue c \<and>
    stream_contexts c' = stream_contexts c \<and> pool_ok c' \<and> numbers_ok opened c' \<and> core_auxiliary k \<and> core_finished k \<and>
    (case core_stream k of
       None \<Rightarrow> \<not> core_success k \<and> core_lock k \<and> auxiliary_streams c' = auxiliary_streams c \<and> streams c' = streams c
     | Some s \<Rightarrow> core_success k \<and> \<not> core_lock k \<and>
         set (auxiliary_streams c') = insert (Some s) (set (auxiliary_streams c)) \<and>
         (\<exists>x. streams c' s = Some x \<and> stream_in_use x) \<and> (\<forall>u. u \<noteq> s \<longrightarrow> streams c' u = streams c u) \<and>
         (Some s \<in> set (auxiliary_streams c) \<longrightarrow> free_in_pool c s))"

lemma update_context_runs:
  "contexts c p = Some x \<Longrightarrow> update_context p f c = (Go (), set_context p (f x) c)"
  by (simp add: update_context_def context_at_def control_defs)

lemma set_context_fields [simp]:
  "contexts (set_context p x c) = (contexts c)(p \<mapsto> x)" "next_context (set_context p x c) = next_context c"
  "allocation_queue (set_context p x c) = allocation_queue c" "stream_contexts (set_context p x c) = stream_contexts c"
  "auxiliary_streams (set_context p x c) = auxiliary_streams c" "streams (set_context p x c) = streams c"
  "quic_net (set_context p x c) = quic_net c" "next_stream (set_context p x c) = next_stream c"
  "client_connection (set_context p x c) = client_connection c" "main_stream (set_context p x c) = main_stream c"
  by (simp_all add: set_context_def)

lemma ok_fields:
  assumes "auxiliary_streams c' = auxiliary_streams c" and "streams c' = streams c" and "next_stream c' = next_stream c"
  shows "pool_ok c \<Longrightarrow> pool_ok c'"
    and "opened (quic_net c) \<subseteq> opened (quic_net c') \<Longrightarrow> numbers_ok opened c \<Longrightarrow> numbers_ok opened c'"
  using assms by (auto simp: pool_ok_def numbers_ok_def)

lemma allocate_runs:
  fixes lib :: "'q tquic"
  assumes lib: "numbers_streams lib net opened" and ok: "pool_ok c" "numbers_ok opened c"
    and x: "contexts c p = Some x" "use_auxiliary_stream x" "allocated_stream x = None"
  shows "\<exists>e k c'. (ccall (allocate_stream lib p) :: ('q, 'r, nat) client_prog) c = (Go e, c') \<and> allocated opened c p k c'"
proof -
  let ?c = "set_context p (x\<lparr>stream_allocator_lock := True\<rparr>) c"
  have ok': "pool_ok ?c" "numbers_ok opened ?c" using ok by (auto intro: ok_fields)
  obtain r c1 where r: "(ccall (get_available_auxiliary_stream lib) :: ('q, nat, nat option) client_prog) ?c = (Go r, c1)"
    "case r of None \<Rightarrow> refused opened ?c c1 | Some s \<Rightarrow> acquired opened ?c s c1"
    using get_runs [OF lib ok', where 'r = nat] by blast
  show ?thesis
  proof (cases r)
    case None
    then obtain q where c1: "c1 = ?c\<lparr>quic_net := q\<rparr>" "opened (quic_net c) \<subseteq> opened q"
      using r(2) by (auto simp: refused_def)
    let ?x = "x\<lparr>stream_allocator_lock := True, successfully_allocated_stream := False, stream_allocation_finished := True\<rparr>"
    let ?c' = "set_context p ?x c1"
    have "pool_ok ?c'" "numbers_ok opened ?c'"
      using ok_fields [of ?c' c] ok c1 by simp_all
    then have "allocated opened c p (core_of ?x) ?c'"
      using x c1 by (auto simp: allocated_def core_def core_of_def fun_eq_iff)
    moreover have "(ccall (allocate_stream lib p) :: ('q, 'r, nat) client_prog) c = (Go 1, ?c')"
      using r(1) None x c1(1)
      by (simp add: allocate_stream_def allocation_failed_def update_context_def context_at_def cbind_def ccall_def
          cget_def cderef_def cgo_def creturn_def cmodify_def)
    ultimately show ?thesis by blast
  next
    case (Some s)
    then have a: "acquired opened ?c s c1" using r(2) by simp
    then obtain y where y: "streams c1 s = Some y" by (auto simp: acquired_def)
    let ?c2 = "c1\<lparr>quic_net := quic_stream_wantwrite lib (client_connection c1) (stream_number y) True (quic_net c1)\<rparr>"
    let ?x = "x\<lparr>allocated_stream := Some s, successfully_allocated_stream := True, stream_allocation_finished := True,
      stream_allocator_lock := False\<rparr>"
    let ?c' = "set_context p ?x ?c2"
    have "pool_ok ?c'" by (rule ok_fields(1) [of _ c1]) (use a in \<open>simp_all add: acquired_def\<close>)
    moreover have "numbers_ok opened ?c'"
      by (rule ok_fields(2) [of _ c1]) (use a numbers_streamsD(3) [OF lib] in \<open>simp_all add: acquired_def\<close>)
    moreover have "core ?c' = (core c)(p \<mapsto> core_of ?x)" using a by (auto simp: acquired_def core_def fun_eq_iff)
    ultimately have "allocated opened c p (core_of ?x) ?c'"
      using a x(2) by (simp add: allocated_def acquired_def core_of_def free_in_pool_def)
    moreover have "contexts ?c2 p = Some (x\<lparr>stream_allocator_lock := True\<rparr>)" using a by (simp add: acquired_def)
    then have "(ccall (allocate_stream lib p) :: ('q, 'r, nat) client_prog) c = (Go 0, ?c')"
      using r(1) Some x y
      by (simp add: allocate_stream_def want_write_def update_context_def context_at_def stream_at_def cbind_def
          ccall_def cget_def cderef_def cgo_def creturn_def cmodify_def)
    ultimately show ?thesis by blast
  qed
qed

section \<open>The whole queue\<close>

definition queue_is :: "'q quic_client \<Rightarrow> caller list \<Rightarrow> nat list \<Rightarrow> bool" where
  "queue_is c ts cs \<longleftrightarrow>
    queue_holds (allocation_queue c) cs \<and> distinct cs \<and> set cs = {p. \<exists>t \<in> set ts. waits_for_stream c t p}"

lemma queue_front_entry:
  assumes "queue_holds q (p # cs)"
  obtains a e q' where "queue_front q = Some a" and "queue_entries q a = Some e" and "entry_context e = p"
    and "pop_from_stream_allocation_queue q = (Go 0, q')" and "queue_holds q' cs" and "queue_front q' = entry_prev e"
proof -
  obtain xs where xs: "linked_entries q xs" "p # cs = rev (map snd xs)" using assms by (auto simp: queue_holds_def)
  then obtain ys a where ys: "xs = ys @ [(a, p)]" by (cases xs rule: rev_cases) auto
  have "queue_entries q a = Some \<lparr>entry_context = p, entry_next = None, entry_prev = last_address None ys\<rparr>"
    using xs(1) segment_last [of "queue_entries q" None ys a p] by (simp add: linked_entries_def ys)
  moreover obtain q' where "pop_from_stream_allocation_queue q = (Go 0, q')" "linked_entries q' ys"
    using pop_linked [of q ys a p] xs(1) ys by blast
  ultimately show thesis
    using xs ys by (intro that [of a "\<lparr>entry_context = p, entry_next = None, entry_prev = last_address None ys\<rparr>" q'])
      (auto simp: linked_entries_def last_address_def queue_holds_def)
qed

lemma queue_isD:
  assumes "calls_ok opened c ts" and "queue_is c ts (p # cs)"
  obtains i k where "i < length ts" and "ts ! i = Allocating p" and "core c p = Some k" and "\<not> core_finished k"
    and "core_auxiliary k" and "core_stream k = None"
proof -
  have "\<exists>t \<in> set ts. waits_for_stream c t p" using assms(2) by (auto simp: queue_is_def)
  then obtain i k where i: "i < length ts" "ts ! i = Allocating p" "core c p = Some k" "\<not> core_finished k"
    by (auto simp: in_set_conv_nth waits_for_stream_def)
  moreover have "phase_ok (Allocating p) k" using calls_okD(4) [OF assms(1) i(1), of p] i(2,3) by simp
  ultimately show thesis using that by auto
qed

text \<open>Serving the front of the queue keeps the invariant, and takes its context off the queue.\<close>

lemma allocated_ok:
  assumes ok: "calls_ok opened c ts" and q: "queue_is c ts (p # cs)" and al: "allocated opened c p k c'"
    and q': "queue_holds q' cs"
  shows "calls_ok opened (c'\<lparr>allocation_queue := q'\<rparr>) ts" and "queue_is (c'\<lparr>allocation_queue := q'\<rparr>) ts cs"
proof -
  obtain i k0 where i: "i < length ts" and t: "ts ! i = Allocating p" and k0: "core c p = Some k0" "\<not> core_finished k0"
    by (rule queue_isD [OF ok q])
  note D = calls_okD [OF ok i] and a = al [unfolded allocated_def]
  let ?c = "c'\<lparr>allocation_queue := q'\<rparr>"
  have core: "core ?c = (core c)(p \<mapsto> k)" using a by (simp add: core_def fun_eq_iff)
  have fin: "core_finished k" using a by simp
  have other: "p' \<noteq> p" if "u \<in> others ts i" "caller_context u = Some p'" for u p'
    using D(6) [OF that(1), of p] that(2) t by auto
  have not_me: "\<not> waits_for_stream ?c (ts ! i) p'" for p' using fin by (auto simp: waits_for_stream_def t core)
  have me: "waits_for_stream c (ts ! i) p' \<longleftrightarrow> p' = p" for p' using k0 by (auto simp: waits_for_stream_def t)
  have "p \<notin> {p'. \<exists>u \<in> others ts i. waits_for_stream c u p'}"
    using other [of "Allocating p" p] by (auto simp: waits_for_stream_def)
  moreover have "set (p # cs) = insert p {p'. \<exists>u \<in> others ts i. waits_for_stream c u p'}"
    using q me by (auto simp: queue_is_def set_others [OF i])
  moreover have "p \<notin> set cs" using q by (simp add: queue_is_def)
  ultimately have cs: "set cs = {p'. \<exists>u \<in> others ts i. waits_for_stream c u p'}" by (simp add: insert_ident)
  have "calls_ok opened ?c (ts[i := ts ! i])"
  proof (rule calls_ok_step [OF ok i])
    show "pool_ok ?c" "numbers_ok opened ?c" using a by (simp_all add: pool_ok_def numbers_ok_def)
    show "core ?c p' = core c p'" if "u \<in> others ts i" "caller_context u = Some p'" for u p'
      using other [OF that] by (simp add: core)
    show "p' < next_context ?c" if "core ?c p' \<noteq> None" for p'
      using that D(3) [of p'] D(3) [of p] a k0(1) by (simp add: core split: if_splits)
    have "phase_ok (Allocating p) k" using a by (auto split: option.splits)
    then show "(\<exists>k. core ?c p' = Some k \<and> phase_ok (ts ! i) k) \<and> (\<forall>u \<in> others ts i. caller_context u \<noteq> Some p')"
      if "caller_context (ts ! i) = Some p'" for p' using that D(6) t by (auto simp: core)
    show "\<exists>cs. queue_holds (allocation_queue ?c) cs \<and> distinct cs \<and>
      set cs = {p'. waits_for_stream ?c (ts ! i) p' \<or> (\<exists>u \<in> others ts i. waits_for_stream c u p')}"
      using q q' cs not_me by (intro exI [of _ cs]) (simp add: queue_is_def)
    show "distinct (stream_contexts ?c)"
      "set (stream_contexts ?c) = {p'. registered (ts ! i) = Some p' \<or> (\<exists>u \<in> others ts i. registered u = Some p')}"
      using D(7,8) a by simp_all
    have s: "u \<noteq> s \<and> streams ?c u = streams c u" if "core_stream k = Some s" "v \<in> others ts i" "held c v = Some u" for u v s
    proof -
      have "Some u \<in> set (auxiliary_streams c)" "\<exists>x. streams c u = Some x \<and> stream_in_use x"
        using D(9) [OF disjI2, OF that(2,3)] by simp_all
      then have "u \<noteq> s" using a that(1) by (auto simp: free_in_pool_def)
      then show ?thesis using a that(1) by simp
    qed
    show "Some u \<in> set (auxiliary_streams ?c) \<and> (\<exists>x. streams ?c u = Some x \<and> stream_in_use x)"
      if "v \<in> others ts i" "held c v = Some u" for u v
      using D(9) [OF disjI2, OF that] a s [OF _ that] by (cases "core_stream k") auto
    show "Some u \<in> set (auxiliary_streams ?c) \<and> (\<exists>x. streams ?c u = Some x \<and> stream_in_use x) \<and>
        (\<forall>v \<in> others ts i. held c v \<noteq> Some u)" if "held ?c (ts ! i) = Some u" for u
      using that a s [of u] by (auto simp: t core)
  qed
  then show "calls_ok opened ?c ts" by simp
  have "waits_for_stream ?c u p' \<longleftrightarrow> waits_for_stream c u p'" if "u \<in> others ts i" for u p'
    using other [OF that] by (auto simp: waits_for_stream_def core)
  then show "queue_is ?c ts cs" using q q' cs not_me by (simp add: queue_is_def set_others [OF i])
qed

text \<open>An allocation that is over stays as it is.\<close>

definition keeps_finished :: "'q quic_client \<Rightarrow> 'q quic_client \<Rightarrow> bool" where
  "keeps_finished c c' \<longleftrightarrow> (\<forall>p k. core c p = Some k \<longrightarrow> core_finished k \<longrightarrow> core c' p = Some k)"

lemma serve_entry_ok:
  assumes lib: "numbers_streams lib net opened" and ok: "calls_ok opened c ts" and q: "queue_is c ts (p # cs)"
  shows "\<exists>a c'. queue_front (allocation_queue c) = Some a \<and>
    serve_entry lib a c = (Go (queue_front (allocation_queue c')), c') \<and> calls_ok opened c' ts \<and> queue_is c' ts cs \<and> keeps_finished c c'"
proof -
  obtain i k where i: "i < length ts" and k: "core c p = Some k" "core_auxiliary k" "core_stream k = None" "\<not> core_finished k"
    by (rule queue_isD [OF ok q])
  obtain x where x: "contexts c p = Some x" "use_auxiliary_stream x" "allocated_stream x = None"
    using core_SomeD [OF k(1)] k(2,3) by (auto simp: core_of_def)
  obtain e k' c1 where c1: "(ccall (allocate_stream lib p) :: ('a, unit, nat) client_prog) c = (Go e, c1)"
    and al: "allocated opened c p k' c1"
    using allocate_runs [OF lib calls_okD(1,2) [OF ok i] x, where 'r = unit] by blast
  have "queue_holds (allocation_queue c) (p # cs)" using q by (simp add: queue_is_def)
  then obtain a en q' where front: "queue_front (allocation_queue c) = Some a" "queue_entries (allocation_queue c) a = Some en"
    "entry_context en = p" "pop_from_stream_allocation_queue (allocation_queue c) = (Go 0, q')" "queue_holds q' cs"
    "queue_front q' = entry_prev en" by (rule queue_front_entry)
  have aq: "allocation_queue c1 = allocation_queue c" using al by (simp add: allocated_def)
  have entry: "(on_queue (entry_at a) :: ('a, unit, queue_entry) client_prog) c0 = (Go en, c0)"
    if "allocation_queue c0 = allocation_queue c" for c0
    using front(2) that [symmetric] by (simp add: on_queue_def entry_at_def control_defs)
  have "(ccall (on_queue pop_from_stream_allocation_queue) :: ('a, unit, nat) client_prog) c1 =
      (Go 0, c1\<lparr>allocation_queue := q'\<rparr>)"
    using front(4) by (simp add: on_queue_def ccall_def aq)
  then have "serve_entry lib a c = (Go (entry_prev en), c1\<lparr>allocation_queue := q'\<rparr>)"
    using front(3) c1 entry [OF refl] entry [OF aq] by (simp add: serve_entry_def cbind_def cgo_def)
  moreover have "keeps_finished c (c1\<lparr>allocation_queue := q'\<rparr>)"
    using al k(1,4) by (auto simp: keeps_finished_def allocated_def core_def fun_eq_iff)
  ultimately show ?thesis using front allocated_ok [OF ok q al front(5)]
    by (intro exI [of _ a] exI [of _ "c1\<lparr>allocation_queue := q'\<rparr>"]) simp
qed

text \<open>The callback serves the whole queue: it ends, without an invalid pointer, and every waiting call is answered.\<close>

lemma serve_queue_ok:
  assumes lib: "numbers_streams lib net opened"
  shows "calls_ok opened c ts \<Longrightarrow> queue_is c ts cs \<Longrightarrow>
    \<exists>c'. serve_allocation_queue lib (queue_front (allocation_queue c)) c = Some (Go (), c') \<and>
      calls_ok opened c' ts \<and> queue_is c' ts [] \<and> keeps_finished c c'"
proof (induction cs arbitrary: c)
  case Nil
  then have "queue_front (allocation_queue c) = None"
    by (auto simp: queue_is_def queue_holds_def linked_entries_def last_address_def)
  then show ?case using Nil by (simp add: serve_allocation_queue.simps keeps_finished_def)
next
  case (Cons p cs)
  then obtain a c1 where a: "queue_front (allocation_queue c) = Some a"
    "serve_entry lib a c = (Go (queue_front (allocation_queue c1)), c1)" "calls_ok opened c1 ts" "queue_is c1 ts cs"
    "keeps_finished c c1"
    using serve_entry_ok [OF lib] by blast
  from Cons.IH [OF a(3,4)] a(1,2,5) show ?case
    by (subst serve_allocation_queue.simps) (auto simp: keeps_finished_def)
qed

lemma allocator_ok:
  assumes "numbers_streams lib net opened" and "calls_ok opened c ts"
  shows "\<exists>c'. async_stream_allocator_callback lib c = Some (Go (), c') \<and> calls_ok opened c' ts \<and> queue_is c' ts [] \<and> keeps_finished c c'"
proof -
  obtain cs where "queue_is c ts cs" using assms(2) by (auto simp: calls_ok_def queue_ok_def queue_is_def)
  from serve_queue_ok [OF assms this] show ?thesis by (simp add: async_stream_allocator_callback_def)
qed

end
