(* ===== verification/Quic_Call_Reachable.thy ===== *)
theory Quic_Call_Reachable
  imports Quic_Call_Allocator
begin

text \<open>
  The invariant of the calls over one QUIC connection in every reachable state.
\<close>

section \<open>The steps of the event loop\<close>

lemma calls_ok_pool:
  assumes ok: "calls_ok opened c ts" and "pool_ok c'" and "numbers_ok opened c'" and core: "core c' = core c"
    and "next_context c' = next_context c" and "allocation_queue c' = allocation_queue c"
    and "stream_contexts c' = stream_contexts c" and aux: "auxiliary_streams c' = auxiliary_streams c"
    and streams: "\<And>s x. streams c s = Some x \<Longrightarrow> streams c' s = Some x"
  shows "calls_ok opened c' ts"
proof -
  note ok = ok [unfolded calls_ok_def]
  have "waits_for_stream c' = waits_for_stream c" using core by (simp add: waits_for_stream_def fun_eq_iff)
  moreover have h: "held c' = held c" using core by (rule held_same)
  moreover have "streams_ok c' ts" using ok streams by (fastforce simp: streams_ok_def h aux)
  ultimately show ?thesis using ok assms(2-7) by (simp add: calls_ok_def contexts_ok_def queue_ok_def list_ok_def)
qed

lemma established_ok:
  fixes lib :: "'q tquic"
  assumes lib: "numbers_streams lib net opened" and ok: "calls_ok opened c ts"
  shows "\<exists>c'. client_on_conn_established lib c = (Go (), c') \<and> calls_ok opened c' ts"
proof -
  have pool: "pool_ok c" "numbers_ok opened c" using ok by (simp_all add: calls_ok_def)
  have flags: "calls_ok opened (c'\<lparr>connection_established := True, established_cond := False\<rparr>) ts"
    if "calls_ok opened c' ts" for c'
    by (rule calls_ok_same [OF that]) (simp add: same_calls_def core_def fun_eq_iff)
  from create_runs [OF lib pool, where 'r = unit] show ?thesis
  proof (elim disjE exE conjE)
    fix c' assume c': "(create_new_stream lib :: ('q, unit, nat option) client_prog) c = (Go None, c')" "refused opened c c'"
    then have "calls_ok opened c' ts" using ok by (auto simp: refused_def intro: calls_ok_same same_calls_net)
    then show ?thesis
      using c' flags [of c'] by (simp add: client_on_conn_established_def signal_established_def control_defs)
  next
    fix c1 n q
    assume new: "(create_new_stream lib :: ('q, unit, nat option) client_prog) c = (Go (Some (next_stream c)), c1)"
      "pool_ok c1" "numbers_ok opened c1" "streams c (next_stream c) = None"
      and c1: "c1 = c\<lparr>quic_net := q, next_stream := next_stream c + 1,
        streams := (streams c)(next_stream c \<mapsto> \<lparr>stream_number = n, stream_in_use = False\<rparr>)\<rparr>"
    have "calls_ok opened c1 ts"
      by (rule calls_ok_pool [OF ok new(2,3)]) (use new(4) in \<open>auto simp: c1 core_def fun_eq_iff\<close>)
    then have "calls_ok opened (c1\<lparr>main_stream := Some (next_stream c)\<rparr>) ts" (is "calls_ok _ ?c _")
      by (rule calls_ok_same) (simp add: same_calls_def core_def fun_eq_iff)
    moreover obtain c2 where c2: "(want_write lib (next_stream c) False :: ('q, unit, unit) client_prog) ?c = (Go (), c2)"
      by (simp add: want_write_def stream_at_def c1 control_defs)
    ultimately have "calls_ok opened c2 ts"
      using calls_ok_same [OF _ keepsD [OF keeps_wantwrite(2) [OF lib] c2]] by simp
    then show ?thesis
      using new(1) c2 flags [of c2] by (simp add: client_on_conn_established_def signal_established_def control_defs)
  qed
qed

lemma flags_ok:
  assumes "calls_ok opened c ts"
  shows "calls_ok opened (c\<lparr>event_loop_running := b\<rparr>) ts" and "calls_ok opened (c\<lparr>connection_closed := b\<rparr>) ts"
    and "calls_ok opened (c\<lparr>established_cond := b\<rparr>) ts"
  by (rule calls_ok_same [OF assms], simp add: same_calls_def core_def fun_eq_iff)+

lemma loop_step_ok:
  assumes "loop_step e c c'" and lib: "numbers_streams (env_lib e) (env_net e) opened" and ok: "calls_ok opened c ts"
  shows "calls_ok opened c' ts"
  using assms(1)
proof cases
  case (allocator r)
  then show ?thesis using allocator_ok [OF lib ok] by auto
next
  case (readable sid r)
  then show ?thesis using calls_ok_same [OF ok keepsD [OF keeps_data_callbacks(1) [OF lib]]] by blast
next
  case (writable sid r)
  then show ?thesis using calls_ok_same [OF ok keepsD [OF keeps_data_callbacks(2) [OF lib]]] by blast
next
  case (established r)
  then show ?thesis using established_ok [OF lib ok] by auto
next
  case (closed r)
  then show ?thesis using flags_ok(2) [OF ok] by (auto simp: client_on_conn_closed_def control_defs)
next
  case (shutdown r)
  then show ?thesis using flags_ok(1) [OF ok] by (auto simp: async_shutdown_loop_callback_def control_defs)
next
  case (network q)
  then show ?thesis using numbers_streamsD(4) [OF lib] by (simp add: calls_ok_same [OF ok] same_calls_net)
qed

section \<open>The steps of the callers\<close>

text \<open>A call that starts, and one that moves on without its context, keep the invariant.\<close>

lemma start_ok: "calls_ok opened c ts \<Longrightarrow> calls_ok opened c (ts @ [Calling m])"
  by (auto simp: calls_ok_defs waits_for_stream_def intro: exclusive_append)

lemma idle_ok:
  assumes "calls_ok opened c ts" and "i < length ts" and "caller_context (ts ! i) = None" and "registered (ts ! i) = None"
    and "held c (ts ! i) = None" and "caller_context t = None" and "registered t = None" and "held c t = None"
  shows "calls_ok opened c (ts[i := t])"
  using assms by (intro calls_ok_caller) (auto simp: waits_for_stream_def)

lemma waiting_ok:
  assumes "calls_ok opened c ts" and "caller_at ts i (Awaiting w p)"
  shows "calls_ok opened c (ts[i := Awaiting w' p])" and "calls_ok opened c (ts[i := Unregistering p r])"
  using assms by (auto intro!: calls_ok_caller simp: waits_for_stream_def)

lemma reply_cond_ok:
  assumes "calls_ok opened c ts" and "contexts c p = Some x"
  shows "calls_ok opened (set_context p (x\<lparr>reply_cond := b\<rparr>) c) ts"
  using assms by (intro calls_ok_same [OF assms(1)] same_calls_set_context) (simp_all add: core_of_def)

lemma call_step_ok:
  assumes "call_step pb spurious (c, ts) (c', ts')" and ok: "calls_ok opened c ts"
  shows "calls_ok opened c' ts'"
  using assms(1)
proof cases
  case (call_established i m created c1 p)
  moreover have "c1 = c" using call_established(3) by (auto simp: start_event_loop_def control_defs split: if_splits)
  ultimately show ?thesis using request_ok [OF ok, of i] by simp
next
  case (established_yes i m c1 p)
  moreover have "c1 = c" using established_yes by (auto simp: after_establishment_def control_defs split: if_splits)
  ultimately show ?thesis using request_ok [OF ok, of i] by simp
next
  case (established_fails i m err)
  moreover have "c' = c" using established_fails by (auto simp: after_establishment_def control_defs split: if_splits)
  ultimately show ?thesis using idle_ok [OF ok, of i] by simp
next
  case (stream_allocated i p)
  then show ?thesis using register_ok [OF ok, of i p] by simp
next
  case (stream_refused i p r)
  then show ?thesis using register_ok [OF ok, of i p] by simp
next
  case (reply_yes i p x r)
  moreover have "c' = c"
    using reply_yes by (auto simp: reply_of_call_def context_at_def control_defs split: if_splits option.splits)
  ultimately show ?thesis using waiting_ok(2) [OF ok, of i Testing p r] by simp
next
  case (unregister i p r s)
  then show ?thesis using unregister_ok [OF ok, of i p r, where 'r = unit] by auto
next
  case (release i s r)
  then show ?thesis using release_ok [OF ok, of i s r, where 'r = unit] by auto
qed (insert ok, auto simp: start_event_loop_def control_defs split: if_splits
    intro!: start_ok idle_ok flags_ok [OF ok] waiting_ok reply_cond_ok ok)

lemma quic_step_ok:
  assumes "quic_step e spurious (c, ts) (c', ts')" and "numbers_streams (env_lib e) (env_net e) opened"
    and "calls_ok opened c ts"
  shows "calls_ok opened c' ts'"
  using assms by (auto elim!: quic_step.cases intro: call_step_ok loop_step_ok)

lemma initial_ok: "calls_ok opened (initial_client conn q) []"
  by (auto simp: initial_client_def calls_ok_defs exclusive_def core_def intro: exI [of _ "[]"] empty_queue_holds)

theorem reachable_ok:
  assumes "numbers_streams (env_lib e) (env_net e) opened" and "reachable_calls e spurious (c, ts)"
  shows "calls_ok opened c ts"
proof -
  obtain conn q where "(quic_step e spurious)\<^sup>*\<^sup>* (initial_client conn q, []) (c, ts)"
    using assms(2) by (auto simp: reachable_calls_def)
  then show ?thesis
    by (induction rule: rtranclp_induct2) (auto intro: initial_ok quic_step_ok [OF _ assms(1)])
qed

section \<open>A refused call\<close>

text \<open>The event loop leaves the allocations alone that are over.\<close>

lemma loop_step_keeps:
  assumes "loop_step e c c'" and lib: "numbers_streams (env_lib e) (env_net e) opened" and ok: "calls_ok opened c ts"
  shows "keeps_finished c c'"
proof -
  have same: "keeps_finished c c'" if "same_calls opened c c'" for c'
    using that by (simp add: keeps_finished_def same_calls_def)
  from assms(1) show ?thesis
  proof cases
    case (allocator r)
    then show ?thesis using allocator_ok [OF lib ok] by auto
  next
    case (readable sid r)
    then show ?thesis using same [OF keepsD [OF keeps_data_callbacks(1) [OF lib]]] by blast
  next
    case (writable sid r)
    then show ?thesis using same [OF keepsD [OF keeps_data_callbacks(2) [OF lib]]] by blast
  next
    case (established r)
    then have "contexts c' = contexts c"
      by (auto simp: client_on_conn_established_def create_new_stream_def want_write_def stream_at_def
          signal_established_def set_stream_def control_defs split: prod.splits if_splits)
    then show ?thesis by (simp add: keeps_finished_def core_def)
  qed (auto simp: client_on_conn_closed_def async_shutdown_loop_callback_def control_defs keeps_finished_def core_def)
qed

definition refused_call :: "nat \<Rightarrow> nat \<Rightarrow> 'q quic_system \<Rightarrow> bool" where
  "refused_call i p s \<longleftrightarrow> caller_at (snd s) i (Allocating p) \<and>
    (\<exists>x. contexts (fst s) p = Some x \<and> stream_allocation_finished x \<and> \<not> successfully_allocated_stream x)"

lemma refused_call_core:
  "refused_call i p (c, ts) \<longleftrightarrow> caller_at ts i (Allocating p) \<and>
    (\<exists>k. core c p = Some k \<and> core_finished k \<and> \<not> core_success k)"
  by (auto simp: refused_call_def core_def core_of_def)

lemma refused_not_ready:
  assumes "calls_ok opened c ts" and "refused_call i p (c, ts)"
  shows "\<not> stream_ready p c"
proof -
  obtain k where k: "caller_at ts i (Allocating p)" "core c p = Some k" "core_finished k" "\<not> core_success k"
    using assms(2) by (auto simp: refused_call_core)
  then have "core_lock k" using calls_okD(4) [OF assms(1), of i p] by auto
  then show ?thesis using k(2) by (auto simp: stream_ready_def core_def core_of_def)
qed

lemma call_step_refused:
  assumes "call_step pb spurious (c, ts) (c', ts')" and ok: "calls_ok opened c ts" and r: "refused_call i p (c, ts)"
  shows "refused_call i p (c', ts')"
proof -
  obtain k where i: "i < length ts" "ts ! i = Allocating p" and k: "core c p = Some k" "core_finished k" "\<not> core_success k"
    using r by (auto simp: refused_call_core)
  note ready = refused_not_ready [OF ok r]
  have "core c' p = Some k \<and> caller_at ts' i (Allocating p)"
    using assms(1)
  proof cases
    case (call_established j m created c1 p')
    moreover have "c1 = c" using call_established(3) by (auto simp: start_event_loop_def control_defs split: if_splits)
    ultimately show ?thesis using request_ok(2) [OF ok, of j m p' c'] i k(1) by (cases "i = j") auto
  next
    case (established_yes j m c1 p')
    moreover have "c1 = c" using established_yes by (auto simp: after_establishment_def control_defs split: if_splits)
    ultimately show ?thesis using request_ok(2) [OF ok, of j m p' c'] i k(1) by (cases "i = j") auto
  next
    case (established_fails j m err)
    moreover have "c' = c" using established_fails by (auto simp: after_establishment_def control_defs split: if_splits)
    ultimately show ?thesis using i k(1) by (cases "i = j") auto
  next
    case (stream_allocated j p')
    then show ?thesis using register_ok(1) [OF ok, of j p'] ready i k(1) by (cases "i = j") (auto simp: core_def)
  next
    case (stream_refused j p' r)
    then show ?thesis using register_ok(1) [OF ok, of j p'] by simp
  next
    case (reply_yes j p' x r)
    moreover have "c' = c"
      using reply_yes by (auto simp: reply_of_call_def context_at_def control_defs split: if_splits option.splits)
    ultimately show ?thesis using i k(1) by (cases "i = j") auto
  next
    case (unregister j p' r s)
    moreover have "p' \<noteq> p" if "i \<noteq> j"
    proof -
      have "ts ! i \<in> others ts j" using that i(1) by (auto simp: others_def)
      then show ?thesis using calls_okD(6) [OF ok, of j "ts ! i" p'] unregister i by simp
    qed
    ultimately show ?thesis using unregister_ok [OF ok, of j p' r, where 'r = unit] i k(1) by (cases "i = j") auto
  next
    case (release j s r)
    then show ?thesis using release_ok [OF ok, of j s r, where 'r = unit] i k(1) by (cases "i = j") auto
  qed (insert i k(1), auto simp: start_event_loop_def control_defs core_def core_of_def nth_append nth_list_update
      split: if_splits)
  then show ?thesis using k(2,3) by (auto simp: refused_call_core)
qed

lemma run_refused:
  assumes lib: "numbers_streams (env_lib e) (env_net e) opened" and "(quic_step e spurious)\<^sup>*\<^sup>* s s'"
    and "calls_ok opened (fst s) (snd s)" and "refused_call i p s"
  shows "calls_ok opened (fst s') (snd s') \<and> refused_call i p s'"
  using assms(2)
proof (induction rule: rtranclp_induct)
  case (step s1 s2)
  obtain c ts c' ts' where s: "s1 = (c, ts)" "s2 = (c', ts')" by (metis surj_pair)
  note ih = step.IH [unfolded s, simplified]
  have "refused_call i p (c', ts')"
    using step.hyps(2) [unfolded s]
  proof cases
    case by_caller
    then show ?thesis using call_step_refused ih by blast
  next
    case by_loop
    then show ?thesis using loop_step_keeps [OF by_loop(2) lib] ih by (auto simp: keeps_finished_def refused_call_core)
  qed
  then show ?case using quic_step_ok [OF step.hyps(2) [unfolded s] lib] ih by (simp add: s)
qed (use assms in simp)

end
