(* ===== verification/Quic_Call_Properties.thy ===== *)
theory Quic_Call_Properties
  imports Quic_Call_Reachable Rpc_Safety
begin

text \<open>
  What holds of the calls over one QUIC connection, however the threads take turns, and an example: three
  calls, and a server that allows three streams.
\<close>

section \<open>The example\<close>

definition three_lib :: "nat tquic" where
  "three_lib =
    \<lparr>quic_stream_write = (\<lambda>_ _ bs _ q. (of_nat (length bs), q)), quic_stream_read = (\<lambda>_ _ _ q. (-1, [], q)),
     quic_stream_wantwrite = (\<lambda>_ _ _ q. q),
     quic_stream_bidi_new = (\<lambda>_ _ _ q. if q < 3 then (0, [0, 4, 8] ! q, q + 1) else (-1, 0, q))\<rparr>"

definition three_opened :: "nat \<Rightarrow> u64 set" where
  "three_opened q = set (take q [0, 4, 8])"

definition three_env :: "nat quic_env" where
  "three_env = \<lparr>env_codec = ex_rpc_codec (ex_cred 1000), env_lib = three_lib, env_junk = (\<lambda>_. 0), env_net = (\<lambda>_ _. False)\<rparr>"

lemma three_numbers: "numbers_streams (env_lib three_env) (env_net three_env) three_opened"
proof -
  have "case quic_stream_bidi_new three_lib conn flags open_now q of (e, sid, q') \<Rightarrow>
      three_opened q \<subseteq> three_opened q' \<and> (e = 0 \<longrightarrow> sid \<in> three_opened q' \<and> sid \<notin> three_opened q)" for conn flags open_now q
  proof -
    consider "q = 0" | "q = 1" | "q = 2" | "\<not> q < 3" by linarith
    then show ?thesis by cases (auto simp: three_lib_def three_opened_def take_Cons' nth_Cons')
  qed
  then show ?thesis by (auto simp: numbers_streams_def three_env_def) (auto simp: three_lib_def)
qed

definition three_established :: "nat quic_client" where
  "three_established = (initial_client 1 0)\<lparr>event_loop_running := True, quic_net := 1, next_stream := 1,
    streams := [0 \<mapsto> \<lparr>stream_number = 0, stream_in_use = False\<rparr>], main_stream := Some 0,
    connection_established := True, established_cond := False\<rparr>"

lemma three_establishes:
  "(quic_step three_env False)\<^sup>*\<^sup>* (initial_client 1 0, [])
    (three_established, [Establishing Testing [1], Calling [2], Calling [3]])"
proof -
  let ?c = "initial_client 1 0 :: nat quic_client"
  note trans = rtranclp.rtrancl_into_rtrancl [of "quic_step three_env False"]
  have "(quic_step three_env False)\<^sup>*\<^sup>* (?c, []) (?c, [] @ [Calling [1]])"
    by (intro r_into_rtranclp by_caller start_call)
  then have "(quic_step three_env False)\<^sup>*\<^sup>* (?c, []) (?c, ([] @ [Calling [1]]) @ [Calling [2]])"
    by (rule trans) (intro by_caller start_call)
  then have "(quic_step three_env False)\<^sup>*\<^sup>* (?c, []) (?c, (([] @ [Calling [1]]) @ [Calling [2]]) @ [Calling [3]])"
    by (rule trans) (intro by_caller start_call)
  then have "(quic_step three_env False)\<^sup>*\<^sup>* (?c, []) (?c, [Calling [1], Calling [2], Calling [3]])" by simp
  then have "(quic_step three_env False)\<^sup>*\<^sup>* (?c, [])
      (?c\<lparr>event_loop_running := True\<rparr>, [Calling [1], Calling [2], Calling [3]][0 := Establishing Testing [1]])"
    by (rule trans) (intro by_caller call_starts_loop; simp add: start_event_loop_def initial_client_def control_defs)
  then have "(quic_step three_env False)\<^sup>*\<^sup>* (?c, [])
      (three_established, [Calling [1], Calling [2], Calling [3]][0 := Establishing Testing [1]])"
  proof (rule trans)
    show "quic_step three_env False (?c\<lparr>event_loop_running := True\<rparr>, ts) (three_established, ts)" for ts
      by (intro by_loop loop_step.established [where r = "Go ()"])
        (simp_all add: three_established_def three_env_def three_lib_def initial_client_def client_on_conn_established_def
          create_new_stream_def want_write_def stream_at_def set_stream_def signal_established_def control_defs)
  qed
  then show ?thesis by simp
qed

definition asking :: "nat quic_client \<Rightarrow> bytes \<Rightarrow> nat quic_client" where
  "asking c m = snd ((request_stream m True :: (nat, unit, nat) client_prog) c)"

definition three_asking :: "nat quic_client" where
  "three_asking = fold (\<lambda>m c. asking c m) [[1], [2], [3]] three_established"

lemmas asking_defs = asking_def request_stream_def create_client_stream_context_def on_queue_def set_context_def
  push_to_stream_allocation_queue_def set_entry_def entry_at_def control_defs

lemma three_asking_value:
  "three_asking = three_established\<lparr>next_context := 3,
    contexts := [0 \<mapsto> new_stream_context [1] True, 1 \<mapsto> new_stream_context [2] True, 2 \<mapsto> new_stream_context [3] True],
    allocation_queue := \<lparr>queue_entries = [0 \<mapsto> \<lparr>entry_context = 0, entry_next = None, entry_prev = Some 1\<rparr>,
      1 \<mapsto> \<lparr>entry_context = 1, entry_next = Some 0, entry_prev = Some 2\<rparr>,
      2 \<mapsto> \<lparr>entry_context = 2, entry_next = Some 1, entry_prev = None\<rparr>],
      queue_back = Some 2, queue_front = Some 0, queue_heap = 3\<rparr>\<rparr>"
  by (simp add: three_asking_def asking_defs three_established_def initial_client_def empty_queue_def fun_upd_twist)
    (simp add: numeral_2_eq_2)

lemma asking_runs:
  assumes "(quic_step three_env False)\<^sup>*\<^sup>* (initial_client 1 0, []) (c, ts)"
  shows "(request_stream m True :: (nat, unit, nat) client_prog) c = (Go (next_context c), asking c m)"
proof -
  have "calls_ok three_opened c ts"
    by (rule reachable_ok [OF three_numbers, of False]) (use assms in \<open>auto simp: reachable_calls_def\<close>)
  then obtain cs where "queue_holds (allocation_queue c) cs" by (auto simp: calls_ok_def queue_ok_def)
  from request_runs [OF this, of m True, where 'r = unit] show ?thesis by (auto simp: asking_def)
qed

lemma asking_step:
  assumes "(quic_step three_env False)\<^sup>*\<^sup>* (initial_client 1 0, []) (c, ts)" and "caller_at ts i (Calling m)"
    and "connection_established c"
  shows "(quic_step three_env False)\<^sup>*\<^sup>* (initial_client 1 0, []) (asking c m, ts[i := Allocating (next_context c)])"
  using assms(1)
proof (rule rtranclp.rtrancl_into_rtrancl)
  have "start_event_loop True c = (Return 0, c)" using assms(3) by (simp add: start_event_loop_def control_defs)
  then show "quic_step three_env False (c, ts) (asking c m, ts[i := Allocating (next_context c)])"
    using assms(2) asking_runs [OF assms(1)] by (intro by_caller call_established)
qed

lemma three_asks:
  "(quic_step three_env False)\<^sup>*\<^sup>* (initial_client 1 0, []) (three_asking, [Allocating 0, Allocating 1, Allocating 2])"
proof -
  let ?c = "asking three_established [1]" and ?d = "asking (asking three_established [1]) [2]"
  have first: "(quic_step three_env False)\<^sup>*\<^sup>* (initial_client 1 0, [])
      (?c, [Establishing Testing [1], Calling [2], Calling [3]][0 := Allocating (next_context three_established)])"
  proof (rule rtranclp.rtrancl_into_rtrancl [OF three_establishes], rule by_caller,
      rule established_yes [OF _ _ _ asking_runs [OF three_establishes]])
    show "(after_establishment :: (nat, unit, nat) client_prog) three_established = (Go 0, three_established)"
      by (simp add: three_established_def after_establishment_def control_defs)
  qed (simp_all add: three_established_def)
  have n: "next_context three_established = 0" "next_context ?c = 1" "next_context ?d = 2"
    "connection_established ?c" "connection_established ?d"
    by (simp_all add: three_established_def asking_defs initial_client_def empty_queue_def)
  have "(quic_step three_env False)\<^sup>*\<^sup>* (initial_client 1 0, []) (?d, [Allocating 0, Allocating 1, Calling [3]])"
    using asking_step [OF first, of 1 "[2]"] n by simp
  from asking_step [OF this, of 2 "[3]"] show ?thesis using n by (simp add: three_asking_def)
qed

definition three_served :: "nat quic_client" where
  "three_served = (case async_stream_allocator_callback three_lib three_asking of Some (_, c) \<Rightarrow> c | None \<Rightarrow> three_asking)"

lemma three_serves: "(quic_step three_env False)\<^sup>*\<^sup>* (initial_client 1 0, [])
    (three_served, [Allocating 0, Allocating 1, Allocating 2])"
proof (rule rtranclp.rtrancl_into_rtrancl [OF three_asks], rule by_loop, rule allocator [where r = "Go ()"])
  have "calls_ok three_opened three_asking [Allocating 0, Allocating 1, Allocating 2]"
    by (rule reachable_ok [OF three_numbers, of False]) (use three_asks in \<open>auto simp: reachable_calls_def\<close>)
  then obtain c where "async_stream_allocator_callback (env_lib three_env) three_asking = Some (Go (), c)"
    using allocator_ok [OF three_numbers] by blast
  then show "async_stream_allocator_callback (env_lib three_env) three_asking = Some (Go (), three_served)"
    by (simp add: three_served_def three_env_def)
qed (simp_all add: three_asking_value three_established_def)

lemmas three_defs = three_asking_value three_established_def initial_client_def three_lib_def new_stream_context_def

lemmas serving_defs = async_stream_allocator_callback_def serve_entry_def allocate_stream_def on_queue_def entry_at_def
  update_context_def context_at_def set_context_def get_available_auxiliary_stream_def create_new_stream_def
  mark_stream_def stream_at_def set_stream_def want_write_def allocation_failed_def pop_from_stream_allocation_queue_def
  set_entry_def

lemma three_served_value:
  "contexts three_served 0 = Some ((new_stream_context [1] True)\<lparr>allocated_stream := Some 1,
      successfully_allocated_stream := True, stream_allocation_finished := True\<rparr>)"
  "contexts three_served 1 = Some ((new_stream_context [2] True)\<lparr>allocated_stream := Some 2,
      successfully_allocated_stream := True, stream_allocation_finished := True\<rparr>)"
  "contexts three_served 2 = Some ((new_stream_context [3] True)\<lparr>successfully_allocated_stream := False,
      stream_allocation_finished := True, stream_allocator_lock := True\<rparr>)"
  "streams three_served 1 = Some \<lparr>stream_number = 4, stream_in_use = True\<rparr>"
  "streams three_served 2 = Some \<lparr>stream_number = 8, stream_in_use = True\<rparr>"
  by (simp_all add: three_served_def three_defs serving_defs serve_allocation_queue.simps control_defs)

lemma three_reachable: "reachable_calls three_env False (three_served, [Allocating 0, Allocating 1, Allocating 2])"
  using three_serves by (auto simp: reachable_calls_def)

section \<open>The properties\<close>

text \<open>The calls that hold a stream are at most as many as the streams of the pool.\<close>

lemma holders_bounded:
  assumes "calls_ok opened c ts"
  shows "card {i. i < length ts \<and> held c (ts ! i) \<noteq> None} \<le> length (auxiliary_streams c)"
proof -
  let ?I = "{i. i < length ts \<and> held c (ts ! i) \<noteq> None}"
  have ex: "exclusive (held c) ts" using assms by (simp add: calls_ok_def streams_ok_def)
  have "inj_on (\<lambda>i. held c (ts ! i)) ?I"
  proof (rule inj_onI)
    fix i j assume "i \<in> ?I" "j \<in> ?I" "held c (ts ! i) = held c (ts ! j)"
    then show "i = j" using ex [unfolded exclusive_def, rule_format, of i j] by auto
  qed
  moreover have "held c (ts ! i) \<in> set (auxiliary_streams c)" if "i \<in> ?I" for i
    using that calls_okD(9) [OF assms, of i "ts ! i"] by auto
  then have "(\<lambda>i. held c (ts ! i)) ` ?I \<subseteq> set (auxiliary_streams c)" by blast
  ultimately have "card ?I \<le> card (set (auxiliary_streams c))" by (intro card_inj_on_le) auto
  then show ?thesis using card_length [of "auxiliary_streams c"] by linarith
qed

text \<open>
  C6: However the threads of a client take turns, two calls in flight never use the same QUIC stream: the
  streams they hold are marked as used and have different numbers.
\<close>

theorem quic_streams_exclusive:
  assumes "numbers_streams (env_lib e) (env_net e) opened" and "reachable_calls e spurious (c, ts)"
    and "i < length ts" and "j < length ts" and "i \<noteq> j" and "held c (ts ! i) = Some s" and "held c (ts ! j) = Some s'"
  shows "\<exists>x y. streams c s = Some x \<and> streams c s' = Some y \<and> stream_in_use x \<and> stream_in_use y \<and>
    stream_number x \<noteq> stream_number y"
proof -
  note ok = reachable_ok [OF assms(1,2), unfolded calls_ok_def]
  obtain x y where x: "streams c s = Some x" "streams c s' = Some y" "stream_in_use x" "stream_in_use y"
    using ok assms(3,4,6,7) unfolding streams_ok_def by (metis nth_mem)
  have "s \<noteq> s'" using ok assms(3-7) by (auto simp: streams_ok_def exclusive_def)
  then have "stream_number x \<noteq> stream_number y" using ok x(1,2) by (auto simp: numbers_ok_def)
  then show ?thesis using x by blast
qed

theorem quic_streams_exclusive_witness:
  "\<exists>x y. streams three_served 1 = Some x \<and> streams three_served 2 = Some y \<and> stream_in_use x \<and> stream_in_use y \<and>
    stream_number x \<noteq> stream_number y"
  by (rule quic_streams_exclusive [OF three_numbers three_reachable, of 0 1])
    (simp_all add: three_served_value core_def core_of_def del: One_nat_def)

text \<open>
  C22: A client never has more than \<open>MAX_STREAMS_PER_CONNECTION\<close> auxiliary streams, and so never more than
  that many calls that hold a stream.
\<close>

theorem quic_pool_bounded:
  assumes "numbers_streams (env_lib e) (env_net e) opened" and "reachable_calls e spurious (c, ts)"
  shows "length (auxiliary_streams c) \<le> MAX_STREAMS_PER_CONNECTION \<and>
    card {i. i < length ts \<and> held c (ts ! i) \<noteq> None} \<le> MAX_STREAMS_PER_CONNECTION"
proof -
  note ok = reachable_ok [OF assms]
  then have "length (auxiliary_streams c) \<le> MAX_STREAMS_PER_CONNECTION" by (auto simp: calls_ok_def pool_ok_def)
  then show ?thesis using holders_bounded [OF ok] by simp
qed

theorem quic_pool_bounded_witness:
  "length (auxiliary_streams three_served) \<le> MAX_STREAMS_PER_CONNECTION \<and>
    card {i. i < length [Allocating 0, Allocating 1, Allocating 2] \<and>
      held three_served ([Allocating 0, Allocating 1, Allocating 2] ! i) \<noteq> None} \<le> MAX_STREAMS_PER_CONNECTION"
  by (rule quic_pool_bounded [OF three_numbers three_reachable])

text \<open>
  C8: The callback of the allocation queue always ends, follows no invalid pointer, and leaves no call
  behind: afterwards the queue is empty, and for every call that waits for a stream the allocation is over.
\<close>

theorem quic_allocator_serves_all:
  assumes "numbers_streams (env_lib e) (env_net e) opened" and "reachable_calls e spurious (c, ts)"
  shows "\<exists>c'. async_stream_allocator_callback (env_lib e) c = Some (Go (), c') \<and>
    queue_front (allocation_queue c') = None \<and>
    (\<forall>i p. caller_at ts i (Allocating p) \<longrightarrow> (\<exists>x. contexts c' p = Some x \<and> stream_allocation_finished x))"
proof -
  obtain c' where c': "async_stream_allocator_callback (env_lib e) c = Some (Go (), c')"
    and ok: "calls_ok opened c' ts" and q: "queue_is c' ts []"
    using allocator_ok [OF assms(1) reachable_ok [OF assms]] by blast
  have "queue_front (allocation_queue c') = None"
    using q by (auto simp: queue_is_def queue_holds_def linked_entries_def last_address_def)
  moreover have "\<exists>x. contexts c' p = Some x \<and> stream_allocation_finished x" if i: "caller_at ts i (Allocating p)" for i p
  proof -
    have "\<exists>k. core c' p = Some k" using calls_okD(4) [OF ok, of i p] i by auto
    then obtain x where x: "contexts c' p = Some x" by (auto simp: core_def)
    moreover have "\<not> waits_for_stream c' (Allocating p) p" using q i by (fastforce simp: queue_is_def in_set_conv_nth)
    ultimately show ?thesis by (auto simp: waits_for_stream_def core_def core_of_def)
  qed
  ultimately show ?thesis using c' by blast
qed

theorem quic_allocator_serves_all_witness:
  "\<exists>c'. async_stream_allocator_callback three_lib three_asking = Some (Go (), c') \<and>
    queue_front (allocation_queue c') = None \<and> (\<exists>x. contexts c' 2 = Some x \<and> stream_allocation_finished x)"
proof -
  have "reachable_calls three_env False (three_asking, [Allocating 0, Allocating 1, Allocating 2])"
    using three_asks by (auto simp: reachable_calls_def)
  moreover have "caller_at [Allocating 0, Allocating 1, Allocating 2] 2 (Allocating 2)" by simp
  moreover have "env_lib three_env = three_lib" by (simp add: three_env_def)
  ultimately show ?thesis using quic_allocator_serves_all [OF three_numbers] by metis
qed

text \<open>
  C7: What arrives on a stream reaches the call that uses it.  While a call waits for its reply, its context
  exists, it has a stream, and the search that the event loop makes for the number of that stream finds
  exactly this context, whatever other calls are registered.
\<close>

theorem quic_reply_routing:
  fixes c :: "'q quic_client"
  assumes "numbers_streams (env_lib e) (env_net e) opened" and "reachable_calls e spurious (c, ts)"
    and "caller_at ts i (Awaiting w p)"
  shows "\<exists>x s y. contexts c p = Some x \<and> allocated_stream x = Some s \<and> streams c s = Some y \<and>
    (find_stream_context (stream_contexts c) (stream_number y) :: ('q, unit, nat option) client_prog) c = (Go (Some p), c)"
proof -
  note ok = reachable_ok [OF assms(1,2)]
  have listed: "p \<in> set (stream_contexts c)" using calls_okD(8) [OF ok, of i] assms(3) by auto
  obtain j x s y where s: "contexts c p = Some x" "allocated_stream x = Some s" "streams c s = Some y"
    "stream_number y = context_number c p"
    by (rule listed_caller [OF ok listed])
  have "\<exists>q \<in> set (stream_contexts c). context_number c q = stream_number y" using listed s(4) by metis
  then obtain q where q: "List.find (\<lambda>q. context_number c q = stream_number y) (stream_contexts c) = Some q"
    by (metis (mono_tags) find_None_iff not_None_eq)
  then have "q \<in> set (stream_contexts c)" "context_number c q = context_number c p"
    using s(4) by (auto simp: find_Some_iff)
  then have "q = p" using inj_onD [OF listed_inj [OF ok]] listed by blast
  then show ?thesis
    using s(1-3) q find_runs [OF listed_numbered [OF ok] listed_inj [OF ok], where 'b = unit] by auto
qed

lemma three_registers:
  "quic_step three_env False (three_served, [Allocating 0, Allocating 1, Allocating 2])
    (three_served\<lparr>stream_contexts := [0]\<rparr>, [Awaiting Testing 0, Allocating 1, Allocating 2])"
proof -
  have run: "register_call 0 three_served = (Go (), three_served\<lparr>stream_contexts := 0 # stream_contexts three_served\<rparr>)"
    by (rule register_ok(1) [OF reachable_ok [OF three_numbers three_reachable], of 0])
      (simp_all add: stream_ready_def three_served_value new_stream_context_def)
  have empty: "stream_contexts three_served = []" "\<not> stream_contexts_list_lock three_served"
    by (simp_all add: three_served_def three_defs serving_defs serve_allocation_queue.simps control_defs)
  have "call_step (env_codec three_env) False (three_served, [Allocating 0, Allocating 1, Allocating 2])
      (three_served\<lparr>stream_contexts := 0 # stream_contexts three_served\<rparr>,
       [Allocating 0, Allocating 1, Allocating 2][0 := Awaiting Testing 0])"
    by (rule stream_allocated [OF _ _ empty(2) run]) (simp_all add: stream_ready_def three_served_value new_stream_context_def)
  then show ?thesis by (intro by_caller) (simp add: empty)
qed

lemma three_registered:
  "reachable_calls three_env False (three_served\<lparr>stream_contexts := [0]\<rparr>, [Awaiting Testing 0, Allocating 1, Allocating 2])"
  using rtranclp.rtrancl_into_rtrancl [OF three_serves three_registers] by (auto simp: reachable_calls_def)

theorem quic_reply_routing_witness:
  "(find_stream_context [0] 4 :: (nat, unit, nat option) client_prog) (three_served\<lparr>stream_contexts := [0]\<rparr>) =
    (Go (Some 0), three_served\<lparr>stream_contexts := [0]\<rparr>)"
  using quic_reply_routing [OF three_numbers three_registered, of 0 Testing 0]
  by (simp add: three_served_value new_stream_context_def del: find_stream_context.simps One_nat_def)

text \<open>
  C21: The callers keep to valid memory.  Whenever a call goes on after the allocation of its stream it can be
  registered; its context lives until it is taken off the list; and the call can always be unregistered and
  its stream be released.
\<close>

theorem quic_bookkeeping_safe:
  fixes c :: "'q quic_client"
  assumes "numbers_streams (env_lib e) (env_net e) opened" and "reachable_calls e spurious (c, ts)" and "i < length ts"
  shows "case ts ! i of
      Allocating p \<Rightarrow> contexts c p \<noteq> None \<and> (\<not> stream_ready p c \<or> fst (register_call p c) = Go ())
    | Awaiting w p \<Rightarrow> contexts c p \<noteq> None
    | Unregistering p r \<Rightarrow> (\<exists>s. fst ((unregister_call p :: ('q, unit, nat) client_prog) c) = Go s)
    | Releasing s r \<Rightarrow> fst ((release_stream s :: ('q, unit, unit) client_prog) c) = Go ()
    | _ \<Rightarrow> True"
proof -
  note ok = reachable_ok [OF assms(1,2)]
  have ctx: "contexts c p \<noteq> None" if "caller_context (ts ! i) = Some p" for p
    using calls_okD(4) [OF ok assms(3) that] by (auto simp: core_def)
  show ?thesis
  proof (cases "ts ! i")
    case (Allocating p)
    then show ?thesis using ctx [of p] register_ok(1) [OF ok, of i p] assms(3) by auto
  next
    case (Awaiting w p)
    then show ?thesis using ctx [of p] by simp
  next
    case (Unregistering p r)
    then show ?thesis using unregister_ok [OF ok, of i p r, where 'r = unit] assms(3) by auto
  next
    case (Releasing s r)
    then show ?thesis using release_ok [OF ok, of i s r, where 'r = unit] assms(3) by auto
  qed simp_all
qed

theorem quic_bookkeeping_safe_witness:
  "contexts three_served 0 \<noteq> None \<and> fst (register_call 0 three_served) = Go ()"
proof -
  have "stream_ready 0 three_served" by (simp add: stream_ready_def three_served_value new_stream_context_def)
  then show ?thesis using quic_bookkeeping_safe [OF three_numbers three_reachable, of 0] by simp
qed

text \<open>
  C38: A call whose stream cannot be allocated never returns.  When \<open>allocate_stream\<close> fails, it leaves the
  mutex of the context locked, and the calling thread waits for that mutex: however the process goes on, the
  call stays where it is.
\<close>

theorem quic_refused_call_hangs:
  assumes "numbers_streams (env_lib e) (env_net e) opened" and "reachable_calls e spurious s"
    and "refused_call i p s" and "(quic_step e spurious)\<^sup>*\<^sup>* s s'"
  shows "caller_at (snd s') i (Allocating p) \<and> \<not> stream_ready p (fst s')"
proof -
  have "calls_ok opened (fst s) (snd s)" using reachable_ok [OF assms(1), of spurious "fst s" "snd s"] assms(2) by simp
  then have "calls_ok opened (fst s') (snd s')" "refused_call i p s'"
    using run_refused [OF assms(1,4) _ assms(3)] by simp_all
  then show ?thesis
    using refused_not_ready [of opened "fst s'" "snd s'" i p] by (simp add: refused_call_def)
qed

theorem quic_refused_call_hangs_witness:
  "caller_at [Awaiting Testing 0, Allocating 1, Allocating 2] 2 (Allocating 2) \<and>
    \<not> stream_ready 2 (three_served\<lparr>stream_contexts := [0]\<rparr>)"
proof -
  have "refused_call 2 2 (three_served, [Allocating 0, Allocating 1, Allocating 2])"
    by (simp add: refused_call_def three_served_value new_stream_context_def)
  from quic_refused_call_hangs [OF three_numbers three_reachable this r_into_rtranclp, OF three_registers]
  show ?thesis by simp
qed

end
