(* ===== verification/Server_Threads.thy ===== *)
theory Server_Threads
  imports Rpc_Server Rpc_Client
begin

text \<open>
  The threads of the TCP server: the list of client threads (\<open>nfs_server_threads.c\<close>), the loop of a client
  thread and the loop of the main thread (\<open>tcp_rpc_server.c\<close>), and the end on SIGTERM (\<open>server.c\<close>).

  A client thread and its socket have the same number.  A step runs one thread from one point where it can
  be interrupted to the next; the work on one RPC is one step.  A thread that wants the mutex of the list
  waits until it is free.
\<close>

section \<open>\<open>nfs_server_threads.c\<close>\<close>

record thread_entry =
  server_thread :: nat
  entry_transport_protocol :: transport_protocol
  entry_socket :: "nat option"

record threads_state =
  threads_list :: "thread_entry list"
  threads_mutex :: bool
  closed_sockets :: "nat list"

type_synonym ('r, 'a) threads_prog = "(threads_state, 'r, 'a) cprog"

definition lock_threads :: "bool \<Rightarrow> ('r, unit) threads_prog" where
  "lock_threads b = cmodify (threads_mutex_update (\<lambda>_. b))"

definition clean_up_nfs_server_threads_list_entry :: "thread_entry \<Rightarrow> ('r, unit) threads_prog" where
  "clean_up_nfs_server_threads_list_entry entry =
    (case entry_transport_protocol entry of
       TRANSPORT_PROTOCOL_TCP \<Rightarrow>
         (case entry_socket entry of
            None \<Rightarrow> cgo ()
          | Some socket \<Rightarrow> cmodify (closed_sockets_update ((#) socket)))
     | _ \<Rightarrow> cgo ())"

text \<open>
  The source reads the head before it takes the mutex.  That makes no difference: only the removal of the
  first entry changes the head, and it keeps the mutex.
\<close>

definition add_server_thread :: "nat \<Rightarrow> transport_protocol \<Rightarrow> nat option \<Rightarrow> ('r, nat) threads_prog" where
  "add_server_thread thread protocol socket =
    cbind (lock_threads True) (\<lambda>_.
    cbind (cmodify (threads_list_update ((#)
      \<lparr>server_thread = thread, entry_transport_protocol = protocol, entry_socket = socket\<rparr>))) (\<lambda>_.
    cbind (lock_threads False) (\<lambda>_.
    cgo 0)))"

text \<open>Both callers pass the address of the global list, so that \<open>head\<close> is never NULL; \<open>*head\<close> is NULL on the empty list.\<close>

definition remove_server_thread :: "nat \<Rightarrow> ('r, nat) threads_prog" where
  "remove_server_thread thread =
    cbind (lock_threads True) (\<lambda>_.
    cbind (cget threads_list) (\<lambda>head.
    case head of
      [] \<Rightarrow> cub
    | first # rest \<Rightarrow>
        if server_thread first = thread then
          cbind (clean_up_nfs_server_threads_list_entry first) (\<lambda>_.
          cbind (cmodify (threads_list_update (\<lambda>_. rest))) (\<lambda>_.
          cgo 0))
        else
          (case List.find (\<lambda>entry. server_thread entry = thread) rest of
             Some entry \<Rightarrow>
               cbind (cmodify (threads_list_update
                 (\<lambda>_. first # remove_first (\<lambda>entry. server_thread entry = thread) rest))) (\<lambda>_.
               cbind (clean_up_nfs_server_threads_list_entry entry) (\<lambda>_.
               cbind (lock_threads False) (\<lambda>_.
               cgo 0)))
           | None \<Rightarrow> cbind (lock_threads False) (\<lambda>_. cgo 1))))"

lemmas threads_defs = lock_threads_def clean_up_nfs_server_threads_list_entry_def add_server_thread_def
  remove_server_thread_def

section \<open>The threads\<close>

text \<open>\<open>is_tcp_connection_closed\<close> peeks at the first byte: 0 at the end of the stream, -1 on failure, 1 otherwise.\<close>

fun is_tcp_connection_closed :: "recv_event list \<Rightarrow> int" where
  "is_tcp_connection_closed [] = 0"
| "is_tcp_connection_closed (Recv_Fails # es) = -1"
| "is_tcp_connection_closed (Arrives bs # es) = (if bs = [] then is_tcp_connection_closed es else 1)"

text \<open>
  A client thread serves its connection, wants to remove its entry, or has ended.  The main thread waits for
  a connection, registers the thread it has created, waits for the threads to end after SIGTERM (with the
  entries still to be cleaned up), has exited after SIGTERM, or has stopped because \<open>accept\<close> or
  \<open>pthread_create\<close> failed.
\<close>

datatype worker = Serving tcp_conn | Leaving tcp_conn | Ended tcp_conn

datatype main_thread = Accepting | Registering nat | Cleaning "thread_entry list" | Exited | Stopped

record tcp_server =
  ts_server :: server
  ts_xid :: u32
  ts_threads :: threads_state
  ts_main :: main_thread
  ts_workers :: "worker list"

abbreviation worker_at :: "tcp_server \<Rightarrow> nat \<Rightarrow> worker \<Rightarrow> bool" where
  "worker_at s t w \<equiv> t < length (ts_workers s) \<and> ts_workers s ! t = w"

definition thread_of :: "tcp_server \<Rightarrow> tcp_conn \<Rightarrow> tcp_thread" where
  "thread_of s conn = \<lparr>th_server = ts_server s, th_conn = conn, th_xid = ts_xid s\<rparr>"

definition after_rpc :: "tcp_server \<Rightarrow> nat \<Rightarrow> tcp_thread \<Rightarrow> (tcp_conn \<Rightarrow> worker) \<Rightarrow> tcp_server" where
  "after_rpc s t th w = s\<lparr>ts_server := th_server th, ts_xid := th_xid th, ts_workers := (ts_workers s)[t := w (th_conn th)]\<rparr>"

definition is_leaving :: "worker \<Rightarrow> bool" where
  "is_leaving w \<longleftrightarrow> (case w of Leaving _ \<Rightarrow> True | _ \<Rightarrow> False)"

definition ended :: "worker \<Rightarrow> worker" where
  "ended w = (case w of Serving conn \<Rightarrow> Ended conn | Leaving conn \<Rightarrow> Ended conn | Ended conn \<Rightarrow> Ended conn)"

text \<open>The loop of a client thread: \<open>handle_client_tcp\<close>.\<close>

inductive client_step :: "codec \<Rightarrow> tcp_server \<Rightarrow> tcp_server \<Rightarrow> bool" for pb where
  serves: "\<lbrakk>worker_at s t (Serving conn); is_tcp_connection_closed (conn_in conn) = 1;
    process_single_rpc_tcp pb (thread_of s conn) = (Return 0, th)\<rbrakk> \<Longrightarrow>
    client_step pb s (after_rpc s t th Serving)"
| serve_fails: "\<lbrakk>worker_at s t (Serving conn); is_tcp_connection_closed (conn_in conn) = 1;
    process_single_rpc_tcp pb (thread_of s conn) = (Return code, th); code > 0\<rbrakk> \<Longrightarrow>
    client_step pb s (after_rpc s t th Leaving)"
| peer_closed: "\<lbrakk>worker_at s t (Serving conn); is_tcp_connection_closed (conn_in conn) = 0\<rbrakk> \<Longrightarrow>
    client_step pb s (s\<lparr>ts_workers := (ts_workers s)[t := Ended conn]\<rparr>)"
| peek_fails: "\<lbrakk>worker_at s t (Serving conn); is_tcp_connection_closed (conn_in conn) < 0\<rbrakk> \<Longrightarrow>
    client_step pb s (s\<lparr>ts_workers := (ts_workers s)[t := Leaving conn]\<rparr>)"
| leaves: "\<lbrakk>worker_at s t (Leaving conn); \<not> threads_mutex (ts_threads s);
    (remove_server_thread t :: (unit, nat) threads_prog) (ts_threads s) = (Go code, threads)\<rbrakk> \<Longrightarrow>
    client_step pb s (s\<lparr>ts_threads := threads, ts_workers := (ts_workers s)[t := Ended conn]\<rparr>)"

text \<open>The loop of the main thread: \<open>run_server_tcp\<close>.\<close>

inductive main_step :: "tcp_server \<Rightarrow> tcp_server \<Rightarrow> bool" where
  accepts: "ts_main s = Accepting \<Longrightarrow>
    main_step s (s\<lparr>ts_main := Registering (length (ts_workers s)), ts_workers := ts_workers s @ [Serving conn]\<rparr>)"
| accept_fails: "ts_main s = Accepting \<Longrightarrow> main_step s (s\<lparr>ts_main := Stopped\<rparr>)"
| registers: "\<lbrakk>ts_main s = Registering t; \<not> threads_mutex (ts_threads s);
    (add_server_thread t TRANSPORT_PROTOCOL_TCP (Some t) :: (unit, nat) threads_prog) (ts_threads s) = (Go 0, threads)\<rbrakk> \<Longrightarrow>
    main_step s (s\<lparr>ts_threads := threads, ts_main := Accepting\<rparr>)"

text \<open>
  The main thread after SIGTERM: \<open>handle_signal\<close> calls \<open>clean_up_nfs_server_threads_list\<close>, which cancels and joins one
  thread after the other while it holds the mutex.  A thread that waits for the mutex cannot be cancelled.
\<close>

inductive shutdown_step :: "tcp_server \<Rightarrow> tcp_server \<Rightarrow> bool" where
  sigterm: "\<lbrakk>ts_main s = Accepting; \<not> threads_mutex (ts_threads s);
    (lock_threads True :: (unit, unit) threads_prog) (ts_threads s) = (Go (), threads)\<rbrakk> \<Longrightarrow>
    shutdown_step s (s\<lparr>ts_threads := threads, ts_main := Cleaning (threads_list threads)\<rparr>)"
| joins: "\<lbrakk>ts_main s = Cleaning (e # es); server_thread e < length (ts_workers s);
    \<not> is_leaving (ts_workers s ! server_thread e);
    (clean_up_nfs_server_threads_list_entry e :: (unit, unit) threads_prog) (ts_threads s) = (Go (), threads)\<rbrakk> \<Longrightarrow>
    shutdown_step s (s\<lparr>ts_threads := threads, ts_main := Cleaning es,
      ts_workers := (ts_workers s)[server_thread e := ended (ts_workers s ! server_thread e)]\<rparr>)"
| exits: "\<lbrakk>ts_main s = Cleaning [];
    (lock_threads False :: (unit, unit) threads_prog) (ts_threads s) = (Go (), threads)\<rbrakk> \<Longrightarrow>
    shutdown_step s (s\<lparr>ts_threads := threads, ts_main := Exited\<rparr>)"

definition server_step :: "codec \<Rightarrow> tcp_server \<Rightarrow> tcp_server \<Rightarrow> bool" where
  "server_step pb s s' \<longleftrightarrow> client_step pb s s' \<or> main_step s s' \<or> shutdown_step s s'"

definition started_server :: "server \<Rightarrow> u32 \<Rightarrow> tcp_server" where
  "started_server sv counter =
    \<lparr>ts_server = sv, ts_xid = counter,
     ts_threads = \<lparr>threads_list = [], threads_mutex = False, closed_sockets = []\<rparr>,
     ts_main = Accepting, ts_workers = []\<rparr>"

section \<open>The list\<close>

text \<open>What the removal does to the list and to the mutex.\<close>

lemma remove_server_thread_runs:
  assumes "(remove_server_thread t :: ('r, nat) threads_prog) st = (Go code, st')"
  shows "threads_list st' = remove_first (\<lambda>e. server_thread e = t) (threads_list st)"
    and "threads_mutex st' \<longleftrightarrow> server_thread (hd (threads_list st)) = t"
    and "threads_list st \<noteq> []"
  using assms
  by (auto simp: threads_defs control_defs find_None_conv dest: find_SomeD
      split: list.splits option.splits if_splits transport_protocol.splits)

interpretation server_threads: keyed_list server_thread "(#)"
  "\<lambda>t. List.find (\<lambda>e. server_thread e = t)" "\<lambda>t. remove_first (\<lambda>e. server_thread e = t)"
  by (rule keyed_list_listI)

end
