(* ===== verification/Server_Threads_Safety.thy ===== *)
theory Server_Threads_Safety
  imports Server_Threads Rpc_Safety
begin

text \<open>
  What holds of the threads of the TCP server, however they take turns: on SIGTERM every client thread is
  ended, and one client that fails at the wrong moment stops the server from taking new clients.
\<close>

section \<open>Every client thread is known\<close>

definition listed_threads :: "tcp_server \<Rightarrow> nat set" where
  "listed_threads s = server_thread ` set (threads_list (ts_threads s))"

text \<open>The threads that the main thread will find: those of the list, and the one it is about to add.\<close>

definition known_threads :: "tcp_server \<Rightarrow> nat set" where
  "known_threads s =
    (case ts_main s of
       Cleaning es \<Rightarrow> server_thread ` set es
     | Exited \<Rightarrow> {}
     | Registering t \<Rightarrow> insert t (listed_threads s)
     | _ \<Rightarrow> listed_threads s)"

definition alive :: "worker \<Rightarrow> bool" where
  "alive w \<longleftrightarrow> (case w of Ended _ \<Rightarrow> False | _ \<Rightarrow> True)"

definition threads_ok :: "tcp_server \<Rightarrow> bool" where
  "threads_ok s \<longleftrightarrow>
    (\<forall>t < length (ts_workers s). alive (ts_workers s ! t) \<longrightarrow> t \<in> known_threads s) \<and>
    (\<forall>es. ts_main s = Cleaning es \<longrightarrow> threads_mutex (ts_threads s))"

lemma client_step_ok:
  assumes "client_step pb s s'" and ok: "threads_ok s"
  shows "threads_ok s'"
  using assms(1)
proof cases
  case (leaves t conn code threads)
  have list: "threads_list threads = remove_first (\<lambda>e. server_thread e = t) (threads_list (ts_threads s))"
    using remove_server_thread_runs(1) leaves(4) by blast
  have "u \<in> known_threads s'" if "u \<in> known_threads s" "u \<noteq> t" for u
    using that leaves ok list
    by (auto simp: known_threads_def listed_threads_def threads_ok_def image_iff split: main_thread.splits
        intro: remove_first_keeps)
  then show ?thesis using ok leaves by (auto simp: threads_ok_def nth_list_update alive_def)
qed (use ok in \<open>auto simp: threads_ok_def known_threads_def listed_threads_def after_rpc_def nth_list_update alive_def
    split: main_thread.splits if_splits\<close>)

lemma main_step_ok:
  assumes "main_step s s'" and ok: "threads_ok s"
  shows "threads_ok s'"
  using assms(1)
  by cases (use ok in \<open>auto simp: threads_ok_def known_threads_def listed_threads_def nth_append less_Suc_eq threads_defs control_defs\<close>)

lemma shutdown_step_ok:
  assumes "shutdown_step s s'" and ok: "threads_ok s"
  shows "threads_ok s'"
  using assms(1)
proof cases
  case (joins e es threads)
  then show ?thesis
    using ok by (auto simp: threads_ok_def known_threads_def nth_list_update alive_def ended_def threads_defs control_defs
        split: worker.splits transport_protocol.splits option.splits)
qed (use ok in \<open>auto simp: threads_ok_def known_threads_def listed_threads_def threads_defs control_defs\<close>)

lemma started_ok: "threads_ok (started_server sv counter)"
  by (simp add: threads_ok_def started_server_def)

lemma reachable_threads_ok:
  "(server_step pb)\<^sup>*\<^sup>* (started_server sv counter) s \<Longrightarrow> threads_ok s"
  by (induction rule: rtranclp_induct) (auto simp: server_step_def started_ok intro: client_step_ok main_step_ok shutdown_step_ok)

section \<open>A mutex that is never released\<close>

definition stuck :: "tcp_server \<Rightarrow> bool" where
  "stuck s \<longleftrightarrow> threads_mutex (ts_threads s) \<and> (case ts_main s of Cleaning _ \<Rightarrow> False | Exited \<Rightarrow> False | _ \<Rightarrow> True)"

definition room :: "tcp_server \<Rightarrow> nat" where
  "room s = length (ts_workers s) + (case ts_main s of Accepting \<Rightarrow> 1 | _ \<Rightarrow> 0)"

lemma stuck_step:
  assumes "server_step pb s s'" and "stuck s"
  shows "stuck s' \<and> ts_threads s' = ts_threads s \<and> room s' \<le> room s"
  using assms(1) unfolding server_step_def
proof (elim disjE)
  assume "client_step pb s s'"
  then show ?thesis using assms(2) by cases (auto simp: stuck_def room_def after_rpc_def)
next
  assume "main_step s s'"
  then show ?thesis using assms(2) by cases (auto simp: stuck_def room_def)
next
  assume "shutdown_step s s'"
  then show ?thesis using assms(2) by cases (auto simp: stuck_def)
qed

lemma stuck_run:
  "(server_step pb)\<^sup>*\<^sup>* s s' \<Longrightarrow> stuck s \<Longrightarrow> stuck s' \<and> ts_threads s' = ts_threads s \<and> room s' \<le> room s"
  by (induction rule: rtranclp_induct) (auto dest: stuck_step)

section \<open>An example: one client that breaks off in the middle of a record\<close>

definition broken_conn :: tcp_conn where
  "broken_conn = ex_conn [] [Arrives [0]]"

definition one_thread :: threads_state where
  "one_thread = \<lparr>threads_list = [\<lparr>server_thread = 0, entry_transport_protocol = TRANSPORT_PROTOCOL_TCP, entry_socket = Some 0\<rparr>],
    threads_mutex = False, closed_sockets = []\<rparr>"

definition one_client :: "worker \<Rightarrow> tcp_server" where
  "one_client w = (started_server ex_server 1)\<lparr>ts_threads := one_thread, ts_workers := [w]\<rparr>"

lemma server_stepI: "client_step pb s s' \<Longrightarrow> server_step pb s s'" "main_step s s' \<Longrightarrow> server_step pb s s'"
  "shutdown_step s s' \<Longrightarrow> server_step pb s s'"
  by (simp_all add: server_step_def)

lemma one_client_starts: "(server_step ex_codec)\<^sup>*\<^sup>* (started_server ex_server 1) (one_client (Serving broken_conn))"
proof -
  let ?s = "(started_server ex_server 1)\<lparr>ts_main := Registering 0, ts_workers := [Serving broken_conn]\<rparr>"
  have "main_step (started_server ex_server 1) ?s"
    using accepts [of "started_server ex_server 1" broken_conn] by (simp add: started_server_def)
  moreover have "main_step ?s (one_client (Serving broken_conn))"
    using registers [of ?s 0 one_thread]
    by (simp add: started_server_def one_client_def one_thread_def threads_defs control_defs)
  ultimately show ?thesis
    by (blast intro: server_stepI(2) converse_rtranclp_into_rtranclp)
qed

lemma broken_fails:
  "process_single_rpc_tcp ex_codec (thread_of (one_client w) broken_conn) =
    (Return 1, (thread_of (one_client w) broken_conn)\<lparr>th_conn := broken_conn\<lparr>conn_in := []\<rparr>\<rparr>)"
  by (simp add: process_single_rpc_tcp_def receive_record_def receive_rm_record_tcp_def receive_fragments.simps
      receive_bytes_tcp_def receive_bytes_loop.simps broken_conn_def ex_conn_def thread_of_def one_client_def
      started_server_def overwrite_def control_defs)

lemma one_client_fails:
  "(server_step ex_codec)\<^sup>*\<^sup>* (started_server ex_server 1) (one_client (Leaving (broken_conn\<lparr>conn_in := []\<rparr>)))"
proof -
  have "client_step ex_codec (one_client (Serving broken_conn)) (one_client (Leaving (broken_conn\<lparr>conn_in := []\<rparr>)))"
    using serve_fails [OF _ _ broken_fails, of 0 "Serving broken_conn"]
    by (simp add: one_client_def started_server_def after_rpc_def thread_of_def broken_conn_def ex_conn_def)
  then show ?thesis by (intro rtranclp.rtrancl_into_rtrancl [OF one_client_starts] server_stepI)
qed

section \<open>The properties\<close>


lemma one_client_exits:
  "\<exists>s. (server_step ex_codec)\<^sup>*\<^sup>* (started_server ex_server 1) s \<and> ts_main s = Exited \<and> ts_workers s = [Ended broken_conn]"
proof -
  let ?s = "one_client (Serving broken_conn)" and ?locked = "one_thread\<lparr>threads_mutex := True\<rparr>"
  let ?closed = "?locked\<lparr>closed_sockets := [0]\<rparr>"
  let ?s1 = "?s\<lparr>ts_threads := ?locked, ts_main := Cleaning (threads_list one_thread)\<rparr>"
  let ?s2 = "?s1\<lparr>ts_threads := ?closed, ts_main := Cleaning [], ts_workers := [Ended broken_conn]\<rparr>"
  let ?s3 = "?s2\<lparr>ts_threads := ?closed\<lparr>threads_mutex := False\<rparr>, ts_main := Exited\<rparr>"
  note defs = one_client_def started_server_def one_thread_def threads_defs control_defs
  have "shutdown_step ?s ?s1" using sigterm [of ?s ?locked] by (simp add: defs)
  moreover have "shutdown_step ?s1 ?s2"
    using joins [of ?s1 _ "[]" ?closed] by (simp add: defs is_leaving_def ended_def)
  moreover have "shutdown_step ?s2 ?s3" using exits [of ?s2 "?closed\<lparr>threads_mutex := False\<rparr>"] by (simp add: defs)
  ultimately have "(server_step ex_codec)\<^sup>*\<^sup>* ?s ?s3"
    by (blast intro: server_stepI(3) converse_rtranclp_into_rtranclp)
  then show ?thesis using one_client_starts by (intro exI [of _ ?s3]) (auto intro: rtranclp_trans)
qed


text \<open>
  C29: One broken client stops the server.  When the client that connected last breaks off within a record, or
  sends a call that is refused for its credential, its thread removes the first entry of the list and never
  releases the mutex.  From then on, however the server goes on, the list never changes again, at most one
  more connection is accepted, and SIGTERM is not handled.
\<close>

theorem failed_client_stops_server:
  assumes "worker_at s t (Leaving conn)" and "\<not> threads_mutex (ts_threads s)"
    and "threads_list (ts_threads s) = e # es" and "server_thread e = t"
    and "ts_main s = Accepting" and "(remove_server_thread t :: (unit, nat) threads_prog) (ts_threads s) = (Go code, threads)"
    and "(server_step pb)\<^sup>*\<^sup>* (s\<lparr>ts_threads := threads, ts_workers := (ts_workers s)[t := Ended conn]\<rparr>) s'"
  shows "threads_mutex (ts_threads s') \<and> threads_list (ts_threads s') = es \<and>
    length (ts_workers s') \<le> Suc (length (ts_workers s)) \<and>
    (\<forall>us. ts_main s' \<noteq> Exited \<and> ts_main s' \<noteq> Cleaning us)"
proof -
  let ?s = "s\<lparr>ts_threads := threads, ts_workers := (ts_workers s)[t := Ended conn]\<rparr>"
  have r: "threads_list threads = es" "threads_mutex threads"
    using remove_server_thread_runs [OF assms(6)] assms(3,4) by auto
  then have "stuck ?s" using assms(5) by (simp add: stuck_def)
  from stuck_run [OF assms(7) this] have "stuck s'" "ts_threads s' = threads" "room s' \<le> Suc (length (ts_workers s))"
    using assms(5) by (simp_all add: room_def)
  then show ?thesis using r by (auto simp: stuck_def room_def split: main_thread.splits)
qed

theorem failed_client_stops_server_witness:
  "\<exists>s s'. (server_step ex_codec)\<^sup>*\<^sup>* (started_server ex_server 1) s \<and> server_step ex_codec s s' \<and>
    threads_mutex (ts_threads s') \<and> threads_list (ts_threads s') = [] \<and> length (ts_workers s') \<le> 2"
proof -
  let ?conn = "broken_conn\<lparr>conn_in := []\<rparr>"
  let ?s = "one_client (Leaving ?conn)" and ?t = "\<lparr>threads_list = [], threads_mutex = True, closed_sockets = [0]\<rparr>"
  let ?s' = "?s\<lparr>ts_threads := ?t, ts_workers := (ts_workers ?s)[0 := Ended ?conn]\<rparr>"
  note defs = one_client_def started_server_def one_thread_def
  have run: "(remove_server_thread 0 :: (unit, nat) threads_prog) (ts_threads ?s) = (Go 0, ?t)"
    by (simp add: defs threads_defs control_defs)
  have "server_step ex_codec ?s ?s'"
    by (intro server_stepI(1) leaves [OF _ _ run]) (simp_all add: defs)
  moreover have "threads_mutex (ts_threads ?s') \<and> threads_list (ts_threads ?s') = [] \<and>
      length (ts_workers ?s') \<le> Suc (length (ts_workers ?s)) \<and> (\<forall>us. ts_main ?s' \<noteq> Exited \<and> ts_main ?s' \<noteq> Cleaning us)"
    by (rule failed_client_stops_server [OF _ _ _ _ _ run, where pb = ex_codec and e = "hd (threads_list one_thread)"])
      (auto simp: defs)
  ultimately show ?thesis using one_client_fails by (intro exI [of _ ?s] exI [of _ ?s']) (auto simp: defs)
qed

end
