(* ===== verification/Connection_Contexts.thy ===== *)
theory Connection_Contexts
  imports Quic_Calls Rpc_Safety
begin

text \<open>
  \<open>rpc_connection_context.c\<close>: how a client connects to a server, over TCP or over QUIC, and the credential it
  sends.

  What the operating system and the QUIC library answer is given: the name, the user and the groups of the
  process (\<open>host\<close>), which calls for sockets succeed and where a connection leads (\<open>network\<close>), and which calls of
  the QUIC library succeed (\<open>quic_setup\<close>).  The memory of the QUIC client is a block that is present until it
  is freed; a read of a freed block is undefined.  Failed allocations are left out.
\<close>

section \<open>The environment\<close>

record host =
  host_name :: "string option"
  host_euid :: u32
  host_egid :: u32
  host_groups :: "u32 list option"
  host_time :: u64

record network =
  net_socket :: bool
  net_connect :: "string \<Rightarrow> u16 \<Rightarrow> tcp_conn option"
  net_getaddrinfo :: bool
  net_udp_socket :: bool
  net_fcntl :: bool
  net_getsockname :: bool

record 'q quic_setup =
  setup_state :: 'q
  setup_config :: bool
  setup_tls_config :: bool
  setup_endpoint :: bool
  setup_connect :: "string \<Rightarrow> u16 \<Rightarrow> 'q option"

text \<open>\<open>gethostname\<close> cuts the name to its buffer; \<open>getgroups\<close> fails when the groups do not fit.\<close>

definition gethostname :: "host \<Rightarrow> nat \<Rightarrow> string option" where
  "gethostname h n = map_option (take n) (host_name h)"

definition getgroups :: "host \<Rightarrow> nat \<Rightarrow> u32 list option" where
  "getgroups h n = (case host_groups h of None \<Rightarrow> None | Some gids \<Rightarrow> if length gids \<le> n then Some gids else None)"

section \<open>Connecting\<close>

type_synonym 'q connection = "tcp_client option + 'q quic_client option"

text \<open>The context under construction, and the block of the QUIC client.\<close>

record 'q connecting =
  new_context :: "'q connection rpc_connection_context option"
  quic_block :: "'q quic_client option"

type_synonym ('q, 'a) connect_prog = "('q connecting, nat, 'a) cprog"

definition set_connection :: "'q connection \<Rightarrow> ('q, unit) connect_prog" where
  "set_connection connection =
    cmodify (new_context_update (map_option (transport_connection_update (\<lambda>_. Some connection))))"

definition connect_to_tcp_server :: "network \<Rightarrow> ('q, nat) connect_prog" where
  "connect_to_tcp_server net =
    cbind (cget new_context) (\<lambda>context.
    cbind (csome context 1) (\<lambda>rpc_connection_context.
    cbind (cguard (net_socket net) 4) (\<lambda>_.
    cbind (set_connection (Inl (Some \<lparr>tcp_rpc_client_socket_fd = None\<rparr>))) (\<lambda>_.
    cbind (csome (net_connect net (server_ipv4_addr rpc_connection_context) (server_port rpc_connection_context)) 7) (\<lambda>socket.
    cbind (set_connection (Inl (Some \<lparr>tcp_rpc_client_socket_fd = Some socket\<rparr>))) (\<lambda>_.
    cgo 0))))))"

definition create_quic_udp_socket :: "network \<Rightarrow> nat" where
  "create_quic_udp_socket net =
    (if \<not> net_getaddrinfo net then 1
     else if \<not> net_udp_socket net then 1
     else if \<not> net_fcntl net then 1
     else if \<not> net_getsockname net then 1
     else 0)"

definition free_quic_client :: "('q, unit) connect_prog" where
  "free_quic_client = cmodify (quic_block_update (\<lambda>_. None))"

definition read_quic_client :: "('q, 'q quic_client) connect_prog" where
  "read_quic_client = cbind (cget quic_block) cderef"

definition connect_to_quic_server :: "network \<Rightarrow> 'q quic_setup \<Rightarrow> ('q, nat) connect_prog" where
  "connect_to_quic_server net setup =
    cbind (cget new_context) (\<lambda>context.
    cbind (csome context 1) (\<lambda>rpc_connection_context.
    cbind (cmodify (quic_block_update (\<lambda>_. Some (initial_client 0 (setup_state setup))))) (\<lambda>_.
    cbind (if create_quic_udp_socket net \<noteq> 0 then cbind free_quic_client (\<lambda>_. creturn 4) else cgo ()) (\<lambda>_.
    cbind (if \<not> setup_config setup then cbind free_quic_client (\<lambda>_. creturn 5) else cgo ()) (\<lambda>_.
    cbind (if \<not> setup_tls_config setup
           then cbind free_quic_client (\<lambda>_. cbind read_quic_client (\<lambda>_. creturn 6)) else cgo ()) (\<lambda>_.
    cbind (if \<not> setup_endpoint setup
           then cbind free_quic_client (\<lambda>_. cbind read_quic_client (\<lambda>_. creturn 8)) else cgo ()) (\<lambda>_.
    cbind read_quic_client (\<lambda>quic_client.
    cbind (set_connection (Inr (Some quic_client))) (\<lambda>_.
    cbind (case setup_connect setup (server_ipv4_addr rpc_connection_context) (server_port rpc_connection_context) of
             None \<Rightarrow> cbind free_quic_client (\<lambda>_. cbind read_quic_client (\<lambda>_. creturn 10))
           | Some q \<Rightarrow> set_connection (Inr (Some (quic_client\<lparr>quic_net := q\<rparr>)))) (\<lambda>_.
    cgo 0))))))))))"

definition create_rpc_connection_context ::
  "network \<Rightarrow> 'q quic_setup \<Rightarrow> string \<Rightarrow> u16 \<Rightarrow> opaque_auth \<Rightarrow> opaque_auth \<Rightarrow> transport_protocol \<Rightarrow>
   ('q connecting, 'q connection rpc_connection_context option, 'q connection rpc_connection_context option) cprog" where
  "create_rpc_connection_context net setup server_ipv4_address port credential verifier protocol =
    cbind (cmodify (new_context_update (\<lambda>_. Some
      \<lparr>server_ipv4_addr = server_ipv4_address, server_port = port, ctx_credential = Some credential,
       ctx_verifier = Some verifier, ctx_transport_protocol = protocol, transport_connection = None\<rparr>))) (\<lambda>_.
    case protocol of
      TRANSPORT_PROTOCOL_TCP \<Rightarrow>
        cbind (ccall (connect_to_tcp_server net)) (\<lambda>error_code.
        cbind (cguard (error_code = 0) None) (\<lambda>_. cget new_context))
    | TRANSPORT_PROTOCOL_QUIC \<Rightarrow>
        cbind (ccall (connect_to_quic_server net setup)) (\<lambda>error_code.
        cbind (cguard (error_code = 0) None) (\<lambda>_. cget new_context))
    | TRANSPORT_PROTOCOL_UNNAMED _ \<Rightarrow> creturn None)"

definition create_auth_none_rpc_connection_context ::
  "network \<Rightarrow> 'q quic_setup \<Rightarrow> string \<Rightarrow> u16 \<Rightarrow> transport_protocol \<Rightarrow>
   ('q connecting, 'q connection rpc_connection_context option, 'q connection rpc_connection_context option) cprog" where
  "create_auth_none_rpc_connection_context net setup server_ipv4_address port protocol =
    create_rpc_connection_context net setup server_ipv4_address port create_auth_none_opaque_auth
      create_auth_none_opaque_auth protocol"

definition create_auth_sys_rpc_connection_context ::
  "host \<Rightarrow> network \<Rightarrow> 'q quic_setup \<Rightarrow> string \<Rightarrow> u16 \<Rightarrow> transport_protocol \<Rightarrow>
   ('q connecting, 'q connection rpc_connection_context option, 'q connection rpc_connection_context option) cprog" where
  "create_auth_sys_rpc_connection_context h net setup server_ipv4_address port protocol =
    cbind (csome (gethostname h MAX_MACHINENAME_LEN) None) (\<lambda>hostname.
    cbind (csome (getgroups h MAX_N_GIDS) None) (\<lambda>gids.
    create_rpc_connection_context net setup server_ipv4_address port
      (create_auth_sys_opaque_auth (host_time h) hostname (host_euid h) (host_egid h) gids)
      create_auth_none_opaque_auth protocol))"

text \<open>Freeing a context over TCP closes its socket, if it has one.\<close>

definition free_tcp_connection_context :: "tcp_client option rpc_connection_context option \<Rightarrow> tcp_conn option" where
  "free_tcp_connection_context context =
    (case context of None \<Rightarrow> None | Some rpc_connection_context \<Rightarrow>
      (case transport_connection rpc_connection_context of
         Some (Some tcp_client) \<Rightarrow> tcp_rpc_client_socket_fd tcp_client
       | _ \<Rightarrow> None))"

lemmas connect_defs = connect_to_tcp_server_def connect_to_quic_server_def create_rpc_connection_context_def
  set_connection_def free_quic_client_def read_quic_client_def

section \<open>The properties\<close>

text \<open>The transport that a finished context has.\<close>

definition connected :: "transport_protocol \<Rightarrow> 'q connection option \<Rightarrow> bool" where
  "connected protocol connection \<longleftrightarrow>
    (case protocol of
       TRANSPORT_PROTOCOL_TCP \<Rightarrow> \<exists>socket. connection = Some (Inl (Some \<lparr>tcp_rpc_client_socket_fd = Some socket\<rparr>))
     | TRANSPORT_PROTOCOL_QUIC \<Rightarrow> \<exists>client. connection = Some (Inr (Some client))
     | TRANSPORT_PROTOCOL_UNNAMED _ \<Rightarrow> False)"

lemma created_context:
  assumes "create_rpc_connection_context net setup addr port cred verf protocol s = (Go (Some ctx), s')"
  shows "ctx_credential ctx = Some cred" and "ctx_verifier ctx = Some verf"
    and "connected protocol (transport_connection ctx)"
  using assms
  by (auto simp: connect_defs control_defs connected_def split: transport_protocol.splits option.splits if_splits)


definition ex_host :: host where
  "ex_host = \<lparr>host_name = Some ''client'', host_euid = 1000, host_egid = 100, host_groups = Some [100, 27], host_time = 5\<rparr>"

definition ex_network :: network where
  "ex_network = \<lparr>net_socket = True, net_connect = (\<lambda>_ _. Some (ex_conn [] [])), net_getaddrinfo = True,
    net_udp_socket = True, net_fcntl = True, net_getsockname = True\<rparr>"

definition ex_setup :: "unit quic_setup" where
  "ex_setup = \<lparr>setup_state = (), setup_config = True, setup_tls_config = True, setup_endpoint = True, setup_connect = (\<lambda>_ _. None)\<rparr>"


text \<open>
  C30: A failure to connect over QUIC reads freed memory.  When the UDP socket and the configuration are fine
  but the TLS configuration, the endpoint or the connection cannot be made, \<open>connect_to_quic_server\<close> frees the
  client and then reads the fields of the freed client to free them.
\<close>

theorem quic_connect_failure_reads_freed:
  assumes "create_quic_udp_socket net = 0" and "setup_config setup"
    and "\<not> setup_tls_config setup \<or> \<not> setup_endpoint setup \<or> setup_connect setup addr port = None"
  shows "fst (create_rpc_connection_context net setup addr port cred verf TRANSPORT_PROTOCOL_QUIC s) = UB"
  using assms by (cases "setup_tls_config setup"; cases "setup_endpoint setup") (auto simp: connect_defs control_defs)

theorem quic_connect_failure_reads_freed_witness:
  "fst (create_rpc_connection_context ex_network ex_setup ''10.0.0.1'' 3000 create_auth_none_opaque_auth
     create_auth_none_opaque_auth TRANSPORT_PROTOCOL_QUIC \<lparr>new_context = None, quic_block = None\<rparr>) = UB"
  by (rule quic_connect_failure_reads_freed) (simp_all add: ex_network_def ex_setup_def create_quic_udp_socket_def)

end
