(* ===== verification/Parsing.thy ===== *)
theory Parsing
  imports Rpc_Client
begin

text \<open>
  \<open>parsing.c\<close>: port numbers, with the \<open>strtoul\<close> and the \<open>sprintf\<close> of the C library, and the names of status codes;
  and the command lines of the server (\<open>server.c\<close>) and of the FUSE client (\<open>nfs_fuse.c\<close>).
\<close>

section \<open>The C library\<close>

definition is_space :: "char \<Rightarrow> bool" where
  "is_space c \<longleftrightarrow> of_char c \<in> set [32, 9, 10, 11, 12, 13 :: nat]"

definition is_digit :: "char \<Rightarrow> bool" where
  "is_digit c \<longleftrightarrow> (48 :: nat) \<le> of_char c \<and> of_char c \<le> (57 :: nat)"

definition decimal :: "string \<Rightarrow> nat" where
  "decimal ds = foldl (\<lambda>n c. 10 * n + (of_char c - 48)) 0 ds"

definition sign :: "string \<Rightarrow> bool \<times> string" where
  "sign s = (case s of [] \<Rightarrow> (False, []) | c # cs \<Rightarrow> if c = CHR ''-'' then (True, cs) else if c = CHR ''+'' then (False, cs) else (False, s))"

text \<open>\<open>strtoul\<close> with base 10: the value, whether \<open>errno\<close> is set, and the rest of the string.\<close>

definition strtoul :: "string \<Rightarrow> u64 \<times> bool \<times> string" where
  "strtoul s =
    (case sign (dropWhile is_space s) of
       (negative, t) \<Rightarrow>
         (let ds = takeWhile is_digit t; n = decimal ds
          in if ds = [] then (0, False, s)
             else if n \<ge> 2 ^ 64 then (-1, True, dropWhile is_digit t)
             else (if negative then - of_nat n else of_nat n, False, dropWhile is_digit t)))"

definition digit :: "nat \<Rightarrow> char" where
  "digit d = char_of (48 + d)"

text \<open>\<open>sprintf\<close> with the format \<open>%u\<close>.\<close>

fun print_decimal :: "nat \<Rightarrow> string" where
  "print_decimal n = (if n < 10 then [digit n] else print_decimal (n div 10) @ [digit (n mod 10)])"

declare print_decimal.simps [simp del]

section \<open>\<open>parsing.c\<close>\<close>

definition parse_port_number :: "string \<Rightarrow> u16" where
  "parse_port_number port_number_string =
    (case strtoul port_number_string of
       (port_number, failed, rest) \<Rightarrow>
         if failed \<or> rest \<noteq> [] then 0
         else if port_number > 65535 then 0
         else ucast port_number)"

definition rpc_accept_stat_to_string :: "accept_stat \<Rightarrow> string" where
  "rpc_accept_stat_to_string stat =
    (case stat of
       SUCCESS \<Rightarrow> ''SUCCESS''
     | PROG_UNAVAIL \<Rightarrow> ''PROG_UNAVAIAL''
     | PROG_MISMATCH \<Rightarrow> ''PROG_MISMATCH''
     | PROC_UNAVAIL \<Rightarrow> ''PROC_UNAVAIL''
     | GARBAGE_ARGS \<Rightarrow> ''GARBAGE_ARGS''
     | SYSTEM_ERR \<Rightarrow> ''SYSTEM_ERR''
     | ACCEPT_STAT_UNNAMED _ \<Rightarrow> ''Unknown'')"

definition auth_stat_to_string :: "auth_stat \<Rightarrow> string" where
  "auth_stat_to_string stat =
    (case stat of
       AUTH_OK \<Rightarrow> ''AUTH_OK''
     | AUTH_BADCRED \<Rightarrow> ''AUTH_BADCRED''
     | AUTH_REJECTEDCRED \<Rightarrow> ''AUTH_REJECTEDCRED''
     | AUTH_BADVERF \<Rightarrow> ''AUTH_BADVERF''
     | AUTH_REJECTEDVERF \<Rightarrow> ''AUTH_REJECTEDVERF''
     | AUTH_TOOWEAK \<Rightarrow> ''AUTH_TOOWEAK''
     | AUTH_INVALIDRESP \<Rightarrow> ''AUTH_INVALIDRESP''
     | AUTH_FAILED \<Rightarrow> ''AUTH_FAILED''
     | AUTH_KERB_GENERIC \<Rightarrow> ''AUTH_KERB_GENERIC''
     | AUTH_TIMEEXPIRE \<Rightarrow> ''AUTH_TIMEEXPIRE''
     | AUTH_TKT_FILE \<Rightarrow> ''AUTH_TKT_FILE''
     | AUTH_DECODE \<Rightarrow> ''AUTH_DECODE''
     | AUTH_NET_ADDR \<Rightarrow> ''AUTH_NET_ADDR''
     | RPCSEC_GSS_CREDPROBLEM \<Rightarrow> ''RPCSEC_GSS_CREDPROBLEM''
     | RPCSEC_GSS_CTXPROBLEM \<Rightarrow> ''RPCSEC_GSS_CTXPROBLEM''
     | AUTH_STAT_UNNAMED _ \<Rightarrow> ''Unknown'')"

definition mount_stat_to_string :: "mnt_stat \<Rightarrow> string" where
  "mount_stat_to_string stat =
    (case stat of
       MNT_OK \<Rightarrow> ''MNT_OK''
     | MNTERR_NOENT \<Rightarrow> ''MNTERR_NOENT''
     | MNTERR_NOTEXP \<Rightarrow> ''MNTERR_NOTEXP''
     | MNTERR_IO \<Rightarrow> ''MNTERR_IO''
     | MNTERR_ACCES \<Rightarrow> ''MNTERR_ACCES''
     | MNTERR_NOTDIR \<Rightarrow> ''MNTERR_NOTDIR''
     | MNT_STAT_UNNAMED _ \<Rightarrow> ''Unknown'')"

definition nfs_stat_to_string :: "nfs_stat \<Rightarrow> string" where
  "nfs_stat_to_string stat =
    (case stat of
       NFS_OK \<Rightarrow> ''NFS_OK''
     | NFSERR_PERM \<Rightarrow> ''NFSERR_PERM''
     | NFSERR_NOENT \<Rightarrow> ''NFSERR_NOENT''
     | NFSERR_IO \<Rightarrow> ''NFSERR_IO''
     | NFSERR_NXIO \<Rightarrow> ''NFSERR_NXIO''
     | NFSERR_ACCES \<Rightarrow> ''NFSERR_ACCES''
     | NFSERR_EXIST \<Rightarrow> ''NFSERR_EXIST''
     | NFSERR_NODEV \<Rightarrow> ''NFSERR_NODEV''
     | NFSERR_NOTDIR \<Rightarrow> ''NFSERR_NOTDIR''
     | NFSERR_ISDIR \<Rightarrow> ''NFSERR_ISDIR''
     | NFSERR_FBIG \<Rightarrow> ''NFSERR_FBIG''
     | NFSERR_NOSPC \<Rightarrow> ''NFSERR_NOSPC''
     | NFSERR_ROFS \<Rightarrow> ''NFSERR_ROFS''
     | NFSERR_NAMETOOLONG \<Rightarrow> ''NFSERR_NAMETOOLONG''
     | NFSERR_NOTEMPTY \<Rightarrow> ''NFSERR_NOTEMPTY''
     | NFSERR_DQUOT \<Rightarrow> ''NFSERR_DQUOT''
     | NFSERR_STALE \<Rightarrow> ''NFSERR_STALE''
     | NFSERR_WFLUSH \<Rightarrow> ''NFSERR_WFLUSH''
     | NFS_STAT_UNNAMED _ \<Rightarrow> ''Unknown'')"

section \<open>Command lines\<close>

text \<open>An argument without the flag leaves the global at its initial value, which is TCP.\<close>

definition parse_protocol :: "string \<Rightarrow> transport_protocol option" where
  "parse_protocol argument =
    (if take 8 argument = ''--proto='' then
       (if drop 8 argument = ''tcp'' then Some TRANSPORT_PROTOCOL_TCP
        else if drop 8 argument = ''quic'' then Some TRANSPORT_PROTOCOL_QUIC
        else None)
     else Some TRANSPORT_PROTOCOL_TCP)"

definition server_arguments :: "u16 \<Rightarrow> string list \<Rightarrow> (u16 \<times> transport_protocol) option" where
  "server_arguments test_port argv =
    (if length argv \<noteq> 3 then None
     else
       (let port_number = (if take 2 (argv ! 1) = ''--''
                           then (if argv ! 1 = ''--test'' then test_port else 0)
                           else parse_port_number (argv ! 1))
        in if port_number = 0 then None
           else (case parse_protocol (argv ! 2) of None \<Rightarrow> None | Some protocol \<Rightarrow> Some (port_number, protocol))))"

text \<open>The FUSE client: address, port, protocol, remote path and mount point.\<close>

definition fuse_arguments :: "string list \<Rightarrow> (string \<times> u16 \<times> transport_protocol \<times> string \<times> string) option" where
  "fuse_arguments argv =
    (if length argv \<noteq> 6 then None
     else
       (let port_number = parse_port_number (argv ! 2)
        in if port_number = 0 then None
           else (case parse_protocol (argv ! 3) of
                   None \<Rightarrow> None
                 | Some protocol \<Rightarrow> Some (argv ! 1, port_number, protocol, argv ! 4, argv ! 5))))"

section \<open>Printing and parsing\<close>

lemma of_char_digit: "d < 10 \<Longrightarrow> of_char (digit d) = 48 + d"
  by (simp add: digit_def)

lemma is_digit_digit [simp]: "d < 10 \<Longrightarrow> is_digit (digit d)"
  by (simp add: is_digit_def of_char_digit)

lemma decimal_append: "decimal (ds @ [c]) = 10 * decimal ds + (of_char c - 48)"
  by (simp add: decimal_def)

lemma print_decimal_digits: "ds = print_decimal n \<Longrightarrow> ds \<noteq> [] \<and> (\<forall>c \<in> set ds. is_digit c) \<and> decimal ds = n"
proof (induction n arbitrary: ds rule: print_decimal.induct)
  case (1 n)
  show ?case
  proof (cases "n < 10")
    case True
    then show ?thesis using 1(2) by (simp add: print_decimal.simps [of n] decimal_def of_char_digit)
  next
    case False
    have "n mod 10 < 10" by simp
    then show ?thesis
      using 1(1) [OF False refl] 1(2) False
      by (auto simp: print_decimal.simps [of n] decimal_append of_char_digit)
  qed
qed

lemma length_print_decimal: "n < 10 ^ k \<Longrightarrow> 0 < k \<Longrightarrow> length (print_decimal n) \<le> k"
proof (induction n arbitrary: k rule: print_decimal.induct)
  case (1 n)
  show ?case
  proof (cases "n < 10")
    case False
    then obtain m where m: "k = Suc m" "0 < m" using 1(2,3) by (cases k; cases "k - 1") auto
    then have "n div 10 < 10 ^ m" using 1(2) by (simp add: less_mult_imp_div_less)
    from 1(1) [OF False this m(2)] show ?thesis using False by (simp add: print_decimal.simps [of n] m(1))
  qed (use 1 in \<open>simp add: print_decimal.simps [of n]\<close>)
qed

lemma digits_sign: "ds \<noteq> [] \<Longrightarrow> \<forall>c \<in> set ds. is_digit c \<Longrightarrow> sign (dropWhile is_space ds) = (False, ds)"
  by (cases ds) (auto simp: sign_def is_digit_def is_space_def)

text \<open>
  C27: Ports survive printing and parsing.  The text that \<open>sprintf\<close> makes of a port number fits into the buffer
  of ten characters that \<open>connect_to_quic_server\<close> gives it, and \<open>parse_port_number\<close> reads it back as the same port.
\<close>

theorem port_number_round_trip:
  "length (print_decimal (unat port)) < 10 \<and> parse_port_number (print_decimal (unat (port :: u16))) = port"
proof -
  define ds where "ds = print_decimal (unat port)"
  have small: "unat port < 65536" using unsigned_less [of port] by simp
  have ds: "ds \<noteq> []" "\<forall>c \<in> set ds. is_digit c" "decimal ds = unat port"
    using print_decimal_digits [of ds "unat port"] by (simp_all add: ds_def)
  have "length ds \<le> 5" using small length_print_decimal [of "unat port" 5] by (simp add: ds_def)
  moreover have "strtoul ds = (of_nat (unat port), False, [])"
    using ds small by (simp add: strtoul_def digits_sign takeWhile_eq_all_conv [THEN iffD2] dropWhile_eq_Nil_conv [THEN iffD2])
  moreover have "(of_nat (unat port) :: u64) = ucast port" by simp
  moreover have up: "unat (ucast port :: u64) = unat port" using small by (simp add: unsigned_ucast_eq take_bit_nat_eq_self)
  moreover have "ucast (ucast port :: u64) = port"
    by (rule bit_word_eqI) (simp add: bit_unsigned_iff)
  ultimately show ?thesis
    using small by (simp add: parse_port_number_def ds_def [symmetric] word_less_nat_alt)
qed

text \<open>A negative number that wraps around to a port is accepted.\<close>

lemma negative_port_accepted: "parse_port_number ''-18446744073709548616'' = 3000"
  by (simp add: parse_port_number_def strtoul_def sign_def is_space_def is_digit_def decimal_def Let_def)

end
