(* ===== verification/Spec2Isabelle.thy ===== *)
theory Spec2Isabelle
  imports Access_Control Quic_Server_Safety Fuse_Properties Fuse_Changes Quic_Call_Properties Server_Threads_Safety Connection_Contexts Parsing
begin

text \<open>
  A verification of an NFS version 2 client and server that speak ONC RPC over TCP and over QUIC
  (\<open>src/src\<close>).

  \<^bold>\<open>The program and its parts.\<close>  A FUSE file system (\<open>fuse\<close>) turns the calls of the kernel into procedures of
  the NFS and Mount clients (\<open>nfs/clients\<close>).  A procedure is packed into an RPC message (\<open>common_rpc\<close>,
  \<open>serialization\<close>), which travels as one record of record marking over TCP (\<open>transport/tcp\<close>) or over a QUIC
  stream (\<open>transport/quic\<close>).  The server (\<open>nfs/server\<close>) checks the credential, chooses the program and the
  procedure, checks the permissions of the caller, works on the file system of the host, and sends one reply
  record.  It finds files by the inode number in a handle, through a list that caches the path of each number.

  \<^bold>\<open>The model.\<close>  A C function is a step on a state that returns, goes on, or has undefined behaviour: a NULL or
  dangling pointer that is followed (\<open>Control\<close>: \<open>cprog\<close>, with \<open>UB\<close>, \<open>Return\<close> and \<open>Go\<close>).  Early returns are
  \<open>creturn\<close>, tests of pointers \<open>csome\<close> and \<open>cderef\<close>, and calls \<open>ccall\<close>.  Integers are words of their width.  Loops
  that need not end are partial functions with the value \<^term>\<open>None\<close> when they do not; all other loops are
  total recursive functions, so no definition has fuel.

  Libraries outside the sources are parameters: the packing and unpacking of protobuf-c (\<open>codec\<close>,
  \<open>client_codec\<close>), the calls of the QUIC library (the record \<open>tquic\<close>).  The C library and the operating system are
  modelled: \<open>Posix\<close> is an in-memory file system with inodes, links, directories, path resolution and a script
  that makes chosen system calls fail; \<open>Record_Marking\<close> has a connection whose \<open>send\<close> and \<open>recv\<close> take and give as
  many bytes as a script says.

  \<^bold>\<open>The theories.\<close>

  \<^item> \<open>Nfs_Prelude\<close> (words, paths, keyed lists), \<open>Control\<close> (the steps above, their rules \<open>wp_rules\<close>, and frames:
    \<open>keeps R m\<close> and the locale \<open>frame_relation\<close>), \<open>Posix\<close> and \<open>Posix_Facts\<close>.
  \<^item> \<open>Messages\<close> and \<open>Rpc_Messages\<close>: the messages of the four \<open>.proto\<close> files, the constructors of
    \<open>nfs_messages.c\<close>, \<open>mount_messages.c\<close>, \<open>server_common_rpc.c\<close> and \<open>authentication.c\<close>, and the checks of
    \<open>message_validation.c\<close> and \<open>client_common_rpc.c\<close>.
  \<^item> The server: \<open>Inode_Cache\<close>, \<open>File_Management\<close>, \<open>Permissions\<close>, \<open>Directory_Reading\<close> and \<open>Server_State\<close> (the
    globals and the steps the handlers share), \<open>Proc_Files\<close>, \<open>Proc_Directories\<close> and \<open>Proc_Mount\<close> (one definition
    \<open>serve_nfs_procedure_...\<close> or \<open>serve_mnt_procedure_...\<close> per handler of \<open>nfs/server/procedures\<close>), \<open>Dispatch\<close>
    (\<open>nfs.c\<close>, \<open>mount.c\<close> and \<open>forward_rpc_call_to_program\<close>).
  \<^item> The transports: \<open>Record_Marking\<close> and \<open>Rpc_Server\<close> for TCP, \<open>Quic_Record_Marking\<close>, \<open>Quic_Receiving\<close> and
    \<open>Quic_Server\<close> for QUIC.
  \<^item> The clients: \<open>Rpc_Client\<close> and \<open>Nfs_Client\<close>; \<open>Allocation_Queue\<close>, \<open>Quic_Streams\<close> and \<open>Quic_Client\<close> for calls over
    QUIC, on a heap with explicit addresses; \<open>Fuse_Client\<close>, \<open>Fuse_Handlers\<close> and \<open>Fuse_Changes\<close> for the FUSE file
    system.
  \<^item> \<open>Quic_Calls\<close>: the threads of a client process over one QUIC connection as a step relation, with every
    interleaving of the callers and the event loop.

  \<^bold>\<open>What is shown.\<close>

  \<^item> The server.  \<open>Handler_Safety\<close>: every call with a valid credential and parameters is answered, with
    defined behaviour, whatever system calls fail.  \<open>Access_Control\<close>: a caller without permission changes
    nothing.  \<open>Safety\<close>: procedures that read change no file, and the cache stays consistent.  \<open>Server_Facts\<close>: what
    LOOKUP, GETATTR, READ and WRITE do when nothing fails.
  \<^item> RPC.  \<open>Rpc_Answering\<close> has the specification \<open>answer\<close> of a server without its transport; \<open>Rpc_Safety\<close> shows
    that the TCP server refines it, \<open>Quic_Server_Safety\<close> that the QUIC server does, and that both agree.
  \<^item> Records.  A record that is sent arrives, in chunks of any size (\<open>Record_Marking\<close>, \<open>Quic_Receiving\<close>), and the QUIC
    receiver is safe on any input.
  \<^item> Client and server.  \<open>Client_Server\<close> joins both ends of a connection (the locales \<open>rpc_transport\<close> and
    \<open>remote_call\<close>): a client procedure gives what the specification of the server says.  \<open>Fuse_Facts\<close> and
    \<open>Fuse_Properties\<close> carry this to paths, attributes and the contents of files.
  \<^item> Threads.  \<open>Quic_Calls_Safety\<close>, \<open>Quic_Call_Invariant\<close>, \<open>Quic_Call_Steps\<close>, \<open>Quic_Call_Allocator\<close> and
    \<open>Quic_Call_Reachable\<close> prove one invariant for all reachable states; \<open>Quic_Call_Properties\<close> draws the consequences:
    streams are never shared, replies reach their calls, the allocator serves everybody, and a refused call
    hangs.
  \<^item> Errors in the code are theorems too: the lost results of \<open>send\<close>, \<open>recv\<close> and \<open>quic_stream_write\<close>, the missing
    tests for NULL, reads of freed memory, and offsets cut to 32 bits.

  \<open>Examples\<close> and \<open>Wire_Example\<close> hold a small server, a serialisation library and a file tree, on which the witnesses
  of the theorems evaluate the definitions.
\<close>

end
